(* ===== verification/Prelude.thy ===== *)
theory Prelude
  imports Main "HOL-Library.AList" "HOL-Library.Multiset"
begin

text \<open>
  What every component of the model shares: the Go values and standard-library
  operations that the sources use (64-bit integers, \<open>time\<close>, \<open>strings\<close>, \<open>slices\<close>,
  \<open>sync.Map\<close>, maps with string keys), the errors that calls return, and the generic
  lemmas about them.

  \<^item> A Go \<open>error\<close> is a value of \<open>goerror\<close>; a call \<open>(T, error)\<close> returns
    \<open>goerror + T\<close>, with \<open>Inl\<close> for a non-nil error.
  \<^item> A pointer that may be nil is an \<open>option\<close>.
  \<^item> A Go \<open>map[string]string\<close> is an association list with distinct keys. The order
    of the list is the order in which a \<open>range\<close> loop visits the map in the run at hand,
    which Go leaves open.
  \<^item> An instant (\<open>time.Time\<close>) is the number of nanoseconds since Go's zero time, so
    that the zero value of the type is 0; a \<open>time.Duration\<close> is a signed 64-bit number of
    nanoseconds, as an \<open>int\<close> with saturation and wrap-around written out.
\<close>

named_theorems go_simps \<open>unfolding rules for the models of Go library functions\<close>

section \<open>Errors\<close>

text \<open>
  The Kubernetes client returns status errors, which the code tells apart with
  \<open>IsNotFound\<close>, \<open>IsConflict\<close> and \<open>IsAlreadyExists\<close>; gRPC handlers return
  status errors with a code, whose message may end with that of another error
  (\<open>status.Errorf\<close> with \<open>%s\<close>, which does not wrap it); everything else is a text. \<open>fmt.Errorf\<close> with
  \<open>%w\<close> wraps.
  A Go panic in a handler is the error \<open>Panic\<close>: the recovery interceptor of the server makes it one.
\<close>

datatype api_error = NotFound | Conflict | AlreadyExists | OtherApiError string

datatype grpc_code = InvalidArgument | PermissionDenied | Unauthenticated | Internal

datatype goerror =
    ApiError api_error
  | StatusError grpc_code string
  | StatusErrorOf grpc_code string goerror
  | Errorf string
  | WrapError string goerror
  | CtxErr
  | Panic string

text \<open>The predicates look through wrapping, as \<open>errors.As\<close> does.\<close>

fun IsNotFound :: "goerror \<Rightarrow> bool" where
  "IsNotFound (ApiError e) = (e = NotFound)"
| "IsNotFound (WrapError _ e) = IsNotFound e"
| "IsNotFound _ = False"

fun IsConflict :: "goerror \<Rightarrow> bool" where
  "IsConflict (ApiError e) = (e = Conflict)"
| "IsConflict (WrapError _ e) = IsConflict e"
| "IsConflict _ = False"

fun IsAlreadyExists :: "goerror \<Rightarrow> bool" where
  "IsAlreadyExists (ApiError e) = (e = AlreadyExists)"
| "IsAlreadyExists (WrapError _ e) = IsAlreadyExists e"
| "IsAlreadyExists _ = False"

text \<open>\<open>client.IgnoreNotFound\<close>: nil for a not-found error, the error itself otherwise.\<close>

definition IgnoreNotFound :: "goerror \<Rightarrow> goerror option" where
  "IgnoreNotFound e = (if IsNotFound e then None else Some e)"

section \<open>Integers, instants and durations\<close>

type_synonym time = int
type_synonym duration = int

definition maxInt64 :: int where "maxInt64 = 9223372036854775807"
definition minInt64 :: int where "minInt64 = - 9223372036854775808"

text \<open>Go's \<open>int\<close> is 64 bits wide here: arithmetic wraps around.\<close>

definition wrap64 :: "int \<Rightarrow> int" where
  "wrap64 x = (x + 9223372036854775808) mod 18446744073709551616 - 9223372036854775808"

definition wrap32 :: "int \<Rightarrow> int" where
  "wrap32 x = (x + 2147483648) mod 4294967296 - 2147483648"

definition is_int64 :: "int \<Rightarrow> bool" where
  "is_int64 x \<longleftrightarrow> minInt64 \<le> x \<and> x \<le> maxInt64"

lemmas int64_defs = maxInt64_def minInt64_def is_int64_def wrap64_def

lemma wrap64_id [simp]: "is_int64 x \<Longrightarrow> wrap64 x = x"
  by (simp add: int64_defs)

lemma wrap64_range: "is_int64 (wrap64 x)"
  unfolding int64_defs using pos_mod_bound[of 18446744073709551616 "x + 9223372036854775808"]
    pos_mod_sign[of 18446744073709551616 "x + 9223372036854775808"] by linarith

lemma wrap32_id: "- 2147483648 \<le> x \<Longrightarrow> x \<le> 2147483647 \<Longrightarrow> wrap32 x = x"
  by (simp add: wrap32_def)

text \<open>\<open>Time.Sub\<close> saturates; \<open>Time.Add\<close> moves the instant.\<close>

definition time_Sub :: "time \<Rightarrow> time \<Rightarrow> duration" where
  "time_Sub t u = max minInt64 (min maxInt64 (t - u))"

definition time_Add :: "time \<Rightarrow> duration \<Rightarrow> time" where
  "time_Add t d = t + d"

definition time_IsZero :: "time \<Rightarrow> bool" where
  "time_IsZero t \<longleftrightarrow> t = 0"

definition Second :: duration where "Second = 1000000000"
definition Minute :: duration where "Minute = 60 * 1000000000"

lemma time_Sub_int64: "is_int64 (time_Sub t u)"
  by (simp add: time_Sub_def int64_defs)

lemma time_Sub_exact: "is_int64 (t - u) \<Longrightarrow> time_Sub t u = t - u"
  by (simp add: time_Sub_def int64_defs)

lemma time_Sub_pos_iff [simp]: "0 < time_Sub t u \<longleftrightarrow> u < t"
  by (auto simp: time_Sub_def int64_defs)

lemma time_Sub_nonpos_iff [simp]: "time_Sub t u \<le> 0 \<longleftrightarrow> t \<le> u"
  by (auto simp: time_Sub_def int64_defs)

lemma time_Sub_nonneg_iff [simp]: "0 \<le> time_Sub t u \<longleftrightarrow> u \<le> t"
  by (auto simp: time_Sub_def int64_defs)

lemma time_Sub_self [simp]: "time_Sub t t = 0"
  by (simp add: time_Sub_def int64_defs)

lemma time_Sub_Add_neg: "is_int64 d \<Longrightarrow> 0 < d \<Longrightarrow> time_Sub e (time_Add e (- d)) = d"
  by (simp add: time_Sub_def time_Add_def int64_defs)

section \<open>Strings\<close>

text \<open>\<open>strings.Split\<close> with a one-byte separator, and \<open>strings.Join\<close>.\<close>

fun strings_Split :: "string \<Rightarrow> char \<Rightarrow> string list" where
  "strings_Split [] c = [[]]"
| "strings_Split (x # xs) c =
     (let r = strings_Split xs c in
      if x = c then [] # r else (x # hd r) # tl r)"

fun strings_Join :: "string list \<Rightarrow> string \<Rightarrow> string" where
  "strings_Join [] sep = []"
| "strings_Join [x] sep = x"
| "strings_Join (x # y # ys) sep = x @ sep @ strings_Join (y # ys) sep"

definition strings_HasPrefix :: "string \<Rightarrow> string \<Rightarrow> bool" where
  "strings_HasPrefix s p \<longleftrightarrow> take (length p) s = p"

lemma strings_Split_nonempty [simp]: "strings_Split s c \<noteq> []"
  by (cases s) (auto simp: Let_def)

lemma strings_Split_no_sep [simp]: "c \<notin> set s \<Longrightarrow> strings_Split s c = [s]"
  by (induction s) auto

lemma strings_Split_append [simp]:
  "c \<notin> set s \<Longrightarrow> strings_Split (s @ c # t) c = s # strings_Split t c"
  by (induction s) (auto simp: Let_def)

lemma strings_Split_pieces: "p \<in> set (strings_Split s c) \<Longrightarrow> c \<notin> set p"
proof (induction s arbitrary: p)
  case (Cons x xs)
  have "hd (strings_Split xs c) \<in> set (strings_Split xs c)" by simp
  with Cons show ?case
    by (auto simp: Let_def dest: list.set_sel(2)[rotated] split: if_splits)
qed auto

lemma strings_Join_Cons:
  "ys \<noteq> [] \<Longrightarrow> strings_Join (x # ys) sep = x @ sep @ strings_Join ys sep"
  by (cases ys) auto

lemma strings_Join_Split [simp]: "strings_Join (strings_Split s c) [c] = s"
proof (induction s)
  case (Cons x xs)
  obtain p ps where ps: "strings_Split xs c = p # ps"
    by (cases "strings_Split xs c") auto
  with Cons show ?case by (cases ps) (auto simp: Let_def)
qed auto

lemma strings_Split_Join:
  "ss \<noteq> [] \<Longrightarrow> \<forall>s\<in>set ss. c \<notin> set s \<Longrightarrow> strings_Split (strings_Join ss [c]) c = ss"
  by (induction ss "[c]" rule: strings_Join.induct) auto

lemma HasPrefix_append [simp]: "strings_HasPrefix (p @ s) p"
  by (simp add: strings_HasPrefix_def)

text \<open>Decimal printing of integers (\<open>%d\<close>).\<close>

definition digit_char :: "nat \<Rightarrow> char" where
  "digit_char d = ''0123456789'' ! d"

fun itoa_nat :: "nat \<Rightarrow> string" where
  "itoa_nat n = (if n < 10 then [digit_char n] else itoa_nat (n div 10) @ [digit_char (n mod 10)])"

declare itoa_nat.simps [simp del]

definition itoa :: "int \<Rightarrow> string" where
  "itoa i = (if i < 0 then CHR ''-'' # itoa_nat (nat (- i)) else itoa_nat (nat i))"

text \<open>\<open>time.Duration.String\<close>; the micro sign is two bytes.\<close>

definition fmtFrac :: "int \<Rightarrow> nat \<Rightarrow> string" where
  "fmtFrac f prec =
     (let ds = itoa f; padded = replicate (prec - length ds) CHR ''0'' @ ds;
          stripped = rev (dropWhile (\<lambda>c. c = CHR ''0'') (rev padded))
      in if stripped = [] then [] else CHR ''.'' # stripped)"

definition duration_String :: "duration \<Rightarrow> string" where
  "duration_String d =
     (let u = abs d;
          text = (if u = 0 then ''0s''
            else if u < 1000 then itoa u @ ''ns''
            else if u < 1000000 then itoa (u div 1000) @ fmtFrac (u mod 1000) 3 @ [CHR 0xC2, CHR 0xB5] @ ''s''
            else if u < 1000000000 then itoa (u div 1000000) @ fmtFrac (u mod 1000000) 6 @ ''ms''
            else
              (let secs = u div 1000000000; mins = secs div 60; hours = mins div 60 in
               (if hours > 0 then itoa hours @ ''h'' else []) @
               (if mins > 0 then itoa (mins mod 60) @ ''m'' else []) @
               itoa (secs mod 60) @ fmtFrac (u mod 1000000000) 9 @ ''s''))
      in if d < 0 then CHR ''-'' # text else text)"

lemma digit_char_inj: "a < 10 \<Longrightarrow> b < 10 \<Longrightarrow> digit_char a = digit_char b \<longleftrightarrow> a = b"
  unfolding digit_char_def by (rule nth_eq_iff_index_eq) simp_all

lemma itoa_nat_nonempty [simp]: "itoa_nat n \<noteq> []" "[] \<noteq> itoa_nat n"
  by (subst itoa_nat.simps, simp)+

lemma itoa_nat_inj [simp]: "itoa_nat m = itoa_nat n \<longleftrightarrow> m = n"
proof (induction m arbitrary: n rule: itoa_nat.induct)
  case (1 m)
  show ?case
  proof (cases "m < 10")
    case True
    then show ?thesis
      by (subst (1 2) itoa_nat.simps) (auto simp: digit_char_inj)
  next
    case False
    show ?thesis
    proof (cases "n < 10")
      case True
      with False show ?thesis by (subst (1 2) itoa_nat.simps) auto
    next
      case n: False
      have "m = n \<longleftrightarrow> m div 10 = n div 10 \<and> m mod 10 = n mod 10"
        by (metis div_mult_mod_eq)
      with False n 1 show ?thesis
        by (subst (1 2) itoa_nat.simps) (auto simp: digit_char_inj)
    qed
  qed
qed

lemma digit_char_digit: "d < 10 \<Longrightarrow> digit_char d \<in> set ''0123456789''"
  unfolding digit_char_def by (rule nth_mem) simp

lemma itoa_nat_digits: "set (itoa_nat n) \<subseteq> set ''0123456789''"
proof (induction n rule: itoa_nat.induct)
  case (1 n)
  have "digit_char (n mod 10) \<in> set ''0123456789''" and
    "n < 10 \<Longrightarrow> digit_char n \<in> set ''0123456789''"
    by (simp_all only: digit_char_digit mod_less_divisor)
  with 1 show ?case by (subst itoa_nat.simps) auto
qed

lemma itoa_inj_nonneg: "0 \<le> i \<Longrightarrow> 0 \<le> j \<Longrightarrow> itoa i = itoa j \<longleftrightarrow> i = j"
  by (auto simp: itoa_def)

lemma itoa_nonneg_digits: "0 \<le> i \<Longrightarrow> set (itoa i) \<subseteq> set ''0123456789''"
  using itoa_nat_digits by (simp add: itoa_def)

text \<open>\<open>strings.Compare\<close>: byte-wise lexicographic order as -1, 0 or 1.\<close>

fun strings_Compare :: "string \<Rightarrow> string \<Rightarrow> int" where
  "strings_Compare [] [] = 0"
| "strings_Compare [] (y # ys) = - 1"
| "strings_Compare (x # xs) [] = 1"
| "strings_Compare (x # xs) (y # ys) =
     (if (of_char x :: nat) < of_char y then - 1
      else if (of_char y :: nat) < of_char x then 1
      else strings_Compare xs ys)"

lemma strings_Compare_refl [simp]: "strings_Compare s s = 0"
  by (induction s) auto

lemma strings_Compare_eq_0 [simp]: "strings_Compare s t = 0 \<longleftrightarrow> s = t"
  by (induction s t rule: strings_Compare.induct) (auto simp: not_less_iff_gr_or_eq)

lemma strings_Compare_anti: "strings_Compare t s = - strings_Compare s t"
  by (induction s t rule: strings_Compare.induct) auto

lemma strings_Compare_trans:
  "strings_Compare s t \<le> 0 \<Longrightarrow> strings_Compare t u \<le> 0 \<Longrightarrow> strings_Compare s u \<le> 0"
proof (induction s t arbitrary: u rule: strings_Compare.induct)
  case 1
  then show ?case by simp
next
  case (2 y ys)
  then show ?case by (cases u) simp_all
next
  case (3 x xs)
  then show ?case by simp
next
  case (4 x xs y ys)
  show ?case
  proof (cases u)
    case Nil
    with 4 show ?thesis by simp
  next
    case (Cons z zs)
    with "4.prems" have "(of_char x :: nat) \<le> of_char y" "(of_char y :: nat) \<le> of_char z"
      by (simp_all split: if_splits)
    with Cons "4.prems" "4.IH" [of zs] show ?thesis by (auto split: if_splits)
  qed
qed

lemma duration_String_nonempty: "duration_String d \<noteq> []"
  by (simp add: duration_String_def Let_def)

lemma one_second: "duration_String Second = ''1s''"
  by code_simp

section \<open>Slices\<close>

text \<open>A nil slice reads as the empty one.\<close>

definition nil_list :: "'a list option \<Rightarrow> 'a list" where
  "nil_list xs = (case xs of None \<Rightarrow> [] | Some ys \<Rightarrow> ys)"

text \<open>
  A loop that appends to a result slice and returns at the first error: the pieces each
  element contributes, in order.
\<close>

fun collect :: "('a \<Rightarrow> goerror + 'b list) \<Rightarrow> 'a list \<Rightarrow> goerror + 'b list" where
  "collect f [] = Inr []"
| "collect f (x # xs) =
     (case f x of
        Inl e \<Rightarrow> Inl e
      | Inr ys \<Rightarrow> (case collect f xs of Inl e \<Rightarrow> Inl e | Inr zs \<Rightarrow> Inr (ys @ zs)))"

lemma collect_Inr_mem:
  "collect f xs = Inr ys \<Longrightarrow> y \<in> set ys \<longleftrightarrow> (\<exists>x\<in>set xs. \<exists>zs. f x = Inr zs \<and> y \<in> set zs)"
  by (induction xs arbitrary: ys) (auto split: sum.splits)

lemma collect_Inr_all: "collect f xs = Inr ys \<Longrightarrow> x \<in> set xs \<Longrightarrow> \<exists>zs. f x = Inr zs"
  by (induction xs arbitrary: ys) (auto split: sum.splits)

lemma collect_mem_iff:
  assumes "collect f xs = Inr as" "\<And>x bs. x \<in> set xs \<Longrightarrow> f x = Inr bs \<Longrightarrow> a \<in> set bs \<longleftrightarrow> M x"
  shows "a \<in> set as \<longleftrightarrow> (\<exists>x\<in>set xs. M x)"
  unfolding collect_Inr_mem [OF assms(1)] using assms(2) collect_Inr_all [OF assms(1)] by blast

lemma collect_pure: "(\<And>x. x \<in> set xs \<Longrightarrow> f x = Inr (g x)) \<Longrightarrow> collect f xs = Inr (concat (map g xs))"
  by (induction xs) auto

text \<open>
  \<open>slices.SortFunc\<close> on up to twelve elements is Go's insertion sort: each element moves
  left past its predecessors while \<open>cmp\<close> of the element and its predecessor is negative.
  Above twelve elements Go runs pattern-defeating quicksort, of which only the documented
  contract is known (a permutation in ascending order when \<open>cmp\<close> is a strict weak order);
  \<open>sort_result\<close> is that contract, and \<open>weak_cmp\<close> below shows that any two results of
  it agree up to elements that compare equal.
\<close>

fun ins_back :: "('a \<Rightarrow> 'a \<Rightarrow> int) \<Rightarrow> 'a \<Rightarrow> 'a list \<Rightarrow> 'a list" where
  "ins_back cmp x [] = [x]"
| "ins_back cmp x (y # ys) = (if cmp x y < 0 then y # ins_back cmp x ys else x # y # ys)"

definition SortFunc :: "('a \<Rightarrow> 'a \<Rightarrow> int) \<Rightarrow> 'a list \<Rightarrow> 'a list" where
  "SortFunc cmp xs = rev (fold (ins_back cmp) xs [])"

definition sort_result :: "('a \<Rightarrow> 'a \<Rightarrow> int) \<Rightarrow> 'a list \<Rightarrow> 'a list \<Rightarrow> bool" where
  "sort_result cmp xs ys \<longleftrightarrow> mset ys = mset xs \<and> sorted_wrt (\<lambda>a b. cmp a b \<le> 0) ys"

lemma mset_ins_back [simp]: "mset (ins_back cmp x ys) = add_mset x (mset ys)"
  by (induction ys) auto

lemma set_ins_back [simp]: "set (ins_back cmp x ys) = insert x (set ys)"
  by (simp flip: set_mset_mset)

lemma mset_fold_ins_back: "mset (fold (ins_back cmp) xs ys) = mset xs + mset ys"
  by (induction xs arbitrary: ys) auto

lemma mset_SortFunc [simp]: "mset (SortFunc cmp xs) = mset xs"
  by (simp add: SortFunc_def mset_fold_ins_back)

lemma set_SortFunc [simp]: "set (SortFunc cmp xs) = set xs"
  by (metis mset_SortFunc set_mset_mset)

lemma length_SortFunc [simp]: "length (SortFunc cmp xs) = length xs"
  by (metis mset_SortFunc size_mset)

lemma SortFunc_Nil_iff [simp]: "SortFunc cmp xs = [] \<longleftrightarrow> xs = []"
  by (metis length_0_conv length_SortFunc)

text \<open>
  The contract of a comparison function (Go asks for a strict weak order), on the elements
  that satisfy \<open>ok\<close>.
\<close>

locale weak_cmp =
  fixes ok :: "'a \<Rightarrow> bool" and cmp :: "'a \<Rightarrow> 'a \<Rightarrow> int"
  assumes cmp_anti: "ok a \<Longrightarrow> ok b \<Longrightarrow> cmp a b < 0 \<longleftrightarrow> 0 < cmp b a"
    and cmp_trans: "ok a \<Longrightarrow> ok b \<Longrightarrow> ok c \<Longrightarrow> cmp a b \<le> 0 \<Longrightarrow> cmp b c \<le> 0 \<Longrightarrow> cmp a c \<le> 0"
begin

lemma cmp_total: "ok a \<Longrightarrow> ok b \<Longrightarrow> cmp a b \<le> 0 \<or> cmp b a \<le> 0"
  using cmp_anti[of a b] by linarith

lemma cmp_ge: "ok a \<Longrightarrow> ok b \<Longrightarrow> \<not> cmp a b < 0 \<longleftrightarrow> cmp b a \<le> 0"
  using cmp_anti[of a b] by linarith

lemma ins_back_sorted:
  "ok x \<Longrightarrow> \<forall>y\<in>set ys. ok y \<Longrightarrow> sorted_wrt (\<lambda>a b. cmp b a \<le> 0) ys
   \<Longrightarrow> sorted_wrt (\<lambda>a b. cmp b a \<le> 0) (ins_back cmp x ys)"
proof (induction ys)
  case (Cons y ys)
  show ?case
  proof (cases "cmp x y < 0")
    case True
    with Cons show ?thesis by auto
  next
    case False
    with Cons.prems have "cmp y x \<le> 0" using cmp_ge by auto
    moreover from Cons.prems this have "cmp z x \<le> 0" if "z \<in> set ys" for z
      using that cmp_trans[of z y x] by auto
    ultimately show ?thesis using False Cons.prems by auto
  qed
qed simp

lemma fold_ins_back_sorted:
  "\<forall>x\<in>set xs \<union> set ys. ok x \<Longrightarrow> sorted_wrt (\<lambda>a b. cmp b a \<le> 0) ys
   \<Longrightarrow> sorted_wrt (\<lambda>a b. cmp b a \<le> 0) (fold (ins_back cmp) xs ys)"
  by (induction xs arbitrary: ys) (auto simp: ins_back_sorted)

lemma SortFunc_sort_result: "\<forall>x\<in>set xs. ok x \<Longrightarrow> sort_result cmp xs (SortFunc cmp xs)"
  using fold_ins_back_sorted[of xs "[]"]
  by (simp add: sort_result_def SortFunc_def sorted_wrt_rev mset_fold_ins_back)

lemma sort_result_hd_least:
  assumes "\<forall>x\<in>set xs. ok x" "sort_result cmp xs (y # ys)" "x \<in> set xs"
  shows "cmp y x \<le> 0"
proof -
  from assms(2) have set: "set (y # ys) = set xs"
    unfolding sort_result_def by (metis set_mset_mset)
  with assms have "ok y" by auto
  then have "cmp y y \<le> 0" using cmp_anti[of y y] by linarith
  with assms set show ?thesis by (auto simp: sort_result_def)
qed

text \<open>Two results of sorting the same slice start with elements that compare equal.\<close>

lemma sort_result_hd_unique:
  assumes "\<forall>x\<in>set xs. ok x" "sort_result cmp xs (y # ys)" "sort_result cmp xs (z # zs)"
  shows "cmp y z = 0"
proof -
  from assms have "y \<in> set xs" "z \<in> set xs"
    unfolding sort_result_def by (metis list.set_intros(1) set_mset_mset)+
  with assms have "cmp y z \<le> 0" "cmp z y \<le> 0" "ok y" "ok z"
    by (auto intro: sort_result_hd_least)
  then show ?thesis using cmp_anti[of y z] by linarith
qed

end

text \<open>
  \<open>slices.DeleteFunc\<close> works in place: it returns the slice of the kept elements and
  leaves the cleared (zero) elements behind them in the caller's slice. The first component
  is the result, the second what the argument slice holds afterwards.
\<close>

definition DeleteFunc :: "'a \<Rightarrow> ('a \<Rightarrow> bool) \<Rightarrow> 'a list \<Rightarrow> 'a list \<times> 'a list" where
  "DeleteFunc zero del xs =
     (let kept = filter (\<lambda>x. \<not> del x) xs
      in (kept, kept @ replicate (length xs - length kept) zero))"

lemma fst_DeleteFunc [simp]: "fst (DeleteFunc z del xs) = filter (\<lambda>x. \<not> del x) xs"
  by (simp add: DeleteFunc_def Let_def)

lemma length_snd_DeleteFunc [simp]: "length (snd (DeleteFunc z del xs)) = length xs"
  by (simp add: DeleteFunc_def Let_def)

lemma snd_DeleteFunc_all [simp]:
  "filter (\<lambda>x. \<not> del x) xs = [] \<Longrightarrow> snd (DeleteFunc z del xs) = replicate (length xs) z"
  by (simp add: DeleteFunc_def Let_def)

section \<open>Maps with string keys\<close>

type_synonym strmap = "(string \<times> string) list"

abbreviation mget :: "('k \<times> 'v) list \<Rightarrow> 'k \<Rightarrow> 'v option" where
  "mget m k \<equiv> map_of m k"

abbreviation mset_key :: "('k \<times> 'v) list \<Rightarrow> 'k \<Rightarrow> 'v \<Rightarrow> ('k \<times> 'v) list" where
  "mset_key m k v \<equiv> AList.update k v m"

definition go_map :: "('k \<times> 'v) list \<Rightarrow> bool" where
  "go_map m \<longleftrightarrow> distinct (map fst m)"

lemma go_map_Nil [simp]: "go_map []"
  by (simp add: go_map_def)

lemma go_map_update [simp]: "go_map m \<Longrightarrow> go_map (AList.update k v m)"
  by (simp add: go_map_def distinct_update)

lemma go_map_filter: "go_map m \<Longrightarrow> go_map (filter P m)"
  by (simp add: go_map_def distinct_map_filter)

lemma mget_filter_key:
  "mget (filter (\<lambda>(k, v). P k) m) k = (if P k then mget m k else None)"
  by (induction m) auto

text \<open>\<open>sync.Map.LoadOrStore\<close>: the value now under the key, whether it was there, the map.\<close>

definition LoadOrStore :: "('k \<times> 'v) list \<Rightarrow> 'k \<Rightarrow> 'v \<Rightarrow> 'v \<times> bool \<times> ('k \<times> 'v) list" where
  "LoadOrStore m k v =
     (case mget m k of Some w \<Rightarrow> (w, True, m) | None \<Rightarrow> (v, False, mset_key m k v))"

lemma LoadOrStore_hit: "mget m k = Some w \<Longrightarrow> LoadOrStore m k v = (w, True, m)"
  by (simp add: LoadOrStore_def)

lemma LoadOrStore_miss: "mget m k = None \<Longrightarrow> LoadOrStore m k v = (v, False, mset_key m k v)"
  by (simp add: LoadOrStore_def)

lemma LoadOrStore_stored: "LoadOrStore m k v = (w, l, m') \<Longrightarrow> mget m' k = Some w"
  by (auto simp: LoadOrStore_def update_conv split: option.splits)

lemma LoadOrStore_other: "LoadOrStore m k v = (w, l, m') \<Longrightarrow> k' \<noteq> k \<Longrightarrow> mget m' k' = mget m k'"
  by (auto simp: LoadOrStore_def update_conv split: option.splits)

end
