(* ===== verification/ApiTypes.thy ===== *)
theory ApiTypes
  imports Prelude
begin

text \<open>
  The custom resources of the controller (\<open>src/api/v1alpha1\<close>): \<open>Client\<close>,
  \<open>Exporter\<close>, \<open>Lease\<close>, \<open>ExporterAccessPolicy\<close>, with the parts of the
  Kubernetes metadata types they are built from, and the helpers that derive a subject and
  the user names of an object.

  \<open>ext\<close> collects the functions of the libraries outside the repository that the code
  calls on these values (apimachinery's conditions, label selectors and owner references,
  protobuf's time conversions). The model does not define them: every definition that uses
  one takes the record as an argument, and the theorems that rely on documented behaviour
  name it (\<open>conditions_ok\<close>, \<open>ctrlref_ok\<close>, \<open>pbtime_ok\<close>).
\<close>

section \<open>Metadata\<close>

record NamespacedName =
  nn_Namespace :: string
  nn_Name :: string

record ObjectMeta =
  om_Namespace :: string
  om_Name :: string
  om_UID :: string
  om_ResourceVersion :: string
  om_Generation :: int
  om_Labels :: strmap
  om_Annotations :: strmap
  om_OwnerReferences :: "string list"

datatype ConditionStatus = ConditionTrue | ConditionFalse | ConditionUnknown

record Condition =
  c_Type :: string
  c_Status :: ConditionStatus
  c_ObservedGeneration :: int
  c_LastTransitionTime :: time
  c_Reason :: string
  c_Message :: string

text \<open>\<open>metav1.LabelSelector\<close>, and the requirements of a parsed \<open>labels.Selector\<close>.\<close>

record LabelSelectorRequirement =
  lr_Key :: string
  lr_Operator :: string
  lr_Values :: "string list"

record LabelSelector =
  ls_MatchLabels :: strmap
  ls_MatchExpressions :: "LabelSelectorRequirement list"

datatype selection_Operator =
  SelEquals | SelDoubleEquals | SelNotEquals | SelIn | SelNotIn | SelExists | SelDoesNotExist
  | SelGreaterThan | SelLessThan

record Requirement =
  rq_Key :: string
  rq_Operator :: selection_Operator
  rq_Values :: "string list"

type_synonym selector = "Requirement list"

section \<open>Lease\<close>

record LeaseSpec =
  sp_ClientRef :: string
  sp_Duration :: "duration option"
  sp_Selector :: LabelSelector
  sp_Release :: bool
  sp_BeginTime :: "time option"
  sp_EndTime :: "time option"

record LeaseStatus =
  st_BeginTime :: "time option"
  st_EndTime :: "time option"
  st_ExporterRef :: "string option"
  st_Ended :: bool
  st_Priority :: int
  st_SpotAccess :: bool
  st_Conditions :: "Condition list"

record Lease =
  l_Meta :: ObjectMeta
  l_Spec :: LeaseSpec
  l_Status :: LeaseStatus

text \<open>The condition types and the label that marks an ended lease.\<close>

definition LeaseConditionTypePending :: string where "LeaseConditionTypePending = ''Pending''"
definition LeaseConditionTypeReady :: string where "LeaseConditionTypeReady = ''Ready''"
definition LeaseConditionTypeUnsatisfiable :: string where
  "LeaseConditionTypeUnsatisfiable = ''Unsatisfiable''"
definition LeaseConditionTypeInvalid :: string where "LeaseConditionTypeInvalid = ''Invalid''"

lemmas lease_condition_types = LeaseConditionTypePending_def LeaseConditionTypeReady_def
  LeaseConditionTypeUnsatisfiable_def LeaseConditionTypeInvalid_def

definition LeaseLabelEnded :: string where "LeaseLabelEnded = ''jumpstarter.dev/lease-ended''"
definition LeaseLabelEndedValue :: string where "LeaseLabelEndedValue = ''true''"

section \<open>Exporter, Client, ExporterAccessPolicy\<close>

record Device =
  d_Uuid :: string
  d_ParentUuid :: "string option"
  d_Labels :: strmap

record ExporterSpec =
  esp_Username :: "string option"

record ExporterStatus =
  es_Conditions :: "Condition list"
  es_Credential :: "string option"
  es_Devices :: "Device list option"
  es_LeaseRef :: "string option"
  es_LastSeen :: time
  es_Endpoint :: string

record Exporter =
  e_Meta :: ObjectMeta
  e_Spec :: ExporterSpec
  e_Status :: ExporterStatus

definition ExporterConditionTypeRegistered :: string where
  "ExporterConditionTypeRegistered = ''Registered''"
definition ExporterConditionTypeOnline :: string where "ExporterConditionTypeOnline = ''Online''"

lemmas exporter_condition_types =
  ExporterConditionTypeRegistered_def ExporterConditionTypeOnline_def

record ClientSpec =
  csp_Username :: "string option"

record ClientStatus =
  cst_Credential :: "string option"
  cst_Endpoint :: string

record Client =
  cl_Meta :: ObjectMeta
  cl_Spec :: ClientSpec
  cl_Status :: ClientStatus

record From =
  from_ClientSelector :: LabelSelector

record Policy =
  p_Priority :: int
  p_From :: "From list"
  p_MaximumDuration :: "duration option"
  p_SpotAccess :: bool

record ExporterAccessPolicySpec =
  eps_ExporterSelector :: LabelSelector
  eps_Policies :: "Policy list"

record ExporterAccessPolicy =
  ep_Meta :: ObjectMeta
  ep_Spec :: ExporterAccessPolicySpec

section \<open>Zero values\<close>

text \<open>Go's zero values of the structs, which composite literals start from.\<close>

definition zero_ObjectMeta :: ObjectMeta where
  "zero_ObjectMeta = \<lparr>om_Namespace = [], om_Name = [], om_UID = [], om_ResourceVersion = [],
     om_Generation = 0, om_Labels = [], om_Annotations = [], om_OwnerReferences = []\<rparr>"

definition zero_LabelSelector :: LabelSelector where
  "zero_LabelSelector = \<lparr>ls_MatchLabels = [], ls_MatchExpressions = []\<rparr>"

definition zero_LeaseStatus :: LeaseStatus where
  "zero_LeaseStatus = \<lparr>st_BeginTime = None, st_EndTime = None, st_ExporterRef = None,
     st_Ended = False, st_Priority = 0, st_SpotAccess = False, st_Conditions = []\<rparr>"

definition zero_ExporterStatus :: ExporterStatus where
  "zero_ExporterStatus = \<lparr>es_Conditions = [], es_Credential = None, es_Devices = None,
     es_LeaseRef = None, es_LastSeen = 0, es_Endpoint = []\<rparr>"

definition zero_Exporter :: Exporter where
  "zero_Exporter = \<lparr>e_Meta = zero_ObjectMeta, e_Spec = \<lparr>esp_Username = None\<rparr>,
     e_Status = zero_ExporterStatus\<rparr>"

definition zero_ClientStatus :: ClientStatus where
  "zero_ClientStatus = \<lparr>cst_Credential = None, cst_Endpoint = []\<rparr>"

definition zero_Policy :: Policy where
  "zero_Policy = \<lparr>p_Priority = 0, p_From = [], p_MaximumDuration = None, p_SpotAccess = False\<rparr>"

lemmas zero_defs = zero_ObjectMeta_def zero_LabelSelector_def zero_LeaseStatus_def
  zero_ExporterStatus_def zero_Exporter_def zero_ClientStatus_def zero_Policy_def

section \<open>Functions of libraries outside the repository\<close>

type_synonym pbTimestamp = "int \<times> int"
type_synonym pbDuration = "int \<times> int"

record ext =
  x_IsStatusConditionTrue :: "Condition list \<Rightarrow> string \<Rightarrow> bool"
  x_SetStatusCondition :: "Condition list \<Rightarrow> Condition \<Rightarrow> Condition list"
  x_LabelSelectorAsSelector :: "LabelSelector \<Rightarrow> goerror + selector"
  x_Empty :: "selector \<Rightarrow> bool"
  x_Matches :: "selector \<Rightarrow> strmap \<Rightarrow> bool"
  x_labels_Parse :: "string \<Rightarrow> goerror + selector"
  x_Requirements :: "selector \<Rightarrow> Requirement list \<times> bool"
  x_FormatLabelSelector :: "LabelSelector \<Rightarrow> string"
  x_SetControllerReference :: "ObjectMeta \<Rightarrow> ObjectMeta \<Rightarrow> goerror + ObjectMeta"
  x_timestamppb_New :: "time \<Rightarrow> pbTimestamp"
  x_AsTime :: "pbTimestamp \<Rightarrow> time"
  x_durationpb_New :: "duration \<Rightarrow> pbDuration"
  x_AsDuration :: "pbDuration \<Rightarrow> duration"
  x_ProtoTime :: "time \<Rightarrow> int \<times> int"
  x_rangeNotEquals :: "(string \<times> string list) list \<Rightarrow> (string \<times> string list) list"

text \<open>
  \<open>meta.SetStatusCondition\<close> sets the condition of the given type and no other;
  \<open>meta.IsStatusConditionTrue\<close> tells whether the condition of a type is present and true.
\<close>

definition conditions_ok :: "ext \<Rightarrow> bool" where
  "conditions_ok x \<longleftrightarrow>
     (\<forall>cs c. x_IsStatusConditionTrue x (x_SetStatusCondition x cs c) (c_Type c)
               = (c_Status c = ConditionTrue)) \<and>
     (\<forall>cs c t. t \<noteq> c_Type c \<longrightarrow>
        x_IsStatusConditionTrue x (x_SetStatusCondition x cs c) t = x_IsStatusConditionTrue x cs t)"

lemma conditions_ok_same:
  "conditions_ok x \<Longrightarrow> c_Type c = t \<Longrightarrow>
   x_IsStatusConditionTrue x (x_SetStatusCondition x cs c) t = (c_Status c = ConditionTrue)"
  by (auto simp: conditions_ok_def)

lemma conditions_ok_other:
  "conditions_ok x \<Longrightarrow> t \<noteq> c_Type c \<Longrightarrow>
   x_IsStatusConditionTrue x (x_SetStatusCondition x cs c) t = x_IsStatusConditionTrue x cs t"
  by (simp add: conditions_ok_def)

text \<open>\<open>controllerutil.SetControllerReference\<close> changes the owner references only.\<close>

definition ctrlref_ok :: "ext \<Rightarrow> bool" where
  "ctrlref_ok x \<longleftrightarrow> (\<forall>own m m'. x_SetControllerReference x own m = Inr m' \<longrightarrow>
     m'\<lparr>om_OwnerReferences := om_OwnerReferences m\<rparr> = m)"

lemma ctrlref_ok_keeps:
  assumes "ctrlref_ok x" "x_SetControllerReference x own m = Inr m'"
  shows "om_Namespace m' = om_Namespace m" "om_Name m' = om_Name m" "om_Labels m' = om_Labels m"
    "om_UID m' = om_UID m" "om_Annotations m' = om_Annotations m"
proof -
  from assms have eq: "m'\<lparr>om_OwnerReferences := om_OwnerReferences m\<rparr> = m"
    by (auto simp: ctrlref_ok_def)
  from arg_cong [OF eq, of om_Namespace] show "om_Namespace m' = om_Namespace m" by simp
  from arg_cong [OF eq, of om_Name] show "om_Name m' = om_Name m" by simp
  from arg_cong [OF eq, of om_Labels] show "om_Labels m' = om_Labels m" by simp
  from arg_cong [OF eq, of om_UID] show "om_UID m' = om_UID m" by simp
  from arg_cong [OF eq, of om_Annotations] show "om_Annotations m' = om_Annotations m" by simp
qed

text \<open>The protobuf well-known types carry nanosecond times and 64-bit durations exactly.\<close>

definition pbtime_ok :: "ext \<Rightarrow> bool" where
  "pbtime_ok x \<longleftrightarrow> (\<forall>t. x_AsTime x (x_timestamppb_New x t) = t) \<and>
     (\<forall>d. is_int64 d \<longrightarrow> x_AsDuration x (x_durationpb_New x d) = d)"

section \<open>Subjects and user names\<close>

definition AnnotationMigratedNamespace :: string where
  "AnnotationMigratedNamespace = ''jumpstarter.dev/migrated-namespace''"

definition AnnotationMigratedUID :: string where
  "AnnotationMigratedUID = ''jumpstarter.dev/migrated-uid''"

definition getNamespaceAndUID :: "string \<Rightarrow> string \<Rightarrow> strmap \<Rightarrow> string \<times> string" where
  "getNamespaceAndUID namespace uid annotations =
     ((case mget annotations AnnotationMigratedNamespace of
         Some v \<Rightarrow> if v \<noteq> [] then v else namespace | None \<Rightarrow> namespace),
      (case mget annotations AnnotationMigratedUID of
         Some v \<Rightarrow> if v \<noteq> [] then v else uid | None \<Rightarrow> uid))"

definition Client_InternalSubject :: "Client \<Rightarrow> string" where
  "Client_InternalSubject c =
     (let m = cl_Meta c; (namespace, uid) = getNamespaceAndUID (om_Namespace m) (om_UID m) (om_Annotations m)
      in strings_Join [''client'', namespace, om_Name m, uid] '':'')"

definition Client_Usernames :: "Client \<Rightarrow> string \<Rightarrow> string list" where
  "Client_Usernames c prefix =
     [prefix @ Client_InternalSubject c] @
     (case csp_Username (cl_Spec c) of None \<Rightarrow> [] | Some u \<Rightarrow> [u])"

definition Exporter_InternalSubject :: "Exporter \<Rightarrow> string" where
  "Exporter_InternalSubject e =
     (let m = e_Meta e; (namespace, uid) = getNamespaceAndUID (om_Namespace m) (om_UID m) (om_Annotations m)
      in strings_Join [''exporter'', namespace, om_Name m, uid] '':'')"

definition Exporter_Usernames :: "Exporter \<Rightarrow> string \<Rightarrow> string list" where
  "Exporter_Usernames e prefix =
     [prefix @ Exporter_InternalSubject e] @
     (case esp_Username (e_Spec e) of None \<Rightarrow> [] | Some u \<Rightarrow> [u])"

text \<open>
  The form of an internal subject, shared by clients and exporters: the kind and the three
  parts that identify the object, joined with colons. Where the parts hold no colon the
  subject determines all of them. Kubernetes names, namespaces and UIDs hold none; the values
  of the migration annotations, which replace namespace and UID, may.
\<close>

definition subject_parts :: "ObjectMeta \<Rightarrow> string list" where
  "subject_parts m =
     (let (namespace, uid) = getNamespaceAndUID (om_Namespace m) (om_UID m) (om_Annotations m)
      in [namespace, om_Name m, uid])"

definition colon_free :: "ObjectMeta \<Rightarrow> bool" where
  "colon_free m \<longleftrightarrow> (\<forall>p\<in>set (subject_parts m). CHR '':'' \<notin> set p)"

locale subject_form =
  fixes kind :: string and meta :: "'a \<Rightarrow> ObjectMeta" and subject :: "'a \<Rightarrow> string"
  assumes subject_eq: "subject a = strings_Join (kind # subject_parts (meta a)) '':''"
    and kind_colon: "CHR '':'' \<notin> set kind"
begin

lemma subject_split:
  "colon_free (meta a) \<Longrightarrow> strings_Split (subject a) CHR '':'' = kind # subject_parts (meta a)"
  unfolding subject_eq by (rule strings_Split_Join) (auto simp: colon_free_def kind_colon)

lemma subject_inj:
  assumes "colon_free (meta a)" "colon_free (meta b)" "subject a = subject b"
  shows "subject_parts (meta a) = subject_parts (meta b)"
  using subject_split [OF assms(1)] subject_split [OF assms(2)] assms(3) by simp

end

interpretation client_subject: subject_form "''client''" cl_Meta Client_InternalSubject
  by unfold_locales (simp_all add: Client_InternalSubject_def subject_parts_def Let_def split: prod.splits)

interpretation exporter_subject: subject_form "''exporter''" e_Meta Exporter_InternalSubject
  by unfold_locales (simp_all add: Exporter_InternalSubject_def subject_parts_def Let_def split: prod.splits)

lemma subjects_disjoint: "Client_InternalSubject c \<noteq> Exporter_InternalSubject e"
  by (simp add: Client_InternalSubject_def Exporter_InternalSubject_def Let_def split: prod.split)

end
