(* ===== verification/Kube.thy ===== *)
theory Kube
  imports ApiTypes
begin

text \<open>
  The Kubernetes API as the controller uses it: the calls of the controller-runtime client
  on the kinds the code reads and writes. The API server and its client are not part of the
  repository, so the calls are the fields of a record over an abstract cluster state \<open>'s\<close>,
  which every reconciler and handler takes as an argument; a read is a function of the
  state, a write returns the object the server answered with and the next state.
\<close>

datatype SecretType = SecretTypeOpaque

record Secret =
  sec_Meta :: ObjectMeta
  sec_Type :: SecretType
  sec_Data :: strmap

datatype listOption =
    InNamespace string
  | MatchingLabelsSelector selector
  | Limit int
  | Continue string

record 's kube =
  k_getLease :: "'s \<Rightarrow> NamespacedName \<Rightarrow> goerror + Lease"
  k_listLeases :: "'s \<Rightarrow> listOption list \<Rightarrow> goerror + Lease list \<times> string"
  k_createLease :: "'s \<Rightarrow> Lease \<Rightarrow> (goerror + Lease) \<times> 's"
  k_updateLease :: "'s \<Rightarrow> Lease \<Rightarrow> (goerror + Lease) \<times> 's"
  k_statusUpdateLease :: "'s \<Rightarrow> Lease \<Rightarrow> (goerror + Lease) \<times> 's"
  k_patchLease :: "'s \<Rightarrow> Lease \<Rightarrow> Lease \<Rightarrow> (goerror + Lease) \<times> 's"
  k_getExporter :: "'s \<Rightarrow> NamespacedName \<Rightarrow> goerror + Exporter"
  k_listExporters :: "'s \<Rightarrow> listOption list \<Rightarrow> goerror + Exporter list \<times> string"
  k_patchExporter :: "'s \<Rightarrow> Exporter \<Rightarrow> Exporter \<Rightarrow> (goerror + Exporter) \<times> 's"
  k_statusPatchExporter :: "'s \<Rightarrow> Exporter \<Rightarrow> Exporter \<Rightarrow> (goerror + Exporter) \<times> 's"
  k_getClient :: "'s \<Rightarrow> NamespacedName \<Rightarrow> goerror + Client"
  k_createClient :: "'s \<Rightarrow> Client \<Rightarrow> (goerror + Client) \<times> 's"
  k_statusPatchClient :: "'s \<Rightarrow> Client \<Rightarrow> Client \<Rightarrow> (goerror + Client) \<times> 's"
  k_listPolicies :: "'s \<Rightarrow> listOption list \<Rightarrow> goerror + ExporterAccessPolicy list"
  k_getSecret :: "'s \<Rightarrow> NamespacedName \<Rightarrow> goerror + Secret"
  k_createSecret :: "'s \<Rightarrow> Secret \<Rightarrow> (goerror + Secret) \<times> 's"
  k_patchSecret :: "'s \<Rightarrow> Secret \<Rightarrow> Secret \<Rightarrow> (goerror + Secret) \<times> 's"

text \<open>\<open>ctrl.Result\<close>, and \<open>RequeueConflict\<close> of \<open>internal/controller/errors.go\<close>.\<close>

record Result =
  r_Requeue :: bool
  r_RequeueAfter :: duration

definition zero_Result :: Result where
  "zero_Result = \<lparr>r_Requeue = False, r_RequeueAfter = 0\<rparr>"

definition RequeueConflict :: "Result \<Rightarrow> goerror \<Rightarrow> Result \<times> goerror option" where
  "RequeueConflict result err =
     (if IsConflict err then (\<lparr>r_Requeue = True, r_RequeueAfter = 0\<rparr>, None) else (result, Some err))"

text \<open>\<open>MatchingActiveLeases\<close>: everything without the ended label.\<close>

definition MatchingActiveLeases :: listOption where
  "MatchingActiveLeases = MatchingLabelsSelector
     [\<lparr>rq_Key = LeaseLabelEnded, rq_Operator = SelDoesNotExist, rq_Values = []\<rparr>]"

text \<open>\<open>controllerEndpoint\<close>: the value of \<open>GRPC_ENDPOINT\<close>, or the default.\<close>

definition controllerEndpoint :: "(string \<Rightarrow> string) \<Rightarrow> string" where
  "controllerEndpoint getenv =
     (let ep = getenv ''GRPC_ENDPOINT'' in if ep = [] then ''localhost:8082'' else ep)"

definition routerEndpoint :: "(string \<Rightarrow> string) \<Rightarrow> string" where
  "routerEndpoint getenv =
     (let ep = getenv ''GRPC_ROUTER_ENDPOINT'' in if ep = [] then ''localhost:8083'' else ep)"

end
