(* ===== verification/Identifiers.thy ===== *)
theory Identifiers
  imports ApiTypes
begin

text \<open>
  Resource identifiers of the client API (\<open>src/internal/service/utils/identifier.go\<close>):
  \<open>namespaces/NS\<close> and \<open>namespaces/NS/KIND/NAME\<close>, their parsers with every error, their
  printers, and the round trips between the two.
\<close>

definition identifier_error :: "string \<Rightarrow> string \<Rightarrow> string \<Rightarrow> string \<Rightarrow> goerror" where
  "identifier_error what identifier expecting got =
     StatusError InvalidArgument (what @ '' in identifier '' @ [CHR 0x22] @ identifier @ [CHR 0x22] @
       '', expecting '' @ expecting @ '', got '' @ got)"

definition quoted :: "string \<Rightarrow> string" where
  "quoted s = [CHR 0x22] @ s @ [CHR 0x22]"

definition ParseNamespaceIdentifier :: "string \<Rightarrow> goerror + string" where
  "ParseNamespaceIdentifier identifier =
     (let segments = strings_Split identifier CHR ''/'' in
      if length segments \<noteq> 2 then
        Inl (identifier_error ''invalid number of segments'' identifier ''2'' (itoa (int (length segments))))
      else if segments ! 0 \<noteq> ''namespaces'' then
        Inl (identifier_error ''invalid first segment'' identifier (quoted ''namespaces'') (quoted (segments ! 0)))
      else Inr (segments ! 1))"

definition ParseObjectIdentifier :: "string \<Rightarrow> string \<Rightarrow> goerror + NamespacedName" where
  "ParseObjectIdentifier identifier kind =
     (let segments = strings_Split identifier CHR ''/'' in
      if length segments \<noteq> 4 then
        Inl (identifier_error ''invalid number of segments'' identifier ''4'' (itoa (int (length segments))))
      else if segments ! 0 \<noteq> ''namespaces'' then
        Inl (identifier_error ''invalid first segment'' identifier (quoted ''namespaces'') (quoted (segments ! 0)))
      else if segments ! 2 \<noteq> kind then
        Inl (identifier_error ''invalid third segment'' identifier (quoted kind) (quoted (segments ! 2)))
      else Inr \<lparr>nn_Namespace = segments ! 1, nn_Name = segments ! 3\<rparr>)"

definition UnparseObjectIdentifier :: "NamespacedName \<Rightarrow> string \<Rightarrow> string" where
  "UnparseObjectIdentifier key kind =
     ''namespaces/'' @ nn_Namespace key @ ''/'' @ kind @ ''/'' @ nn_Name key"

definition ParseExporterIdentifier :: "string \<Rightarrow> goerror + NamespacedName" where
  "ParseExporterIdentifier identifier = ParseObjectIdentifier identifier ''exporters''"

definition UnparseExporterIdentifier :: "NamespacedName \<Rightarrow> string" where
  "UnparseExporterIdentifier key = UnparseObjectIdentifier key ''exporters''"

definition ParseLeaseIdentifier :: "string \<Rightarrow> goerror + NamespacedName" where
  "ParseLeaseIdentifier identifier = ParseObjectIdentifier identifier ''leases''"

definition UnparseLeaseIdentifier :: "NamespacedName \<Rightarrow> string" where
  "UnparseLeaseIdentifier key = UnparseObjectIdentifier key ''leases''"

definition ParseClientIdentifier :: "string \<Rightarrow> goerror + NamespacedName" where
  "ParseClientIdentifier identifier = ParseObjectIdentifier identifier ''clients''"

section \<open>Round trips\<close>

definition slash_free :: "NamespacedName \<Rightarrow> bool" where
  "slash_free key \<longleftrightarrow> CHR ''/'' \<notin> set (nn_Namespace key) \<and> CHR ''/'' \<notin> set (nn_Name key)"

lemma Unparse_Join:
  "UnparseObjectIdentifier key kind =
     strings_Join [''namespaces'', nn_Namespace key, kind, nn_Name key] ''/''"
  by (simp add: UnparseObjectIdentifier_def)

lemma Parse_Unparse_object:
  assumes "slash_free key" "CHR ''/'' \<notin> set kind"
  shows "ParseObjectIdentifier (UnparseObjectIdentifier key kind) kind = Inr key"
proof -
  have "strings_Split (UnparseObjectIdentifier key kind) CHR ''/''
      = [''namespaces'', nn_Namespace key, kind, nn_Name key]"
    unfolding Unparse_Join by (rule strings_Split_Join) (use assms in \<open>auto simp: slash_free_def\<close>)
  then show ?thesis by (simp add: ParseObjectIdentifier_def Let_def numeral_eq_Suc)
qed

lemma length4_split: "length xs = 4 \<Longrightarrow> xs = [xs ! 0, xs ! 1, xs ! 2, xs ! 3]"
  by (auto simp: numeral_eq_Suc length_Suc_conv)

lemma Unparse_Parse_object:
  assumes "ParseObjectIdentifier s kind = Inr key"
  shows "UnparseObjectIdentifier key kind = s \<and> slash_free key"
proof -
  let ?segs = "strings_Split s CHR ''/''"
  from assms have len: "length ?segs = 4" and segs: "?segs ! 0 = ''namespaces''" "?segs ! 2 = kind"
    and key: "key = \<lparr>nn_Namespace = ?segs ! 1, nn_Name = ?segs ! 3\<rparr>"
    by (auto simp: ParseObjectIdentifier_def Let_def split: if_splits)
  from len key segs have "?segs = [''namespaces'', nn_Namespace key, kind, nn_Name key]"
    using length4_split [of ?segs] by simp
  then have "UnparseObjectIdentifier key kind = strings_Join ?segs [CHR ''/'']"
    by (simp add: Unparse_Join)
  moreover from len have "?segs ! 1 \<in> set ?segs" "?segs ! 3 \<in> set ?segs" by simp_all
  then have "slash_free key"
    unfolding slash_free_def key by (auto dest: strings_Split_pieces)
  ultimately show ?thesis by simp
qed

text \<open>
  The contract the services rely on: a parser and a printer of identifiers that are inverse
  to each other, on the keys without a slash.
\<close>

locale identifier_codec =
  fixes parse :: "string \<Rightarrow> goerror + NamespacedName" and unparse :: "NamespacedName \<Rightarrow> string"
  assumes parse_unparse: "slash_free key \<Longrightarrow> parse (unparse key) = Inr key"
    and unparse_parse: "parse s = Inr key \<Longrightarrow> unparse key = s \<and> slash_free key"
begin

lemma parse_inj: "parse s = Inr key \<Longrightarrow> parse t = Inr key \<Longrightarrow> s = t"
  using unparse_parse by metis

lemma unparse_inj: "slash_free k \<Longrightarrow> slash_free k' \<Longrightarrow> unparse k = unparse k' \<Longrightarrow> k = k'"
  by (metis parse_unparse sum.inject(2))

lemma parse_total_iff: "(\<exists>key. parse s = Inr key) \<longleftrightarrow> (\<exists>key. slash_free key \<and> s = unparse key)"
  using parse_unparse unparse_parse by metis

end

interpretation exporter_id: identifier_codec ParseExporterIdentifier UnparseExporterIdentifier
  by unfold_locales (simp_all add: ParseExporterIdentifier_def UnparseExporterIdentifier_def
      Parse_Unparse_object Unparse_Parse_object)

interpretation lease_id: identifier_codec ParseLeaseIdentifier UnparseLeaseIdentifier
  by unfold_locales (simp_all add: ParseLeaseIdentifier_def UnparseLeaseIdentifier_def
      Parse_Unparse_object Unparse_Parse_object)

text \<open>
  C35: A lease or exporter identifier parses to a key exactly when it is the printed form of
  that key and neither part of the key contains a slash; in particular an identifier of one
  kind is never read as the other.
\<close>

theorem identifier_codec_exact:
  "(ParseLeaseIdentifier s = Inr key \<longleftrightarrow> slash_free key \<and> s = UnparseLeaseIdentifier key) \<and>
   (ParseExporterIdentifier s = Inr key \<longleftrightarrow> slash_free key \<and> s = UnparseExporterIdentifier key)"
  using lease_id.parse_unparse lease_id.unparse_parse exporter_id.parse_unparse exporter_id.unparse_parse by metis

end
