(* ===== verification/LeaseHelpers.thy ===== *)
theory LeaseHelpers
  imports Kube Identifiers
begin

text \<open>
  The helpers of the \<open>Lease\<close> resource (\<open>src/api/v1alpha1/lease_helpers.go\<close>):
  reconciliation of the three time fields, conversion of a selector text into a
  \<open>metav1.LabelSelector\<close>, conversion from and to the protobuf messages, the status
  conditions, and the two ways a lease ends.
\<close>

section \<open>Time fields\<close>

text \<open>
  \<open>ReconcileLeaseTimeFields\<close> works on three pointers in place; the model returns the
  error, if any, with what the three pointers hold afterwards.
\<close>

definition ReconcileLeaseTimeFields ::
  "time option \<Rightarrow> time option \<Rightarrow> duration option
   \<Rightarrow> goerror option \<times> time option \<times> time option \<times> duration option" where
  "ReconcileLeaseTimeFields beginTime endTime dur =
     (let check = (\<lambda>b e d.
        case d of
          None \<Rightarrow> (Some (Errorf ''duration is required (must specify Duration, or both BeginTime and EndTime)''), b, e, d)
        | Some v \<Rightarrow>
            if v \<le> 0 then (Some (Errorf (''duration must be positive, got '' @ duration_String v)), b, e, d)
            else (None, b, e, d))
      in case (beginTime, endTime) of
           (Some b, Some e) \<Rightarrow>
             (let calculated = time_Sub e b in
              case dur of
                Some d \<Rightarrow>
                  if d > 0 \<and> d \<noteq> calculated
                  then (Some (Errorf ''duration conflicts with begin_time and end_time''), beginTime, endTime, dur)
                  else check beginTime endTime (Some calculated)
              | None \<Rightarrow> check beginTime endTime (Some calculated))
         | (None, Some e) \<Rightarrow>
             (case dur of
                Some d \<Rightarrow>
                  if d > 0 then check (Some (time_Add e (wrap64 (- d)))) endTime dur
                  else check beginTime endTime dur
              | None \<Rightarrow> check beginTime endTime dur)
         | _ \<Rightarrow> check beginTime endTime dur)"

text \<open>What a consistent triple of fields is, and when a triple can be completed to one.\<close>

definition time_fields_consistent :: "time option \<Rightarrow> time option \<Rightarrow> duration option \<Rightarrow> bool" where
  "time_fields_consistent b e d \<longleftrightarrow>
     (\<exists>v. d = Some v \<and> 0 < v \<and>
        (case (b, e) of (Some bt, Some et) \<Rightarrow> v = time_Sub et bt | (None, Some _) \<Rightarrow> False | _ \<Rightarrow> True))"

definition time_fields_accepted :: "time option \<Rightarrow> time option \<Rightarrow> duration option \<Rightarrow> bool" where
  "time_fields_accepted b e d \<longleftrightarrow>
     (case (b, e) of
        (Some bt, Some et) \<Rightarrow> bt < et \<and> (\<forall>v. d = Some v \<and> 0 < v \<longrightarrow> v = time_Sub et bt)
      | _ \<Rightarrow> (\<exists>v. d = Some v \<and> 0 < v))"

lemma ReconcileLeaseTimeFields_ok_iff:
  "fst (ReconcileLeaseTimeFields b e d) = None \<longleftrightarrow> time_fields_accepted b e d"
  by (auto simp: ReconcileLeaseTimeFields_def time_fields_accepted_def Let_def not_le
      split: option.splits)

lemma ReconcileLeaseTimeFields_sound:
  assumes "ReconcileLeaseTimeFields b e d = (None, b', e', d')" "\<forall>v. d = Some v \<longrightarrow> is_int64 v"
  shows "time_fields_consistent b' e' d'" "e' = e" "b \<noteq> None \<longrightarrow> b' = b"
    "e = None \<longrightarrow> b' = b" "e = None \<or> b = None \<longrightarrow> d' = d"
proof -
  have neg: "wrap64 (- v) = - v" if "is_int64 v" "0 < v" for v
    using that by (intro wrap64_id) (simp add: is_int64_def minInt64_def maxInt64_def)
  show "time_fields_consistent b' e' d'"
    using assms neg
    by (auto simp: ReconcileLeaseTimeFields_def time_fields_consistent_def Let_def
        time_Sub_Add_neg split: option.splits if_splits)
qed (use assms in \<open>auto simp: ReconcileLeaseTimeFields_def Let_def split: option.splits if_splits\<close>)

lemma ReconcileLeaseTimeFields_fixpoint:
  "time_fields_consistent b e d \<Longrightarrow> ReconcileLeaseTimeFields b e d = (None, b, e, d)"
  unfolding time_fields_consistent_def
  by (cases b; cases e) (auto simp: ReconcileLeaseTimeFields_def)

section \<open>Selectors\<close>

text \<open>
  The loop of \<open>ParseLabelSelector\<close> over the parsed requirements: \<open>matchLabels\<close>,
  \<open>matchExpressions\<close> and the values of the \<open>!=\<close> requirements by key.
\<close>

definition expr :: "string \<Rightarrow> string \<Rightarrow> string list \<Rightarrow> LabelSelectorRequirement" where
  "expr key operator values = \<lparr>lr_Key = key, lr_Operator = operator, lr_Values = values\<rparr>"

fun parse_requirements ::
  "Requirement list \<Rightarrow> strmap \<Rightarrow> LabelSelectorRequirement list \<Rightarrow> (string \<times> string list) list
   \<Rightarrow> goerror + strmap \<times> LabelSelectorRequirement list \<times> (string \<times> string list) list" where
  "parse_requirements [] ml me ne = Inr (ml, me, ne)"
| "parse_requirements (req # reqs) ml me ne =
     (let key = rq_Key req; values = rq_Values req in
      case rq_Operator req of
        SelEquals \<Rightarrow>
          if length values = 1 then
            (case mget ml key of
               Some existing \<Rightarrow>
                 if existing \<noteq> values ! 0 then
                   Inl (Errorf (''invalid selector: label '' @ key @
                     '' cannot have multiple equality requirements with different values ('' @
                     existing @ '' and '' @ (values ! 0) @ '')''))
                 else parse_requirements reqs (mset_key ml key (values ! 0)) me ne
             | None \<Rightarrow> parse_requirements reqs (mset_key ml key (values ! 0)) me ne)
          else parse_requirements reqs ml (me @ [expr key ''In'' values]) ne
      | SelNotEquals \<Rightarrow>
          if length values \<noteq> 1 then
            Inl (Errorf ''invalid selector: != operator requires exactly one value'')
          else parse_requirements reqs ml me
                 (mset_key ne key ((case mget ne key of None \<Rightarrow> [] | Some vs \<Rightarrow> vs) @ [values ! 0]))
      | SelIn \<Rightarrow> parse_requirements reqs ml (me @ [expr key ''In'' values]) ne
      | SelNotIn \<Rightarrow> parse_requirements reqs ml (me @ [expr key ''NotIn'' values]) ne
      | SelExists \<Rightarrow> parse_requirements reqs ml (me @ [expr key ''Exists'' []]) ne
      | SelDoesNotExist \<Rightarrow> parse_requirements reqs ml (me @ [expr key ''DoesNotExist'' []]) ne
      | _ \<Rightarrow> Inl (Errorf ''unsupported label selector operator''))"

definition ParseLabelSelector :: "ext \<Rightarrow> string \<Rightarrow> goerror + LabelSelector" where
  "ParseLabelSelector x selectorStr =
     (case x_labels_Parse x selectorStr of
        Inl err \<Rightarrow> Inl (WrapError ''failed to parse label selector'' err)
      | Inr parsed \<Rightarrow>
          (let (requirements, selectable) = x_Requirements x parsed in
           if \<not> selectable then Inr zero_LabelSelector
           else case parse_requirements requirements [] [] [] of
                  Inl err \<Rightarrow> Inl err
                | Inr (ml, me, ne) \<Rightarrow>
                    Inr \<lparr>ls_MatchLabels = ml,
                         ls_MatchExpressions =
                           me @ map (\<lambda>(key, vals). expr key ''NotIn'' vals) (x_rangeNotEquals x ne)\<rparr>))"

text \<open>
  The meaning of requirements on a set of labels, as Kubernetes documents it: for the parsed
  requirements and for the two parts of a \<open>metav1.LabelSelector\<close>.
\<close>

definition label_in :: "strmap \<Rightarrow> string \<Rightarrow> string list \<Rightarrow> bool" where
  "label_in labels key values = (case mget labels key of None \<Rightarrow> False | Some v \<Rightarrow> v \<in> set values)"

lemma label_in_iff: "label_in labels key values \<longleftrightarrow> (\<exists>v. mget labels key = Some v \<and> v \<in> set values)"
  by (simp add: label_in_def split: option.splits)

fun requirement_holds :: "strmap \<Rightarrow> Requirement \<Rightarrow> bool" where
  "requirement_holds labels r =
     (case rq_Operator r of
        SelEquals \<Rightarrow> label_in labels (rq_Key r) (rq_Values r)
      | SelDoubleEquals \<Rightarrow> label_in labels (rq_Key r) (rq_Values r)
      | SelIn \<Rightarrow> label_in labels (rq_Key r) (rq_Values r)
      | SelNotEquals \<Rightarrow> \<not> label_in labels (rq_Key r) (rq_Values r)
      | SelNotIn \<Rightarrow> \<not> label_in labels (rq_Key r) (rq_Values r)
      | SelExists \<Rightarrow> mget labels (rq_Key r) \<noteq> None
      | SelDoesNotExist \<Rightarrow> mget labels (rq_Key r) = None
      | _ \<Rightarrow> False)"

definition expression_holds :: "strmap \<Rightarrow> LabelSelectorRequirement \<Rightarrow> bool" where
  "expression_holds labels r \<longleftrightarrow>
     (if lr_Operator r = ''In'' then label_in labels (lr_Key r) (lr_Values r)
      else if lr_Operator r = ''NotIn'' then \<not> label_in labels (lr_Key r) (lr_Values r)
      else if lr_Operator r = ''Exists'' then mget labels (lr_Key r) \<noteq> None
      else if lr_Operator r = ''DoesNotExist'' then mget labels (lr_Key r) = None
      else False)"

definition label_selector_holds :: "strmap \<Rightarrow> LabelSelector \<Rightarrow> bool" where
  "label_selector_holds labels ls \<longleftrightarrow>
     (\<forall>k v. mget (ls_MatchLabels ls) k = Some v \<longrightarrow> mget labels k = Some v) \<and>
     (\<forall>r\<in>set (ls_MatchExpressions ls). expression_holds labels r)"

text \<open>The invariant of the loop: what the accumulated state asks of a set of labels.\<close>

definition acc_holds ::
  "strmap \<Rightarrow> strmap \<Rightarrow> LabelSelectorRequirement list \<Rightarrow> (string \<times> string list) list \<Rightarrow> bool" where
  "acc_holds labels ml me ne \<longleftrightarrow>
     (\<forall>k v. mget ml k = Some v \<longrightarrow> mget labels k = Some v) \<and>
     (\<forall>r\<in>set me. expression_holds labels r) \<and>
     (\<forall>k vs. mget ne k = Some vs \<longrightarrow> \<not> label_in labels k vs)"

lemma expression_holds_simps [simp]:
  "expression_holds labels (expr k ''In'' vs) = label_in labels k vs"
  "expression_holds labels (expr k ''NotIn'' vs) = (\<not> label_in labels k vs)"
  "expression_holds labels (expr k ''Exists'' vs) = (mget labels k \<noteq> None)"
  "expression_holds labels (expr k ''DoesNotExist'' vs) = (mget labels k = None)"
  by (simp_all add: expression_holds_def expr_def)

lemma label_in_append: "label_in labels k (vs @ ws) \<longleftrightarrow> label_in labels k vs \<or> label_in labels k ws"
  by (auto simp: label_in_iff)

lemma label_in_single [simp]: "label_in labels k [v] \<longleftrightarrow> mget labels k = Some v"
  by (auto simp: label_in_iff)

lemma label_in_Nil [simp]: "\<not> label_in labels k []"
  by (simp add: label_in_iff)

lemma all_update:
  "(\<forall>a b. mget (mset_key m k v) a = Some b \<longrightarrow> P a b) \<longleftrightarrow>
   P k v \<and> (\<forall>a b. a \<noteq> k \<longrightarrow> mget m a = Some b \<longrightarrow> P a b)"
  by (auto simp: update_conv')

lemma all_update_split:
  assumes "\<And>w. mget m k = Some w \<Longrightarrow> P k v \<longleftrightarrow> P k w \<and> Q" "mget m k = None \<Longrightarrow> P k v \<longleftrightarrow> Q"
  shows "(\<forall>a b. mget (mset_key m k v) a = Some b \<longrightarrow> P a b) \<longleftrightarrow>
    Q \<and> (\<forall>a b. mget m a = Some b \<longrightarrow> P a b)"
proof -
  have "(\<forall>a b. mget m a = Some b \<longrightarrow> P a b) \<longleftrightarrow>
      (\<forall>w. mget m k = Some w \<longrightarrow> P k w) \<and> (\<forall>a b. a \<noteq> k \<longrightarrow> mget m a = Some b \<longrightarrow> P a b)"
    by metis
  then show ?thesis unfolding all_update using assms by (cases "mget m k") (simp_all add: conj_ac)
qed

lemma acc_holds_ml:
  assumes "mget ml k = None \<or> mget ml k = Some v"
  shows "acc_holds labels (mset_key ml k v) me ne \<longleftrightarrow> mget labels k = Some v \<and> acc_holds labels ml me ne"
  using assms all_update_split [of ml k "\<lambda>k v. mget labels k = Some v" v "mget labels k = Some v"]
  by (auto simp: acc_holds_def)

lemma acc_holds_me:
  "acc_holds labels ml (me @ [r]) ne \<longleftrightarrow> expression_holds labels r \<and> acc_holds labels ml me ne"
  by (auto simp: acc_holds_def)

lemma acc_holds_ne:
  "acc_holds labels ml me (mset_key ne k ((case mget ne k of None \<Rightarrow> [] | Some vs \<Rightarrow> vs) @ [v])) \<longleftrightarrow>
   mget labels k \<noteq> Some v \<and> acc_holds labels ml me ne"
  using all_update_split [of ne k "\<lambda>k vs. \<not> label_in labels k vs"
      "(case mget ne k of None \<Rightarrow> [] | Some vs \<Rightarrow> vs) @ [v]" "mget labels k \<noteq> Some v"]
  by (auto simp: acc_holds_def label_in_append)

lemma singleton_nth: "length xs = Suc 0 \<Longrightarrow> [xs ! 0] = xs"
  by (cases xs) auto

lemma parse_requirements_holds:
  "parse_requirements reqs ml me ne = Inr (ml', me', ne') \<Longrightarrow>
   acc_holds labels ml' me' ne' \<longleftrightarrow> (\<forall>r\<in>set reqs. requirement_holds labels r) \<and> acc_holds labels ml me ne"
proof (induction reqs arbitrary: ml me ne)
  case Nil
  then show ?case by simp
next
  case (Cons r reqs)
  have single: "label_in labels k vs \<longleftrightarrow> mget labels k = Some (vs ! 0)" if "length vs = Suc 0" for k vs
    using that by (cases vs) auto
  show ?case
  proof (cases "rq_Operator r")
    case SelEquals
    with Cons.prems show ?thesis
      by (cases "length (rq_Values r) = 1"; cases "mget ml (rq_Key r)")
        (auto simp: Let_def single acc_holds_ml acc_holds_me split: if_splits dest!: Cons.IH)
  next
    case SelNotEquals
    with Cons.prems show ?thesis
      by (auto simp: Let_def single acc_holds_ne split: if_splits dest!: Cons.IH)
  qed (use Cons.prems in \<open>auto simp: Let_def acc_holds_me dest!: Cons.IH\<close>)
qed

lemma parse_requirements_go_map_gen:
  "parse_requirements reqs ml me ne = Inr (ml', me', ne') \<Longrightarrow> go_map ml \<Longrightarrow> go_map ne
   \<Longrightarrow> go_map ml' \<and> go_map ne'"
  by (induction reqs arbitrary: ml me ne)
    (auto simp: Let_def split: selection_Operator.splits if_splits option.splits)

lemma parse_requirements_go_map:
  "parse_requirements reqs [] [] [] = Inr (ml, me, ne) \<Longrightarrow> go_map ml \<and> go_map ne"
  by (rule parse_requirements_go_map_gen) auto

lemma ParseLabelSelector_holds:
  assumes parse: "x_labels_Parse x s = Inr parsed" "x_Requirements x parsed = (reqs, True)"
    and range: "\<And>m. set (x_rangeNotEquals x m) = set m"
    and res: "ParseLabelSelector x s = Inr ls"
  shows "label_selector_holds labels ls \<longleftrightarrow> (\<forall>r\<in>set reqs. requirement_holds labels r)"
proof -
  from assms obtain ml me ne where pr: "parse_requirements reqs [] [] [] = Inr (ml, me, ne)"
    and ls: "ls = \<lparr>ls_MatchLabels = ml, ls_MatchExpressions =
      me @ map (\<lambda>(key, vals). expr key ''NotIn'' vals) (x_rangeNotEquals x ne)\<rparr>"
    by (auto simp: ParseLabelSelector_def split: sum.splits)
  have "(\<forall>(k, vs)\<in>set ne. \<not> label_in labels k vs) \<longleftrightarrow> (\<forall>k vs. mget ne k = Some vs \<longrightarrow> \<not> label_in labels k vs)"
    using parse_requirements_go_map [OF pr] by (auto simp: go_map_def dest: map_of_SomeD)
  moreover have "(\<forall>r\<in>set (ls_MatchExpressions ls). expression_holds labels r) \<longleftrightarrow>
      (\<forall>r\<in>set me. expression_holds labels r) \<and> (\<forall>(k, vs)\<in>set ne. \<not> label_in labels k vs)"
    by (force simp: ls range ball_Un)
  ultimately have "label_selector_holds labels ls \<longleftrightarrow> acc_holds labels ml me ne"
    by (simp add: label_selector_holds_def acc_holds_def ls)
  also have "\<dots> \<longleftrightarrow> (\<forall>r\<in>set reqs. requirement_holds labels r) \<and> acc_holds labels [] [] []"
    by (rule parse_requirements_holds [OF pr])
  finally show ?thesis by (simp add: acc_holds_def)
qed

section \<open>Protobuf conversions\<close>

record pbCondition =
  pc_Type :: string
  pc_Status :: string
  pc_ObservedGeneration :: int
  pc_LastTransitionTime :: "int \<times> int"
  pc_Reason :: string
  pc_Message :: string

record cpbLease =
  pl_Name :: string
  pl_Selector :: string
  pl_Duration :: "pbDuration option"
  pl_EffectiveDuration :: "pbDuration option"
  pl_BeginTime :: "pbTimestamp option"
  pl_EffectiveBeginTime :: "pbTimestamp option"
  pl_EndTime :: "pbTimestamp option"
  pl_EffectiveEndTime :: "pbTimestamp option"
  pl_Client :: "string option"
  pl_Exporter :: "string option"
  pl_Conditions :: "pbCondition list"

record cpbListLeasesResponse =
  llr_Leases :: "cpbLease list"
  llr_NextPageToken :: string

definition LeaseFromProtobuf ::
  "ext \<Rightarrow> cpbLease \<Rightarrow> NamespacedName \<Rightarrow> string \<Rightarrow> goerror + Lease" where
  "LeaseFromProtobuf x req key clientRef =
     (case ParseLabelSelector x (pl_Selector req) of
        Inl err \<Rightarrow> Inl err
      | Inr selector \<Rightarrow>
          (case ReconcileLeaseTimeFields (map_option (x_AsTime x) (pl_BeginTime req))
                  (map_option (x_AsTime x) (pl_EndTime req)) (map_option (x_AsDuration x) (pl_Duration req)) of
             (Some err, _, _, _) \<Rightarrow> Inl err
           | (None, beginTime, endTime, dur) \<Rightarrow>
               Inr \<lparr>l_Meta = zero_ObjectMeta\<lparr>om_Namespace := nn_Namespace key, om_Name := nn_Name key\<rparr>,
                    l_Spec = \<lparr>sp_ClientRef = clientRef, sp_Duration = dur, sp_Selector = selector,
                              sp_Release = False, sp_BeginTime = beginTime, sp_EndTime = endTime\<rparr>,
                    l_Status = zero_LeaseStatus\<rparr>))"

fun condition_status_string :: "ConditionStatus \<Rightarrow> string" where
  "condition_status_string ConditionTrue = ''True''"
| "condition_status_string ConditionFalse = ''False''"
| "condition_status_string ConditionUnknown = ''Unknown''"

definition condition_ToProtobuf :: "ext \<Rightarrow> Condition \<Rightarrow> pbCondition" where
  "condition_ToProtobuf x c =
     \<lparr>pc_Type = c_Type c, pc_Status = condition_status_string (c_Status c),
      pc_ObservedGeneration = c_ObservedGeneration c,
      pc_LastTransitionTime = x_ProtoTime x (c_LastTransitionTime c),
      pc_Reason = c_Reason c, pc_Message = c_Message c\<rparr>"

text \<open>\<open>now\<close> is the reading of \<open>time.Now\<close> that the running duration is measured against.\<close>

definition Lease_ToProtobuf :: "ext \<Rightarrow> time \<Rightarrow> Lease \<Rightarrow> cpbLease" where
  "Lease_ToProtobuf x now l =
     (let ns = om_Namespace (l_Meta l); spec = l_Spec l; status = l_Status l in
      \<lparr>pl_Name = ''namespaces/'' @ ns @ ''/leases/'' @ om_Name (l_Meta l),
       pl_Selector = x_FormatLabelSelector x (sp_Selector spec),
       pl_Duration = map_option (x_durationpb_New x) (sp_Duration spec),
       pl_EffectiveDuration =
         (case st_BeginTime status of
            None \<Rightarrow> None
          | Some b \<Rightarrow>
              (let endTime = (case st_EndTime status of None \<Rightarrow> now | Some e \<Rightarrow> e)
               in Some (x_durationpb_New x (max (time_Sub endTime b) 0)))),
       pl_BeginTime = map_option (x_timestamppb_New x) (sp_BeginTime spec),
       pl_EffectiveBeginTime = map_option (x_timestamppb_New x) (st_BeginTime status),
       pl_EndTime = map_option (x_timestamppb_New x) (sp_EndTime spec),
       pl_EffectiveEndTime =
         (case st_BeginTime status of
            None \<Rightarrow> None
          | Some _ \<Rightarrow> map_option (x_timestamppb_New x) (st_EndTime status)),
       pl_Client = Some (''namespaces/'' @ ns @ ''/clients/'' @ sp_ClientRef spec),
       pl_Exporter = map_option (\<lambda>n. UnparseExporterIdentifier \<lparr>nn_Namespace = ns, nn_Name = n\<rparr>)
                       (st_ExporterRef status),
       pl_Conditions = map (condition_ToProtobuf x) (st_Conditions status)\<rparr>)"

text \<open>One clock reading per lease of the list, in order.\<close>

definition LeaseList_ToProtobuf :: "ext \<Rightarrow> (nat \<Rightarrow> time) \<Rightarrow> Lease list \<Rightarrow> string \<Rightarrow> cpbListLeasesResponse" where
  "LeaseList_ToProtobuf x clock items continue =
     \<lparr>llr_Leases = map (\<lambda>i. Lease_ToProtobuf x (clock i) (items ! i)) [0..<length items],
      llr_NextPageToken = continue\<rparr>"

definition GetExporterSelector :: "ext \<Rightarrow> Lease \<Rightarrow> goerror + selector" where
  "GetExporterSelector x l = x_LabelSelectorAsSelector x (sp_Selector (l_Spec l))"

section \<open>Status\<close>

definition Lease_SetStatusCondition ::
  "ext \<Rightarrow> time \<Rightarrow> string \<Rightarrow> bool \<Rightarrow> string \<Rightarrow> string \<Rightarrow> Lease \<Rightarrow> Lease" where
  "Lease_SetStatusCondition x now condition status reason message l =
     l\<lparr>l_Status := (l_Status l)\<lparr>st_Conditions :=
         x_SetStatusCondition x (st_Conditions (l_Status l))
           \<lparr>c_Type = condition, c_Status = (if status then ConditionTrue else ConditionFalse),
            c_ObservedGeneration = om_Generation (l_Meta l), c_LastTransitionTime = now,
            c_Reason = reason, c_Message = message\<rparr>\<rparr>\<rparr>"

definition SetStatusPending :: "ext \<Rightarrow> time \<Rightarrow> string \<Rightarrow> string \<Rightarrow> Lease \<Rightarrow> Lease" where
  "SetStatusPending x now reason message =
     Lease_SetStatusCondition x now LeaseConditionTypePending True reason message"

definition SetStatusReady :: "ext \<Rightarrow> time \<Rightarrow> bool \<Rightarrow> string \<Rightarrow> string \<Rightarrow> Lease \<Rightarrow> Lease" where
  "SetStatusReady x now status reason message =
     Lease_SetStatusCondition x now LeaseConditionTypeReady status reason message"

definition SetStatusUnsatisfiable :: "ext \<Rightarrow> time \<Rightarrow> string \<Rightarrow> string \<Rightarrow> Lease \<Rightarrow> Lease" where
  "SetStatusUnsatisfiable x now reason message =
     Lease_SetStatusCondition x now LeaseConditionTypeUnsatisfiable True reason message"

definition SetStatusInvalid :: "ext \<Rightarrow> time \<Rightarrow> string \<Rightarrow> string \<Rightarrow> Lease \<Rightarrow> Lease" where
  "SetStatusInvalid x now reason message =
     Lease_SetStatusCondition x now LeaseConditionTypeInvalid True reason message"

definition GetExporterName :: "Lease \<Rightarrow> string" where
  "GetExporterName l = (case st_ExporterRef (l_Status l) of None \<Rightarrow> ''(none)'' | Some n \<Rightarrow> n)"

definition GetClientName :: "Lease \<Rightarrow> string" where
  "GetClientName l = sp_ClientRef (l_Spec l)"

text \<open>\<open>nowc\<close> is read inside \<open>SetStatusCondition\<close>, \<open>now\<close> for the end time.\<close>

definition Release :: "ext \<Rightarrow> time \<Rightarrow> time \<Rightarrow> Lease \<Rightarrow> Lease" where
  "Release x nowc now l =
     (let l = SetStatusReady x nowc False ''Released'' ''The lease was marked for release'' l
      in l\<lparr>l_Status := (l_Status l)\<lparr>st_Ended := True, st_EndTime := Some now\<rparr>\<rparr>)"

definition Expire :: "ext \<Rightarrow> time \<Rightarrow> time \<Rightarrow> Lease \<Rightarrow> Lease" where
  "Expire x nowc now l =
     (let l = SetStatusReady x nowc False ''Expired'' ''The lease has expired'' l
      in l\<lparr>l_Status := (l_Status l)\<lparr>st_Ended := True, st_EndTime := Some now\<rparr>\<rparr>)"

abbreviation cond_true :: "ext \<Rightarrow> Lease \<Rightarrow> string \<Rightarrow> bool" where
  "cond_true x l t \<equiv> x_IsStatusConditionTrue x (st_Conditions (l_Status l)) t"

text \<open>What setting a condition keeps, and what it makes true.\<close>

named_theorems lease_frame \<open>fields of a lease that an operation leaves alone\<close>

lemma Lease_SetStatusCondition_frame [simp, lease_frame]:
  "l_Meta (Lease_SetStatusCondition x now c s r m l) = l_Meta l"
  "l_Spec (Lease_SetStatusCondition x now c s r m l) = l_Spec l"
  "st_BeginTime (l_Status (Lease_SetStatusCondition x now c s r m l)) = st_BeginTime (l_Status l)"
  "st_EndTime (l_Status (Lease_SetStatusCondition x now c s r m l)) = st_EndTime (l_Status l)"
  "st_ExporterRef (l_Status (Lease_SetStatusCondition x now c s r m l)) = st_ExporterRef (l_Status l)"
  "st_Ended (l_Status (Lease_SetStatusCondition x now c s r m l)) = st_Ended (l_Status l)"
  "st_Priority (l_Status (Lease_SetStatusCondition x now c s r m l)) = st_Priority (l_Status l)"
  "st_SpotAccess (l_Status (Lease_SetStatusCondition x now c s r m l)) = st_SpotAccess (l_Status l)"
  by (simp_all add: Lease_SetStatusCondition_def)

lemma Lease_SetStatusCondition_true:
  assumes "conditions_ok x"
  shows "cond_true x (Lease_SetStatusCondition x now c s r m l) t =
    (if t = c then s else cond_true x l t)"
  using assms by (auto simp: Lease_SetStatusCondition_def conditions_ok_same conditions_ok_other)

lemmas set_status_defs = SetStatusPending_def SetStatusReady_def SetStatusUnsatisfiable_def
  SetStatusInvalid_def

end
