(* ===== verification/InMemory.thy ===== *)
theory InMemory
  imports LeaseHelpers
begin

text \<open>
  A concrete API server and concrete library functions, which show that the hypotheses the
  theorems make of code outside the repository can be met, and on which the model is
  evaluated. \<open>mem_kube\<close> keeps the objects of a cluster in lists; writes check the
  resource version and change it, a status write leaves metadata and spec alone and any
  other write leaves the status alone, as the status subresource works.
\<close>

section \<open>Library functions\<close>

definition mem_IsStatusConditionTrue :: "Condition list \<Rightarrow> string \<Rightarrow> bool" where
  "mem_IsStatusConditionTrue cs t =
     (case find (\<lambda>c. c_Type c = t) cs of None \<Rightarrow> False | Some c \<Rightarrow> c_Status c = ConditionTrue)"

fun mem_SetStatusCondition :: "Condition list \<Rightarrow> Condition \<Rightarrow> Condition list" where
  "mem_SetStatusCondition [] c = [c]"
| "mem_SetStatusCondition (d # ds) c =
     (if c_Type d = c_Type c then
        (if c_Status d = c_Status c then c\<lparr>c_LastTransitionTime := c_LastTransitionTime d\<rparr> else c) # ds
      else d # mem_SetStatusCondition ds c)"

definition mem_expression :: "LabelSelectorRequirement \<Rightarrow> goerror + Requirement list" where
  "mem_expression r =
     (let mk = (\<lambda>op. Inr [\<lparr>rq_Key = lr_Key r, rq_Operator = op, rq_Values = lr_Values r\<rparr>]) in
      if lr_Operator r = ''In'' then mk SelIn
      else if lr_Operator r = ''NotIn'' then mk SelNotIn
      else if lr_Operator r = ''Exists'' then mk SelExists
      else if lr_Operator r = ''DoesNotExist'' then mk SelDoesNotExist
      else Inl (Errorf ''not a valid label selector operator''))"

definition mem_LabelSelectorAsSelector :: "LabelSelector \<Rightarrow> goerror + selector" where
  "mem_LabelSelectorAsSelector ls =
     (case collect mem_expression (ls_MatchExpressions ls) of
        Inl e \<Rightarrow> Inl e
      | Inr rs \<Rightarrow> Inr (map (\<lambda>(k, v). \<lparr>rq_Key = k, rq_Operator = SelEquals, rq_Values = [v]\<rparr>)
                       (ls_MatchLabels ls) @ rs))"

text \<open>Selector texts of the forms \<open>key\<close>, \<open>key=value\<close>, \<open>key!=value\<close>, joined with commas.\<close>

definition mem_parse_term :: "string \<Rightarrow> goerror + Requirement list" where
  "mem_parse_term t =
     (case strings_Split t CHR ''='' of
        [k] \<Rightarrow> Inr [\<lparr>rq_Key = k, rq_Operator = SelExists, rq_Values = []\<rparr>]
      | [k, v] \<Rightarrow>
          if k \<noteq> [] \<and> last k = CHR ''!''
          then Inr [\<lparr>rq_Key = butlast k, rq_Operator = SelNotEquals, rq_Values = [v]\<rparr>]
          else Inr [\<lparr>rq_Key = k, rq_Operator = SelEquals, rq_Values = [v]\<rparr>]
      | [k, [], v] \<Rightarrow> Inr [\<lparr>rq_Key = k, rq_Operator = SelDoubleEquals, rq_Values = [v]\<rparr>]
      | _ \<Rightarrow> Inl (Errorf ''unable to parse requirement''))"

definition mem_labels_Parse :: "string \<Rightarrow> goerror + selector" where
  "mem_labels_Parse s = (if s = [] then Inr [] else collect mem_parse_term (strings_Split s CHR '',''))"

definition mem_SetControllerReference :: "ObjectMeta \<Rightarrow> ObjectMeta \<Rightarrow> goerror + ObjectMeta" where
  "mem_SetControllerReference own m =
     (if om_OwnerReferences m = [] \<or> om_OwnerReferences m = [om_UID own]
      then Inr (m\<lparr>om_OwnerReferences := [om_UID own]\<rparr>)
      else Inl (Errorf ''already owned by another controller''))"

abbreviation ns_pair :: "int \<Rightarrow> int \<times> int" where
  "ns_pair t \<equiv> (t div Second, t mod Second)"

definition mem_ext :: ext where
  "mem_ext = \<lparr>x_IsStatusConditionTrue = mem_IsStatusConditionTrue,
     x_SetStatusCondition = mem_SetStatusCondition,
     x_LabelSelectorAsSelector = mem_LabelSelectorAsSelector,
     x_Empty = (\<lambda>sel. sel = []),
     x_Matches = (\<lambda>sel labels. list_all (requirement_holds labels) sel),
     x_labels_Parse = mem_labels_Parse,
     x_Requirements = (\<lambda>sel. (sel, True)),
     x_FormatLabelSelector = (\<lambda>ls. strings_Join (map (\<lambda>(k, v). k @ ''='' @ v) (ls_MatchLabels ls)) '',''),
     x_SetControllerReference = mem_SetControllerReference,
     x_timestamppb_New = ns_pair, x_AsTime = (\<lambda>(a, b). a * Second + b),
     x_durationpb_New = ns_pair, x_AsDuration = (\<lambda>(a, b). max minInt64 (min maxInt64 (a * Second + b))),
     x_ProtoTime = ns_pair, x_rangeNotEquals = (\<lambda>m. m)\<rparr>"

lemma mem_conditions:
  "mem_IsStatusConditionTrue (mem_SetStatusCondition cs c) t =
     (if t = c_Type c then c_Status c = ConditionTrue else mem_IsStatusConditionTrue cs t)"
  by (induction cs) (auto simp: mem_IsStatusConditionTrue_def)

lemma mem_ext_simps [simp]:
  "x_IsStatusConditionTrue mem_ext = mem_IsStatusConditionTrue"
  "x_SetStatusCondition mem_ext = mem_SetStatusCondition"
  "x_LabelSelectorAsSelector mem_ext = mem_LabelSelectorAsSelector"
  "x_Empty mem_ext sel = (sel = [])"
  "x_Matches mem_ext sel labels = list_all (requirement_holds labels) sel"
  "x_labels_Parse mem_ext = mem_labels_Parse"
  "x_Requirements mem_ext sel = (sel, True)"
  "x_SetControllerReference mem_ext = mem_SetControllerReference"
  "x_rangeNotEquals mem_ext m = m"
  by (simp_all add: mem_ext_def)

lemma mem_ext_conditions_ok [simp]: "conditions_ok mem_ext"
  by (simp add: conditions_ok_def mem_ext_def mem_conditions)

lemma mem_ext_ctrlref_ok [simp]: "ctrlref_ok mem_ext"
  by (auto simp: ctrlref_ok_def mem_ext_def mem_SetControllerReference_def split: if_splits)

lemma mem_ext_pbtime_ok [simp]: "pbtime_ok mem_ext"
  by (simp add: pbtime_ok_def mem_ext_def is_int64_def)

section \<open>The API server\<close>

record cluster =
  cu_Leases :: "Lease list"
  cu_Exporters :: "Exporter list"
  cu_Clients :: "Client list"
  cu_Policies :: "ExporterAccessPolicy list"
  cu_Secrets :: "Secret list"

definition empty_cluster :: cluster where
  "empty_cluster = \<lparr>cu_Leases = [], cu_Exporters = [], cu_Clients = [], cu_Policies = [], cu_Secrets = []\<rparr>"

definition keyed :: "('a \<Rightarrow> ObjectMeta) \<Rightarrow> NamespacedName \<Rightarrow> 'a \<Rightarrow> bool" where
  "keyed meta n a \<longleftrightarrow> om_Namespace (meta a) = nn_Namespace n \<and> om_Name (meta a) = nn_Name n"

definition key_of :: "ObjectMeta \<Rightarrow> NamespacedName" where
  "key_of m = \<lparr>nn_Namespace = om_Namespace m, nn_Name = om_Name m\<rparr>"

definition mem_get :: "('a \<Rightarrow> ObjectMeta) \<Rightarrow> 'a list \<Rightarrow> NamespacedName \<Rightarrow> goerror + 'a" where
  "mem_get meta xs n =
     (case find (keyed meta n) xs of None \<Rightarrow> Inl (ApiError NotFound) | Some a \<Rightarrow> Inr a)"

text \<open>A list option replaces an earlier one of its kind: the last selector given is the one applied.\<close>

fun mem_options :: "listOption list \<Rightarrow> string option \<times> selector \<Rightarrow> string option \<times> selector" where
  "mem_options [] acc = acc"
| "mem_options (InNamespace ns # os) (_, sel) = mem_options os (Some ns, sel)"
| "mem_options (MatchingLabelsSelector sel # os) (ns, _) = mem_options os (ns, sel)"
| "mem_options (Limit _ # os) acc = mem_options os acc"
| "mem_options (Continue _ # os) acc = mem_options os acc"

definition mem_selected :: "string option \<times> selector \<Rightarrow> ObjectMeta \<Rightarrow> bool" where
  "mem_selected acc m \<longleftrightarrow> (case fst acc of None \<Rightarrow> True | Some ns \<Rightarrow> om_Namespace m = ns) \<and>
     list_all (requirement_holds (om_Labels m)) (snd acc)"

definition mem_list :: "('a \<Rightarrow> ObjectMeta) \<Rightarrow> 'a list \<Rightarrow> listOption list \<Rightarrow> goerror + 'a list \<times> string" where
  "mem_list meta xs opts = Inr (filter (\<lambda>a. mem_selected (mem_options opts (None, [])) (meta a)) xs, [])"

text \<open>
  A write of \<open>a\<close> over the stored object \<open>b\<close> with the same key: \<open>merge b a\<close> is stored,
  under the next resource version.
\<close>

definition bump :: "ObjectMeta \<Rightarrow> ObjectMeta" where
  "bump m = m\<lparr>om_ResourceVersion := CHR ''v'' # om_ResourceVersion m\<rparr>"

definition mem_write ::
  "('a \<Rightarrow> ObjectMeta) \<Rightarrow> ('a \<Rightarrow> 'a \<Rightarrow> 'a) \<Rightarrow> 'a list \<Rightarrow> 'a \<Rightarrow> goerror + 'a \<times> 'a list" where
  "mem_write meta merge xs a =
     (case find (keyed meta (key_of (meta a))) xs of
        None \<Rightarrow> Inl (ApiError NotFound)
      | Some b \<Rightarrow>
          if om_ResourceVersion (meta a) \<noteq> om_ResourceVersion (meta b) then Inl (ApiError Conflict)
          else Inr (merge b a,
                 map (\<lambda>z. if keyed meta (key_of (meta a)) z then merge b a else z) xs))"

definition mem_create ::
  "('a \<Rightarrow> ObjectMeta) \<Rightarrow> ('a \<Rightarrow> 'a) \<Rightarrow> 'a list \<Rightarrow> 'a \<Rightarrow> goerror + 'a \<times> 'a list" where
  "mem_create meta init xs a =
     (case find (keyed meta (key_of (meta a))) xs of
        Some _ \<Rightarrow> Inl (ApiError AlreadyExists)
      | None \<Rightarrow> Inr (init a, xs @ [init a]))"

definition mem_put :: "('c \<Rightarrow> 'a list \<Rightarrow> 'c) \<Rightarrow> 'c \<Rightarrow> goerror + 'a \<times> 'a list \<Rightarrow> (goerror + 'a) \<times> 'c" where
  "mem_put upd c r = (case r of Inl e \<Rightarrow> (Inl e, c) | Inr (a, xs) \<Rightarrow> (Inr a, upd c xs))"

abbreviation put_leases :: "cluster \<Rightarrow> Lease list \<Rightarrow> cluster" where
  "put_leases c ls \<equiv> c\<lparr>cu_Leases := ls\<rparr>"

abbreviation lease_main :: "Lease \<Rightarrow> Lease \<Rightarrow> Lease" where
  "lease_main old new \<equiv> new\<lparr>l_Meta := bump (l_Meta new), l_Status := l_Status old\<rparr>"

abbreviation lease_status :: "Lease \<Rightarrow> Lease \<Rightarrow> Lease" where
  "lease_status old new \<equiv> old\<lparr>l_Meta := bump (l_Meta old), l_Status := l_Status new\<rparr>"

definition mem_kube :: "cluster kube" where
  "mem_kube = \<lparr>
     k_getLease = (\<lambda>c. mem_get l_Meta (cu_Leases c)),
     k_listLeases = (\<lambda>c. mem_list l_Meta (cu_Leases c)),
     k_createLease = (\<lambda>c l. mem_put put_leases c
        (mem_create l_Meta (\<lambda>l. l\<lparr>l_Status := zero_LeaseStatus\<rparr>) (cu_Leases c) l)),
     k_updateLease = (\<lambda>c l. mem_put put_leases c (mem_write l_Meta lease_main (cu_Leases c) l)),
     k_statusUpdateLease = (\<lambda>c l. mem_put put_leases c (mem_write l_Meta lease_status (cu_Leases c) l)),
     k_patchLease = (\<lambda>c l orig. mem_put put_leases c (mem_write l_Meta lease_main (cu_Leases c) l)),
     k_getExporter = (\<lambda>c. mem_get e_Meta (cu_Exporters c)),
     k_listExporters = (\<lambda>c. mem_list e_Meta (cu_Exporters c)),
     k_patchExporter = (\<lambda>c e orig. mem_put (\<lambda>c xs. c\<lparr>cu_Exporters := xs\<rparr>) c
        (mem_write e_Meta (\<lambda>old new. new\<lparr>e_Meta := bump (e_Meta new), e_Status := e_Status old\<rparr>)
          (cu_Exporters c) e)),
     k_statusPatchExporter = (\<lambda>c e orig. mem_put (\<lambda>c xs. c\<lparr>cu_Exporters := xs\<rparr>) c
        (mem_write e_Meta (\<lambda>old new. old\<lparr>e_Meta := bump (e_Meta old), e_Status := e_Status new\<rparr>)
          (cu_Exporters c) e)),
     k_getClient = (\<lambda>c. mem_get cl_Meta (cu_Clients c)),
     k_createClient = (\<lambda>c a. mem_put (\<lambda>c xs. c\<lparr>cu_Clients := xs\<rparr>) c
        (mem_create cl_Meta (\<lambda>a. a\<lparr>cl_Status := zero_ClientStatus\<rparr>) (cu_Clients c) a)),
     k_statusPatchClient = (\<lambda>c a orig. mem_put (\<lambda>c xs. c\<lparr>cu_Clients := xs\<rparr>) c
        (mem_write cl_Meta (\<lambda>old new. old\<lparr>cl_Meta := bump (cl_Meta old), cl_Status := cl_Status new\<rparr>)
          (cu_Clients c) a)),
     k_listPolicies = (\<lambda>c opts. map_sum id fst (mem_list ep_Meta (cu_Policies c) opts)),
     k_getSecret = (\<lambda>c. mem_get sec_Meta (cu_Secrets c)),
     k_createSecret = (\<lambda>c a. mem_put (\<lambda>c xs. c\<lparr>cu_Secrets := xs\<rparr>) c
        (mem_create sec_Meta (\<lambda>a. a) (cu_Secrets c) a)),
     k_patchSecret = (\<lambda>c a orig. mem_put (\<lambda>c xs. c\<lparr>cu_Secrets := xs\<rparr>) c
        (mem_write sec_Meta (\<lambda>old new. new\<lparr>sec_Meta := bump (sec_Meta new)\<rparr>) (cu_Secrets c) a))\<rparr>"

section \<open>Sample objects\<close>

definition sample_meta :: "string \<Rightarrow> strmap \<Rightarrow> ObjectMeta" where
  "sample_meta name labels = zero_ObjectMeta\<lparr>om_Namespace := ''lab'', om_Name := name,
     om_UID := ''uid-'' @ name, om_Labels := labels\<rparr>"

definition sample_condition :: "string \<Rightarrow> bool \<Rightarrow> Condition" where
  "sample_condition t v = \<lparr>c_Type = t, c_Status = (if v then ConditionTrue else ConditionFalse),
     c_ObservedGeneration = 0, c_LastTransitionTime = 0, c_Reason = [], c_Message = []\<rparr>"

definition sample_exporter :: "string \<Rightarrow> bool \<Rightarrow> Exporter" where
  "sample_exporter name up = zero_Exporter\<lparr>e_Meta := sample_meta name [(''board'', ''rpi'')],
     e_Status := zero_ExporterStatus\<lparr>es_Devices := Some [],
       es_Conditions := [sample_condition ExporterConditionTypeRegistered True,
         sample_condition ExporterConditionTypeOnline up]\<rparr>\<rparr>"

definition sample_client :: "string \<Rightarrow> Client" where
  "sample_client name = \<lparr>cl_Meta = sample_meta name [(''team'', name)], cl_Spec = \<lparr>csp_Username = None\<rparr>,
     cl_Status = zero_ClientStatus\<rparr>"

definition sample_selector :: "string \<Rightarrow> string \<Rightarrow> LabelSelector" where
  "sample_selector k v = \<lparr>ls_MatchLabels = [(k, v)], ls_MatchExpressions = []\<rparr>"

definition sample_policy :: "string \<Rightarrow> string \<Rightarrow> int \<Rightarrow> bool \<Rightarrow> duration option \<Rightarrow> ExporterAccessPolicy" where
  "sample_policy name team prio spot maxd =
     \<lparr>ep_Meta = sample_meta name [],
      ep_Spec = \<lparr>eps_ExporterSelector = sample_selector ''board'' ''rpi'',
        eps_Policies = [\<lparr>p_Priority = prio, p_From = [\<lparr>from_ClientSelector = sample_selector ''team'' team\<rparr>],
          p_MaximumDuration = maxd, p_SpotAccess = spot\<rparr>]\<rparr>\<rparr>"

definition sample_lease :: "string \<Rightarrow> string \<Rightarrow> duration option \<Rightarrow> Lease" where
  "sample_lease name client d =
     \<lparr>l_Meta = sample_meta name [],
      l_Spec = \<lparr>sp_ClientRef = client, sp_Duration = d, sp_Selector = sample_selector ''board'' ''rpi'',
        sp_Release = False, sp_BeginTime = None, sp_EndTime = None\<rparr>,
      l_Status = zero_LeaseStatus\<rparr>"

abbreviation held :: "string \<Rightarrow> time \<Rightarrow> Lease \<Rightarrow> Lease" where
  "held n b l \<equiv> l\<lparr>l_Status := (l_Status l)\<lparr>st_ExporterRef := Some n, st_BeginTime := Some b\<rparr>\<rparr>"

definition sample_cluster :: cluster where
  "sample_cluster = empty_cluster\<lparr>
     cu_Exporters := [sample_exporter ''rpi-b'' True, sample_exporter ''rpi-a'' True, sample_exporter ''rpi-0'' False],
     cu_Clients := [sample_client ''alice''],
     cu_Leases := [held ''rpi-a'' Second (sample_lease ''other'' ''bob'' (Some (100 * Second))),
       sample_lease ''mine'' ''alice'' (Some (60 * Second))]\<rparr>"

end
