(* ===== verification/LeaseResource.thy ===== *)
theory LeaseResource
  imports InMemory
begin

text \<open>
  What the helpers of the \<open>Lease\<close> resource (theory \<open>LeaseHelpers\<close>) achieve: time fields,
  selectors, conversion from and to protobuf; each with an instance evaluated on the
  in-memory libraries.
\<close>

section \<open>Properties\<close>

text \<open>
  C32: \<open>ReconcileLeaseTimeFields\<close> rejects exactly the triples that cannot be completed
  (no positive duration, an end not after the begin, a positive duration in conflict with
  begin and end). What it accepts comes out complete and consistent, with the given end and
  the given begin, and is left alone by a second run.
\<close>

theorem time_fields_reconciled:
  assumes "\<forall>v. d = Some v \<longrightarrow> is_int64 v"
  shows "case ReconcileLeaseTimeFields b e d of
      (Some err, b', e', d') \<Rightarrow> \<not> time_fields_accepted b e d
    | (None, b', e', d') \<Rightarrow> time_fields_accepted b e d \<and> time_fields_consistent b' e' d' \<and> e' = e \<and>
        (b = None \<or> b' = b) \<and> ReconcileLeaseTimeFields b' e' d' = (None, b', e', d')"
proof -
  obtain o' b' e' d' where r: "ReconcileLeaseTimeFields b e d = (o', b', e', d')"
    by (metis prod_cases4)
  show ?thesis
  proof (cases o')
    case None
    with r have r: "ReconcileLeaseTimeFields b e d = (None, b', e', d')" by simp
    note s = ReconcileLeaseTimeFields_sound [OF r assms]
    from r s(2,3) ReconcileLeaseTimeFields_fixpoint [OF s(1)] s(1) ReconcileLeaseTimeFields_ok_iff [of b e d]
    show ?thesis by auto
  next
    case (Some err)
    with r ReconcileLeaseTimeFields_ok_iff [of b e d] show ?thesis by simp
  qed
qed

theorem time_fields_reconciled_witness:
  "ReconcileLeaseTimeFields None (Some (100 * Second)) (Some Minute) = (None, Some (40 * Second), Some (100 * Second), Some Minute) \<and>
   time_fields_consistent (Some (40 * Second)) (Some (100 * Second)) (Some Minute)"
proof -
  have r: "ReconcileLeaseTimeFields None (Some (100 * Second)) (Some Minute) =
      (None, Some (40 * Second), Some (100 * Second), Some Minute)" by code_simp
  have "is_int64 Minute" by code_simp
  with time_fields_reconciled [of "Some Minute" None "Some (100 * Second)"] r show ?thesis by simp
qed

text \<open>
  C33: A set of labels satisfies the \<open>metav1.LabelSelector\<close> that \<open>ParseLabelSelector\<close>
  returns exactly when it satisfies every requirement of the selector text: collecting the
  equalities into \<open>matchLabels\<close> and the \<open>!=\<close> values of a key into one \<open>NotIn\<close>
  loses and adds nothing.
\<close>

theorem parsed_selector_equivalent:
  assumes "x_labels_Parse x s = Inr parsed" "x_Requirements x parsed = (reqs, True)"
    and "\<And>m. set (x_rangeNotEquals x m) = set m" and "ParseLabelSelector x s = Inr ls"
  shows "label_selector_holds labels ls \<longleftrightarrow> (\<forall>r\<in>set reqs. requirement_holds labels r)"
  by (rule ParseLabelSelector_holds [OF assms])

theorem parsed_selector_equivalent_witness:
  "\<exists>ls. ParseLabelSelector mem_ext ''a=1,b!=2,b!=3'' = Inr ls \<and> \<not> label_selector_holds [(''a'', ''1''), (''b'', ''3'')] ls"
proof -
  let ?reqs = "projr (mem_labels_Parse ''a=1,b!=2,b!=3'')"
  let ?ls = "projr (ParseLabelSelector mem_ext ''a=1,b!=2,b!=3'')"
  have "x_labels_Parse mem_ext ''a=1,b!=2,b!=3'' = Inr ?reqs" "ParseLabelSelector mem_ext ''a=1,b!=2,b!=3'' = Inr ?ls"
    "\<not> (\<forall>r\<in>set ?reqs. requirement_holds [(''a'', ''1''), (''b'', ''3'')] r)"
    by (code_simp, code_simp, code_simp)
  with parsed_selector_equivalent [of mem_ext "''a=1,b!=2,b!=3''" ?reqs ?reqs ?ls] show ?thesis by auto
qed

lemma parse_requirements_unsupported:
  "r \<in> set reqs \<Longrightarrow> rq_Operator r \<in> {SelDoubleEquals, SelGreaterThan, SelLessThan} \<Longrightarrow>
   \<exists>e. parse_requirements reqs ml me ne = Inl e"
proof (induction reqs arbitrary: ml me ne)
  case (Cons q reqs)
  then show ?case
    by (cases "q = r") (auto simp: Let_def split: selection_Operator.splits option.splits)
qed simp

text \<open>
  A selector text with the operator \<open>==\<close> (or \<open>>\<close>, \<open><\<close>) is an error, although it
  parses.
\<close>

theorem unsupported_operator_rejected:
  assumes "x_labels_Parse x s = Inr parsed" "x_Requirements x parsed = (reqs, True)"
    and "r \<in> set reqs" "rq_Operator r \<in> {SelDoubleEquals, SelGreaterThan, SelLessThan}"
  shows "\<exists>e. ParseLabelSelector x s = Inl e"
  using parse_requirements_unsupported [OF assms(3,4), of "[]" "[]" "[]"] assms(1,2)
  by (auto simp: ParseLabelSelector_def)

theorem unsupported_operator_rejected_witness: "\<exists>e. ParseLabelSelector mem_ext ''a==1'' = Inl e"
proof -
  let ?r = "\<lparr>rq_Key = ''a'', rq_Operator = SelDoubleEquals, rq_Values = [''1'']\<rparr>"
  have "mem_labels_Parse ''a==1'' = Inr [?r]" by code_simp
  with unsupported_operator_rejected [of mem_ext "''a==1''" "[?r]" "[?r]" ?r] show ?thesis by simp
qed

text \<open>
  What the library promises of printing the selector \<open>ls\<close>: its text parses, into
  requirements that are met exactly by the labels \<open>ls\<close> holds of, each an equality of
  \<open>matchLabels\<close> or one of the four operators of \<open>matchExpressions\<close>. It does so for every
  valid selector that is not empty; the empty one is printed as \<open><none>\<close>, which does not parse.
\<close>

definition selector_text_ok :: "ext \<Rightarrow> LabelSelector \<Rightarrow> bool" where
  "selector_text_ok x ls \<longleftrightarrow>
     (\<exists>parsed reqs. x_labels_Parse x (x_FormatLabelSelector x ls) = Inr parsed \<and> x_Requirements x parsed = (reqs, True) \<and>
        (\<forall>labels. label_selector_holds labels ls \<longleftrightarrow> (\<forall>r\<in>set reqs. requirement_holds labels r)) \<and>
        (\<forall>r\<in>set reqs. rq_Operator r \<in> {SelIn, SelNotIn, SelExists, SelDoesNotExist} \<or>
           rq_Operator r = SelEquals \<and> (\<exists>v. rq_Values r = [v] \<and> mget (ls_MatchLabels ls) (rq_Key r) = Some v)))"

lemma parse_requirements_accepts:
  assumes "\<forall>r\<in>set reqs. rq_Operator r \<in> {SelIn, SelNotIn, SelExists, SelDoesNotExist} \<or>
      rq_Operator r = SelEquals \<and> (\<exists>v. rq_Values r = [v] \<and> mget m (rq_Key r) = Some v)"
    and "\<forall>k v. mget ml k = Some v \<longrightarrow> mget m k = Some v"
  shows "\<exists>res. parse_requirements reqs ml me ne = Inr res"
  using assms
proof (induction reqs arbitrary: ml me ne)
  case (Cons r reqs)
  then show ?case by (auto simp: Let_def update_conv' split: option.splits)
qed simp

text \<open>
  C34: Round trip through the client API: reading back the protobuf form of a lease whose
  time fields are consistent gives a lease with the same client, the same time fields, not
  released, and a selector that matches exactly the same labels, whatever its status is. The
  selector is one whose text the Kubernetes library prints and parses back (every valid one but
  the empty selector, whose text \<open><none>\<close> does not parse), and the duration and times are
  kept by their protobuf forms, as they are for 64-bit durations.
\<close>

theorem lease_protobuf_roundtrip:
  assumes "pbtime_ok x" "time_fields_consistent (sp_BeginTime (l_Spec l)) (sp_EndTime (l_Spec l)) (sp_Duration (l_Spec l))"
    and "is_int64 (the (sp_Duration (l_Spec l)))"
    and "selector_text_ok x (sp_Selector (l_Spec l))" "\<And>m. set (x_rangeNotEquals x m) = set m"
  shows "\<exists>sel. LeaseFromProtobuf x (Lease_ToProtobuf x now l) key (sp_ClientRef (l_Spec l)) =
      Inr \<lparr>l_Meta = zero_ObjectMeta\<lparr>om_Namespace := nn_Namespace key, om_Name := nn_Name key\<rparr>,
           l_Spec = (l_Spec l)\<lparr>sp_Release := False, sp_Selector := sel\<rparr>, l_Status = zero_LeaseStatus\<rparr> \<and>
    (\<forall>labels. label_selector_holds labels sel = label_selector_holds labels (sp_Selector (l_Spec l)))"
proof -
  let ?ls = "sp_Selector (l_Spec l)"
  from assms(4) obtain parsed reqs where p: "x_labels_Parse x (x_FormatLabelSelector x ?ls) = Inr parsed"
    "x_Requirements x parsed = (reqs, True)"
    and same: "\<forall>labels. label_selector_holds labels ?ls \<longleftrightarrow> (\<forall>r\<in>set reqs. requirement_holds labels r)"
    and shape: "\<forall>r\<in>set reqs. rq_Operator r \<in> {SelIn, SelNotIn, SelExists, SelDoesNotExist} \<or>
      rq_Operator r = SelEquals \<and> (\<exists>v. rq_Values r = [v] \<and> mget (ls_MatchLabels ?ls) (rq_Key r) = Some v)"
    unfolding selector_text_ok_def by (elim exE conjE) (rule that)
  from parse_requirements_accepts [OF shape, of "[]" "[]" "[]"] p obtain sel where
    sel: "ParseLabelSelector x (x_FormatLabelSelector x ?ls) = Inr sel"
    by (auto simp: ParseLabelSelector_def)
  obtain d where d: "sp_Duration (l_Spec l) = Some d" using assms(2) by (auto simp: time_fields_consistent_def)
  have t: "map_option (x_AsTime x) (map_option (x_timestamppb_New x) t) = t" for t
    using assms(1) by (cases t) (simp_all add: pbtime_ok_def)
  from assms(1,3) d have "map_option (x_AsDuration x) (map_option (x_durationpb_New x) (sp_Duration (l_Spec l))) = Some d"
    by (simp add: pbtime_ok_def)
  with t [of "sp_BeginTime (l_Spec l)"] t [of "sp_EndTime (l_Spec l)"] d sel
    ReconcileLeaseTimeFields_fixpoint [OF assms(2)]
  have "LeaseFromProtobuf x (Lease_ToProtobuf x now l) key (sp_ClientRef (l_Spec l)) =
      Inr \<lparr>l_Meta = zero_ObjectMeta\<lparr>om_Namespace := nn_Namespace key, om_Name := nn_Name key\<rparr>,
           l_Spec = (l_Spec l)\<lparr>sp_Release := False, sp_Selector := sel\<rparr>, l_Status = zero_LeaseStatus\<rparr>"
    by (simp add: LeaseFromProtobuf_def Lease_ToProtobuf_def Let_def)
  then show ?thesis using ParseLabelSelector_holds [OF p assms(5) sel] same by blast
qed

lemma mem_text_ok: "selector_text_ok mem_ext (sample_selector ''board'' ''rpi'')"
proof -
  let ?r = "\<lparr>rq_Key = ''board'', rq_Operator = SelEquals, rq_Values = [''rpi'']\<rparr>"
  have "x_labels_Parse mem_ext (x_FormatLabelSelector mem_ext (sample_selector ''board'' ''rpi'')) = Inr [?r]" by code_simp
  then show ?thesis
    unfolding selector_text_ok_def
    by (intro exI [of _ "[?r]"]) (auto simp: sample_selector_def label_selector_holds_def)
qed

theorem lease_protobuf_roundtrip_witness:
  "\<exists>sel. LeaseFromProtobuf mem_ext (Lease_ToProtobuf mem_ext 7 (sample_lease ''l'' ''alice'' (Some Minute)))
     \<lparr>nn_Namespace = ''lab'', nn_Name = ''l''\<rparr> ''alice'' =
   Inr \<lparr>l_Meta = zero_ObjectMeta\<lparr>om_Namespace := ''lab'', om_Name := ''l''\<rparr>,
        l_Spec = (l_Spec (sample_lease ''l'' ''alice'' (Some Minute)))\<lparr>sp_Release := False, sp_Selector := sel\<rparr>,
        l_Status = zero_LeaseStatus\<rparr> \<and>
   (\<forall>labels. label_selector_holds labels sel = label_selector_holds labels (sample_selector ''board'' ''rpi''))"
proof -
  let ?l = "sample_lease ''l'' ''alice'' (Some Minute)"
  have c: "is_int64 (the (sp_Duration (l_Spec ?l)))" by code_simp
  have sel: "sp_Selector (l_Spec ?l) = sample_selector ''board'' ''rpi''" "sp_ClientRef (l_Spec ?l) = ''alice''"
    by (simp_all add: sample_lease_def)
  have t: "time_fields_consistent (sp_BeginTime (l_Spec ?l)) (sp_EndTime (l_Spec ?l)) (sp_Duration (l_Spec ?l))"
    by (simp add: sample_lease_def time_fields_consistent_def Minute_def)
  from lease_protobuf_roundtrip [OF mem_ext_pbtime_ok t c, of 7 "\<lparr>nn_Namespace = ''lab'', nn_Name = ''l''\<rparr>"]
  show ?thesis by (simp add: sel mem_text_ok)
qed

end
