(* ===== verification/Credentials.thy ===== *)
theory Credentials
  imports InMemory
begin

text \<open>
  The credentials of clients and exporters: the signer of internal tokens
  (\<open>src/internal/oidc/op.go\<close>) and \<open>ensureSecret\<close>
  (\<open>src/internal/controller/secret_helpers.go\<close>), which keeps a valid token for a subject in
  a secret.

  The JWT library is not part of the repository: its signing and parsing functions are the
  fields of \<open>jwt\<close>, over an abstract type of keys; what the code relies on is \<open>jwt_ok\<close>.
\<close>

section \<open>Definitions\<close>

record RegisteredClaims =
  jc_Issuer :: string
  jc_Subject :: string
  jc_Audience :: "string list"
  jc_IssuedAt :: time
  jc_ExpiresAt :: time

record 'key Signer =
  sg_privatekey :: 'key
  sg_issuer :: string
  sg_audience :: string

text \<open>
  \<open>j_SignedString\<close> signs claims with a key; \<open>j_Parse\<close> checks a token, at a time, against
  a key, the accepted algorithms, an issuer and an audience, and returns the error.
\<close>

record 'key jwt =
  j_SignedString :: "'key \<Rightarrow> string \<Rightarrow> RegisteredClaims \<Rightarrow> goerror + string"
  j_Parse :: "time \<Rightarrow> string \<Rightarrow> 'key \<Rightarrow> string list \<Rightarrow> string \<Rightarrow> string \<Rightarrow> goerror option"

definition ES256 :: string where
  "ES256 = ''ES256''"

definition Signer_Validate :: "'key jwt \<Rightarrow> 'key Signer \<Rightarrow> time \<Rightarrow> string \<Rightarrow> goerror option" where
  "Signer_Validate j k now token = j_Parse j now token (sg_privatekey k) [ES256] (sg_issuer k) (sg_audience k)"

definition token_lifetime :: duration where
  "token_lifetime = 365 * 24 * 3600 * Second"

text \<open>The clock is read twice, for the two times of the claims.\<close>

definition Signer_Token :: "'key jwt \<Rightarrow> 'key Signer \<Rightarrow> time \<Rightarrow> time \<Rightarrow> string \<Rightarrow> goerror + string" where
  "Signer_Token j k now1 now2 subject =
     j_SignedString j (sg_privatekey k) ES256
       \<lparr>jc_Issuer = sg_issuer k, jc_Subject = subject, jc_Audience = [sg_audience k],
        jc_IssuedAt = now1, jc_ExpiresAt = time_Add now2 token_lifetime\<rparr>"

definition TokenKey :: string where
  "TokenKey = ''token''"

text \<open>Clock readings: for the check of a stored token and for the claims of a new one.\<close>

record token_clock =
  tc_validate :: time
  tc_issued :: time
  tc_expires :: time

definition ensureSecret ::
  "'s kube \<Rightarrow> ext \<Rightarrow> 'key jwt \<Rightarrow> 'key Signer \<Rightarrow> token_clock \<Rightarrow> 's \<Rightarrow> NamespacedName \<Rightarrow> string \<Rightarrow> ObjectMeta
   \<Rightarrow> (goerror + Secret) \<times> 's" where
  "ensureSecret k x j signer tc s key subject owner =
     (case k_getSecret k s key of
        Inl err \<Rightarrow>
          if \<not> IsNotFound err then (Inl err, s)
          else
            (case Signer_Token j signer (tc_issued tc) (tc_expires tc) subject of
               Inl err \<Rightarrow> (Inl err, s)
             | Inr token \<Rightarrow>
                 (case x_SetControllerReference x owner
                         (zero_ObjectMeta\<lparr>om_Namespace := nn_Namespace key, om_Name := nn_Name key\<rparr>) of
                    Inl err \<Rightarrow> (Inl err, s)
                  | Inr m \<Rightarrow> k_createSecret k s
                      \<lparr>sec_Meta = m, sec_Type = SecretTypeOpaque, sec_Data = [(TokenKey, token)]\<rparr>))
      | Inr secret \<Rightarrow>
          (case x_SetControllerReference x owner (sec_Meta secret) of
             Inl err \<Rightarrow> (Inl err, s)
           | Inr m \<Rightarrow>
               (let secret1 = secret\<lparr>sec_Meta := m\<rparr> in
                case mget (sec_Data secret1) TokenKey of
                  Some token \<Rightarrow>
                    if Signer_Validate j signer (tc_validate tc) token = None
                    then k_patchSecret k s secret1 secret
                    else (case Signer_Token j signer (tc_issued tc) (tc_expires tc) subject of
                            Inl err \<Rightarrow> (Inl err, s)
                          | Inr token' \<Rightarrow> k_patchSecret k s (secret1\<lparr>sec_Data := [(TokenKey, token')]\<rparr>) secret)
                | None \<Rightarrow>
                    (case Signer_Token j signer (tc_issued tc) (tc_expires tc) subject of
                       Inl err \<Rightarrow> (Inl err, s)
                     | Inr token' \<Rightarrow> k_patchSecret k s (secret1\<lparr>sec_Data := [(TokenKey, token')]\<rparr>) secret))))"

section \<open>What the libraries promise\<close>

text \<open>
  A signed token parses without error where the key, the algorithm, the issuer and the
  audience agree and it has not expired; the times in a token are whole seconds, so that it may
  expire up to a second early.
\<close>

definition jwt_ok :: "'key jwt \<Rightarrow> bool" where
  "jwt_ok j \<longleftrightarrow>
     (\<forall>key alg claims token now algs aud. j_SignedString j key alg claims = Inr token \<longrightarrow> alg \<in> set algs \<longrightarrow>
        aud \<in> set (jc_Audience claims) \<longrightarrow> now < jc_ExpiresAt claims - Second \<longrightarrow>
        j_Parse j now token key algs (jc_Issuer claims) aud = None)"

text \<open>
  \<open>view\<close> is what the server has stored. A secret it accepts as new is stored with the data
  that was sent; so is one that is patched, if the patch was made from the secret as stored (a
  merge patch sends the difference to the original); objects are read under their key.
\<close>

definition secret_store :: "'s kube \<Rightarrow> ('s \<Rightarrow> NamespacedName \<Rightarrow> Secret option) \<Rightarrow> bool" where
  "secret_store k view \<longleftrightarrow>
     (\<forall>s a b s'. k_createSecret k s a = (Inr b, s') \<longrightarrow> sec_Data b = sec_Data a \<and> view s' (key_of (sec_Meta a)) = Some b) \<and>
     (\<forall>s a orig b s'. view s (key_of (sec_Meta a)) = Some orig \<longrightarrow> k_patchSecret k s a orig = (Inr b, s') \<longrightarrow>
        sec_Data b = sec_Data a \<and> view s' (key_of (sec_Meta a)) = Some b) \<and>
     (\<forall>s n b. k_getSecret k s n = Inr b \<longrightarrow> key_of (sec_Meta b) = n)"

lemma secret_store_create:
  "secret_store k view \<Longrightarrow> k_createSecret k s a = (Inr b, s') \<Longrightarrow>
   sec_Data b = sec_Data a \<and> view s' (key_of (sec_Meta a)) = Some b"
  unfolding secret_store_def by fast

lemma secret_store_patch:
  "secret_store k view \<Longrightarrow> view s (key_of (sec_Meta a)) = Some orig \<Longrightarrow> k_patchSecret k s a orig = (Inr b, s') \<Longrightarrow>
   sec_Data b = sec_Data a \<and> view s' (key_of (sec_Meta a)) = Some b"
  unfolding secret_store_def by fast

lemma secret_store_key: "secret_store k view \<Longrightarrow> k_getSecret k s n = Inr b \<Longrightarrow> key_of (sec_Meta b) = n"
  unfolding secret_store_def by fast

text \<open>The secret as the pass reads it is the one that is stored.\<close>

definition secret_read :: "'s kube \<Rightarrow> ('s \<Rightarrow> NamespacedName \<Rightarrow> Secret option) \<Rightarrow> 's \<Rightarrow> NamespacedName \<Rightarrow> bool" where
  "secret_read k view s key \<longleftrightarrow> (\<forall>old. k_getSecret k s key = Inr old \<longrightarrow> view s key = Some old)"

text \<open>The secret that is there holds a token that validates.\<close>

definition has_valid_token :: "'s kube \<Rightarrow> 'key jwt \<Rightarrow> 'key Signer \<Rightarrow> time \<Rightarrow> 's \<Rightarrow> NamespacedName \<Rightarrow> bool" where
  "has_valid_token k j sg now s key \<longleftrightarrow>
     (case k_getSecret k s key of
        Inl _ \<Rightarrow> False
      | Inr old \<Rightarrow> (case mget (sec_Data old) TokenKey of None \<Rightarrow> False | Some token \<Rightarrow> Signer_Validate j sg now token = None))"

lemma Signer_Token_valid:
  assumes "jwt_ok j" "Signer_Token j sg now1 now2 subject = Inr token" "now < time_Add now2 token_lifetime - Second"
  shows "Signer_Validate j sg now token = None"
proof -
  let ?c = "\<lparr>jc_Issuer = sg_issuer sg, jc_Subject = subject, jc_Audience = [sg_audience sg],
    jc_IssuedAt = now1, jc_ExpiresAt = time_Add now2 token_lifetime\<rparr>"
  from assms(1) have "j_SignedString j (sg_privatekey sg) ES256 ?c = Inr token \<longrightarrow> ES256 \<in> set [ES256] \<longrightarrow>
      sg_audience sg \<in> set (jc_Audience ?c) \<longrightarrow> now < jc_ExpiresAt ?c - Second \<longrightarrow>
      j_Parse j now token (sg_privatekey sg) [ES256] (jc_Issuer ?c) (sg_audience sg) = None"
    unfolding jwt_ok_def by blast
  with assms(2,3) show ?thesis by (simp add: Signer_Token_def Signer_Validate_def)
qed


section \<open>Properties\<close>

text \<open>The ways \<open>ensureSecret\<close> succeeds: a token that validates is kept, otherwise a new one is signed.\<close>

lemma ensureSecret_cases:
  assumes ok: "ensureSecret k x j sg tc s key subject owner = (Inr secret, s')"
    and store: "secret_store k view" "secret_read k view s key" and ctrl: "ctrlref_ok x"
  obtains (fresh) token where "\<not> has_valid_token k j sg (tc_validate tc) s key"
      "Signer_Token j sg (tc_issued tc) (tc_expires tc) subject = Inr token"
      "sec_Data secret = [(TokenKey, token)]" "view s' key = Some secret"
  | (kept) old token where "has_valid_token k j sg (tc_validate tc) s key" "k_getSecret k s key = Inr old"
      "mget (sec_Data old) TokenKey = Some token" "Signer_Validate j sg (tc_validate tc) token = None"
      "sec_Data secret = sec_Data old" "view s' key = Some secret"
proof (cases "k_getSecret k s key")
  case (Inl err)
  with ok obtain token m where t: "Signer_Token j sg (tc_issued tc) (tc_expires tc) subject = Inr token"
    and m: "x_SetControllerReference x owner (zero_ObjectMeta\<lparr>om_Namespace := nn_Namespace key, om_Name := nn_Name key\<rparr>) = Inr m"
    and c: "k_createSecret k s \<lparr>sec_Meta = m, sec_Type = SecretTypeOpaque, sec_Data = [(TokenKey, token)]\<rparr> = (Inr secret, s')"
    by (auto simp: ensureSecret_def split: if_splits sum.splits)
  have "key_of m = key" using ctrlref_ok_keeps [OF ctrl m] by (simp add: key_of_def)
  with t secret_store_create [OF store(1) c] Inl show thesis by (intro fresh) (simp_all add: has_valid_token_def)
next
  case (Inr old)
  with ok obtain m where m: "x_SetControllerReference x owner (sec_Meta old) = Inr m"
    by (auto simp: ensureSecret_def split: sum.splits)
  have key: "key_of m = key"
    using ctrlref_ok_keeps [OF ctrl m] secret_store_key [OF store(1) Inr] by (simp add: key_of_def)
  from store(2) Inr have v: "view s key = Some old" by (simp add: secret_read_def)
  show thesis
  proof (cases "has_valid_token k j sg (tc_validate tc) s key")
    case True
    with Inr obtain token where t: "mget (sec_Data old) TokenKey = Some token" "Signer_Validate j sg (tc_validate tc) token = None"
      by (auto simp: has_valid_token_def split: option.splits)
    with ok Inr m have "k_patchSecret k s (old\<lparr>sec_Meta := m\<rparr>) old = (Inr secret, s')"
      by (simp add: ensureSecret_def)
    from secret_store_patch [OF store(1) _ this] True Inr key v t show thesis by (intro kept [of old token]) simp_all
  next
    case False
    with ok Inr m obtain token where t: "Signer_Token j sg (tc_issued tc) (tc_expires tc) subject = Inr token"
      and p: "k_patchSecret k s (old\<lparr>sec_Meta := m, sec_Data := [(TokenKey, token)]\<rparr>) old = (Inr secret, s')"
      by (auto simp: ensureSecret_def has_valid_token_def Let_def split: sum.splits option.splits if_splits)
    from t secret_store_patch [OF store(1) _ p] key v False show thesis by (intro fresh) simp_all
  qed
qed

text \<open>
  C27: When \<open>ensureSecret\<close> succeeds, the secret is stored under its key and holds a token
  that validates now. If a secret with a token that still validates was there already, its
  data is kept as it is; otherwise (no secret, no token in it, or one that does not validate)
  the data is exactly a freshly signed token for the subject. Assumed are that the secret was
  read as it is stored, and that the clock did not run a year between signing and validating.
\<close>

theorem credential_valid:
  assumes "ensureSecret k x j sg tc s key subject owner = (Inr secret, s')"
    and "secret_store k view" "secret_read k view s key" "ctrlref_ok x" "jwt_ok j"
    and "tc_validate tc < tc_expires tc + token_lifetime - Second"
  shows "\<exists>token. view s' key = Some secret \<and> mget (sec_Data secret) TokenKey = Some token \<and>
    Signer_Validate j sg (tc_validate tc) token = None \<and>
    (if has_valid_token k j sg (tc_validate tc) s key
     then \<exists>old. k_getSecret k s key = Inr old \<and> sec_Data secret = sec_Data old
     else Signer_Token j sg (tc_issued tc) (tc_expires tc) subject = Inr token \<and> sec_Data secret = [(TokenKey, token)])"
  using assms(1-4)
proof (cases rule: ensureSecret_cases)
  case (fresh token)
  moreover from fresh(2) have "Signer_Validate j sg (tc_validate tc) token = None"
    using assms(5,6) by (intro Signer_Token_valid) (simp_all add: time_Add_def)
  ultimately show ?thesis by (intro exI [of _ token]) simp
next
  case (kept old token)
  then show ?thesis by (intro exI [of _ token]) simp
qed

section \<open>An executable token format\<close>

text \<open>Tokens that carry the key and the claims as text, on which the model is evaluated.\<close>

fun mem_bits :: "int \<Rightarrow> string" where
  "mem_bits n = (if n \<le> 0 then [] else (if even n then CHR ''0'' else CHR ''1'') # mem_bits (n div 2))"

declare mem_bits.simps [simp del]

definition mem_number :: "string \<Rightarrow> int" where
  "mem_number s = foldr (\<lambda>c n. 2 * n + (if c = CHR ''1'' then 1 else 0)) s 0"

lemma mem_number_bits: "0 \<le> n \<Longrightarrow> mem_number (mem_bits n) = n"
  by (induction n rule: mem_bits.induct) (subst mem_bits.simps, auto simp: mem_number_def)

lemma mem_bits_chars: "set (mem_bits n) \<subseteq> {CHR ''0'', CHR ''1''}"
  by (induction n rule: mem_bits.induct) (subst mem_bits.simps, auto)

definition mem_SignedString :: "string \<Rightarrow> string \<Rightarrow> RegisteredClaims \<Rightarrow> goerror + string" where
  "mem_SignedString key alg c =
     (case jc_Audience c of
        [aud] \<Rightarrow>
          (let parts = [key, alg, jc_Issuer c, jc_Subject c, aud] in
           if list_all (\<lambda>p. CHR ''|'' \<notin> set p) parts \<and> 0 \<le> jc_ExpiresAt c
           then Inr (strings_Join (parts @ [mem_bits (jc_ExpiresAt c)]) ''|'')
           else Inl (Errorf ''cannot encode''))
      | _ \<Rightarrow> Inl (Errorf ''one audience expected''))"

definition mem_Parse :: "time \<Rightarrow> string \<Rightarrow> string \<Rightarrow> string list \<Rightarrow> string \<Rightarrow> string \<Rightarrow> goerror option" where
  "mem_Parse now token key algs iss aud =
     (case strings_Split token CHR ''|'' of
        [k, a, i, s, u, e] \<Rightarrow>
          if k = key \<and> a \<in> set algs \<and> i = iss \<and> u = aud \<and> now < mem_number e then None
          else Some (Errorf ''token is not acceptable'')
      | _ \<Rightarrow> Some (Errorf ''token is malformed''))"

definition mem_jwt :: "string jwt" where
  "mem_jwt = \<lparr>j_SignedString = mem_SignedString, j_Parse = mem_Parse\<rparr>"

lemma mem_signed_split:
  assumes "j_SignedString mem_jwt key alg claims = Inr token"
  obtains a e where "jc_Audience claims = [a]" "mem_number e = jc_ExpiresAt claims"
    "strings_Split token CHR ''|'' = [key, alg, jc_Issuer claims, jc_Subject claims, a, e]"
proof -
  from assms obtain a where a: "jc_Audience claims = [a]"
    and bars: "\<forall>p\<in>{key, alg, jc_Issuer claims, jc_Subject claims, a}. CHR ''|'' \<notin> set p" "0 \<le> jc_ExpiresAt claims"
    and tok: "token = strings_Join ([key, alg, jc_Issuer claims, jc_Subject claims, a] @ [mem_bits (jc_ExpiresAt claims)]) ''|''"
    by (auto simp: mem_jwt_def mem_SignedString_def Let_def split: list.splits if_splits)
  have "strings_Split token CHR ''|'' = [key, alg, jc_Issuer claims, jc_Subject claims, a] @ [mem_bits (jc_ExpiresAt claims)]"
    unfolding tok using bars mem_bits_chars [of "jc_ExpiresAt claims"] by (intro strings_Split_Join) auto
  then show thesis by (intro that [OF a mem_number_bits [OF bars(2)]]) simp
qed

lemma mem_jwt_ok: "jwt_ok mem_jwt"
  unfolding jwt_ok_def
proof (intro allI impI)
  fix key alg claims token now algs aud
  assume sig: "j_SignedString mem_jwt key alg claims = Inr token" and c: "alg \<in> set algs" "aud \<in> set (jc_Audience claims)"
    "now < jc_ExpiresAt claims - Second"
  from sig obtain a e where "jc_Audience claims = [a]" "mem_number e = jc_ExpiresAt claims"
    "strings_Split token CHR ''|'' = [key, alg, jc_Issuer claims, jc_Subject claims, a, e]" by (rule mem_signed_split)
  with c show "j_Parse mem_jwt now token key algs (jc_Issuer claims) aud = None"
    by (simp add: mem_jwt_def mem_Parse_def Second_def)
qed

section \<open>Evaluated instances\<close>

lemma find_key: "find (keyed meta n) xs = Some b \<Longrightarrow> key_of (meta b) = n"
  by (cases n) (auto simp: find_Some_iff keyed_def key_of_def)

lemma find_key_map:
  "key_of (meta m) = n \<Longrightarrow> find (keyed meta n) xs = Some b \<Longrightarrow>
   find (keyed meta n) (map (\<lambda>z. if keyed meta n z then m else z) xs) = Some m"
  by (induction xs) (auto simp: keyed_def key_of_def split: if_splits)

lemma find_append: "find P (xs @ ys) = (case find P xs of None \<Rightarrow> find P ys | Some a \<Rightarrow> Some a)"
  by (induction xs) auto

definition mem_secrets :: "cluster \<Rightarrow> NamespacedName \<Rightarrow> Secret option" where
  "mem_secrets c n = find (keyed sec_Meta n) (cu_Secrets c)"

lemma mem_secret_read: "secret_read mem_kube mem_secrets s key"
  by (auto simp: secret_read_def mem_kube_def mem_get_def mem_secrets_def split: option.splits)

lemma mem_secret_store: "secret_store mem_kube mem_secrets"
  unfolding secret_store_def
proof (intro conjI allI impI)
  fix s a b s'
  assume "k_createSecret mem_kube s a = (Inr b, s')"
  then show "sec_Data b = sec_Data a" "mem_secrets s' (key_of (sec_Meta a)) = Some b"
    by (auto simp: mem_kube_def mem_put_def mem_create_def mem_secrets_def keyed_def key_of_def find_append
        split: option.splits sum.splits)
next
  fix s a orig b s'
  assume p: "k_patchSecret mem_kube s a orig = (Inr b, s')"
  then show "sec_Data b = sec_Data a"
    by (auto simp: mem_kube_def mem_put_def mem_write_def split: option.splits if_splits)
  from p show "mem_secrets s' (key_of (sec_Meta a)) = Some b"
    by (auto simp: mem_kube_def mem_put_def mem_write_def mem_secrets_def bump_def find_key_map key_of_def
        split: option.splits if_splits)
next
  fix s n b
  assume "k_getSecret mem_kube s n = Inr b"
  then show "key_of (sec_Meta b) = n"
    by (auto simp: mem_kube_def mem_get_def find_key split: option.splits)
qed

definition sample_signer :: "string Signer" where
  "sample_signer = \<lparr>sg_privatekey = ''key'', sg_issuer = ''https://localhost:8085'', sg_audience = ''jumpstarter''\<rparr>"

definition sample_token_clock :: token_clock where
  "sample_token_clock = \<lparr>tc_validate = Second, tc_issued = Second, tc_expires = Second\<rparr>"

definition sample_ensure :: "(goerror + Secret) \<times> cluster" where
  "sample_ensure = ensureSecret mem_kube mem_ext mem_jwt sample_signer sample_token_clock sample_cluster
     \<lparr>nn_Namespace = ''lab'', nn_Name = ''alice-client''\<rparr> (Client_InternalSubject (sample_client ''alice''))
     (cl_Meta (sample_client ''alice''))"

theorem credential_valid_witness:
  "\<exists>secret token. fst sample_ensure = Inr secret \<and> mget (sec_Data secret) TokenKey = Some token \<and>
     Signer_Validate mem_jwt sample_signer Second token = None"
proof -
  have "case fst sample_ensure of Inl _ \<Rightarrow> False | Inr _ \<Rightarrow> True" by code_simp
  then obtain secret s' where ens: "sample_ensure = (Inr secret, s')"
    by (metis prod.collapse sum.case_eq_if sum.collapse(2))
  have "tc_validate sample_token_clock < tc_expires sample_token_clock + token_lifetime - Second" by code_simp
  from credential_valid [OF ens [unfolded sample_ensure_def] mem_secret_store mem_secret_read mem_ext_ctrlref_ok mem_jwt_ok this]
  show ?thesis by (auto simp: ens sample_token_clock_def)
qed

end
