(* ===== verification/LeaseController.thy ===== *)
theory LeaseController
  imports InMemory
begin

text \<open>
  The lease reconciler (\<open>src/internal/controller/lease_controller.go\<close>): choosing an
  exporter for a lease, its begin and end, and the update of the lease object.

  A reconcile reads the clock several times; \<open>clock_readings\<close> names the readings in the
  order in which the code takes them, and theorems that need it assume that the clock does
  not run backwards (\<open>clock_monotone\<close>).
\<close>

section \<open>Definitions\<close>

record ApprovedExporter =
  ae_Exporter :: Exporter
  ae_ExistingLease :: "Lease option"
  ae_Policy :: Policy

definition zero_ApprovedExporter :: ApprovedExporter where
  "zero_ApprovedExporter = \<lparr>ae_Exporter = zero_Exporter, ae_ExistingLease = None, ae_Policy = zero_Policy\<rparr>"

abbreviation ae_Name :: "ApprovedExporter \<Rightarrow> string" where
  "ae_Name a \<equiv> om_Name (e_Meta (ae_Exporter a))"

record clock_readings =
  c_sched :: time    \<comment> \<open>whether the requested begin time has come\<close>
  c_cond :: time     \<comment> \<open>transition time of a condition set while choosing\<close>
  c_begin :: time    \<comment> \<open>begin time of an acquired lease\<close>
  c_ready :: time    \<comment> \<open>transition time of its Ready condition\<close>
  c_now :: time      \<comment> \<open>whether the lease has expired\<close>
  c_endcond :: time  \<comment> \<open>transition time of the condition set when it ends\<close>
  c_end :: time      \<comment> \<open>end time of a released or expired lease\<close>

definition clock_monotone :: "clock_readings \<Rightarrow> bool" where
  "clock_monotone c \<longleftrightarrow> c_sched c \<le> c_cond c \<and> c_cond c \<le> c_begin c \<and> c_begin c \<le> c_ready c \<and>
     c_ready c \<le> c_now c \<and> c_now c \<le> c_endcond c \<and> c_endcond c \<le> c_end c"

definition requestedDuration :: "Lease \<Rightarrow> duration" where
  "requestedDuration lease =
     (let spec = l_Spec lease in
      case sp_Duration spec of
        Some d \<Rightarrow> d
      | None \<Rightarrow> (case (sp_BeginTime spec, sp_EndTime spec) of
                   (Some b, Some e) \<Rightarrow> time_Sub e b
                 | _ \<Rightarrow> 0))"

definition approve_from ::
  "ext \<Rightarrow> Client \<Rightarrow> Lease \<Rightarrow> Exporter \<Rightarrow> Policy \<Rightarrow> From \<Rightarrow> goerror + ApprovedExporter list" where
  "approve_from x jclient lease exporter p from =
     (case x_LabelSelectorAsSelector x (from_ClientSelector from) of
        Inl err \<Rightarrow> Inl (WrapError ''reconcileStatusExporterRef: failed to convert client selector'' err)
      | Inr clientSelector \<Rightarrow>
          if x_Matches x clientSelector (om_Labels (cl_Meta jclient)) then
            (case p_MaximumDuration p of
               Some m \<Rightarrow>
                 if requestedDuration lease > m then Inr []
                 else Inr [\<lparr>ae_Exporter = exporter, ae_ExistingLease = None, ae_Policy = p\<rparr>]
             | None \<Rightarrow> Inr [\<lparr>ae_Exporter = exporter, ae_ExistingLease = None, ae_Policy = p\<rparr>])
          else Inr [])"

definition approve_policy ::
  "ext \<Rightarrow> Client \<Rightarrow> Lease \<Rightarrow> Exporter \<Rightarrow> ExporterAccessPolicy \<Rightarrow> goerror + ApprovedExporter list" where
  "approve_policy x jclient lease exporter policy =
     (case x_LabelSelectorAsSelector x (eps_ExporterSelector (ep_Spec policy)) of
        Inl err \<Rightarrow> Inl (WrapError ''reconcileStatusExporterRef: failed to convert exporter selector'' err)
      | Inr exporterSelector \<Rightarrow>
          if x_Matches x exporterSelector (om_Labels (e_Meta exporter)) then
            collect (\<lambda>p. collect (approve_from x jclient lease exporter p) (p_From p))
              (eps_Policies (ep_Spec policy))
          else Inr [])"

definition attachMatchingPolicies ::
  "'s kube \<Rightarrow> ext \<Rightarrow> 's \<Rightarrow> Lease \<Rightarrow> Exporter list \<Rightarrow> goerror + ApprovedExporter list" where
  "attachMatchingPolicies k x s lease onlineExporters =
     (case k_listPolicies k s [InNamespace (om_Namespace (l_Meta lease))] of
        Inl err \<Rightarrow> Inl (WrapError ''reconcileStatusExporterRef: failed to list exporter access policies'' err)
      | Inr policies \<Rightarrow>
          if policies = [] then
            Inr (map (\<lambda>exporter. \<lparr>ae_Exporter = exporter, ae_ExistingLease = None,
                   ae_Policy = zero_Policy\<lparr>p_Priority := 0, p_SpotAccess := False\<rparr>\<rparr>) onlineExporters)
          else
            (case k_getClient k s \<lparr>nn_Namespace = om_Namespace (l_Meta lease), nn_Name = sp_ClientRef (l_Spec lease)\<rparr> of
               Inl err \<Rightarrow> Inl (WrapError ''reconcileStatusExporterRef: failed to get client'' err)
             | Inr jclient \<Rightarrow>
                 collect (\<lambda>exporter. collect (approve_policy x jclient lease exporter) policies) onlineExporters))"

definition ListMatchingExporters ::
  "'s kube \<Rightarrow> 's \<Rightarrow> Lease \<Rightarrow> selector \<Rightarrow> goerror + Exporter list" where
  "ListMatchingExporters k s lease selector =
     (case k_listExporters k s [InNamespace (om_Namespace (l_Meta lease)), MatchingLabelsSelector selector] of
        Inl err \<Rightarrow> Inl (WrapError ''ListMatchingExporters: failed to list exporters matching selector'' err)
      | Inr (items, _) \<Rightarrow> Inr items)"

definition ListActiveLeases :: "'s kube \<Rightarrow> 's \<Rightarrow> string \<Rightarrow> goerror + Lease list" where
  "ListActiveLeases k s namespace =
     (case k_listLeases k s [InNamespace namespace, MatchingActiveLeases] of
        Inl err \<Rightarrow> Inl err
      | Inr (items, _) \<Rightarrow> Inr items)"

text \<open>Both loops: a later lease that references the exporter replaces an earlier one.\<close>

definition attachExistingLease :: "Lease list \<Rightarrow> ApprovedExporter \<Rightarrow> ApprovedExporter" where
  "attachExistingLease activeLeases exporter =
     fold (\<lambda>existing ae.
         if st_ExporterRef (l_Status existing) = Some (ae_Name exporter)
         then ae\<lparr>ae_ExistingLease := Some existing\<rparr> else ae) activeLeases exporter"

definition attachExistingLeases :: "ApprovedExporter list \<Rightarrow> Lease list \<Rightarrow> ApprovedExporter list" where
  "attachExistingLeases exporters activeLeases = map (attachExistingLease activeLeases) exporters"

definition cmpFunc :: "ApprovedExporter \<Rightarrow> ApprovedExporter \<Rightarrow> int" where
  "cmpFunc a b =
     (if ae_ExistingLease a \<noteq> None \<and> ae_ExistingLease b = None then 1
      else if ae_ExistingLease a = None \<and> ae_ExistingLease b \<noteq> None then - 1
      else if p_SpotAccess (ae_Policy a) \<noteq> p_SpotAccess (ae_Policy b) then
        (if p_SpotAccess (ae_Policy a) then 1 else - 1)
      else if p_Priority (ae_Policy a) \<noteq> p_Priority (ae_Policy b) then
        wrap64 (p_Priority (ae_Policy b) - p_Priority (ae_Policy a))
      else strings_Compare (ae_Name a) (ae_Name b))"

text \<open>
  The candidates may number more than twelve, where the library sorts by another method than
  insertion. What the theorems use of the result does not depend on it: that it has the same
  elements, for every comparison; and for priorities whose differences do not wrap, where the
  comparison is a total preorder, that its first element is least.
\<close>

definition orderApprovedExporters :: "ApprovedExporter list \<Rightarrow> ApprovedExporter list" where
  "orderApprovedExporters exporters = SortFunc cmpFunc exporters"

definition takenExporter :: "ApprovedExporter \<Rightarrow> bool" where
  "takenExporter ae =
     (case ae_ExistingLease ae of
        None \<Rightarrow> False
      | Some existing \<Rightarrow> \<not> (\<not> p_SpotAccess (ae_Policy ae) \<and> st_SpotAccess (l_Status existing)))"

definition filterOutLeasedExporters ::
  "ApprovedExporter list \<Rightarrow> ApprovedExporter list \<times> ApprovedExporter list" where
  "filterOutLeasedExporters exporters = DeleteFunc zero_ApprovedExporter takenExporter exporters"

definition offlineExporter :: "ext \<Rightarrow> ApprovedExporter \<Rightarrow> bool" where
  "offlineExporter x ae \<longleftrightarrow>
     \<not> x_IsStatusConditionTrue x (es_Conditions (e_Status (ae_Exporter ae))) ExporterConditionTypeRegistered \<or>
     \<not> x_IsStatusConditionTrue x (es_Conditions (e_Status (ae_Exporter ae))) ExporterConditionTypeOnline"

definition filterOutOfflineExporters ::
  "ext \<Rightarrow> ApprovedExporter list \<Rightarrow> ApprovedExporter list \<times> ApprovedExporter list" where
  "filterOutOfflineExporters x approvedExporters =
     DeleteFunc zero_ApprovedExporter (offlineExporter x) approvedExporters"

text \<open>
  The choice among the exporters that are approved and online (the part of
  \<open>reconcileStatusExporterRef\<close> from the ordering on). Sorting and filtering work in place
  on one slice, so the names in the messages are read from what is left in it.
\<close>

definition chooseExporter ::
  "ext \<Rightarrow> clock_readings \<Rightarrow> Result \<Rightarrow> Lease \<Rightarrow> ApprovedExporter list \<Rightarrow> Result \<times> Lease" where
  "chooseExporter x c result lease onlineApproved =
     (let ordered = orderApprovedExporters onlineApproved in
      if length ordered > 0 \<and> p_SpotAccess (ae_Policy (ordered ! 0)) then
        (result, SetStatusUnsatisfiable x (c_cond c) ''SpotAccess''
           (''The only possible exporters are under spot access (i.e. '' @ ae_Name (ordered ! 0) @
            ''), but spot access is still not implemented'') lease)
      else
        (let (available, remaining) = filterOutLeasedExporters ordered in
         if length available = 0 then
           (result\<lparr>r_RequeueAfter := Second\<rparr>, SetStatusPending x (c_cond c) ''NotAvailable''
              (''There are '' @ itoa (int (length remaining)) @ '' approved exporters, (i.e. '' @
               ae_Name (remaining ! 0) @ '') but all of them are already leased'') lease)
         else
           (let selected = available ! 0 in
            if ae_ExistingLease selected \<noteq> None then
              (result\<lparr>r_RequeueAfter := Second\<rparr>, SetStatusPending x (c_cond c) ''NotAvailable''
                 (''Exporter '' @ ae_Name selected @
                  '' is already leased by another client under spot access, but spot access eviction still not implemented'') lease)
            else
              (result, lease\<lparr>l_Status := (l_Status lease)\<lparr>
                 st_Priority := p_Priority (ae_Policy selected),
                 st_SpotAccess := p_SpotAccess (ae_Policy selected),
                 st_ExporterRef := Some (ae_Name selected)\<rparr>\<rparr>))))"

definition assignExporter ::
  "'s kube \<Rightarrow> ext \<Rightarrow> clock_readings \<Rightarrow> 's \<Rightarrow> Result \<Rightarrow> Lease \<Rightarrow> goerror + Result \<times> Lease" where
  "assignExporter k x c s result lease =
     (case GetExporterSelector x lease of
        Inl err \<Rightarrow> Inl (WrapError ''reconcileStatusExporterRef: failed to get exporter selector'' err)
      | Inr selector \<Rightarrow>
          if x_Empty x selector then
            Inr (result, SetStatusInvalid x (c_cond c) ''InvalidSelector''
              ''The selector for the lease is empty, a selector is required'' lease)
          else
            (case ListMatchingExporters k s lease selector of
               Inl err \<Rightarrow> Inl (WrapError ''reconcileStatusExporterRef: failed to list matching exporters'' err)
             | Inr matching \<Rightarrow>
                 (case attachMatchingPolicies k x s lease matching of
                    Inl err \<Rightarrow> Inl (WrapError ''reconcileStatusExporterRef: failed to handle policy approval'' err)
                  | Inr approved \<Rightarrow>
                      if length approved = 0 then
                        Inr (result, SetStatusUnsatisfiable x (c_cond c) ''NoAccess''
                          (''While there are '' @ itoa (int (length matching)) @
                           '' exporters matching the selector, none of them are approved by any policy for your client'') lease)
                      else
                        (let (onlineApproved, remaining) = filterOutOfflineExporters x approved in
                         if length onlineApproved = 0 then
                           Inr (result\<lparr>r_RequeueAfter := Second\<rparr>, SetStatusPending x (c_cond c) ''Offline''
                             (''While there are '' @ itoa (int (length remaining)) @ '' available exporters (i.e. '' @
                              ae_Name (remaining ! 0) @ ''), none of them are online'') lease)
                         else
                           (case ListActiveLeases k s (om_Namespace (l_Meta lease)) of
                              Inl err \<Rightarrow> Inl (WrapError ''reconcileStatusExporterRef: failed to list active leases'' err)
                            | Inr activeLeases \<Rightarrow>
                                Inr (chooseExporter x c result lease
                                  (attachExistingLeases onlineApproved activeLeases)))))))"

definition reconcileStatusExporterRef ::
  "'s kube \<Rightarrow> ext \<Rightarrow> clock_readings \<Rightarrow> 's \<Rightarrow> Result \<Rightarrow> Lease \<Rightarrow> goerror + Result \<times> Lease" where
  "reconcileStatusExporterRef k x c s result lease =
     (if st_Ended (l_Status lease) then Inr (result, lease)
      else if st_ExporterRef (l_Status lease) = None then
        (case sp_BeginTime (l_Spec lease) of
           Some b \<Rightarrow>
             if b > c_sched c then Inr (result\<lparr>r_RequeueAfter := time_Sub b (c_sched c)\<rparr>, lease)
             else assignExporter k x c s result lease
         | None \<Rightarrow> assignExporter k x c s result lease)
      else Inr (result, lease))"

definition reconcileStatusBeginEndTimes :: "ext \<Rightarrow> clock_readings \<Rightarrow> Lease \<Rightarrow> Lease" where
  "reconcileStatusBeginEndTimes x c lease =
     (if st_BeginTime (l_Status lease) = None \<and> st_ExporterRef (l_Status lease) \<noteq> None then
        SetStatusReady x (c_ready c) True ''Ready'' ''An exporter has been acquired for the client''
          (lease\<lparr>l_Status := (l_Status lease)\<lparr>st_BeginTime := Some (c_begin c)\<rparr>\<rparr>)
      else lease)"

text \<open>When the lease expires; the zero time when nothing says so.\<close>

definition expiration :: "Lease \<Rightarrow> time \<Rightarrow> time" where
  "expiration lease begun =
     (let spec = l_Spec lease in
      case sp_EndTime spec of
        Some e \<Rightarrow> e
      | None \<Rightarrow>
          (case (sp_BeginTime spec, sp_Duration spec) of
             (Some b, Some d) \<Rightarrow> time_Add b d
           | (_, Some d) \<Rightarrow> time_Add begun d
           | _ \<Rightarrow> 0))"

definition reconcileStatusEnded ::
  "ext \<Rightarrow> clock_readings \<Rightarrow> Result \<Rightarrow> Lease \<Rightarrow> Result \<times> Lease" where
  "reconcileStatusEnded x c result lease =
     (if st_Ended (l_Status lease) then (result, lease)
      else if cond_true x lease LeaseConditionTypeUnsatisfiable \<or> cond_true x lease LeaseConditionTypeInvalid then
        (result, lease\<lparr>l_Status := (l_Status lease)\<lparr>st_Ended := True, st_EndTime := Some (c_now c)\<rparr>\<rparr>)
      else if sp_Release (l_Spec lease) then (result, Release x (c_endcond c) (c_end c) lease)
      else
        (case st_BeginTime (l_Status lease) of
           Some begun \<Rightarrow>
             if expiration lease begun < c_now c then (result, Expire x (c_endcond c) (c_end c) lease)
             else (result\<lparr>r_RequeueAfter := time_Sub (expiration lease begun) (c_now c)\<rparr>, lease)
         | None \<Rightarrow> (result, lease)))"

text \<open>The three status phases in the order of \<open>Reconcile\<close>.\<close>

definition reconcileStatus ::
  "'s kube \<Rightarrow> ext \<Rightarrow> clock_readings \<Rightarrow> 's \<Rightarrow> Lease \<Rightarrow> goerror + Result \<times> Lease" where
  "reconcileStatus k x c s lease =
     (case reconcileStatusExporterRef k x c s zero_Result lease of
        Inl err \<Rightarrow> Inl err
      | Inr (result, lease1) \<Rightarrow>
          Inr (reconcileStatusEnded x c result (reconcileStatusBeginEndTimes x c lease1)))"

text \<open>
  \<open>Reconcile\<close>: the result and error it returns, and the cluster state after its writes.
  \<open>Status().Update\<close> fills the lease in with the answer of the server, and the labels and
  the owner reference are set on that.
\<close>

definition Lease_Reconcile ::
  "'s kube \<Rightarrow> ext \<Rightarrow> clock_readings \<Rightarrow> 's \<Rightarrow> NamespacedName \<Rightarrow> (Result \<times> goerror option) \<times> 's" where
  "Lease_Reconcile k x c s req =
     (case k_getLease k s req of
        Inl err \<Rightarrow> ((zero_Result, IgnoreNotFound (WrapError ''Reconcile: unable to get lease'' err)), s)
      | Inr lease \<Rightarrow>
          (case reconcileStatus k x c s lease of
             Inl err \<Rightarrow> ((zero_Result, Some err), s)
           | Inr (result, lease1) \<Rightarrow>
               (case k_statusUpdateLease k s lease1 of
                  (Inl err, s1) \<Rightarrow> (RequeueConflict result err, s1)
                | (Inr lease2, s1) \<Rightarrow>
                    (let lease3 = (if st_Ended (l_Status lease2)
                           then lease2\<lparr>l_Meta := (l_Meta lease2)\<lparr>om_Labels :=
                                  mset_key (om_Labels (l_Meta lease2)) LeaseLabelEnded LeaseLabelEndedValue\<rparr>\<rparr>
                           else lease2);
                         update = (\<lambda>l. case k_updateLease k s1 l of
                             (Inl err, s2) \<Rightarrow> (RequeueConflict result
                                (WrapError ''Reconcile: failed to update lease metadata'' err), s2)
                           | (Inr _, s2) \<Rightarrow> ((result, None), s2))
                     in case st_ExporterRef (l_Status lease3) of
                          None \<Rightarrow> update lease3
                        | Some name \<Rightarrow>
                            (case k_getExporter k s1 \<lparr>nn_Namespace = om_Namespace (l_Meta lease3), nn_Name = name\<rparr> of
                               Inl err \<Rightarrow> ((result, Some err), s1)
                             | Inr exporter \<Rightarrow>
                                 (case x_SetControllerReference x (e_Meta exporter) (l_Meta lease3) of
                                    Inl err \<Rightarrow> ((result, Some (WrapError
                                       ''Reconcile: failed to update lease controller reference'' err)), s1)
                                  | Inr m \<Rightarrow> update (lease3\<lparr>l_Meta := m\<rparr>)))))))"

section \<open>Ordering of exporters\<close>

text \<open>
  Priorities within a quarter of the integer range cannot overflow the subtraction that the
  comparison is computed with.
\<close>

definition prio_ok :: "ApprovedExporter \<Rightarrow> bool" where
  "prio_ok a \<longleftrightarrow> - 4611686018427387904 \<le> p_Priority (ae_Policy a) \<and>
     p_Priority (ae_Policy a) \<le> 4611686018427387903"

abbreviation leased :: "ApprovedExporter \<Rightarrow> bool" where
  "leased a \<equiv> ae_ExistingLease a \<noteq> None"

abbreviation spot :: "ApprovedExporter \<Rightarrow> bool" where
  "spot a \<equiv> p_SpotAccess (ae_Policy a)"

abbreviation prio :: "ApprovedExporter \<Rightarrow> int" where
  "prio a \<equiv> p_Priority (ae_Policy a)"

text \<open>The documented order: not leased, then not under spot access, then the higher priority, then the name.\<close>

definition exporter_before :: "ApprovedExporter \<Rightarrow> ApprovedExporter \<Rightarrow> bool" where
  "exporter_before a b \<longleftrightarrow>
     \<not> leased a \<and> leased b \<or>
     leased a = leased b \<and> (\<not> spot a \<and> spot b \<or>
       spot a = spot b \<and> (prio a > prio b \<or>
         prio a = prio b \<and> strings_Compare (ae_Name a) (ae_Name b) \<le> 0))"

lemma wrap64_prio:
  "prio_ok a \<Longrightarrow> prio_ok b \<Longrightarrow> wrap64 (prio b - prio a) = prio b - prio a"
  by (intro wrap64_id) (simp add: prio_ok_def is_int64_def minInt64_def maxInt64_def)

lemma cmpFunc_le_iff: "prio_ok a \<Longrightarrow> prio_ok b \<Longrightarrow> cmpFunc a b \<le> 0 \<longleftrightarrow> exporter_before a b"
  using wrap64_prio [of a b] by (auto simp: cmpFunc_def exporter_before_def)

lemma cmpFunc_anti: "prio_ok a \<Longrightarrow> prio_ok b \<Longrightarrow> cmpFunc b a = - cmpFunc a b"
  using wrap64_prio [of a b] wrap64_prio [of b a] strings_Compare_anti [of "ae_Name a" "ae_Name b"]
  by (auto simp: cmpFunc_def)

lemma exporter_before_trans: "exporter_before a b \<Longrightarrow> exporter_before b c \<Longrightarrow> exporter_before a c"
  unfolding exporter_before_def using strings_Compare_trans [of "ae_Name a" "ae_Name b" "ae_Name c"]
  by (cases "leased a"; cases "leased b"; cases "leased c"; cases "spot a"; cases "spot b"; cases "spot c";
      simp; linarith)

interpretation exporter_order: weak_cmp prio_ok cmpFunc
proof unfold_locales
  fix a b c
  assume ok: "prio_ok a" "prio_ok b"
  from cmpFunc_anti [OF ok] show "cmpFunc a b < 0 \<longleftrightarrow> 0 < cmpFunc b a" by simp
  assume "prio_ok c" "cmpFunc a b \<le> 0" "cmpFunc b c \<le> 0"
  with ok show "cmpFunc a c \<le> 0" by (auto simp: cmpFunc_le_iff intro: exporter_before_trans)
qed

lemma set_orderApprovedExporters [simp]: "set (orderApprovedExporters es) = set es"
  by (simp add: orderApprovedExporters_def)

lemma length_orderApprovedExporters [simp]: "length (orderApprovedExporters es) = length es"
  by (simp add: orderApprovedExporters_def)

lemma orderApprovedExporters_Nil_iff [simp]: "orderApprovedExporters es = [] \<longleftrightarrow> es = []"
  by (simp add: orderApprovedExporters_def)

lemma ordered_first_least:
  assumes "\<forall>a\<in>set es. prio_ok a" "b \<in> set es"
  shows "exporter_before (orderApprovedExporters es ! 0) b"
proof -
  from assms(2) obtain y ys where ord: "SortFunc cmpFunc es = y # ys"
    by (cases "SortFunc cmpFunc es") auto
  then have "y \<in> set es" by (metis list.set_intros(1) set_SortFunc)
  moreover have "cmpFunc y b \<le> 0"
    using exporter_order.SortFunc_sort_result [OF assms(1)] ord assms
    by (auto intro: exporter_order.sort_result_hd_least)
  ultimately show ?thesis
    using assms ord by (auto simp: orderApprovedExporters_def cmpFunc_le_iff)
qed

section \<open>Approval and existing leases\<close>

text \<open>
  What it takes for a policy to give a client access to an exporter: no policies at all in
  the namespace, or a policy whose exporter selector matches, with an entry whose client
  selector matches and whose maximum duration is not exceeded.
\<close>

definition default_policy :: Policy where
  "default_policy = zero_Policy\<lparr>p_Priority := 0, p_SpotAccess := False\<rparr>"

definition grants :: "ext \<Rightarrow> Client \<Rightarrow> Lease \<Rightarrow> Exporter \<Rightarrow> ExporterAccessPolicy \<Rightarrow> Policy \<Rightarrow> bool" where
  "grants x jclient lease exporter policy p \<longleftrightarrow>
     (\<exists>esel. x_LabelSelectorAsSelector x (eps_ExporterSelector (ep_Spec policy)) = Inr esel \<and>
        x_Matches x esel (om_Labels (e_Meta exporter))) \<and>
     p \<in> set (eps_Policies (ep_Spec policy)) \<and>
     (\<exists>from\<in>set (p_From p). \<exists>csel. x_LabelSelectorAsSelector x (from_ClientSelector from) = Inr csel \<and>
        x_Matches x csel (om_Labels (cl_Meta jclient))) \<and>
     (\<forall>m. p_MaximumDuration p = Some m \<longrightarrow> requestedDuration lease \<le> m)"

definition access :: "'s kube \<Rightarrow> ext \<Rightarrow> 's \<Rightarrow> Lease \<Rightarrow> Exporter \<Rightarrow> Policy \<Rightarrow> bool" where
  "access k x s lease exporter p \<longleftrightarrow>
     (\<exists>policies. k_listPolicies k s [InNamespace (om_Namespace (l_Meta lease))] = Inr policies \<and>
        (policies = [] \<and> p = default_policy \<or>
         (\<exists>jclient. k_getClient k s \<lparr>nn_Namespace = om_Namespace (l_Meta lease),
              nn_Name = sp_ClientRef (l_Spec lease)\<rparr> = Inr jclient \<and>
            (\<exists>policy\<in>set policies. grants x jclient lease exporter policy p))))"

lemma approve_from_mem:
  "approve_from x cl l e p f = Inr as \<Longrightarrow> a \<in> set as \<longleftrightarrow>
     a = \<lparr>ae_Exporter = e, ae_ExistingLease = None, ae_Policy = p\<rparr> \<and>
     (\<exists>csel. x_LabelSelectorAsSelector x (from_ClientSelector f) = Inr csel \<and>
        x_Matches x csel (om_Labels (cl_Meta cl))) \<and>
     (\<forall>m. p_MaximumDuration p = Some m \<longrightarrow> requestedDuration l \<le> m)"
  by (auto simp: approve_from_def split: sum.splits if_splits option.splits)

lemma approve_policy_mem:
  assumes "approve_policy x cl l e policy = Inr as"
  shows "a \<in> set as \<longleftrightarrow>
    (\<exists>p. a = \<lparr>ae_Exporter = e, ae_ExistingLease = None, ae_Policy = p\<rparr> \<and> grants x cl l e policy p)"
proof (cases "\<exists>esel. x_LabelSelectorAsSelector x (eps_ExporterSelector (ep_Spec policy)) = Inr esel \<and>
    x_Matches x esel (om_Labels (e_Meta e))")
  case True
  with assms have c: "collect (\<lambda>p. collect (approve_from x cl l e p) (p_From p))
      (eps_Policies (ep_Spec policy)) = Inr as"
    by (auto simp: approve_policy_def)
  have "a \<in> set as \<longleftrightarrow> (\<exists>p\<in>set (eps_Policies (ep_Spec policy)). \<exists>f\<in>set (p_From p).
      a = \<lparr>ae_Exporter = e, ae_ExistingLease = None, ae_Policy = p\<rparr> \<and>
      (\<exists>csel. x_LabelSelectorAsSelector x (from_ClientSelector f) = Inr csel \<and>
         x_Matches x csel (om_Labels (cl_Meta cl))) \<and>
      (\<forall>m. p_MaximumDuration p = Some m \<longrightarrow> requestedDuration l \<le> m))"
    by (rule collect_mem_iff [OF c], rule collect_mem_iff, assumption, rule approve_from_mem)
  with True show ?thesis by (auto simp: grants_def)
next
  case False
  with assms have "as = []"
    by (auto simp: approve_policy_def split: sum.splits if_splits)
  with False show ?thesis by (auto simp: grants_def)
qed

lemma attachMatchingPolicies_mem:
  assumes "attachMatchingPolicies k x s l es = Inr as"
  shows "a \<in> set as \<longleftrightarrow> (\<exists>e\<in>set es. \<exists>p.
    a = \<lparr>ae_Exporter = e, ae_ExistingLease = None, ae_Policy = p\<rparr> \<and> access k x s l e p)"
proof -
  from assms obtain policies where
    pol: "k_listPolicies k s [InNamespace (om_Namespace (l_Meta l))] = Inr policies"
    by (auto simp: attachMatchingPolicies_def split: sum.splits)
  show ?thesis
  proof (cases "policies = []")
    case True
    with assms pol show ?thesis
      by (auto simp: attachMatchingPolicies_def access_def default_policy_def split: sum.splits)
  next
    case False
    with assms pol obtain cl where cl: "k_getClient k s \<lparr>nn_Namespace = om_Namespace (l_Meta l),
        nn_Name = sp_ClientRef (l_Spec l)\<rparr> = Inr cl"
      and c: "collect (\<lambda>e. collect (approve_policy x cl l e) policies) es = Inr as"
      by (auto simp: attachMatchingPolicies_def split: sum.splits if_splits)
    have "a \<in> set as \<longleftrightarrow> (\<exists>e\<in>set es. \<exists>policy\<in>set policies. \<exists>p.
        a = \<lparr>ae_Exporter = e, ae_ExistingLease = None, ae_Policy = p\<rparr> \<and> grants x cl l e policy p)"
      by (rule collect_mem_iff [OF c], rule collect_mem_iff, assumption, rule approve_policy_mem)
    with False pol cl show ?thesis by (auto simp: access_def)
  qed
qed

lemma attachExistingLease_fold:
  "ae_Exporter (fold (\<lambda>e ae. if st_ExporterRef (l_Status e) = Some n
     then ae\<lparr>ae_ExistingLease := Some e\<rparr> else ae) ls ae) = ae_Exporter ae"
  "ae_Policy (fold (\<lambda>e ae. if st_ExporterRef (l_Status e) = Some n
     then ae\<lparr>ae_ExistingLease := Some e\<rparr> else ae) ls ae) = ae_Policy ae"
  by (induction ls arbitrary: ae) simp_all

lemma attachExistingLease_fold_None:
  "ae_ExistingLease (fold (\<lambda>e ae. if st_ExporterRef (l_Status e) = Some n
     then ae\<lparr>ae_ExistingLease := Some e\<rparr> else ae) ls ae) = None \<longleftrightarrow>
   ae_ExistingLease ae = None \<and> (\<forall>l\<in>set ls. st_ExporterRef (l_Status l) \<noteq> Some n)"
  by (induction ls arbitrary: ae) auto

lemma attachExistingLease_simps [simp]:
  "ae_Exporter (attachExistingLease ls ae) = ae_Exporter ae"
  "ae_Policy (attachExistingLease ls ae) = ae_Policy ae"
  by (simp_all add: attachExistingLease_def attachExistingLease_fold)

lemma attachExistingLease_free:
  "ae_ExistingLease (attachExistingLease ls ae) = None \<longleftrightarrow>
     ae_ExistingLease ae = None \<and> (\<forall>l\<in>set ls. st_ExporterRef (l_Status l) \<noteq> Some (ae_Name ae))"
  unfolding attachExistingLease_def by (rule attachExistingLease_fold_None)

section \<open>The choice of an exporter\<close>

text \<open>
  The available list starts with an element that is not leased exactly when the ordered list
  does, and then it is the same element.
\<close>

lemma available_first:
  assumes ok: "\<forall>a\<in>set es. prio_ok a"
    and avail: "filter (\<lambda>a. \<not> takenExporter a) (orderApprovedExporters es) = sel # rest"
    and free: "\<not> leased sel"
  shows "orderApprovedExporters es ! 0 = sel"
proof -
  from avail have "sel \<in> set es"
    by (metis filter_eq_ConsD in_set_conv_decomp set_orderApprovedExporters)
  then have "exporter_before (orderApprovedExporters es ! 0) sel" using ok by (rule ordered_first_least [rotated])
  with free have "\<not> leased (orderApprovedExporters es ! 0)" by (auto simp: exporter_before_def)
  then have "\<not> takenExporter (orderApprovedExporters es ! 0)" by (simp add: takenExporter_def)
  with avail show ?thesis by (cases "orderApprovedExporters es") auto
qed

lemma chooseExporter_keeps:
  assumes "chooseExporter x c r l es = (r', l')"
  shows "l_Meta l' = l_Meta l" "l_Spec l' = l_Spec l" "st_Ended (l_Status l') = st_Ended (l_Status l)"
    "st_BeginTime (l_Status l') = st_BeginTime (l_Status l)" "st_EndTime (l_Status l') = st_EndTime (l_Status l)"
  using assms by (auto simp: chooseExporter_def Let_def set_status_defs split: if_splits prod.splits)

text \<open>When the choice names an exporter, it is the first of the order, free and not under spot access.\<close>

lemma chooseExporter_selects:
  assumes choose: "chooseExporter x c r l es = (r', l')"
    and none: "st_ExporterRef (l_Status l) = None" and some: "st_ExporterRef (l_Status l') = Some n"
  obtains sel where "sel \<in> set es" "n = ae_Name sel" "\<not> leased sel" "\<not> takenExporter sel"
    "l' = l\<lparr>l_Status := (l_Status l)\<lparr>st_Priority := prio sel, st_SpotAccess := spot sel,
       st_ExporterRef := Some (ae_Name sel)\<rparr>\<rparr>" "r' = r"
    "hd (filter (\<lambda>a. \<not> takenExporter a) (orderApprovedExporters es)) = sel"
    "filter (\<lambda>a. \<not> takenExporter a) (orderApprovedExporters es) \<noteq> []"
    "\<not> spot (orderApprovedExporters es ! 0)"
proof -
  let ?av = "filter (\<lambda>a. \<not> takenExporter a) (orderApprovedExporters es)"
  from choose none some have nspot: "\<not> (length (orderApprovedExporters es) > 0 \<and> spot (orderApprovedExporters es ! 0))"
    by (auto simp: chooseExporter_def Let_def set_status_defs split: if_splits)
  with choose none some have av: "?av \<noteq> []"
    by (auto simp: chooseExporter_def Let_def set_status_defs filterOutLeasedExporters_def
        DeleteFunc_def split: if_splits)
  with nspot choose none some have free: "\<not> leased (?av ! 0)"
    by (auto simp: chooseExporter_def Let_def set_status_defs filterOutLeasedExporters_def
        DeleteFunc_def split: if_splits)
  with nspot av choose have res: "r' = r" "l' = l\<lparr>l_Status := (l_Status l)\<lparr>st_Priority := prio (?av ! 0),
      st_SpotAccess := spot (?av ! 0), st_ExporterRef := Some (ae_Name (?av ! 0))\<rparr>\<rparr>"
    by (auto simp: chooseExporter_def Let_def filterOutLeasedExporters_def DeleteFunc_def split: if_splits)
  from av have mem: "?av ! 0 \<in> set ?av" by (metis length_greater_0_conv nth_mem)
  then have "orderApprovedExporters es \<noteq> []" by auto
  with nspot have "\<not> spot (orderApprovedExporters es ! 0)" by simp
  moreover from mem have "?av ! 0 \<in> set es" "\<not> takenExporter (?av ! 0)" by auto
  moreover from some res(2) have "n = ae_Name (?av ! 0)" by simp
  ultimately show ?thesis
    using free res av by (intro that [of "?av ! 0"]) (simp_all add: hd_conv_nth)
qed

section \<open>The candidates of a lease\<close>

text \<open>
  A candidate: an exporter that matches the selector of the lease, is registered and online,
  and that a policy \<open>p\<close> gives the client access to. \<open>held_by\<close>: a lease of a list
  references it.
\<close>

definition online :: "ext \<Rightarrow> Exporter \<Rightarrow> bool" where
  "online x e \<longleftrightarrow>
     x_IsStatusConditionTrue x (es_Conditions (e_Status e)) ExporterConditionTypeRegistered \<and>
     x_IsStatusConditionTrue x (es_Conditions (e_Status e)) ExporterConditionTypeOnline"

definition candidate :: "'s kube \<Rightarrow> ext \<Rightarrow> 's \<Rightarrow> Lease \<Rightarrow> Exporter \<Rightarrow> Policy \<Rightarrow> bool" where
  "candidate k x s lease e p \<longleftrightarrow>
     (\<exists>sel es. GetExporterSelector x lease = Inr sel \<and> \<not> x_Empty x sel \<and>
        ListMatchingExporters k s lease sel = Inr es \<and> e \<in> set es) \<and>
     online x e \<and> access k x s lease e p"

definition referenced :: "Lease list \<Rightarrow> Exporter \<Rightarrow> bool" where
  "referenced leases e \<longleftrightarrow> (\<exists>l\<in>set leases. st_ExporterRef (l_Status l) = Some (om_Name (e_Meta e)))"

definition begin_reached :: "time \<Rightarrow> Lease \<Rightarrow> bool" where
  "begin_reached now lease \<longleftrightarrow> (case sp_BeginTime (l_Spec lease) of None \<Rightarrow> True | Some b \<Rightarrow> b \<le> now)"

lemma reconcileStatusExporterRef_assign:
  "\<not> st_Ended (l_Status l) \<Longrightarrow> st_ExporterRef (l_Status l) = None \<Longrightarrow> begin_reached (c_sched c) l \<Longrightarrow>
   reconcileStatusExporterRef k x c s r l = assignExporter k x c s r l"
  by (auto simp: reconcileStatusExporterRef_def begin_reached_def split: option.splits)

lemma reconcileStatusExporterRef_skip:
  "st_Ended (l_Status l) \<or> st_ExporterRef (l_Status l) \<noteq> None \<Longrightarrow>
   reconcileStatusExporterRef k x c s r l = Inr (r, l)"
  by (auto simp: reconcileStatusExporterRef_def)

lemma reconcileStatusExporterRef_wait:
  "\<not> st_Ended (l_Status l) \<Longrightarrow> st_ExporterRef (l_Status l) = None \<Longrightarrow> \<not> begin_reached (c_sched c) l \<Longrightarrow>
   reconcileStatusExporterRef k x c s r l =
     Inr (r\<lparr>r_RequeueAfter := time_Sub (the (sp_BeginTime (l_Spec l))) (c_sched c)\<rparr>, l)"
  by (auto simp: reconcileStatusExporterRef_def begin_reached_def split: option.splits)

text \<open>The exporters the choice is made from are exactly the candidates, with their leases.\<close>

definition choice :: "'s kube \<Rightarrow> ext \<Rightarrow> 's \<Rightarrow> Lease \<Rightarrow> Lease list \<Rightarrow> ApprovedExporter set" where
  "choice k x s lease actives =
     {attachExistingLease actives \<lparr>ae_Exporter = e, ae_ExistingLease = None, ae_Policy = p\<rparr> | e p.
        candidate k x s lease e p}"

lemma choice_leased:
  "attachExistingLease actives \<lparr>ae_Exporter = e, ae_ExistingLease = None, ae_Policy = p\<rparr> = a \<Longrightarrow>
   leased a = referenced actives e \<and> ae_Exporter a = e \<and> ae_Policy a = p"
  using attachExistingLease_free [of actives "\<lparr>ae_Exporter = e, ae_ExistingLease = None, ae_Policy = p\<rparr>"]
  by (auto simp: referenced_def)

lemma assignExporter_choice:
  assumes sel: "GetExporterSelector x l = Inr sel" "\<not> x_Empty x sel"
    and es: "ListMatchingExporters k s l sel = Inr es"
    and appr: "attachMatchingPolicies k x s l es = Inr as"
    and act: "ListActiveLeases k s (om_Namespace (l_Meta l)) = Inr actives"
  shows "set (attachExistingLeases (filter (\<lambda>a. \<not> offlineExporter x a) as) actives) = choice k x s l actives"
proof -
  have "offlineExporter x a \<longleftrightarrow> \<not> online x (ae_Exporter a)" for a
    by (auto simp: offlineExporter_def online_def)
  with attachMatchingPolicies_mem [OF appr] sel es show ?thesis
    by (auto simp: attachExistingLeases_def choice_def candidate_def image_iff) blast
qed

lemma assignExporter_cases:
  assumes "assignExporter k x c s r l = Inr (r', l')"
  obtains (unchosen) "l_Meta l' = l_Meta l" "l_Spec l' = l_Spec l"
      "l_Status l' = (l_Status l)\<lparr>st_Conditions := st_Conditions (l_Status l')\<rparr>"
  | (chosen) sel es as actives os where
      "GetExporterSelector x l = Inr sel" "\<not> x_Empty x sel" "ListMatchingExporters k s l sel = Inr es"
      "attachMatchingPolicies k x s l es = Inr as" "ListActiveLeases k s (om_Namespace (l_Meta l)) = Inr actives"
      "os = attachExistingLeases (filter (\<lambda>a. \<not> offlineExporter x a) as) actives" "os \<noteq> []"
      "set os = choice k x s l actives" "chooseExporter x c r l os = (r', l')"
proof (cases "\<exists>sel es as actives os. GetExporterSelector x l = Inr sel \<and> \<not> x_Empty x sel \<and>
    ListMatchingExporters k s l sel = Inr es \<and> attachMatchingPolicies k x s l es = Inr as \<and>
    ListActiveLeases k s (om_Namespace (l_Meta l)) = Inr actives \<and>
    os = attachExistingLeases (filter (\<lambda>a. \<not> offlineExporter x a) as) actives \<and> os \<noteq> []")
  case True
  then obtain sel es as actives os where *: "GetExporterSelector x l = Inr sel" "\<not> x_Empty x sel"
      "ListMatchingExporters k s l sel = Inr es" "attachMatchingPolicies k x s l es = Inr as"
      "ListActiveLeases k s (om_Namespace (l_Meta l)) = Inr actives"
      "os = attachExistingLeases (filter (\<lambda>a. \<not> offlineExporter x a) as) actives" "os \<noteq> []"
    by blast
  moreover from * assms have "chooseExporter x c r l os = (r', l')"
    by (auto simp: assignExporter_def filterOutOfflineExporters_def DeleteFunc_def Let_def attachExistingLeases_def
        split: if_splits)
  ultimately show thesis using assignExporter_choice [of x l sel k s es as actives] by (intro chosen) simp_all
next
  case False
  with assms show thesis
    by (intro unchosen) (auto simp: assignExporter_def Let_def set_status_defs Lease_SetStatusCondition_def
      filterOutOfflineExporters_def DeleteFunc_def attachExistingLeases_def split: sum.splits if_splits)
qed

text \<open>What a pass that names an exporter has read and chosen.\<close>

lemma unchosen_ref:
  "l_Status l' = (l_Status l)\<lparr>st_Conditions := cs\<rparr> \<Longrightarrow> st_ExporterRef (l_Status l') = st_ExporterRef (l_Status l)"
  by simp

lemma assignment_elim:
  assumes rec: "reconcileStatusExporterRef k x c s r l = Inr (r', l')"
    and ref: "st_ExporterRef (l_Status l) = None" "st_ExporterRef (l_Status l') = Some n"
  obtains actives os a where "\<not> st_Ended (l_Status l)" "begin_reached (c_sched c) l"
    "ListActiveLeases k s (om_Namespace (l_Meta l)) = Inr actives" "set os = choice k x s l actives"
    "a \<in> set os" "n = ae_Name a" "\<not> leased a" "r' = r"
    "l' = l\<lparr>l_Status := (l_Status l)\<lparr>st_Priority := prio a, st_SpotAccess := spot a,
       st_ExporterRef := Some (ae_Name a)\<rparr>\<rparr>"
    "(\<forall>b\<in>set os. prio_ok b) \<Longrightarrow> orderApprovedExporters os ! 0 = a \<and> \<not> spot a"
proof -
  from rec ref have nend: "\<not> st_Ended (l_Status l)" by (auto simp: reconcileStatusExporterRef_def)
  moreover from rec ref nend have beg: "begin_reached (c_sched c) l"
    by (cases "begin_reached (c_sched c) l") (auto simp: reconcileStatusExporterRef_wait)
  ultimately have "assignExporter k x c s r l = Inr (r', l')"
    using rec ref by (simp add: reconcileStatusExporterRef_assign)
  then show ?thesis
  proof (cases rule: assignExporter_cases)
    case unchosen
    from unchosen_ref [OF unchosen(3)] ref show ?thesis by simp
  next
    case (chosen sel es as actives os)
    from chooseExporter_selects [OF chosen(9) ref] obtain a where
      a: "a \<in> set os" "n = ae_Name a" "\<not> leased a" "r' = r" "\<not> spot (orderApprovedExporters os ! 0)"
      "l' = l\<lparr>l_Status := (l_Status l)\<lparr>st_Priority := prio a, st_SpotAccess := spot a,
         st_ExporterRef := Some (ae_Name a)\<rparr>\<rparr>"
      and av: "hd (filter (\<lambda>a. \<not> takenExporter a) (orderApprovedExporters os)) = a"
      "filter (\<lambda>a. \<not> takenExporter a) (orderApprovedExporters os) \<noteq> []"
      by blast
    then have "orderApprovedExporters os ! 0 = a" if "\<forall>b\<in>set os. prio_ok b"
      by (intro available_first [OF that,
            of a "tl (filter (\<lambda>a. \<not> takenExporter a) (orderApprovedExporters os))"]) auto
    with a nend beg chosen(5,8) show ?thesis by (intro that [of actives os a]) auto
  qed
qed

lemma choice_elim:
  assumes "a \<in> choice k x s l actives"
  obtains e p where "candidate k x s l e p" "ae_Exporter a = e" "ae_Policy a = p"
    "leased a \<longleftrightarrow> referenced actives e"
  using assms choice_leased [of actives] unfolding choice_def by blast

definition bounded_priorities :: "'s kube \<Rightarrow> ext \<Rightarrow> 's \<Rightarrow> Lease \<Rightarrow> bool" where
  "bounded_priorities k x s l \<longleftrightarrow> (\<forall>e p. candidate k x s l e p \<longrightarrow> \<bar>p_Priority p\<bar> < 4611686018427387904)"

lemma choice_prio_ok:
  assumes "bounded_priorities k x s l" "set os = choice k x s l actives"
  shows "\<forall>a\<in>set os. prio_ok a"
  using assms by (force simp: bounded_priorities_def prio_ok_def elim: choice_elim)

lemma choice_first:
  assumes "bounded_priorities k x s l" "set os = choice k x s l actives" "candidate k x s l e p"
  shows "exporter_before (orderApprovedExporters os ! 0)
    (attachExistingLease actives \<lparr>ae_Exporter = e, ae_ExistingLease = None, ae_Policy = p\<rparr>)"
  using assms by (intro ordered_first_least [OF choice_prio_ok]) (auto simp: choice_def)

text \<open>
  C2: When a pass assigns an exporter to a lease that had none, the lease has not ended and its
  requested begin time has come; the exporter is one the API server listed for the selector
  of the lease, it is registered and online, and a policy gives the client of the lease access
  to it; no lease in the list of active leases of the namespace references it; and the pass
  changes nothing of the lease but the reference and the priority and spot flag of that policy.
\<close>

theorem assigned_exporter_safe:
  assumes "reconcileStatusExporterRef k x c s r l = Inr (r', l')"
    and "st_ExporterRef (l_Status l) = None" and "st_ExporterRef (l_Status l') = Some n"
  shows "\<exists>e p actives.
    \<not> st_Ended (l_Status l) \<and> begin_reached (c_sched c) l \<and> candidate k x s l e p \<and> om_Name (e_Meta e) = n \<and>
    ListActiveLeases k s (om_Namespace (l_Meta l)) = Inr actives \<and> \<not> referenced actives e \<and>
    r' = r \<and> l' = l\<lparr>l_Status := (l_Status l)\<lparr>st_Priority := p_Priority p, st_SpotAccess := p_SpotAccess p,
       st_ExporterRef := Some n\<rparr>\<rparr>"
  using assms
proof (cases rule: assignment_elim)
  case (1 actives os a)
  with choice_elim [of a k x s l actives] obtain e p where "candidate k x s l e p" "ae_Exporter a = e"
    "ae_Policy a = p" "leased a \<longleftrightarrow> referenced actives e"
    by metis
  with 1 show ?thesis by (intro exI [of _ e] exI [of _ p] exI [of _ actives]) simp
qed

text \<open>
  C4: The exporter that is assigned is the best of the free candidates, in the documented order:
  it is not under spot access, and no other free candidate without spot access has a higher
  priority, or the same priority and a smaller name. The priorities stay below \<open>2^62\<close> in
  absolute value; beyond that the subtraction in the comparison can overflow.
\<close>

theorem assigned_exporter_best:
  assumes rec: "reconcileStatusExporterRef k x c s r l = Inr (r', l')"
    and ref: "st_ExporterRef (l_Status l) = None" "st_ExporterRef (l_Status l') = Some n"
    and bounded: "bounded_priorities k x s l"
    and actives: "ListActiveLeases k s (om_Namespace (l_Meta l)) = Inr actives"
    and other: "candidate k x s l e p" "\<not> referenced actives e"
  shows "\<not> st_SpotAccess (l_Status l') \<and>
    (p_SpotAccess p \<or> p_Priority p < st_Priority (l_Status l') \<or>
     p_Priority p = st_Priority (l_Status l') \<and> strings_Compare n (om_Name (e_Meta e)) \<le> 0)"
  using rec ref
proof (cases rule: assignment_elim)
  case (1 acts os a)
  with actives have os: "set os = choice k x s l actives" by simp
  with 1 choice_prio_ok [OF bounded os] have first: "orderApprovedExporters os ! 0 = a" "\<not> spot a" by blast+
  with choice_first [OF bounded os other(1)] choice_leased [OF refl, of actives e p] other(2) 1(6,7,9)
  show ?thesis by (auto simp: exporter_before_def)
qed

text \<open>When every call of the API server succeeds, the pass makes its choice.\<close>

definition reads_ok :: "'s kube \<Rightarrow> ext \<Rightarrow> 's \<Rightarrow> Lease \<Rightarrow> Exporter list \<Rightarrow> ApprovedExporter list \<Rightarrow> Lease list \<Rightarrow> bool" where
  "reads_ok k x s l es as actives \<longleftrightarrow>
     (\<exists>sel. GetExporterSelector x l = Inr sel \<and> \<not> x_Empty x sel \<and>
        ListMatchingExporters k s l sel = Inr es) \<and>
     attachMatchingPolicies k x s l es = Inr as \<and>
     ListActiveLeases k s (om_Namespace (l_Meta l)) = Inr actives"

lemma candidate_iff:
  assumes "reads_ok k x s l es as actives"
  shows "candidate k x s l e p \<longleftrightarrow> \<lparr>ae_Exporter = e, ae_ExistingLease = None, ae_Policy = p\<rparr> \<in> set as \<and> online x e"
proof -
  from assms obtain sel where "GetExporterSelector x l = Inr sel" "\<not> x_Empty x sel"
    "ListMatchingExporters k s l sel = Inr es" "attachMatchingPolicies k x s l es = Inr as"
    by (auto simp: reads_ok_def)
  then show ?thesis by (auto simp: candidate_def attachMatchingPolicies_mem)
qed

lemma assignExporter_chooses:
  assumes "reads_ok k x s l es as actives" "candidate k x s l e p"
  obtains os where "set os = choice k x s l actives" "os \<noteq> []"
    "assignExporter k x c s r l = Inr (chooseExporter x c r l os)"
proof -
  from assms(1) obtain sel where reads: "GetExporterSelector x l = Inr sel" "\<not> x_Empty x sel"
    "ListMatchingExporters k s l sel = Inr es" "attachMatchingPolicies k x s l es = Inr as"
    "ListActiveLeases k s (om_Namespace (l_Meta l)) = Inr actives"
    by (auto simp: reads_ok_def)
  let ?os = "attachExistingLeases (filter (\<lambda>a. \<not> offlineExporter x a) as) actives"
  from assignExporter_choice [OF reads] have set: "set ?os = choice k x s l actives" .
  with assms(2) have ne: "?os \<noteq> []" by (metis (mono_tags, lifting) choice_def empty_iff mem_Collect_eq set_empty)
  then have "filter (\<lambda>a. \<not> offlineExporter x a) as \<noteq> []" "as \<noteq> []"
    by (auto simp: attachExistingLeases_def)
  with reads have "assignExporter k x c s r l = Inr (chooseExporter x c r l ?os)"
    by (auto simp: assignExporter_def filterOutOfflineExporters_def DeleteFunc_def Let_def)
  with set ne show ?thesis using that by blast
qed

text \<open>The three outcomes of the choice, by the first of the ordered exporters.\<close>

lemma chooseExporter_first_spot:
  "os \<noteq> [] \<Longrightarrow> spot (orderApprovedExporters os ! 0) \<Longrightarrow>
   chooseExporter x c r l os = (r, SetStatusUnsatisfiable x (c_cond c) ''SpotAccess''
     (''The only possible exporters are under spot access (i.e. '' @ ae_Name (orderApprovedExporters os ! 0) @
      ''), but spot access is still not implemented'') l)"
  by (simp add: chooseExporter_def Let_def)

lemma chooseExporter_first_free:
  assumes "os \<noteq> []" "\<not> spot (orderApprovedExporters os ! 0)" "\<not> leased (orderApprovedExporters os ! 0)"
  shows "chooseExporter x c r l os = (r, l\<lparr>l_Status := (l_Status l)\<lparr>
     st_Priority := prio (orderApprovedExporters os ! 0), st_SpotAccess := False,
     st_ExporterRef := Some (ae_Name (orderApprovedExporters os ! 0))\<rparr>\<rparr>)"
proof -
  from assms obtain a as where os: "orderApprovedExporters os = a # as"
    by (metis list.exhaust orderApprovedExporters_Nil_iff)
  with assms have "\<not> takenExporter a" by (auto simp: takenExporter_def)
  with os assms show ?thesis
    by (simp add: chooseExporter_def Let_def filterOutLeasedExporters_def DeleteFunc_def)
qed

lemma chooseExporter_all_leased:
  assumes "os \<noteq> []" "\<not> spot (orderApprovedExporters os ! 0)" "\<forall>a\<in>set os. leased a"
  shows "\<exists>msg. chooseExporter x c r l os =
    (r\<lparr>r_RequeueAfter := Second\<rparr>, SetStatusPending x (c_cond c) ''NotAvailable'' msg l)"
proof -
  have "leased (filter (\<lambda>a. \<not> takenExporter a) (orderApprovedExporters os) ! 0)"
    if "filter (\<lambda>a. \<not> takenExporter a) (orderApprovedExporters os) \<noteq> []"
    using that assms(3) nth_mem [of 0 "filter (\<lambda>a. \<not> takenExporter a) (orderApprovedExporters os)"]
    by (metis (no_types, lifting) filter_is_subset length_greater_0_conv set_orderApprovedExporters subsetD)
  with assms show ?thesis
    by (auto simp: chooseExporter_def Let_def filterOutLeasedExporters_def DeleteFunc_def)
qed

text \<open>
  C3: When all reads succeed, a lease that is due, not ended and without an exporter gets one in
  this pass exactly when some candidate is referenced by no active lease and is open to the
  client without spot access; provided that the priorities of the candidates are below 2^62 in
  absolute value, since the comparison of the sort subtracts them and the difference may wrap.
\<close>

theorem exporter_assigned_iff:
  assumes reads: "reads_ok k x s l es as actives" and bounded: "bounded_priorities k x s l"
    and waiting: "\<not> st_Ended (l_Status l)" "st_ExporterRef (l_Status l) = None" "begin_reached (c_sched c) l"
  shows "(\<exists>r' l' n. reconcileStatusExporterRef k x c s r l = Inr (r', l') \<and> st_ExporterRef (l_Status l') = Some n)
    \<longleftrightarrow> (\<exists>e p. candidate k x s l e p \<and> \<not> referenced actives e \<and> \<not> p_SpotAccess p)"
proof (intro iffI; elim exE conjE)
  fix r' l' n
  assume rec: "reconcileStatusExporterRef k x c s r l = Inr (r', l')" "st_ExporterRef (l_Status l') = Some n"
  from rec(1) waiting(2) rec(2) show "\<exists>e p. candidate k x s l e p \<and> \<not> referenced actives e \<and> \<not> p_SpotAccess p"
  proof (cases rule: assignment_elim)
    case (1 acts os a)
    with reads have os: "set os = choice k x s l actives" by (simp add: reads_ok_def)
    with 1 choice_prio_ok [OF bounded os] choice_elim [of a k x s l actives] show ?thesis by metis
  qed
next
  fix e p
  assume cand: "candidate k x s l e p" "\<not> referenced actives e" "\<not> p_SpotAccess p"
  from assignExporter_chooses [OF reads cand(1)] obtain os where os: "set os = choice k x s l actives" "os \<noteq> []"
    and asg: "assignExporter k x c s r l = Inr (chooseExporter x c r l os)"
    by blast
  from choice_first [OF bounded os(1) cand(1)] choice_leased [OF refl, of actives e p] cand
  have "\<not> leased (orderApprovedExporters os ! 0)" "\<not> spot (orderApprovedExporters os ! 0)"
    by (auto simp: exporter_before_def)
  with chooseExporter_first_free [OF os(2)] asg waiting
  show "\<exists>r' l' n. reconcileStatusExporterRef k x c s r l = Inr (r', l') \<and> st_ExporterRef (l_Status l') = Some n"
    by (auto simp: reconcileStatusExporterRef_assign)
qed

section \<open>Evaluated instances\<close>

text \<open>
  The sample cluster: two exporters are online, one of them is held by another lease, and
  there are no access policies; and a cluster with policies.
\<close>

definition sample_clock :: clock_readings where
  "sample_clock = \<lparr>c_sched = 10 * Second, c_cond = 10 * Second, c_begin = 10 * Second, c_ready = 10 * Second,
     c_now = 10 * Second, c_endcond = 10 * Second, c_end = 10 * Second\<rparr>"

definition sample_mine :: Lease where
  "sample_mine = sample_lease ''mine'' ''alice'' (Some (60 * Second))"

definition sample_assigned :: Lease where
  "sample_assigned = sample_mine\<lparr>l_Status := (l_Status sample_mine)\<lparr>st_ExporterRef := Some ''rpi-b''\<rparr>\<rparr>"

definition sample_actives :: "Lease list" where
  "sample_actives = cu_Leases sample_cluster"

definition sample_online :: "Exporter list" where
  "sample_online = [sample_exporter ''rpi-b'' True, sample_exporter ''rpi-a'' True, sample_exporter ''rpi-0'' False]"

lemma sample_pass:
  "reconcileStatusExporterRef mem_kube mem_ext sample_clock sample_cluster zero_Result sample_mine =
     Inr (zero_Result, sample_assigned)"
  by code_simp

lemma sample_refs: "st_ExporterRef (l_Status sample_mine) = None" "st_ExporterRef (l_Status sample_assigned) = Some ''rpi-b''"
  by (code_simp, code_simp)

lemma sample_begin: "begin_reached (c_sched sample_clock) sample_mine"
  by code_simp

lemma sample_selector_eval:
  "GetExporterSelector mem_ext sample_mine = Inr [\<lparr>rq_Key = ''board'', rq_Operator = SelEquals, rq_Values = [''rpi'']\<rparr>]"
  by code_simp

lemma sample_matching:
  "ListMatchingExporters mem_kube sample_cluster sample_mine
     [\<lparr>rq_Key = ''board'', rq_Operator = SelEquals, rq_Values = [''rpi'']\<rparr>] = Inr sample_online"
  by code_simp

lemma sample_active_leases:
  "ListActiveLeases mem_kube sample_cluster (om_Namespace (l_Meta sample_mine)) = Inr sample_actives"
  by code_simp

lemma sample_no_policies:
  "k_listPolicies mem_kube sample_cluster [InNamespace (om_Namespace (l_Meta sample_mine))] = Inr []"
  by code_simp

lemma sample_access: "access mem_kube mem_ext sample_cluster sample_mine e p \<longleftrightarrow> p = default_policy"
  by (simp add: access_def sample_no_policies)

lemma sample_candidate:
  "candidate mem_kube mem_ext sample_cluster sample_mine e p \<longleftrightarrow>
     p = default_policy \<and> e \<in> set sample_online \<and> online mem_ext e"
  by (auto simp: candidate_def sample_access sample_selector_eval sample_matching)

lemma sample_bounded: "bounded_priorities mem_kube mem_ext sample_cluster sample_mine"
  by (simp add: bounded_priorities_def sample_candidate default_policy_def)

lemma sample_free:
  "candidate mem_kube mem_ext sample_cluster sample_mine (sample_exporter ''rpi-b'' True) default_policy"
  "\<not> referenced sample_actives (sample_exporter ''rpi-b'' True)"
proof -
  have "online mem_ext (sample_exporter ''rpi-b'' True)" by code_simp
  then show "candidate mem_kube mem_ext sample_cluster sample_mine (sample_exporter ''rpi-b'' True) default_policy"
    by (simp add: sample_candidate sample_online_def)
qed code_simp

lemma sample_reads:
  "reads_ok mem_kube mem_ext sample_cluster sample_mine sample_online
     (map (\<lambda>e. \<lparr>ae_Exporter = e, ae_ExistingLease = None, ae_Policy = default_policy\<rparr>) sample_online) sample_actives"
  by (auto simp: reads_ok_def sample_selector_eval sample_matching sample_active_leases
      attachMatchingPolicies_def sample_no_policies default_policy_def)

theorem assigned_exporter_safe_witness:
  "\<exists>e p. candidate mem_kube mem_ext sample_cluster sample_mine e p \<and> om_Name (e_Meta e) = ''rpi-b'' \<and>
     \<not> referenced sample_actives e"
  using assigned_exporter_safe [OF sample_pass sample_refs] sample_active_leases by auto

theorem assigned_exporter_best_witness:
  "\<not> st_SpotAccess (l_Status sample_assigned) \<and> (p_SpotAccess default_policy \<or>
    p_Priority default_policy < st_Priority (l_Status sample_assigned) \<or>
     p_Priority default_policy = st_Priority (l_Status sample_assigned) \<and>
       strings_Compare ''rpi-b'' (om_Name (e_Meta (sample_exporter ''rpi-b'' True))) \<le> 0)"
  by (rule assigned_exporter_best [OF sample_pass sample_refs sample_bounded sample_active_leases sample_free])

theorem exporter_assigned_iff_witness:
  "\<exists>r' l' n. reconcileStatusExporterRef mem_kube mem_ext sample_clock sample_cluster zero_Result sample_mine = Inr (r', l') \<and>
     st_ExporterRef (l_Status l') = Some n"
proof -
  have "\<not> st_Ended (l_Status sample_mine)" "\<not> p_SpotAccess default_policy" by (code_simp, code_simp)
  with exporter_assigned_iff [OF sample_reads sample_bounded _ sample_refs(1) sample_begin, of zero_Result] sample_free
  show ?thesis by blast
qed

end
