(* ===== verification/LeaseLifecycle.thy ===== *)
theory LeaseLifecycle
  imports LeaseController
begin

text \<open>
  The life of a lease under the reconciler: the invariant of its status, its phases (waiting,
  holding an exporter, over) and when it moves from one to the next.
\<close>

section \<open>The life of a lease\<close>

text \<open>What the last two phases keep, and when the last one ends the lease.\<close>

lemma reconcileStatusBeginEndTimes_frame [lease_frame]:
  "l_Meta (reconcileStatusBeginEndTimes x c l) = l_Meta l"
  "l_Spec (reconcileStatusBeginEndTimes x c l) = l_Spec l"
  "st_ExporterRef (l_Status (reconcileStatusBeginEndTimes x c l)) = st_ExporterRef (l_Status l)"
  "st_Ended (l_Status (reconcileStatusBeginEndTimes x c l)) = st_Ended (l_Status l)"
  "st_EndTime (l_Status (reconcileStatusBeginEndTimes x c l)) = st_EndTime (l_Status l)"
  by (simp_all add: reconcileStatusBeginEndTimes_def set_status_defs)

lemma reconcileStatusBeginEndTimes_begin:
  "st_BeginTime (l_Status (reconcileStatusBeginEndTimes x c l)) =
    (if st_BeginTime (l_Status l) = None \<and> st_ExporterRef (l_Status l) \<noteq> None
     then Some (c_begin c) else st_BeginTime (l_Status l))"
  by (auto simp: reconcileStatusBeginEndTimes_def set_status_defs)

lemma reconcileStatusBeginEndTimes_idle:
  "(st_ExporterRef (l_Status l) = None \<longleftrightarrow> st_BeginTime (l_Status l) = None) \<Longrightarrow>
   reconcileStatusBeginEndTimes x c l = l"
  by (auto simp: reconcileStatusBeginEndTimes_def)

lemma reconcileStatusEnded_frame [lease_frame]:
  "reconcileStatusEnded x c r l = (r', l') \<Longrightarrow> l_Meta l' = l_Meta l"
  "reconcileStatusEnded x c r l = (r', l') \<Longrightarrow> l_Spec l' = l_Spec l"
  "reconcileStatusEnded x c r l = (r', l') \<Longrightarrow> st_ExporterRef (l_Status l') = st_ExporterRef (l_Status l)"
  "reconcileStatusEnded x c r l = (r', l') \<Longrightarrow> st_BeginTime (l_Status l') = st_BeginTime (l_Status l)"
  by (auto simp: reconcileStatusEnded_def Release_def Expire_def set_status_defs Let_def
      split: if_splits option.splits)

text \<open>When the last phase ends a lease.\<close>

definition must_end :: "ext \<Rightarrow> clock_readings \<Rightarrow> Lease \<Rightarrow> bool" where
  "must_end x c l \<longleftrightarrow> cond_true x l LeaseConditionTypeUnsatisfiable \<or> cond_true x l LeaseConditionTypeInvalid \<or>
     sp_Release (l_Spec l) \<or> (\<exists>b. st_BeginTime (l_Status l) = Some b \<and> expiration l b < c_now c)"

lemma reconcileStatusEnded_ended:
  "reconcileStatusEnded x c r l = (r', l') \<Longrightarrow> st_Ended (l_Status l') \<longleftrightarrow> st_Ended (l_Status l) \<or> must_end x c l"
  by (auto simp: reconcileStatusEnded_def must_end_def Release_def Expire_def set_status_defs Let_def
      split: if_splits option.splits)

lemma reconcileStatusEnded_unended:
  "reconcileStatusEnded x c r l = (r', l') \<Longrightarrow> \<not> st_Ended (l_Status l') \<Longrightarrow>
   l' = l \<and> (case st_BeginTime (l_Status l) of None \<Rightarrow> r' = r
     | Some b \<Rightarrow> r' = r\<lparr>r_RequeueAfter := time_Sub (expiration l b) (c_now c)\<rparr> \<and> c_now c \<le> expiration l b)"
  by (auto simp: reconcileStatusEnded_def must_end_def Release_def Expire_def set_status_defs Let_def
      split: if_splits option.splits)

lemma reconcileStatusEnded_endtime:
  "reconcileStatusEnded x c r l = (r', l') \<Longrightarrow> st_EndTime (l_Status l') =
    (if st_Ended (l_Status l) \<or> \<not> must_end x c l then st_EndTime (l_Status l)
     else if cond_true x l LeaseConditionTypeUnsatisfiable \<or> cond_true x l LeaseConditionTypeInvalid
     then Some (c_now c) else Some (c_end c))"
  by (auto simp: reconcileStatusEnded_def must_end_def Release_def Expire_def set_status_defs Let_def
      split: if_splits option.splits)

lemma ended_cond:
  "conditions_ok x \<Longrightarrow> reconcileStatusEnded x c r l = (r', l') \<Longrightarrow>
   cond_true x l' t \<longleftrightarrow> cond_true x l t \<and> \<not> (t = LeaseConditionTypeReady \<and> \<not> st_Ended (l_Status l) \<and> must_end x c l \<and>
     \<not> cond_true x l LeaseConditionTypeUnsatisfiable \<and> \<not> cond_true x l LeaseConditionTypeInvalid)"
  by (auto simp: reconcileStatusEnded_def must_end_def Release_def Expire_def set_status_defs Let_def
      Lease_SetStatusCondition_true split: if_splits option.splits)

text \<open>The first phase: the pass keeps a lease as it is, sets a condition, or acquires an exporter.\<close>

definition refused_lease :: "ext \<Rightarrow> clock_readings \<Rightarrow> Lease \<Rightarrow> string \<Rightarrow> Lease \<Rightarrow> bool" where
  "refused_lease x c l t l' \<longleftrightarrow> (\<exists>reason m. l' = Lease_SetStatusCondition x (c_cond c) t True reason m l)"

definition acquired_lease :: "Lease \<Rightarrow> string \<Rightarrow> Lease \<Rightarrow> bool" where
  "acquired_lease l n l' \<longleftrightarrow> (\<exists>p sp. l' = l\<lparr>l_Status := (l_Status l)\<lparr>st_Priority := p, st_SpotAccess := sp,
     st_ExporterRef := Some n\<rparr>\<rparr>)"

definition refusals :: "string set" where
  "refusals = {LeaseConditionTypeUnsatisfiable, LeaseConditionTypeInvalid, LeaseConditionTypePending}"

lemma refused_leaseI [simp]:
  "\<exists>t\<in>refusals. refused_lease x c l t (SetStatusUnsatisfiable x (c_cond c) reason m l)"
  "\<exists>t\<in>refusals. refused_lease x c l t (SetStatusInvalid x (c_cond c) reason m l)"
  "\<exists>t\<in>refusals. refused_lease x c l t (SetStatusPending x (c_cond c) reason m l)"
  unfolding refused_lease_def set_status_defs refusals_def by auto

lemma acquired_leaseI [simp]:
  "\<exists>n. acquired_lease l n (l\<lparr>l_Status := (l_Status l)\<lparr>st_Priority := p, st_SpotAccess := sp, st_ExporterRef := Some m\<rparr>\<rparr>)"
  unfolding acquired_lease_def by blast

lemma chooseExporter_outcome:
  "(\<exists>t\<in>refusals. refused_lease x c l t (snd (chooseExporter x c r l os))) \<or>
   (\<exists>n. acquired_lease l n (snd (chooseExporter x c r l os)))"
  unfolding chooseExporter_def Let_def by (simp split: prod.split)

lemma assignExporter_outcome:
  "case assignExporter k x c s r l of Inl _ \<Rightarrow> True
   | Inr rl \<Rightarrow> (\<exists>t\<in>refusals. refused_lease x c l t (snd rl)) \<or> (\<exists>n. acquired_lease l n (snd rl))"
  using chooseExporter_outcome [of x c l r]
  by (simp add: assignExporter_def split_beta del: split_paired_All split: sum.split)

lemma reconcileStatusExporterRef_cases:
  assumes "reconcileStatusExporterRef k x c s r l = Inr (r', l')"
  obtains (kept) "l' = l"
  | (refused) t where "t \<in> refusals" "\<not> st_Ended (l_Status l)" "st_ExporterRef (l_Status l) = None"
      "refused_lease x c l t l'"
  | (acquired) n where "\<not> st_Ended (l_Status l)" "st_ExporterRef (l_Status l) = None"
      "acquired_lease l n l'"
proof (cases "st_Ended (l_Status l) \<or> st_ExporterRef (l_Status l) \<noteq> None")
  case True
  with assms show thesis by (intro kept) (simp add: reconcileStatusExporterRef_skip)
next
  case waiting: False
  show thesis
  proof (cases "begin_reached (c_sched c) l")
    case True
    with assms waiting have "assignExporter k x c s r l = Inr (r', l')"
      by (simp add: reconcileStatusExporterRef_assign)
    with assignExporter_outcome [where k = k and x = x and c = c and s = s and r = r and l = l]
    have "(\<exists>t\<in>refusals. refused_lease x c l t l') \<or> (\<exists>n. acquired_lease l n l')" by simp
    then show thesis
    proof (elim disjE bexE exE)
      fix t assume "t \<in> refusals" "refused_lease x c l t l'"
      with waiting show thesis by (intro refused) auto
    next
      fix n assume "acquired_lease l n l'"
      with waiting show thesis by (intro acquired) auto
    qed
  next
    case False
    with assms waiting show thesis by (intro kept) (simp add: reconcileStatusExporterRef_wait)
  qed
qed

definition lease_mid :: "ext \<Rightarrow> time \<Rightarrow> Lease \<Rightarrow> bool" where
  "lease_mid x now l \<longleftrightarrow>
     (st_ExporterRef (l_Status l) = None \<longleftrightarrow> st_BeginTime (l_Status l) = None) \<and>
     (st_Ended (l_Status l) \<longleftrightarrow> st_EndTime (l_Status l) \<noteq> None) \<and>
     (\<forall>b. st_BeginTime (l_Status l) = Some b \<longrightarrow> b \<le> now) \<and>
     (\<forall>e. st_EndTime (l_Status l) = Some e \<longrightarrow> e \<le> now \<and> (\<forall>b. st_BeginTime (l_Status l) = Some b \<longrightarrow> b \<le> e)) \<and>
     (cond_true x l LeaseConditionTypeReady \<longleftrightarrow> st_ExporterRef (l_Status l) \<noteq> None \<and> \<not> st_Ended (l_Status l)) \<and>
     (cond_true x l LeaseConditionTypeUnsatisfiable \<or> cond_true x l LeaseConditionTypeInvalid \<longrightarrow>
        st_ExporterRef (l_Status l) = None)"

definition lease_wf :: "ext \<Rightarrow> time \<Rightarrow> Lease \<Rightarrow> bool" where
  "lease_wf x now l \<longleftrightarrow> lease_mid x now l \<and>
     (cond_true x l LeaseConditionTypeUnsatisfiable \<or> cond_true x l LeaseConditionTypeInvalid \<longrightarrow>
        st_Ended (l_Status l))"

lemma lease_mid_mono: "lease_mid x t l \<Longrightarrow> t \<le> u \<Longrightarrow> lease_mid x u l"
  by (auto simp: lease_mid_def intro: order_trans)

lemma condition_types_distinct [simp]:
  "LeaseConditionTypeReady \<noteq> LeaseConditionTypeUnsatisfiable" "LeaseConditionTypeUnsatisfiable \<noteq> LeaseConditionTypeReady"
  "LeaseConditionTypeReady \<noteq> LeaseConditionTypeInvalid" "LeaseConditionTypeInvalid \<noteq> LeaseConditionTypeReady"
  "LeaseConditionTypeReady \<noteq> LeaseConditionTypePending" "LeaseConditionTypePending \<noteq> LeaseConditionTypeReady"
  "LeaseConditionTypeUnsatisfiable \<noteq> LeaseConditionTypeInvalid" "LeaseConditionTypeInvalid \<noteq> LeaseConditionTypeUnsatisfiable"
  "LeaseConditionTypePending \<noteq> LeaseConditionTypeUnsatisfiable" "LeaseConditionTypePending \<noteq> LeaseConditionTypeInvalid"
  "LeaseConditionTypeUnsatisfiable \<noteq> LeaseConditionTypePending" "LeaseConditionTypeInvalid \<noteq> LeaseConditionTypePending"
  by (simp_all add: lease_condition_types)

lemma refusal_not_Ready: "t \<in> refusals \<Longrightarrow> t \<noteq> LeaseConditionTypeReady"
  by (auto simp: refusals_def)

lemma wf_after_first_phase:
  assumes rec: "reconcileStatusExporterRef k x c s r l = Inr (r', l1)"
    and ok: "conditions_ok x" and wf: "lease_wf x t l" and le: "t \<le> c_sched c" "clock_monotone c"
  shows "lease_mid x (c_now c) (reconcileStatusBeginEndTimes x c l1)"
proof -
  from le have le': "t \<le> c_now c" "c_begin c \<le> c_now c" by (simp_all add: clock_monotone_def)
  with wf have mid: "lease_mid x (c_now c) l" by (auto simp: lease_wf_def intro: lease_mid_mono)
  from rec show ?thesis
  proof (cases rule: reconcileStatusExporterRef_cases)
    case kept
    from mid have "st_ExporterRef (l_Status l) = None \<longleftrightarrow> st_BeginTime (l_Status l) = None"
      unfolding lease_mid_def by blast
    with kept mid show ?thesis by (simp add: reconcileStatusBeginEndTimes_idle)
  next
    case (refused u)
    with mid ok refusal_not_Ready [of u] show ?thesis
      by (clarsimp simp: lease_mid_def reconcileStatusBeginEndTimes_def refused_lease_def Lease_SetStatusCondition_true)
  next
    case (acquired n)
    with wf mid ok le' show ?thesis
      by (auto simp: lease_wf_def lease_mid_def reconcileStatusBeginEndTimes_def acquired_lease_def
          Lease_SetStatusCondition_true set_status_defs)
  qed
qed

lemma reconcileStatusEnded_keeps:
  "reconcileStatusEnded x c r l = (r', l') \<Longrightarrow> st_Ended (l_Status l) \<or> \<not> must_end x c l \<Longrightarrow> l' = l"
  by (auto simp: reconcileStatusEnded_def must_end_def split: if_splits option.splits)

lemma wf_after_last_phase:
  assumes rec: "reconcileStatusEnded x c r l = (r', l')"
    and ok: "conditions_ok x" and mid: "lease_mid x (c_now c) l" and le: "clock_monotone c"
  shows "lease_wf x (c_end c) l'"
proof -
  from le have le': "c_now c \<le> c_end c" by (simp add: clock_monotone_def)
  with mid have mid': "lease_mid x (c_end c) l" by (rule lease_mid_mono)
  show ?thesis
  proof (cases "st_Ended (l_Status l) \<or> \<not> must_end x c l")
    case True
    with mid' reconcileStatusEnded_keeps [OF rec True] show ?thesis by (auto simp: lease_wf_def must_end_def)
  next
    case False
    then have ended: "st_Ended (l_Status l')" "\<not> st_Ended (l_Status l)" "must_end x c l"
      using reconcileStatusEnded_ended [OF rec] by blast+
    have "\<exists>e. st_EndTime (l_Status l') = Some e \<and> c_now c \<le> e \<and> e \<le> c_end c"
      using le' ended(2,3) by (simp add: reconcileStatusEnded_endtime [OF rec])
    then obtain e where e: "st_EndTime (l_Status l') = Some e" "c_now c \<le> e" "e \<le> c_end c" by blast
    have frame: "st_ExporterRef (l_Status l') = st_ExporterRef (l_Status l)"
      "st_BeginTime (l_Status l') = st_BeginTime (l_Status l)"
      using reconcileStatusEnded_frame(3,4) [OF rec] by simp_all
    from mid have "cond_true x l LeaseConditionTypeReady \<longrightarrow> st_ExporterRef (l_Status l) \<noteq> None"
      "cond_true x l LeaseConditionTypeUnsatisfiable \<or> cond_true x l LeaseConditionTypeInvalid \<longrightarrow>
        st_ExporterRef (l_Status l) = None"
      unfolding lease_mid_def by blast+
    with ended(2,3) have ready: "\<not> cond_true x l' LeaseConditionTypeReady"
      unfolding ended_cond [OF ok rec] by metis
    have times: "b \<le> e" if "st_BeginTime (l_Status l) = Some b" for b
      using that mid e(2) by (force simp: lease_mid_def)
    have other: "cond_true x l' t \<Longrightarrow> cond_true x l t" for t
      unfolding ended_cond [OF ok rec] by blast
    have "lease_mid x (c_end c) l'"
      unfolding lease_mid_def frame e(1) using mid' ended(1) e(3) ready times other
      by (simp add: lease_mid_def) metis
    with ended show ?thesis by (simp add: lease_wf_def)
  qed
qed

lemma reconcileStatus_elim:
  assumes "reconcileStatus k x c s l = Inr (r', l')"
  obtains r1 l1 where "reconcileStatusExporterRef k x c s zero_Result l = Inr (r1, l1)"
    "reconcileStatusEnded x c r1 (reconcileStatusBeginEndTimes x c l1) = (r', l')"
  using assms by (auto simp: reconcileStatus_def split: sum.splits)

lemma wf_reconcileStatus:
  assumes "reconcileStatus k x c s l = Inr (r', l')" "conditions_ok x"
    and "lease_wf x t l" "t \<le> c_sched c" "clock_monotone c"
  shows "lease_wf x (c_end c) l'"
  using assms by (elim reconcileStatus_elim) (metis wf_after_first_phase wf_after_last_phase)

section \<open>Phases\<close>

text \<open>
  The abstract machine: a lease waits, then holds one exporter from a begin time on, and is
  over in the end, with or without having held an exporter.
\<close>

datatype phase = Waiting | Holding string time | Over "(string \<times> time) option"

definition holding :: "Lease \<Rightarrow> (string \<times> time) option" where
  "holding l = (case (st_ExporterRef (l_Status l), st_BeginTime (l_Status l)) of
     (Some n, Some b) \<Rightarrow> Some (n, b) | _ \<Rightarrow> None)"

definition lease_phase :: "Lease \<Rightarrow> phase" where
  "lease_phase l =
     (if st_Ended (l_Status l) then Over (holding l)
      else case holding l of None \<Rightarrow> Waiting | Some (n, b) \<Rightarrow> Holding n b)"

inductive phase_step :: "phase \<Rightarrow> phase \<Rightarrow> bool" where
  stay: "phase_step p p"
| acquire: "phase_step Waiting (Holding n b)"
| give_up: "phase_step Waiting (Over None)"
| acquire_over: "phase_step Waiting (Over (Some (n, b)))"
| finish: "phase_step (Holding n b) (Over (Some (n, b)))"

inductive_cases phase_step_OverE: "phase_step (Over h) q"
inductive_cases phase_step_HoldingE: "phase_step (Holding n b) q"
inductive_cases phase_step_WaitingE: "phase_step Waiting q"
inductive_cases phase_step_to_WaitingE: "phase_step p Waiting"

lemma phase_steps_Over: "phase_step\<^sup>*\<^sup>* p q \<Longrightarrow> p = Over h \<Longrightarrow> q = Over h"
  by (induction rule: rtranclp_induct) (auto elim: phase_step_OverE)

lemma phase_steps_Holding: "phase_step\<^sup>*\<^sup>* p q \<Longrightarrow> p = Holding n b \<Longrightarrow> q = Holding n b \<or> q = Over (Some (n, b))"
  by (induction rule: rtranclp_induct) (auto elim: phase_step_OverE phase_step_HoldingE)

lemma holding_frame:
  "st_ExporterRef (l_Status l') = st_ExporterRef (l_Status l) \<Longrightarrow>
   st_BeginTime (l_Status l') = st_BeginTime (l_Status l) \<Longrightarrow> holding l' = holding l"
  by (simp add: holding_def)

lemma phases_reconcileStatus:
  assumes rec: "reconcileStatus k x c s l = Inr (r', l')" and wf: "lease_wf x t l"
  shows "phase_step (lease_phase l) (lease_phase l')"
proof -
  from rec obtain r1 l1 where first: "reconcileStatusExporterRef k x c s zero_Result l = Inr (r1, l1)"
    and last: "reconcileStatusEnded x c r1 (reconcileStatusBeginEndTimes x c l1) = (r', l')"
    by (rule reconcileStatus_elim)
  let ?l2 = "reconcileStatusBeginEndTimes x c l1"
  have hold: "holding l' = holding ?l2" using reconcileStatusEnded_frame(3,4) [OF last] by (rule holding_frame)
  have ended: "st_Ended (l_Status ?l2) \<Longrightarrow> st_Ended (l_Status l')" using reconcileStatusEnded_ended [OF last] by simp
  have wf': "st_ExporterRef (l_Status l) = None \<longleftrightarrow> st_BeginTime (l_Status l) = None"
    using wf unfolding lease_wf_def lease_mid_def by blast
  from first show ?thesis
  proof (cases rule: reconcileStatusExporterRef_cases)
    case kept
    with wf' have l2: "?l2 = l" by (simp add: reconcileStatusBeginEndTimes_idle)
    show ?thesis
    proof (cases "st_Ended (l_Status l)")
      case True
      with hold l2 ended show ?thesis by (simp add: lease_phase_def phase_step.stay)
    next
      case False
      with hold l2 show ?thesis
        by (cases "st_Ended (l_Status l')"; cases "holding l") (auto simp: lease_phase_def intro: phase_step.intros)
    qed
  next
    case (refused u)
    then have "?l2 = l1" "holding l1 = None"
      using wf' by (auto simp: refused_lease_def reconcileStatusBeginEndTimes_idle holding_def)
    with hold refused wf' show ?thesis
      by (auto simp: lease_phase_def holding_def intro: phase_step.intros)
  next
    case (acquired n)
    with wf' have "holding ?l2 = Some (n, c_begin c)" "lease_phase l = Waiting"
      by (auto simp: acquired_lease_def reconcileStatusBeginEndTimes_def set_status_defs holding_def lease_phase_def)
    with hold show ?thesis by (auto simp: lease_phase_def intro: phase_step.intros)
  qed
qed

text \<open>
  C5: The status of a lease stays well formed (an exporter exactly with a begin time, an end
  time exactly when ended, times in order and in the past, \<open>Ready\<close> true exactly while an
  exporter is held, \<open>Unsatisfiable\<close> or \<open>Invalid\<close> only on a lease that ended without
  one), and one pass of the reconciler over it is one step of the abstract machine.
\<close>

theorem reconcile_implements_phases:
  assumes "reconcileStatus k x c s l = Inr (r', l')" "conditions_ok x" "lease_wf x t l" "t \<le> c_sched c"
    and "clock_monotone c"
  shows "lease_wf x (c_end c) l' \<and> phase_step (lease_phase l) (lease_phase l')"
  using wf_reconcileStatus [OF assms] phases_reconcileStatus [OF assms(1,3)] by simp

section \<open>Histories\<close>

text \<open>
  Successive passes over one lease, under any states of the cluster and with any edits of the
  metadata and the spec in between.
\<close>

inductive lease_run :: "'s kube \<Rightarrow> ext \<Rightarrow> Lease \<Rightarrow> time \<Rightarrow> Lease \<Rightarrow> time \<Rightarrow> bool" for k x l t where
  start: "lease_run k x l t l t"
| pass: "lease_run k x l t l1 t1 \<Longrightarrow> t1 \<le> c_sched c \<Longrightarrow> clock_monotone c \<Longrightarrow>
    reconcileStatus k x c s l1 = Inr (r, l2) \<Longrightarrow> lease_run k x l t l2 (c_end c)"
| edit: "lease_run k x l t l1 t1 \<Longrightarrow> l_Status l2 = l_Status l1 \<Longrightarrow> lease_run k x l t l2 t1"

lemma lease_wf_status: "l_Status l2 = l_Status l1 \<Longrightarrow> lease_wf x t l2 = lease_wf x t l1"
  by (simp add: lease_wf_def lease_mid_def)

lemma lease_phase_status: "l_Status l2 = l_Status l1 \<Longrightarrow> lease_phase l2 = lease_phase l1"
  by (simp add: lease_phase_def holding_def)

lemma lease_run_invariant:
  assumes "lease_run k x l t l' t'" "conditions_ok x" "lease_wf x t l"
  shows "lease_wf x t' l' \<and> phase_step\<^sup>*\<^sup>* (lease_phase l) (lease_phase l')"
  using assms(1)
proof induction
  case start
  from assms show ?case by simp
next
  case (pass l1 t1 c s r l2)
  then have "lease_wf x t1 l1" by simp
  from wf_reconcileStatus [OF pass(4) assms(2) this pass(2,3)] phases_reconcileStatus [OF pass(4) this] pass.IH
  show ?case by (auto intro: rtranclp.rtrancl_into_rtrancl)
next
  case (edit l1 t1 l2)
  with lease_wf_status [OF edit(2)] lease_phase_status [OF edit(2)] show ?case by simp
qed

text \<open>
  C6: Over any sequence of passes (under any cluster states and at non-decreasing times) and of
  edits to metadata and spec, a well-formed lease stays well formed; once it holds an exporter
  it holds the same one, since the same begin time, until it is over; and once it is over
  it stays over as it is.
\<close>

theorem lease_history:
  assumes "lease_run k x l t l1 t1" "lease_run k x l1 t1 l2 t2" "conditions_ok x" "lease_wf x t l"
  shows "lease_wf x t2 l2 \<and>
    (\<forall>n b. lease_phase l1 = Holding n b \<longrightarrow> lease_phase l2 \<in> {Holding n b, Over (Some (n, b))}) \<and>
    (\<forall>h. lease_phase l1 = Over h \<longrightarrow> lease_phase l2 = Over h)"
proof -
  from lease_run_invariant [OF assms(1,3,4)] have "lease_wf x t1 l1" by simp
  from lease_run_invariant [OF assms(2,3) this] show ?thesis
    by (auto dest: phase_steps_Holding phase_steps_Over)
qed

section \<open>When a lease ends\<close>

lemma reconcileStatus_held:
  assumes wf: "lease_wf x t l" and hold: "lease_phase l = Holding n b"
  shows "reconcileStatus k x c s l =
    Inr (if sp_Release (l_Spec l) then (zero_Result, Release x (c_endcond c) (c_end c) l)
         else if expiration l b < c_now c then (zero_Result, Expire x (c_endcond c) (c_end c) l)
         else (zero_Result\<lparr>r_RequeueAfter := time_Sub (expiration l b) (c_now c)\<rparr>, l))"
proof -
  from hold have l: "\<not> st_Ended (l_Status l)" "st_ExporterRef (l_Status l) = Some n" "st_BeginTime (l_Status l) = Some b"
    by (auto simp: lease_phase_def holding_def split: if_splits option.splits)
  with wf have "\<not> cond_true x l LeaseConditionTypeUnsatisfiable" "\<not> cond_true x l LeaseConditionTypeInvalid"
    by (auto simp: lease_wf_def)
  with l show ?thesis
    by (simp add: reconcileStatus_def reconcileStatusExporterRef_skip reconcileStatusBeginEndTimes_idle
        reconcileStatusEnded_def)
qed

text \<open>
  C20: If a pass over a lease that holds an exporter does not end it, and is not made at the very
  instant of expiration, the lease is unchanged and the pass asks to be run again after a
  positive delay; any pass later than that delay ends the lease as expired. The remaining time
  fits 64 bits, else the delay is cut at the largest duration. A pass at the instant of
  expiration asks for none.
\<close>

theorem expiry_not_missed:
  assumes wf: "lease_wf x t l" and hold: "lease_phase l = Holding n b"
    and first: "reconcileStatus k x c s l = Inr (r', l')" "\<not> st_Ended (l_Status l')"
    and range: "expiration l b - c_now c \<le> maxInt64" and instant: "expiration l b \<noteq> c_now c"
    and later: "c_now c + r_RequeueAfter r' < c_now c'"
  shows "l' = l \<and> 0 < r_RequeueAfter r' \<and>
    reconcileStatus k' x c' s' l' = Inr (zero_Result, Expire x (c_endcond c') (c_end c') l) \<and>
    lease_phase (Expire x (c_endcond c') (c_end c') l) = Over (Some (n, b))"
proof -
  from first have going: "\<not> sp_Release (l_Spec l)" "\<not> expiration l b < c_now c" and l': "l' = l"
    and r': "r_RequeueAfter r' = time_Sub (expiration l b) (c_now c)"
    by (auto simp: reconcileStatus_held [OF wf hold] Release_def Expire_def Let_def split: if_splits)
  moreover have d: "time_Sub (expiration l b) (c_now c) = expiration l b - c_now c"
    using range going(2) by (simp add: time_Sub_def int64_defs)
  moreover have "reconcileStatus k' x c' s' l' = Inr (zero_Result, Expire x (c_endcond c') (c_end c') l)"
    using later going l' r' d by (simp add: reconcileStatus_held [OF wf hold])
  moreover have "lease_phase (Expire x (c_endcond c') (c_end c') l) = Over (Some (n, b))"
    using hold by (auto simp: Expire_def Let_def lease_phase_def holding_def SetStatusReady_def Lease_SetStatusCondition_def split: if_splits option.splits)
  ultimately show ?thesis using instant by simp
qed

text \<open>
  C37: A pass at the very instant of expiration does not end the lease and returns a zero result,
  which schedules no further pass: only another event ends the lease.
\<close>

theorem expiry_boundary_unscheduled:
  assumes "lease_wf x t l" "lease_phase l = Holding n b" "\<not> sp_Release (l_Spec l)" "expiration l b = c_now c"
  shows "reconcileStatus k x c s l = Inr (zero_Result, l)"
  using assms by (simp add: reconcileStatus_held time_Sub_def int64_defs zero_Result_def)

lemma reconcileStatusExporterRef_spec:
  assumes "reconcileStatusExporterRef k x c s r l = Inr (r', l')"
  shows "l_Spec l' = l_Spec l" "l_Meta l' = l_Meta l"
  using assms by (cases rule: reconcileStatusExporterRef_cases; auto simp: refused_lease_def acquired_lease_def)+

text \<open>
  C22: A lease with neither a duration nor an end time is never left holding an exporter: its
  expiration is the zero time, so the pass that acquires an exporter also ends it.
\<close>

theorem no_duration_never_held:
  assumes rec: "reconcileStatus k x c s l = Inr (r', l')"
    and none: "sp_Duration (l_Spec l) = None" "sp_EndTime (l_Spec l) = None" and pos: "0 < c_now c"
  shows "lease_phase l' \<noteq> Holding n b"
proof
  assume "lease_phase l' = Holding n b"
  then have l': "\<not> st_Ended (l_Status l')" "st_BeginTime (l_Status l') = Some b"
    by (auto simp: lease_phase_def holding_def split: if_splits option.splits)
  from rec obtain r1 l1 where first: "reconcileStatusExporterRef k x c s zero_Result l = Inr (r1, l1)"
    and last: "reconcileStatusEnded x c r1 (reconcileStatusBeginEndTimes x c l1) = (r', l')"
    by (rule reconcileStatus_elim)
  have "l_Spec (reconcileStatusBeginEndTimes x c l1) = l_Spec l"
    using reconcileStatusExporterRef_spec [OF first] by (simp add: lease_frame)
  with none have "expiration (reconcileStatusBeginEndTimes x c l1) b = 0"
    by (simp add: expiration_def split: option.splits)
  moreover have "st_BeginTime (l_Status (reconcileStatusBeginEndTimes x c l1)) = Some b"
    using l' reconcileStatusEnded_frame(4) [OF last] by simp
  ultimately have "must_end x c (reconcileStatusBeginEndTimes x c l1)" using pos by (simp add: must_end_def)
  with l'(1) reconcileStatusEnded_ended [OF last] show False by simp
qed

text \<open>What becomes of a lease that is refused by the first phase.\<close>

lemma reconcileStatus_refused:
  assumes first: "reconcileStatusExporterRef k x c s zero_Result l =
      Inr (r, Lease_SetStatusCondition x (c_cond c) t True reason m l)"
    and ref: "st_ExporterRef (l_Status l) = None" "st_BeginTime (l_Status l) = None"
  shows "reconcileStatus k x c s l =
    Inr (reconcileStatusEnded x c r (Lease_SetStatusCondition x (c_cond c) t True reason m l))"
  using assms by (simp add: reconcileStatus_def reconcileStatusBeginEndTimes_def)

lemma waiting_status:
  assumes "lease_wf x t l" "lease_phase l = Waiting"
  shows "\<not> st_Ended (l_Status l)" "st_ExporterRef (l_Status l) = None" "st_BeginTime (l_Status l) = None"
    "\<not> cond_true x l LeaseConditionTypeUnsatisfiable" "\<not> cond_true x l LeaseConditionTypeInvalid"
proof -
  from assms(2) show "\<not> st_Ended (l_Status l)" by (auto simp: lease_phase_def split: if_splits)
  with assms(1) show "\<not> cond_true x l LeaseConditionTypeUnsatisfiable" "\<not> cond_true x l LeaseConditionTypeInvalid"
    by (auto simp: lease_wf_def)
  from assms have "st_ExporterRef (l_Status l) = None \<longleftrightarrow> st_BeginTime (l_Status l) = None"
    unfolding lease_wf_def lease_mid_def by blast
  with assms(2) show "st_ExporterRef (l_Status l) = None" "st_BeginTime (l_Status l) = None"
    by (auto simp: lease_phase_def holding_def split: if_splits option.splits)
qed

text \<open>
  While every candidate is referenced by an active lease and at least one of them is open to
  the client without spot access, a waiting lease keeps waiting: the pass marks it pending and
  asks to be run again after a second.
\<close>

theorem busy_lease_keeps_waiting:
  assumes reads: "reads_ok k x s l es as actives" and bounded: "bounded_priorities k x s l"
    and wf: "lease_wf x t l" "lease_phase l = Waiting" "begin_reached (c_sched c) l" "\<not> sp_Release (l_Spec l)"
    and ok: "conditions_ok x"
    and cand: "candidate k x s l e p" "\<not> p_SpotAccess p"
    and busy: "\<And>e p. candidate k x s l e p \<Longrightarrow> referenced actives e"
  shows "\<exists>r l'. reconcileStatus k x c s l = Inr (r, l') \<and> r_RequeueAfter r = Second \<and>
    lease_phase l' = Waiting \<and> cond_true x l' LeaseConditionTypePending"
proof -
  note st = waiting_status [OF wf(1,2)]
  from assignExporter_chooses [OF reads cand(1)] obtain os where os: "set os = choice k x s l actives" "os \<noteq> []"
    and asg: "assignExporter k x c s zero_Result l = Inr (chooseExporter x c zero_Result l os)"
    by blast
  have leased: "\<forall>a\<in>set os. leased a" using busy unfolding os(1) by (metis choice_elim)
  moreover have "orderApprovedExporters os ! 0 \<in> set os"
    using os(2) nth_mem [of 0 "orderApprovedExporters os"] by simp
  ultimately have "\<not> spot (orderApprovedExporters os ! 0)"
    using choice_first [OF bounded os(1) cand(1)] choice_leased [OF refl, of actives e p] cand(2)
    by (auto simp: exporter_before_def)
  from chooseExporter_all_leased [OF os(2) this leased, of x c zero_Result l] obtain msg where
    "chooseExporter x c zero_Result l os = (zero_Result\<lparr>r_RequeueAfter := Second\<rparr>,
       SetStatusPending x (c_cond c) ''NotAvailable'' msg l)" by blast
  with asg wf(3) st have "reconcileStatusExporterRef k x c s zero_Result l = Inr (zero_Result\<lparr>r_RequeueAfter := Second\<rparr>,
      Lease_SetStatusCondition x (c_cond c) LeaseConditionTypePending True ''NotAvailable'' msg l)"
    by (simp add: reconcileStatusExporterRef_assign SetStatusPending_def)
  from reconcileStatus_refused [OF this st(2,3)] st wf(4) ok show ?thesis
    by (auto simp: reconcileStatusEnded_def Lease_SetStatusCondition_true lease_phase_def holding_def)
qed

text \<open>
  C21: A pass over a waiting lease whose begin time has come, in which all reads succeed and the
  priorities of the candidates are below 2^62 in absolute value, ends the lease without an
  exporter and marks it unsatisfiable as soon as some candidate is free and every free
  candidate is under spot access, also when there are candidates without spot access that are
  only leased at the moment.
\<close>

theorem free_spot_ends_lease:
  assumes reads: "reads_ok k x s l es as actives" and bounded: "bounded_priorities k x s l"
    and wf: "lease_wf x t l" "lease_phase l = Waiting" "begin_reached (c_sched c) l"
    and ok: "conditions_ok x"
    and cand: "candidate k x s l e p" "\<not> referenced actives e"
    and spots: "\<And>e p. candidate k x s l e p \<Longrightarrow> \<not> referenced actives e \<Longrightarrow> p_SpotAccess p"
  shows "\<exists>r l'. reconcileStatus k x c s l = Inr (r, l') \<and> lease_phase l' = Over None \<and>
    cond_true x l' LeaseConditionTypeUnsatisfiable"
proof -
  note st = waiting_status [OF wf(1,2)]
  from assignExporter_chooses [OF reads cand(1)] obtain os where os: "set os = choice k x s l actives" "os \<noteq> []"
    and asg: "assignExporter k x c s zero_Result l = Inr (chooseExporter x c zero_Result l os)"
    by blast
  let ?a = "orderApprovedExporters os ! 0"
  have "?a \<in> set os" using os(2) nth_mem [of 0 "orderApprovedExporters os"] by simp
  moreover have "\<not> leased ?a"
    using choice_first [OF bounded os(1) cand(1)] choice_leased [OF refl, of actives e p] cand(2)
    by (auto simp: exporter_before_def)
  ultimately have "spot ?a" using spots unfolding os(1) by (metis choice_elim)
  from chooseExporter_first_spot [OF os(2) this, of x c zero_Result l] asg wf(3) st obtain msg where
    "reconcileStatusExporterRef k x c s zero_Result l = Inr (zero_Result,
      Lease_SetStatusCondition x (c_cond c) LeaseConditionTypeUnsatisfiable True ''SpotAccess'' msg l)"
    by (auto simp: reconcileStatusExporterRef_assign SetStatusUnsatisfiable_def)
  from reconcileStatus_refused [OF this st(2,3)] st ok show ?thesis
    by (auto simp: reconcileStatusEnded_def Lease_SetStatusCondition_true lease_phase_def holding_def)
qed

section \<open>Evaluated instances\<close>

definition clock_at :: "time \<Rightarrow> clock_readings" where
  "clock_at t = \<lparr>c_sched = t, c_cond = t, c_begin = t, c_ready = t, c_now = t, c_endcond = t, c_end = t\<rparr>"

lemma clock_at_monotone [simp]: "clock_monotone (clock_at t)"
  by (simp add: clock_monotone_def clock_at_def)

definition sample_held :: Lease where
  "sample_held = snd (projr (reconcileStatus mem_kube mem_ext sample_clock sample_cluster sample_mine))"

lemma sample_first_pass:
  "reconcileStatus mem_kube mem_ext sample_clock sample_cluster sample_mine =
     Inr (zero_Result\<lparr>r_RequeueAfter := 60 * Second\<rparr>, sample_held)"
  by code_simp

lemma sample_clock_monotone [simp]: "clock_monotone sample_clock"
  by (simp add: clock_monotone_def sample_clock_def)

lemma sample_sched: "0 \<le> c_sched sample_clock"
  by code_simp

lemma new_lease_wf: "lease_wf mem_ext 0 (sample_lease n cl d)"
  by (simp add: lease_wf_def lease_mid_def sample_lease_def zero_LeaseStatus_def mem_IsStatusConditionTrue_def)

lemmas sample_mine_wf = new_lease_wf [of "''mine''" "''alice''" "Some (60 * Second)", folded sample_mine_def]

lemmas sample_held_wf =
  wf_reconcileStatus [OF sample_first_pass mem_ext_conditions_ok sample_mine_wf sample_sched sample_clock_monotone]

lemma sample_phases: "lease_phase sample_mine = Waiting" "lease_phase sample_held = Holding ''rpi-b'' (10 * Second)"
  by (code_simp, code_simp)

theorem reconcile_implements_phases_witness:
  "phase_step (lease_phase sample_mine) (lease_phase sample_held)"
  using reconcile_implements_phases [OF sample_first_pass mem_ext_conditions_ok sample_mine_wf sample_sched
      sample_clock_monotone] by simp

lemma sample_run: "lease_run mem_kube mem_ext sample_mine 0 sample_held (c_end sample_clock)"
  by (rule lease_run.pass [OF lease_run.start sample_sched sample_clock_monotone sample_first_pass])

theorem lease_history_witness: "lease_wf mem_ext (c_end sample_clock) sample_held"
  using lease_history [OF sample_run lease_run.start mem_ext_conditions_ok sample_mine_wf] by simp

lemma sample_second_pass:
  "reconcileStatus mem_kube mem_ext sample_clock sample_cluster sample_held =
     Inr (zero_Result\<lparr>r_RequeueAfter := 60 * Second\<rparr>, sample_held)"
  by code_simp

theorem expiry_not_missed_witness:
  "\<exists>l'. reconcileStatus mem_kube mem_ext (clock_at (71 * Second)) sample_cluster sample_held = Inr (zero_Result, l') \<and>
     st_Ended (l_Status l')"
proof -
  have e: "\<not> st_Ended (l_Status sample_held)"
    "expiration sample_held (10 * Second) - c_now sample_clock \<le> maxInt64"
    "expiration sample_held (10 * Second) \<noteq> c_now sample_clock"
    "c_now sample_clock + r_RequeueAfter (zero_Result\<lparr>r_RequeueAfter := 60 * Second\<rparr>) < c_now (clock_at (71 * Second))"
    by (code_simp, code_simp, code_simp, code_simp)
  from expiry_not_missed [OF sample_held_wf sample_phases(2) sample_second_pass e, of mem_kube sample_cluster]
  show ?thesis by (auto simp: Expire_def Let_def)
qed

theorem expiry_boundary_witness:
  "reconcileStatus mem_kube mem_ext (clock_at (70 * Second)) sample_cluster sample_held = Inr (zero_Result, sample_held)"
proof -
  have "\<not> sp_Release (l_Spec sample_held)" "expiration sample_held (10 * Second) = c_now (clock_at (70 * Second))"
    by (code_simp, code_simp)
  from expiry_boundary_unscheduled [OF sample_held_wf sample_phases(2) this] show ?thesis .
qed

definition endless :: Lease where
  "endless = sample_lease ''mine'' ''alice'' None"

theorem no_duration_never_held_witness:
  "\<exists>r l'. reconcileStatus mem_kube mem_ext sample_clock sample_cluster endless = Inr (r, l') \<and>
     st_ExporterRef (l_Status l') = Some ''rpi-b'' \<and> lease_phase l' \<noteq> Holding ''rpi-b'' (10 * Second)"
proof -
  have "case reconcileStatus mem_kube mem_ext sample_clock sample_cluster endless of Inl _ \<Rightarrow> False
      | Inr (r, l') \<Rightarrow> st_ExporterRef (l_Status l') = Some ''rpi-b''"
    by code_simp
  then obtain r l' where rec: "reconcileStatus mem_kube mem_ext sample_clock sample_cluster endless = Inr (r, l')"
    and "st_ExporterRef (l_Status l') = Some ''rpi-b''" by (auto split: sum.splits)
  moreover have "sp_Duration (l_Spec endless) = None" "sp_EndTime (l_Spec endless) = None" "0 < c_now sample_clock"
    by (code_simp, code_simp, code_simp)
  ultimately show ?thesis using no_duration_never_held [OF rec] by blast
qed

text \<open>Every exporter is leased.\<close>

definition busy_cluster :: cluster where
  "busy_cluster = sample_cluster\<lparr>cu_Exporters := [sample_exporter ''rpi-a'' True]\<rparr>"

text \<open>
  \<open>rpi-a\<close> is leased and open to the client under an ordinary policy, \<open>rpi-b\<close> is free
  and open to it under a spot policy.
\<close>

definition spot_cluster :: cluster where
  "spot_cluster = sample_cluster\<lparr>
     cu_Exporters := [(sample_exporter ''rpi-a'' True)\<lparr>e_Meta := sample_meta ''rpi-a'' [(''board'', ''rpi''), (''tier'', ''std'')]\<rparr>,
       sample_exporter ''rpi-b'' True],
     cu_Policies := [(sample_policy ''std'' ''alice'' 1 False None)\<lparr>ep_Spec := (ep_Spec (sample_policy ''std'' ''alice'' 1 False None))\<lparr>
         eps_ExporterSelector := sample_selector ''tier'' ''std''\<rparr>\<rparr>, sample_policy ''spot'' ''alice'' 1 True None]\<rparr>"

definition approved_in :: "cluster \<Rightarrow> ApprovedExporter list" where
  "approved_in cl = projr (attachMatchingPolicies mem_kube mem_ext cl sample_mine (cu_Exporters cl))"

definition reads_eval :: "cluster \<Rightarrow> bool" where
  "reads_eval cl \<longleftrightarrow>
     (case GetExporterSelector mem_ext sample_mine of Inl _ \<Rightarrow> False
      | Inr sel \<Rightarrow> sel \<noteq> [] \<and> ListMatchingExporters mem_kube cl sample_mine sel = Inr (cu_Exporters cl)) \<and>
     attachMatchingPolicies mem_kube mem_ext cl sample_mine (cu_Exporters cl) = Inr (approved_in cl) \<and>
     ListActiveLeases mem_kube cl (om_Namespace (l_Meta sample_mine)) = Inr (cu_Leases cl)"

lemma reads_eval: "reads_eval cl \<Longrightarrow>
  reads_ok mem_kube mem_ext cl sample_mine (cu_Exporters cl) (approved_in cl) (cu_Leases cl)"
  by (auto simp: reads_eval_def reads_ok_def split: sum.splits)

lemma sample_reads_eval: "reads_eval busy_cluster" "reads_eval spot_cluster"
  by (code_simp, code_simp)

lemmas busy_reads = reads_eval [OF sample_reads_eval(1)]
lemmas spot_reads = reads_eval [OF sample_reads_eval(2)]

lemma candidates_all:
  assumes "reads_ok mem_kube mem_ext cl sample_mine es as actives" "list_all (\<lambda>a. P (ae_Exporter a) (ae_Policy a)) as"
    "candidate mem_kube mem_ext cl sample_mine e p"
  shows "P e p"
  using assms by (force simp: candidate_iff list_all_iff)

lemma bounded_eval:
  assumes "reads_ok mem_kube mem_ext cl sample_mine es as actives" "list_all (\<lambda>a. \<bar>prio a\<bar> < 4611686018427387904) as"
  shows "bounded_priorities mem_kube mem_ext cl sample_mine"
  using assms candidates_all [OF assms(1), of "\<lambda>e p. \<bar>p_Priority p\<bar> < 4611686018427387904"]
  by (simp add: bounded_priorities_def)

theorem busy_lease_keeps_waiting_witness:
  "\<exists>r l'. reconcileStatus mem_kube mem_ext sample_clock busy_cluster sample_mine = Inr (r, l') \<and>
     r_RequeueAfter r = Second \<and> lease_phase l' = Waiting \<and> cond_true mem_ext l' LeaseConditionTypePending"
proof (rule busy_lease_keeps_waiting [OF busy_reads _ sample_mine_wf sample_phases(1) sample_begin])
  show "bounded_priorities mem_kube mem_ext busy_cluster sample_mine"
    by (rule bounded_eval [OF busy_reads]) code_simp
  show "\<not> sp_Release (l_Spec sample_mine)" "\<not> p_SpotAccess default_policy" by (code_simp, code_simp)
  show "candidate mem_kube mem_ext busy_cluster sample_mine (sample_exporter ''rpi-a'' True) default_policy"
    unfolding candidate_iff [OF busy_reads] by code_simp
  fix e p assume "candidate mem_kube mem_ext busy_cluster sample_mine e p"
  then show "referenced (cu_Leases busy_cluster) e"
    by (rule candidates_all [OF busy_reads, rotated]) code_simp
qed simp

theorem free_spot_ends_lease_witness:
  "\<exists>r l'. reconcileStatus mem_kube mem_ext sample_clock spot_cluster sample_mine = Inr (r, l') \<and>
     lease_phase l' = Over None \<and> cond_true mem_ext l' LeaseConditionTypeUnsatisfiable"
proof (rule free_spot_ends_lease [OF spot_reads _ sample_mine_wf sample_phases(1) sample_begin])
  let ?p = "hd (eps_Policies (ep_Spec (sample_policy ''spot'' ''alice'' 1 True None)))"
  show "bounded_priorities mem_kube mem_ext spot_cluster sample_mine"
    by (rule bounded_eval [OF spot_reads]) code_simp
  show "candidate mem_kube mem_ext spot_cluster sample_mine (sample_exporter ''rpi-b'' True) ?p"
    unfolding candidate_iff [OF spot_reads] by code_simp
  show "\<not> referenced (cu_Leases spot_cluster) (sample_exporter ''rpi-b'' True)" by code_simp
  fix e p assume "candidate mem_kube mem_ext spot_cluster sample_mine e p" "\<not> referenced (cu_Leases spot_cluster) e"
  moreover have "referenced (cu_Leases spot_cluster) e \<or> p_SpotAccess p"
    if "candidate mem_kube mem_ext spot_cluster sample_mine e p"
    using that by (rule candidates_all [OF spot_reads, rotated]) code_simp
  ultimately show "p_SpotAccess p" by blast
qed simp

end
