(* ===== verification/LeaseExclusion.thy ===== *)
theory LeaseExclusion
  imports LeaseLifecycle
begin

text \<open>
  No exporter is held by two leases. The reconciler decides from a list of the active leases
  of the namespace, read through the cache of the manager, and writes its decision through
  the API server. This theory states what it relies on of the server (\<open>lease_store\<close>:
  a write is accepted only for the resource version that is stored, a write of the status
  changes the status only and any other write leaves the status alone; reads may be stale),
  shows that one reconcile whose list shows the holders (\<open>sees_holders\<close>) keeps every
  exporter with at most one lease that has not ended, that no sequence of such reconciles,
  creations, edits and deletions of leases breaks it, and that a reconcile whose list lags
  behind does break it.
\<close>

section \<open>The store of leases\<close>

text \<open>
  Reads: objects are stored under their key; a get may answer with an older copy of the
  object, but the copy of a resource version is the object as it was stored under it.
\<close>

definition reads_versioned :: "'s kube \<Rightarrow> ('s \<Rightarrow> NamespacedName \<Rightarrow> Lease option) \<Rightarrow> bool" where
  "reads_versioned k view \<longleftrightarrow>
     (\<forall>s n l. view s n = Some l \<longrightarrow> key_of (l_Meta l) = n) \<and>
     (\<forall>s n l. k_getLease k s n = Inr l \<longrightarrow> key_of (l_Meta l) = n) \<and>
     (\<forall>s n l l0. k_getLease k s n = Inr l \<longrightarrow> view s n = Some l0 \<longrightarrow>
        om_ResourceVersion (l_Meta l) = om_ResourceVersion (l_Meta l0) \<longrightarrow> l = l0)"

text \<open>
  A write that the server refuses changes nothing; one it accepts was sent with the resource
  version of the stored object \<open>l0\<close> and replaces it by the one the server answers with, whose
  relation to \<open>l0\<close> and to what was sent is \<open>keep\<close>.
\<close>

definition write_law ::
  "('s \<Rightarrow> Lease \<Rightarrow> (goerror + Lease) \<times> 's) \<Rightarrow> ('s \<Rightarrow> NamespacedName \<Rightarrow> Lease option) \<Rightarrow>
   (Lease \<Rightarrow> Lease \<Rightarrow> Lease \<Rightarrow> bool) \<Rightarrow> bool" where
  "write_law wr view keep \<longleftrightarrow>
     (\<forall>s l. case wr s l of
        (Inl _, s') \<Rightarrow> view s' = view s
      | (Inr l2, s') \<Rightarrow> view s' = (view s)(key_of (l_Meta l) \<mapsto> l2) \<and>
          (case view s (key_of (l_Meta l)) of None \<Rightarrow> False
           | Some l0 \<Rightarrow> om_ResourceVersion (l_Meta l) = om_ResourceVersion (l_Meta l0) \<and> keep l0 l l2))"

definition keep_status :: "Lease \<Rightarrow> Lease \<Rightarrow> Lease \<Rightarrow> bool" where
  "keep_status l0 l l2 \<longleftrightarrow> l_Status l2 = l_Status l0 \<and> l_Spec l2 = l_Spec l \<and> om_Labels (l_Meta l2) = om_Labels (l_Meta l)"

definition keep_main :: "Lease \<Rightarrow> Lease \<Rightarrow> Lease \<Rightarrow> bool" where
  "keep_main l0 l l2 \<longleftrightarrow> l_Status l2 = l_Status l \<and> l_Spec l2 = l_Spec l0 \<and> om_Labels (l_Meta l2) = om_Labels (l_Meta l0)"

definition lease_store :: "'s kube \<Rightarrow> ('s \<Rightarrow> NamespacedName \<Rightarrow> Lease option) \<Rightarrow> bool" where
  "lease_store k view \<longleftrightarrow> reads_versioned k view \<and> write_law (k_statusUpdateLease k) view keep_main \<and>
     write_law (k_updateLease k) view keep_status"

lemma lease_store_key: "lease_store k view \<Longrightarrow> view s n = Some l \<Longrightarrow> key_of (l_Meta l) = n"
  by (simp add: lease_store_def reads_versioned_def)

lemma lease_store_get_key: "lease_store k view \<Longrightarrow> k_getLease k s n = Inr l \<Longrightarrow> key_of (l_Meta l) = n"
  by (simp add: lease_store_def reads_versioned_def)

lemma lease_store_get:
  assumes "lease_store k view" "k_getLease k s n = Inr l" "view s n = Some l0"
    "om_ResourceVersion (l_Meta l) = om_ResourceVersion (l_Meta l0)"
  shows "l = l0"
proof -
  from assms(1) have "\<forall>s n l l0. k_getLease k s n = Inr l \<longrightarrow> view s n = Some l0 \<longrightarrow>
      om_ResourceVersion (l_Meta l) = om_ResourceVersion (l_Meta l0) \<longrightarrow> l = l0"
    unfolding lease_store_def reads_versioned_def by (elim conjE)
  then show ?thesis using assms(2-4) by (elim allE [of _ s] allE [of _ n]) simp
qed

lemma write_law_Inl: "write_law wr view keep \<Longrightarrow> wr s l = (Inl e, s') \<Longrightarrow> view s' = view s"
  by (auto simp: write_law_def dest!: spec [of _ s] spec [of _ l])

lemma write_law_Inr:
  assumes "write_law wr view keep" "wr s l = (Inr l2, s')"
  obtains l0 where "view s (key_of (l_Meta l)) = Some l0" "view s' = (view s)(key_of (l_Meta l) \<mapsto> l2)" "keep l0 l l2"
    "om_ResourceVersion (l_Meta l) = om_ResourceVersion (l_Meta l0)"
  using assms by (auto simp: write_law_def dest!: spec [of _ s] spec [of _ l] split: option.splits)

section \<open>One reconcile\<close>

lemma assigned_exporter_free:
  assumes "reconcileStatusExporterRef k x c s r l = Inr (r', l')"
    and "st_ExporterRef (l_Status l) = None" "st_ExporterRef (l_Status l') = Some e"
  obtains actives where "ListActiveLeases k s (om_Namespace (l_Meta l)) = Inr actives"
    "\<forall>a\<in>set actives. st_ExporterRef (l_Status a) \<noteq> Some e"
  using assms
proof (cases rule: assignment_elim)
  case (1 actives os a)
  with choice_elim [of a k x s l actives] have "\<not> referenced actives (ae_Exporter a)" by metis
  with 1 show thesis by (intro that) (auto simp: referenced_def)
qed

lemma reconcileStatus_keeps:
  assumes "reconcileStatus k x c s l = Inr (r', l')"
  shows "l_Meta l' = l_Meta l" "l_Spec l' = l_Spec l" "st_Ended (l_Status l) \<Longrightarrow> st_Ended (l_Status l')"
    "st_ExporterRef (l_Status l) = Some n \<Longrightarrow> st_ExporterRef (l_Status l') = Some n"
proof -
  from assms obtain r1 l1 where first: "reconcileStatusExporterRef k x c s zero_Result l = Inr (r1, l1)"
    and last: "reconcileStatusEnded x c r1 (reconcileStatusBeginEndTimes x c l1) = (r', l')"
    by (rule reconcileStatus_elim)
  show "l_Meta l' = l_Meta l" "l_Spec l' = l_Spec l"
    using reconcileStatusEnded_frame(1,2) [OF last] reconcileStatusExporterRef_spec [OF first]
    by (simp_all add: reconcileStatusBeginEndTimes_frame)
  have "st_Ended (l_Status l1) = st_Ended (l_Status l)" and
    ref: "st_ExporterRef (l_Status l) = Some n \<Longrightarrow> st_ExporterRef (l_Status l1) = Some n"
    using first by (cases rule: reconcileStatusExporterRef_cases;
        auto simp: refused_lease_def acquired_lease_def)+
  then show "st_Ended (l_Status l) \<Longrightarrow> st_Ended (l_Status l')"
    using reconcileStatusEnded_ended [OF last] by (simp add: reconcileStatusBeginEndTimes_frame)
  show "st_ExporterRef (l_Status l) = Some n \<Longrightarrow> st_ExporterRef (l_Status l') = Some n"
    using reconcileStatusEnded_frame(3) [OF last] ref by (simp add: reconcileStatusBeginEndTimes_frame)
qed

text \<open>After the status write: nothing more is written, or the labels and the owner.\<close>

lemma Lease_Reconcile_tail:
  assumes rec: "Lease_Reconcile k x c s req = (res, s')" and ctrl: "ctrlref_ok x"
    and pre: "k_getLease k s req = Inr l" "reconcileStatus k x c s l = Inr (r, l1)"
      "k_statusUpdateLease k s l1 = (Inr l2, s1)"
  obtains "s' = s1"
  | l4 w where "k_updateLease k s1 l4 = (w, s')" "key_of (l_Meta l4) = key_of (l_Meta l2)" "l_Spec l4 = l_Spec l2"
proof -
  let ?l3 = "if st_Ended (l_Status l2) then l2\<lparr>l_Meta := (l_Meta l2)\<lparr>om_Labels :=
      mset_key (om_Labels (l_Meta l2)) LeaseLabelEnded LeaseLabelEndedValue\<rparr>\<rparr> else l2"
  have key3: "key_of (l_Meta ?l3) = key_of (l_Meta l2)" "l_Spec ?l3 = l_Spec l2" by (simp_all add: key_of_def)
  from rec pre consider "s' = s1" | w where "k_updateLease k s1 ?l3 = (w, s')"
    | e m w where "x_SetControllerReference x e (l_Meta ?l3) = Inr m" "k_updateLease k s1 (?l3\<lparr>l_Meta := m\<rparr>) = (w, s')"
    by (simp add: Lease_Reconcile_def Let_def split: option.splits sum.splits prod.splits if_splits)
  then show thesis
  proof cases
    case (3 e m w)
    note keeps = ctrlref_ok_keeps [OF ctrl 3(1)]
    from 3(2) key3 keeps show thesis
      by (intro that(2) [of "?l3\<lparr>l_Meta := m\<rparr>" w]) (simp_all add: key_of_def)
  qed (use key3 that in \<open>auto split: if_splits\<close>)
qed

text \<open>
  What a reconcile does to the store: nothing, or the lease it worked on was the stored one
  (a status write of a stale copy is refused) and has the status the pass computed.
\<close>

lemma Lease_Reconcile_view:
  assumes store: "lease_store k view" and ctrl: "ctrlref_ok x" and rec: "Lease_Reconcile k x c s req = (res, s')"
  obtains (same) "view s' = view s"
  | (written) l r l1 l3 where "view s req = Some l" "reconcileStatus k x c s l = Inr (r, l1)"
      "view s' = (view s)(req \<mapsto> l3)" "l_Status l3 = l_Status l1" "l_Spec l3 = l_Spec l"
proof (cases "k_getLease k s req")
  case (Inl e)
  with rec show thesis by (intro same) (simp add: Lease_Reconcile_def)
next
  case get: (Inr l)
  from store have laws: "write_law (k_statusUpdateLease k) view keep_main" "write_law (k_updateLease k) view keep_status"
    by (simp_all add: lease_store_def)
  show thesis
  proof (cases "reconcileStatus k x c s l")
    case (Inl e)
    with rec get show thesis by (intro same) (simp add: Lease_Reconcile_def)
  next
    case st: (Inr rl)
    obtain r l1 where [simp]: "rl = (r, l1)" by (cases rl)
    with st have st: "reconcileStatus k x c s l = Inr (r, l1)" by simp
    have meta: "l_Meta l1 = l_Meta l" by (rule reconcileStatus_keeps(1) [OF st])
    with lease_store_get_key [OF store get] have key: "key_of (l_Meta l1) = req" by simp
    obtain res1 s1 where su: "k_statusUpdateLease k s l1 = (res1, s1)" by (cases "k_statusUpdateLease k s l1")
    show thesis
    proof (cases res1)
      case (Inl e)
      with su rec get st write_law_Inl [OF laws(1)] show thesis
        by (intro same) (force simp: Lease_Reconcile_def)
    next
      case (Inr l2)
      from write_law_Inr [OF laws(1) su [unfolded Inr]] obtain l0 where w: "view s req = Some l0"
        "view s1 = (view s)(req \<mapsto> l2)" "keep_main l0 l1 l2" "om_ResourceVersion (l_Meta l1) = om_ResourceVersion (l_Meta l0)"
        unfolding key .
      have "l = l0" using lease_store_get [OF store get w(1)] w(4) meta by simp
      with w have v: "view s req = Some l" and v1: "view s1 = (view s)(req \<mapsto> l2)" "keep_main l l1 l2" by simp_all
      from lease_store_key [OF store, of s1 req l2] v1 have key2: "key_of (l_Meta l2) = req" by simp
      from Lease_Reconcile_tail [OF rec ctrl get st su [unfolded Inr]] show thesis
      proof cases
        case 1
        with v st v1 show thesis by (intro written [of l r l1 l2]) (simp_all add: keep_main_def)
      next
        case (2 l4 w)
        show thesis
        proof (cases w)
          case (Inl e)
          with 2 write_law_Inl [OF laws(2)] have "view s' = view s1" by blast
          with v st v1 show thesis by (intro written [of l r l1 l2]) (simp_all add: keep_main_def)
        next
          case (Inr l5)
          with 2(1) have wr: "k_updateLease k s1 l4 = (Inr l5, s')" by simp
          from write_law_Inr [OF laws(2) wr] 2(2) key2 v1(1)
          have v5: "view s' = (view s)(req \<mapsto> l5)" "keep_status l2 l4 l5" by auto
          with v1(2) 2(3) have "l_Status l5 = l_Status l1" "l_Spec l5 = l_Spec l"
            by (simp_all add: keep_main_def keep_status_def)
          with v st v5(1) show thesis by (intro written [of l r l1 l5]) simp_all
        qed
      qed
    qed
  qed
qed

section \<open>The invariant\<close>

definition exclusive :: "(NamespacedName \<Rightarrow> Lease option) \<Rightarrow> bool" where
  "exclusive v \<longleftrightarrow> (\<forall>n1 n2 l1 l2 e. v n1 = Some l1 \<longrightarrow> v n2 = Some l2 \<longrightarrow>
     nn_Namespace n1 = nn_Namespace n2 \<longrightarrow>
     \<not> st_Ended (l_Status l1) \<longrightarrow> \<not> st_Ended (l_Status l2) \<longrightarrow>
     st_ExporterRef (l_Status l1) = Some e \<longrightarrow> st_ExporterRef (l_Status l2) = Some e \<longrightarrow> n1 = n2)"

text \<open>
  The list of active leases a pass for \<open>req\<close> reads shows the holders: for every other stored
  lease of the namespace that has not ended and holds an exporter, some lease on the list
  refers to that exporter. The list comes from a cache and leaves out leases with the label
  of ended leases, so this is a condition on the moment of the pass.
\<close>

definition sees_holders ::
  "'s kube \<Rightarrow> ('s \<Rightarrow> NamespacedName \<Rightarrow> Lease option) \<Rightarrow> 's \<Rightarrow> NamespacedName \<Rightarrow> bool" where
  "sees_holders k view s req \<longleftrightarrow>
     (\<forall>actives n l e. ListActiveLeases k s (nn_Namespace req) = Inr actives \<longrightarrow> view s n = Some l \<longrightarrow> n \<noteq> req \<longrightarrow>
        nn_Namespace n = nn_Namespace req \<longrightarrow> \<not> st_Ended (l_Status l) \<longrightarrow> st_ExporterRef (l_Status l) = Some e \<longrightarrow>
        (\<exists>a\<in>set actives. st_ExporterRef (l_Status a) = Some e))"

text \<open>Only ended leases carry the label that takes them out of the list of active leases.\<close>

definition ended_label :: "Lease \<Rightarrow> bool" where
  "ended_label l \<longleftrightarrow> mget (om_Labels (l_Meta l)) LeaseLabelEnded \<noteq> None"

definition labels_truthful :: "(NamespacedName \<Rightarrow> Lease option) \<Rightarrow> bool" where
  "labels_truthful v \<longleftrightarrow> (\<forall>n l. v n = Some l \<longrightarrow> ended_label l \<longrightarrow> st_Ended (l_Status l))"

text \<open>The condition holds of a pass whose list is current, if no holder has the label of ended leases.\<close>

lemma current_list_sees_holders:
  assumes "labels_truthful (view s)"
    and "\<And>actives n l. ListActiveLeases k s (nn_Namespace req) = Inr actives \<Longrightarrow> view s n = Some l \<Longrightarrow>
      nn_Namespace n = nn_Namespace req \<Longrightarrow> \<not> ended_label l \<Longrightarrow> l \<in> set actives"
  shows "sees_holders k view s req"
  using assms unfolding sees_holders_def labels_truthful_def by metis

text \<open>Replacing one lease keeps the invariant when no other lease that has not ended has its exporter.\<close>

lemma exclusive_upd:
  assumes "exclusive v" and free: "\<And>n' l' e. st_ExporterRef (l_Status l) = Some e \<Longrightarrow> \<not> st_Ended (l_Status l) \<Longrightarrow>
    v n' = Some l' \<Longrightarrow> n' \<noteq> n \<Longrightarrow> nn_Namespace n' = nn_Namespace n \<Longrightarrow> \<not> st_Ended (l_Status l') \<Longrightarrow>
    st_ExporterRef (l_Status l') \<noteq> Some e"
  shows "exclusive (v(n \<mapsto> l))"
  unfolding exclusive_def
proof (intro allI impI)
  fix n1 n2 l1 l2 e
  assume "(v(n \<mapsto> l)) n1 = Some l1" "(v(n \<mapsto> l)) n2 = Some l2" "nn_Namespace n1 = nn_Namespace n2"
    "\<not> st_Ended (l_Status l1)" "\<not> st_Ended (l_Status l2)"
    "st_ExporterRef (l_Status l1) = Some e" "st_ExporterRef (l_Status l2) = Some e"
  with assms(1) free [of e n1 l1] free [of e n2 l2] show "n1 = n2"
    by (cases "n1 = n"; cases "n2 = n") (simp_all add: exclusive_def)
qed

lemma exclusive_other:
  assumes "exclusive v" "v n = Some l0" "st_ExporterRef (l_Status l0) = Some e" "\<not> st_Ended (l_Status l0)"
    "v n' = Some l'" "n' \<noteq> n" "nn_Namespace n' = nn_Namespace n" "\<not> st_Ended (l_Status l')"
  shows "st_ExporterRef (l_Status l') \<noteq> Some e"
  using assms unfolding exclusive_def by blast

lemma Lease_Reconcile_exclusive:
  assumes store: "lease_store k view" and ctrl: "ctrlref_ok x" and inv: "exclusive (view s)"
    and sees: "sees_holders k view s req" and rec: "Lease_Reconcile k x c s req = (res, s')"
  shows "exclusive (view s')"
  using store ctrl rec
proof (cases rule: Lease_Reconcile_view)
  case same
  with inv show ?thesis by simp
next
  case (written l r l1 l3)
  note keeps = reconcileStatus_keeps [OF written(2)]
  show ?thesis
    unfolding written(3)
  proof (rule exclusive_upd [OF inv])
    fix n' l' e
    assume ref: "st_ExporterRef (l_Status l3) = Some e" "\<not> st_Ended (l_Status l3)"
      and other: "view s n' = Some l'" "n' \<noteq> req" "nn_Namespace n' = nn_Namespace req" "\<not> st_Ended (l_Status l')"
    from ref written(4) keeps(3) have nend: "\<not> st_Ended (l_Status l)" by auto
    show "st_ExporterRef (l_Status l') \<noteq> Some e"
    proof (cases "st_ExporterRef (l_Status l)")
      case (Some e')
      with keeps(4) ref written(4) have "st_ExporterRef (l_Status l) = Some e" by auto
      with exclusive_other [OF inv written(1)] nend other show ?thesis by simp
    next
      case None
      from reconcileStatus_elim [OF written(2)] obtain r1 l2 where
        first: "reconcileStatusExporterRef k x c s zero_Result l = Inr (r1, l2)"
        and last: "reconcileStatusEnded x c r1 (reconcileStatusBeginEndTimes x c l2) = (r, l1)" .
      have "st_ExporterRef (l_Status l2) = Some e"
        using ref written(4) reconcileStatusEnded_frame(3) [OF last] by (simp add: reconcileStatusBeginEndTimes_frame)
      from assigned_exporter_free [OF first None this] obtain actives where
        act: "ListActiveLeases k s (om_Namespace (l_Meta l)) = Inr actives"
        and free: "\<forall>a\<in>set actives. st_ExporterRef (l_Status a) \<noteq> Some e"
        by auto
      have "om_Namespace (l_Meta l) = nn_Namespace req"
        using lease_store_key [OF store written(1)] by (auto simp: key_of_def)
      with act sees other free show ?thesis unfolding sees_holders_def by auto
    qed
  qed
qed

section \<open>Histories of the cluster\<close>

text \<open>
  The steps: a reconcile of a lease by a pass whose list shows the holders; a lease is created
  (with no status, as the API server does it); its metadata or spec is edited in any way,
  which keeps its status, as the status subresource works; it is deleted; anything else in
  the cluster changes.
\<close>

inductive cluster_step ::
  "'s kube \<Rightarrow> ext \<Rightarrow> ('s \<Rightarrow> NamespacedName \<Rightarrow> Lease option) \<Rightarrow> 's \<Rightarrow> 's \<Rightarrow> bool" for k x view where
  reconcile: "Lease_Reconcile k x c s req = (res, s') \<Longrightarrow> sees_holders k view s req \<Longrightarrow> cluster_step k x view s s'"
| create: "view s n = None \<Longrightarrow> l_Status l = zero_LeaseStatus \<Longrightarrow>
    view s' = (view s)(n \<mapsto> l) \<Longrightarrow> cluster_step k x view s s'"
| edit: "view s n = Some l \<Longrightarrow> l_Status l' = l_Status l \<Longrightarrow>
    view s' = (view s)(n \<mapsto> l') \<Longrightarrow> cluster_step k x view s s'"
| delete: "view s' = (view s)(n := None) \<Longrightarrow> cluster_step k x view s s'"
| other: "view s' = view s \<Longrightarrow> cluster_step k x view s s'"

lemma cluster_step_exclusive:
  assumes "cluster_step k x view s s'" "lease_store k view" "ctrlref_ok x" "exclusive (view s)"
  shows "exclusive (view s')"
  using assms(1)
proof cases
  case (reconcile c req res)
  with assms show ?thesis by (metis Lease_Reconcile_exclusive)
next
  case (create n l)
  with assms(4) exclusive_upd [of "view s" l n] show ?thesis
    by (auto simp: zero_LeaseStatus_def)
next
  case (edit n l l')
  show ?thesis unfolding edit(3)
    using assms(4) edit exclusive_other [of "view s" n l] by (intro exclusive_upd) auto
next
  case (delete n)
  show ?thesis using assms(4) unfolding exclusive_def delete by (auto split: if_splits)
qed (use assms(4) in simp)

lemma cluster_steps_exclusive:
  assumes "(cluster_step k x view)\<^sup>*\<^sup>* s s'" "lease_store k view" "ctrlref_ok x" "exclusive (view s)"
  shows "exclusive (view s')"
  using assms(1) by induction (use assms in \<open>auto dest: cluster_step_exclusive\<close>)

text \<open>
  C1: Starting from a cluster without leases, in every state reached by reconciles, creations,
  edits and deletions of leases and any other change of the cluster, two leases of a namespace
  that hold the same exporter are one and the same lease, provided that every reconcile reads
  a list of active leases that shows the holders: the reconciler lists through the cache of
  the manager, so the list has to have caught up with the earlier assignments, and it leaves
  out any holder that was given the label of ended leases. The lease itself may be read stale,
  since the server refuses a write with an old resource version. The condition is needed, see
  \<open>stale_list_gives_exporter_twice\<close>.
\<close>

theorem exporter_never_held_twice:
  assumes "lease_store k view" "ctrlref_ok x" "view s0 = (\<lambda>n. None)" "(cluster_step k x view)\<^sup>*\<^sup>* s0 s"
    and "view s n1 = Some l1" "view s n2 = Some l2" "nn_Namespace n1 = nn_Namespace n2"
    and "lease_phase l1 = Holding e b1" "lease_phase l2 = Holding e b2"
  shows "n1 = n2"
proof -
  have "exclusive (view s0)" by (simp add: assms(3) exclusive_def)
  from cluster_steps_exclusive [OF assms(4,1,2) this] have "exclusive (view s)" .
  moreover from assms(8,9) have "\<not> st_Ended (l_Status l1)" "\<not> st_Ended (l_Status l2)"
    "st_ExporterRef (l_Status l1) = Some e" "st_ExporterRef (l_Status l2) = Some e"
    by (auto simp: lease_phase_def holding_def split: if_splits option.splits)
  ultimately show ?thesis using assms(5-7) unfolding exclusive_def by blast
qed

section \<open>The in-memory server\<close>

definition mem_view :: "cluster \<Rightarrow> NamespacedName \<Rightarrow> Lease option" where
  "mem_view c n = find (keyed l_Meta n) (cu_Leases c)"

lemma keyed_iff: "keyed meta n a \<longleftrightarrow> key_of (meta a) = n"
  by (cases n) (auto simp: keyed_def key_of_def)

lemma find_keyed_SomeD: "find (keyed meta n) xs = Some a \<Longrightarrow> key_of (meta a) = n \<and> a \<in> set xs"
  by (auto simp: find_Some_iff keyed_iff)

lemma find_keyed_map:
  assumes "key_of (meta m) = n0" "find (keyed meta n0) xs = Some b"
  shows "find (keyed meta n) (map (\<lambda>z. if keyed meta n0 z then m else z) xs) =
    (if n = n0 then Some m else find (keyed meta n) xs)"
proof (cases "n = n0")
  case True
  with assms show ?thesis by (induction xs) (auto simp: keyed_iff split: if_splits)
next
  case False
  with assms(1) show ?thesis by (induction xs) (auto simp: keyed_iff)
qed

lemma mem_write_law:
  assumes key: "\<And>old new. key_of (l_Meta old) = key_of (l_Meta new) \<Longrightarrow> key_of (l_Meta (merge old new)) = key_of (l_Meta new)"
    and keep: "\<And>old new. keep old new (merge old new)"
  shows "write_law (\<lambda>c l. mem_put put_leases c (mem_write l_Meta merge (cu_Leases c) l)) mem_view keep"
proof -
  have "view_upd": "mem_view (put_leases c (map (\<lambda>z. if keyed l_Meta (key_of (l_Meta l)) z then merge b l else z) (cu_Leases c)))
      = (mem_view c)(key_of (l_Meta l) \<mapsto> merge b l)"
    if "find (keyed l_Meta (key_of (l_Meta l))) (cu_Leases c) = Some b" for c l b
    using find_keyed_SomeD [OF that] find_keyed_map [OF _ that, of "merge b l"] key [of b l]
    by (auto simp: mem_view_def fun_eq_iff)
  then show ?thesis
    using keep by (auto simp: write_law_def mem_put_def mem_write_def mem_view_def split: option.splits)
qed

lemma key_of_bump [simp]: "key_of (bump m) = key_of m"
  by (simp add: key_of_def bump_def)

lemma labels_bump [simp]: "om_Labels (bump m) = om_Labels m"
  by (simp add: bump_def)

lemma mem_lease_store: "lease_store mem_kube mem_view"
  unfolding lease_store_def
proof (intro conjI)
  show "reads_versioned mem_kube mem_view"
    by (auto simp: reads_versioned_def mem_kube_def mem_get_def mem_view_def dest: find_keyed_SomeD split: option.splits)
  show "write_law (k_statusUpdateLease mem_kube) mem_view keep_main"
    unfolding mem_kube_def kube.simps by (rule mem_write_law) (simp_all add: keep_main_def)
  show "write_law (k_updateLease mem_kube) mem_view keep_status"
    unfolding mem_kube_def kube.simps by (rule mem_write_law) (simp_all add: keep_status_def)
qed

text \<open>Its lists are current.\<close>

lemma mem_sees_holders:
  assumes "labels_truthful (mem_view s)"
  shows "sees_holders mem_kube mem_view s req"
proof (rule current_list_sees_holders [where view = mem_view, OF assms])
  fix actives n l
  assume "ListActiveLeases mem_kube s (nn_Namespace req) = Inr actives" "mem_view s n = Some l"
    "nn_Namespace n = nn_Namespace req" "\<not> ended_label l"
  then show "l \<in> set actives"
    by (auto simp: ListActiveLeases_def mem_kube_def mem_list_def mem_selected_def mem_view_def MatchingActiveLeases_def
        ended_label_def key_of_def dest!: find_keyed_SomeD)
qed

abbreviation mine :: NamespacedName where
  "mine \<equiv> \<lparr>nn_Namespace = ''lab'', nn_Name = ''mine''\<rparr>"

definition idle_lab :: cluster where
  "idle_lab = sample_cluster\<lparr>cu_Leases := []\<rparr>"

definition requested_lab :: cluster where
  "requested_lab = sample_cluster\<lparr>cu_Leases := [sample_mine]\<rparr>"

definition granted_lab :: cluster where
  "granted_lab = snd (Lease_Reconcile mem_kube mem_ext sample_clock requested_lab mine)"

definition granted_lease :: Lease where
  "granted_lease = the (mem_view granted_lab mine)"

lemma granted_eval:
  "mem_view granted_lab mine = Some granted_lease" "lease_phase granted_lease = Holding ''rpi-a'' (10 * Second)"
  by (code_simp, code_simp)

lemma idle_view: "mem_view idle_lab = (\<lambda>n. None)"
  by (simp add: mem_view_def idle_lab_def fun_eq_iff)

lemma requested_view: "mem_view requested_lab = (mem_view idle_lab)(mine \<mapsto> sample_mine)"
proof -
  have "key_of (l_Meta sample_mine) = mine" by code_simp
  then show ?thesis by (auto simp: mem_view_def requested_lab_def idle_lab_def fun_eq_iff keyed_iff)
qed

lemma requested_truthful: "labels_truthful (mem_view requested_lab)"
proof -
  have "\<not> ended_label sample_mine" by code_simp
  then show ?thesis by (auto simp: requested_view idle_view labels_truthful_def split: if_splits)
qed

lemma granted_reachable: "(cluster_step mem_kube mem_ext mem_view)\<^sup>*\<^sup>* idle_lab granted_lab"
proof (rule converse_rtranclp_into_rtranclp, rule cluster_step.create [OF _ _ requested_view])
  show "mem_view idle_lab mine = None" by (simp add: idle_view)
  show "l_Status sample_mine = zero_LeaseStatus" by code_simp
  have "cluster_step mem_kube mem_ext mem_view requested_lab granted_lab"
    unfolding granted_lab_def
    by (rule cluster_step.reconcile [OF prod.collapse [symmetric] mem_sees_holders [OF requested_truthful]])
  then show "(cluster_step mem_kube mem_ext mem_view)\<^sup>*\<^sup>* requested_lab granted_lab" by blast
qed

theorem exporter_never_held_twice_witness:
  "mem_view granted_lab mine = Some granted_lease \<and> lease_phase granted_lease = Holding ''rpi-a'' (10 * Second) \<and> mine = mine"
proof -
  have "mine = mine"
    by (rule exporter_never_held_twice [where view = mem_view and s = granted_lab and k = mem_kube and x = mem_ext
          and ?s0.0 = idle_lab and ?l1.0 = granted_lease and ?l2.0 = granted_lease and e = "''rpi-a''"
          and ?b1.0 = "10 * Second" and ?b2.0 = "10 * Second"])
      (simp_all add: mem_lease_store idle_view granted_reachable granted_eval)
  with granted_eval show ?thesis by blast
qed

section \<open>A list that lags behind\<close>

text \<open>
  The cache of the manager before it has seen any lease: reads of single objects are current,
  the list of leases is still empty. Two leases wait for the same exporter; the pass for each
  of them assigns it.
\<close>

definition lagging_kube :: "cluster kube" where
  "lagging_kube = mem_kube\<lparr>k_listLeases := (\<lambda>s opts. Inr ([], []))\<rparr>"

abbreviation yours :: NamespacedName where
  "yours \<equiv> \<lparr>nn_Namespace = ''lab'', nn_Name = ''yours''\<rparr>"

definition contended_lab :: cluster where
  "contended_lab = sample_cluster\<lparr>cu_Leases :=
     [sample_mine, sample_lease ''yours'' ''alice'' (Some (60 * Second))]\<rparr>"

definition doubled_lab :: cluster where
  "doubled_lab = snd (Lease_Reconcile lagging_kube mem_ext sample_clock
     (snd (Lease_Reconcile lagging_kube mem_ext sample_clock contended_lab mine)) yours)"

lemma lagging_lease_store: "lease_store lagging_kube mem_view"
proof -
  have "k_getLease lagging_kube = k_getLease mem_kube" "k_statusUpdateLease lagging_kube = k_statusUpdateLease mem_kube"
    "k_updateLease lagging_kube = k_updateLease mem_kube"
    by (simp_all add: lagging_kube_def)
  with mem_lease_store show ?thesis by (simp add: lease_store_def reads_versioned_def)
qed

text \<open>
  A server that keeps every law of \<open>lease_store\<close> but answers the list of leases from a cache
  that lags behind ends up with two leases that hold the same exporter, after one pass for each.
\<close>

theorem stale_list_gives_exporter_twice:
  "lease_store lagging_kube mem_view \<and> mine \<noteq> yours \<and>
   map_option lease_phase (mem_view doubled_lab mine) = Some (Holding ''rpi-a'' (10 * Second)) \<and>
   map_option lease_phase (mem_view doubled_lab yours) = Some (Holding ''rpi-a'' (10 * Second))"
proof (intro conjI)
  show "lease_store lagging_kube mem_view" by (rule lagging_lease_store)
  show "mine \<noteq> yours" by simp
  show "map_option lease_phase (mem_view doubled_lab mine) = Some (Holding ''rpi-a'' (10 * Second))" by code_simp
  show "map_option lease_phase (mem_view doubled_lab yours) = Some (Holding ''rpi-a'' (10 * Second))" by code_simp
qed

end
