(* ===== verification/Reconcilers.thy ===== *)
theory Reconcilers
  imports Credentials LeaseExclusion
begin

text \<open>
  The reconcilers of exporters and clients
  (\<open>src/internal/controller/exporter_controller.go\<close>, \<open>client_controller.go\<close>): the credential
  secret, the lease an exporter is under, whether it is online and registered, and the
  endpoint to report.
\<close>

section \<open>Definitions\<close>

definition exporter_condition ::
  "ext \<Rightarrow> string \<Rightarrow> ConditionStatus \<Rightarrow> string \<Rightarrow> string \<Rightarrow> Exporter \<Rightarrow> Exporter" where
  "exporter_condition x t st reason message e =
     e\<lparr>e_Status := (e_Status e)\<lparr>es_Conditions := x_SetStatusCondition x (es_Conditions (e_Status e))
         \<lparr>c_Type = t, c_Status = st, c_ObservedGeneration = om_Generation (e_Meta e),
          c_LastTransitionTime = 0, c_Reason = reason, c_Message = message\<rparr>\<rparr>\<rparr>"

definition Exporter_reconcileStatusCredential ::
  "'s kube \<Rightarrow> ext \<Rightarrow> 'key jwt \<Rightarrow> 'key Signer \<Rightarrow> token_clock \<Rightarrow> 's \<Rightarrow> Exporter \<Rightarrow> (goerror + Exporter) \<times> 's" where
  "Exporter_reconcileStatusCredential k x j signer tc s exporter =
     (case ensureSecret k x j signer tc s
             \<lparr>nn_Namespace = om_Namespace (e_Meta exporter), nn_Name = om_Name (e_Meta exporter) @ ''-exporter''\<rparr>
             (Exporter_InternalSubject exporter) (e_Meta exporter) of
        (Inl err, s1) \<Rightarrow>
          (Inl (WrapError ''reconcileStatusCredential: failed to prepare credential for exporter'' err), s1)
      | (Inr secret, s1) \<Rightarrow>
          (Inr (exporter\<lparr>e_Status := (e_Status exporter)\<lparr>es_Credential := Some (om_Name (sec_Meta secret))\<rparr>\<rparr>), s1))"

text \<open>The loop over the listed leases; a later one replaces an earlier one.\<close>

definition leaseRef_of :: "string \<Rightarrow> Lease list \<Rightarrow> string option" where
  "leaseRef_of name leases =
     fold (\<lambda>lease ref.
         if \<not> st_Ended (l_Status lease) \<and> st_ExporterRef (l_Status lease) = Some name
         then Some (om_Name (l_Meta lease)) else ref) leases None"

definition reconcileStatusLeaseRef :: "'s kube \<Rightarrow> 's \<Rightarrow> Exporter \<Rightarrow> goerror + Exporter" where
  "reconcileStatusLeaseRef k s exporter =
     (case k_listLeases k s [InNamespace (om_Namespace (e_Meta exporter)), MatchingActiveLeases] of
        Inl err \<Rightarrow> Inl (WrapError ''reconcileStatusLeaseRef: failed to list active leases'' err)
      | Inr (leases, _) \<Rightarrow>
          Inr (exporter\<lparr>e_Status := (e_Status exporter)\<lparr>
            es_LeaseRef := leaseRef_of (om_Name (e_Meta exporter)) leases\<rparr>\<rparr>))"

definition Exporter_reconcileStatusEndpoint :: "(string \<Rightarrow> string) \<Rightarrow> Exporter \<Rightarrow> Exporter" where
  "Exporter_reconcileStatusEndpoint getenv exporter =
     (let endpoint = controllerEndpoint getenv in
      if es_Endpoint (e_Status exporter) \<noteq> endpoint
      then exporter\<lparr>e_Status := (e_Status exporter)\<lparr>es_Endpoint := endpoint\<rparr>\<rparr> else exporter)"

text \<open>\<open>now\<close> is the reading of \<open>time.Since\<close>.\<close>

definition reconcileStatusConditionsOnline :: "ext \<Rightarrow> time \<Rightarrow> Exporter \<Rightarrow> Result \<times> Exporter" where
  "reconcileStatusConditionsOnline x now exporter =
     (let seen = es_LastSeen (e_Status exporter);
          (requeueAfter, e1) =
            (if time_IsZero seen then
               (0, exporter_condition x ExporterConditionTypeOnline ConditionFalse ''Seen'' ''Never seen'' exporter)
             else if time_Sub now seen > Minute then
               (0, exporter_condition x ExporterConditionTypeOnline ConditionFalse ''Seen''
                     ''Last seen more than 1 minute ago'' exporter)
             else
               (30 * Second, exporter_condition x ExporterConditionTypeOnline ConditionTrue ''Seen''
                     ''Last seen less than 1 minute ago'' exporter));
          e2 = (if es_Devices (e_Status e1) = None
                then exporter_condition x ExporterConditionTypeRegistered ConditionFalse ''Unregister'' [] e1
                else exporter_condition x ExporterConditionTypeRegistered ConditionTrue ''Register'' [] e1)
      in (zero_Result\<lparr>r_RequeueAfter := requeueAfter\<rparr>, e2))"

definition Exporter_Reconcile ::
  "'s kube \<Rightarrow> ext \<Rightarrow> 'key jwt \<Rightarrow> 'key Signer \<Rightarrow> (string \<Rightarrow> string) \<Rightarrow> token_clock \<Rightarrow> time \<Rightarrow> 's \<Rightarrow> NamespacedName
   \<Rightarrow> (Result \<times> goerror option) \<times> 's" where
  "Exporter_Reconcile k x j signer getenv tc now s req =
     (case k_getExporter k s req of
        Inl err \<Rightarrow> ((zero_Result, IgnoreNotFound (WrapError ''Reconcile: unable to get exporter'' err)), s)
      | Inr exporter \<Rightarrow>
          (case Exporter_reconcileStatusCredential k x j signer tc s exporter of
             (Inl err, s1) \<Rightarrow> ((zero_Result, Some err), s1)
           | (Inr e1, s1) \<Rightarrow>
               (case reconcileStatusLeaseRef k s1 e1 of
                  Inl err \<Rightarrow> ((zero_Result, Some err), s1)
                | Inr e2 \<Rightarrow>
                    (let (result, e3) = reconcileStatusConditionsOnline x now e2;
                         e4 = Exporter_reconcileStatusEndpoint getenv e3
                     in case k_statusPatchExporter k s1 e4 exporter of
                          (Inl err, s2) \<Rightarrow> (RequeueConflict zero_Result err, s2)
                        | (Inr _, s2) \<Rightarrow> ((result, None), s2)))))"

definition Client_reconcileStatusCredential ::
  "'s kube \<Rightarrow> ext \<Rightarrow> 'key jwt \<Rightarrow> 'key Signer \<Rightarrow> token_clock \<Rightarrow> 's \<Rightarrow> Client \<Rightarrow> (goerror + Client) \<times> 's" where
  "Client_reconcileStatusCredential k x j signer tc s client =
     (case ensureSecret k x j signer tc s
             \<lparr>nn_Namespace = om_Namespace (cl_Meta client), nn_Name = om_Name (cl_Meta client) @ ''-client''\<rparr>
             (Client_InternalSubject client) (cl_Meta client) of
        (Inl err, s1) \<Rightarrow>
          (Inl (WrapError ''reconcileStatusCredential: failed to prepare credential for client'' err), s1)
      | (Inr secret, s1) \<Rightarrow>
          (Inr (client\<lparr>cl_Status := (cl_Status client)\<lparr>cst_Credential := Some (om_Name (sec_Meta secret))\<rparr>\<rparr>), s1))"

definition Client_reconcileStatusEndpoint :: "(string \<Rightarrow> string) \<Rightarrow> Client \<Rightarrow> Client" where
  "Client_reconcileStatusEndpoint getenv client =
     (let endpoint = controllerEndpoint getenv in
      if cst_Endpoint (cl_Status client) \<noteq> endpoint
      then client\<lparr>cl_Status := (cl_Status client)\<lparr>cst_Endpoint := endpoint\<rparr>\<rparr> else client)"

definition Client_Reconcile ::
  "'s kube \<Rightarrow> ext \<Rightarrow> 'key jwt \<Rightarrow> 'key Signer \<Rightarrow> (string \<Rightarrow> string) \<Rightarrow> token_clock \<Rightarrow> 's \<Rightarrow> NamespacedName
   \<Rightarrow> (Result \<times> goerror option) \<times> 's" where
  "Client_Reconcile k x j signer getenv tc s req =
     (case k_getClient k s req of
        Inl err \<Rightarrow> ((zero_Result, IgnoreNotFound (WrapError ''Reconcile: failed to get client'' err)), s)
      | Inr client \<Rightarrow>
          (case Client_reconcileStatusCredential k x j signer tc s client of
             (Inl err, s1) \<Rightarrow> ((zero_Result, Some err), s1)
           | (Inr c1, s1) \<Rightarrow>
               (case k_statusPatchClient k s1 (Client_reconcileStatusEndpoint getenv c1) client of
                  (Inl err, s2) \<Rightarrow> (RequeueConflict zero_Result err, s2)
                | (Inr _, s2) \<Rightarrow> ((zero_Result, None), s2))))"

section \<open>Online and registered\<close>

lemma exporter_condition_frame [simp]:
  "e_Meta (exporter_condition x t st r m e) = e_Meta e" "e_Spec (exporter_condition x t st r m e) = e_Spec e"
  "es_Devices (e_Status (exporter_condition x t st r m e)) = es_Devices (e_Status e)"
  "es_LastSeen (e_Status (exporter_condition x t st r m e)) = es_LastSeen (e_Status e)"
  "es_LeaseRef (e_Status (exporter_condition x t st r m e)) = es_LeaseRef (e_Status e)"
  "es_Credential (e_Status (exporter_condition x t st r m e)) = es_Credential (e_Status e)"
  "es_Endpoint (e_Status (exporter_condition x t st r m e)) = es_Endpoint (e_Status e)"
  by (simp_all add: exporter_condition_def)

lemma exporter_condition_true:
  "conditions_ok x \<Longrightarrow> x_IsStatusConditionTrue x (es_Conditions (e_Status (exporter_condition x t st r m e))) t' =
     (if t' = t then st = ConditionTrue else x_IsStatusConditionTrue x (es_Conditions (e_Status e)) t')"
  by (auto simp: exporter_condition_def conditions_ok_same conditions_ok_other)

lemma exporter_condition_types_distinct [simp]:
  "ExporterConditionTypeOnline \<noteq> ExporterConditionTypeRegistered" "ExporterConditionTypeRegistered \<noteq> ExporterConditionTypeOnline"
  by (simp_all add: exporter_condition_types)

text \<open>Alive: a report was seen and it is at most a minute old.\<close>

definition alive :: "time \<Rightarrow> Exporter \<Rightarrow> bool" where
  "alive now e \<longleftrightarrow> es_LastSeen (e_Status e) \<noteq> 0 \<and> now - es_LastSeen (e_Status e) \<le> Minute"

lemma time_Sub_gt_Minute: "time_Sub now seen > Minute \<longleftrightarrow> now - seen > Minute"
  by (auto simp: time_Sub_def int64_defs Minute_def)

lemma reconcileStatusConditionsOnline_result:
  assumes "conditions_ok x" "reconcileStatusConditionsOnline x now e = (r, e')"
  shows "online x e' \<longleftrightarrow> alive now e \<and> es_Devices (e_Status e) \<noteq> None"
    and "r = zero_Result\<lparr>r_RequeueAfter := if alive now e then 30 * Second else 0\<rparr>"
    and "e_Meta e' = e_Meta e" "es_LeaseRef (e_Status e') = es_LeaseRef (e_Status e)"
    "es_Credential (e_Status e') = es_Credential (e_Status e)"
  using assms
  by (auto simp: reconcileStatusConditionsOnline_def Let_def online_def alive_def exporter_condition_true
      time_IsZero_def time_Sub_gt_Minute split: if_splits)

text \<open>
  C28: After a reconcile of its conditions an exporter counts as online and registered, which
  is what the choice of an exporter for a lease asks for, exactly when it reported within the
  last minute and has registered devices; while it is alive the next reconcile is asked for
  after thirty seconds, so that an exporter that stops reporting is found out.
\<close>

theorem exporter_online_iff:
  assumes "conditions_ok x"
  shows "(online x (snd (reconcileStatusConditionsOnline x now e)) \<longleftrightarrow>
      alive now e \<and> es_Devices (e_Status e) \<noteq> None) \<and>
    r_RequeueAfter (fst (reconcileStatusConditionsOnline x now e)) = (if alive now e then 30 * Second else 0)"
  using reconcileStatusConditionsOnline_result [OF assms prod.collapse [symmetric], of now e] by simp

theorem exporter_online_iff_witness:
  "\<not> online mem_ext (snd (reconcileStatusConditionsOnline mem_ext (100 * Second) (sample_exporter ''rpi-a'' True)))"
proof -
  have "\<not> alive (100 * Second) (sample_exporter ''rpi-a'' True)" by code_simp
  with exporter_online_iff [OF mem_ext_conditions_ok, of "100 * Second" "sample_exporter ''rpi-a'' True"]
  show ?thesis by simp
qed

section \<open>The lease of an exporter\<close>

definition holds_exporter :: "string \<Rightarrow> Lease \<Rightarrow> bool" where
  "holds_exporter name l \<longleftrightarrow> \<not> st_Ended (l_Status l) \<and> st_ExporterRef (l_Status l) = Some name"

lemma leaseRef_of_Nil: "leaseRef_of name [] = None"
  by (simp add: leaseRef_of_def)

lemma leaseRef_of_append:
  "leaseRef_of name (ls @ [l]) = (if holds_exporter name l then Some (om_Name (l_Meta l)) else leaseRef_of name ls)"
  by (simp add: leaseRef_of_def holds_exporter_def)

lemma leaseRef_of_SomeD: "leaseRef_of name ls = Some n \<Longrightarrow> \<exists>l\<in>set ls. holds_exporter name l \<and> om_Name (l_Meta l) = n"
  by (induction ls rule: rev_induct) (auto simp: leaseRef_of_append leaseRef_of_Nil split: if_splits)

lemma leaseRef_of_None: "leaseRef_of name ls = None \<longleftrightarrow> (\<forall>l\<in>set ls. \<not> holds_exporter name l)"
  by (induction ls rule: rev_induct) (auto simp: leaseRef_of_append leaseRef_of_Nil)

lemma exclusive_holders:
  assumes "exclusive v" "v a = Some l" "v b = Some m" "nn_Namespace a = nn_Namespace b"
    "holds_exporter name l" "holds_exporter name m"
  shows "a = b"
  using assms unfolding exclusive_def holds_exporter_def by blast

text \<open>
  The list of active leases is right about the holders of the exporter \<open>e\<close>: the names of
  the leases on it that hold the exporter are those of the stored leases that do.
\<close>

definition list_right_about ::
  "'s kube \<Rightarrow> ('s \<Rightarrow> NamespacedName \<Rightarrow> Lease option) \<Rightarrow> 's \<Rightarrow> Exporter \<Rightarrow> bool" where
  "list_right_about k view s e \<longleftrightarrow>
     (\<forall>leases n. ListActiveLeases k s (om_Namespace (e_Meta e)) = Inr leases \<longrightarrow>
        (\<exists>l\<in>set leases. om_Name (l_Meta l) = n \<and> holds_exporter (om_Name (e_Meta e)) l) =
        (\<exists>l. view s \<lparr>nn_Namespace = om_Namespace (e_Meta e), nn_Name = n\<rparr> = Some l \<and> holds_exporter (om_Name (e_Meta e)) l))"

text \<open>
  C29: The lease reference in the status of an exporter names the lease that holds it: after
  the reconcile it is \<open>n\<close> exactly when the lease \<open>n\<close> of the namespace holds the exporter
  and has not ended. Assumed are the invariant that no two such leases exist, which makes the
  last match of the loop the only one, and that the list of active leases the pass reads is
  right about the holders of this exporter at that moment; the list comes from the cache of
  the manager, which may lag behind, and leaves out leases with the label of ended leases.
\<close>

theorem lease_ref_names_holder:
  assumes inv: "exclusive (view s)" and right: "list_right_about k view s e" and rec: "reconcileStatusLeaseRef k s e = Inr e'"
  shows "es_LeaseRef (e_Status e') = Some n \<longleftrightarrow>
    (\<exists>l. view s \<lparr>nn_Namespace = om_Namespace (e_Meta e), nn_Name = n\<rparr> = Some l \<and> holds_exporter (om_Name (e_Meta e)) l)"
    (is "_ \<longleftrightarrow> (\<exists>l. view s (?key n) = Some l \<and> ?holds l)")
proof -
  from rec obtain leases where list: "ListActiveLeases k s (om_Namespace (e_Meta e)) = Inr leases"
    and ref: "es_LeaseRef (e_Status e') = leaseRef_of (om_Name (e_Meta e)) leases"
    by (auto simp: reconcileStatusLeaseRef_def ListActiveLeases_def split: sum.splits)
  from right list have same: "(\<exists>l\<in>set leases. om_Name (l_Meta l) = m \<and> ?holds l) \<longleftrightarrow> (\<exists>l. view s (?key m) = Some l \<and> ?holds l)" for m
    unfolding list_right_about_def by simp
  have found: "\<exists>l. view s (?key m) = Some l \<and> ?holds l" if "leaseRef_of (om_Name (e_Meta e)) leases = Some m" for m
    using leaseRef_of_SomeD [OF that] same [of m] by blast
  show ?thesis
  proof
    assume stored: "\<exists>l. view s (?key n) = Some l \<and> ?holds l"
    then obtain l where l: "view s (?key n) = Some l" "?holds l" by blast
    from stored same [of n] obtain m where m: "leaseRef_of (om_Name (e_Meta e)) leases = Some m"
      by (metis leaseRef_of_None not_None_eq)
    with found [OF m] l inv have "?key m = ?key n" by (auto dest: exclusive_holders)
    with m ref show "es_LeaseRef (e_Status e') = Some n" by simp
  qed (use ref found in simp)
qed

text \<open>The condition holds of a current list, if no holder has the label of ended leases.\<close>

lemma current_list_right_about:
  assumes "labels_truthful (view s)"
    and "\<And>leases l. ListActiveLeases k s (om_Namespace (e_Meta e)) = Inr leases \<Longrightarrow> l \<in> set leases \<longleftrightarrow>
      view s (key_of (l_Meta l)) = Some l \<and> om_Namespace (l_Meta l) = om_Namespace (e_Meta e) \<and> \<not> ended_label l"
    and "\<And>n l. view s n = Some l \<Longrightarrow> key_of (l_Meta l) = n"
  shows "list_right_about k view s e"
  unfolding list_right_about_def
proof (intro allI impI iffI)
  fix leases n
  assume list: "ListActiveLeases k s (om_Namespace (e_Meta e)) = Inr leases"
  let ?key = "\<lparr>nn_Namespace = om_Namespace (e_Meta e), nn_Name = n\<rparr>"
  {
    assume "\<exists>l\<in>set leases. om_Name (l_Meta l) = n \<and> holds_exporter (om_Name (e_Meta e)) l"
    then show "\<exists>l. view s ?key = Some l \<and> holds_exporter (om_Name (e_Meta e)) l"
      using assms(2) [OF list] by (force simp: key_of_def)
  next
    assume "\<exists>l. view s ?key = Some l \<and> holds_exporter (om_Name (e_Meta e)) l"
    then obtain l where l: "view s ?key = Some l" "holds_exporter (om_Name (e_Meta e)) l" by blast
    with assms(1) have "\<not> ended_label l" by (auto simp: labels_truthful_def holds_exporter_def)
    moreover have key: "key_of (l_Meta l) = ?key" by (rule assms(3) [OF l(1)])
    ultimately have "l \<in> set leases" using assms(2) [OF list, of l] l(1) by (simp add: key_of_def)
    with l key show "\<exists>l\<in>set leases. om_Name (l_Meta l) = n \<and> holds_exporter (om_Name (e_Meta e)) l"
      by (auto simp: key_of_def)
  }
qed

theorem lease_ref_names_holder_witness:
  "\<exists>e'. reconcileStatusLeaseRef mem_kube granted_lab (sample_exporter ''rpi-a'' True) = Inr e' \<and>
     es_LeaseRef (e_Status e') = Some ''mine''"
proof -
  let ?e = "sample_exporter ''rpi-a'' True"
  have inv: "exclusive (mem_view granted_lab)"
    by (rule cluster_steps_exclusive [OF granted_reachable mem_lease_store mem_ext_ctrlref_ok])
      (simp add: idle_view exclusive_def)
  have ev: "ListActiveLeases mem_kube granted_lab (om_Namespace (e_Meta ?e)) = Inr [granted_lease]"
    "om_Namespace (e_Meta ?e) = ''lab''" "om_Name (l_Meta granted_lease) = ''mine''"
    "holds_exporter (om_Name (e_Meta ?e)) granted_lease" "cu_Leases granted_lab = [granted_lease]"
    "keyed l_Meta mine granted_lease"
    by (code_simp, code_simp, code_simp, code_simp, code_simp, code_simp)
  then have right: "list_right_about mem_kube mem_view granted_lab ?e"
    by (auto simp: list_right_about_def mem_view_def keyed_def)
  from ev(1) obtain e' where rec: "reconcileStatusLeaseRef mem_kube granted_lab ?e = Inr e'"
    by (auto simp: reconcileStatusLeaseRef_def ListActiveLeases_def split: sum.splits)
  with lease_ref_names_holder [OF inv right rec, of "''mine''"] ev granted_eval(1) show ?thesis by simp
qed

end
