(* ===== verification/Auth.thy ===== *)
theory Auth
  imports Credentials
begin

text \<open>
  Authentication and authorization of the gRPC services: the bearer token of a request
  (\<open>src/internal/authentication/bearer.go\<close>), the attributes a request names in its metadata
  (\<open>src/internal/authorization/metadata.go\<close>), the decision on them
  (\<open>src/internal/authorization/basic.go\<close>), the verification of a client or exporter
  (\<open>src/internal/oidc/token.go\<close>) and the namespace check (\<open>src/internal/service/auth/auth.go\<close>).

  The token authenticator is Kubernetes code: it is the field \<open>au_AuthenticateToken\<close> of the
  configuration, and returns an error, no user, or the name of the user. SHA-256 is the field
  \<open>au_Sum256\<close>. Strings are bytes; case is folded on the ASCII letters.
\<close>

section \<open>Definitions\<close>

text \<open>The incoming metadata of a request: the values under each (lower case) key.\<close>

type_synonym metadata = "string \<Rightarrow> string list"

record Context =
  cx_Metadata :: "metadata option"

definition ascii_lower :: "char \<Rightarrow> char" where
  "ascii_lower c = (if 65 \<le> (of_char c :: nat) \<and> (of_char c :: nat) \<le> 90 then char_of ((of_char c :: nat) + 32) else c)"

definition strings_ToLower :: "string \<Rightarrow> string" where
  "strings_ToLower s = map ascii_lower s"

definition strings_EqualFold :: "string \<Rightarrow> string \<Rightarrow> bool" where
  "strings_EqualFold a b \<longleftrightarrow> strings_ToLower a = strings_ToLower b"

definition BearerTokenFromContext :: "Context \<Rightarrow> goerror + string" where
  "BearerTokenFromContext ctx =
     (case cx_Metadata ctx of
        None \<Rightarrow> Inl (StatusError InvalidArgument ''missing metadata'')
      | Some md \<Rightarrow>
          (let authorizations = md ''authorization'' in
           if length authorizations < 1 then Inl (StatusError Unauthenticated ''missing authorization header'')
           else if length authorizations > 1 then Inl (StatusError InvalidArgument ''multiple authorization headers'')
           else
             (let authorization = authorizations ! 0 in
              if length authorization < 7 \<or> \<not> strings_EqualFold (take 7 authorization) ''Bearer ''
              then Inl (StatusError InvalidArgument ''malformed authorization header'')
              else Inr (drop 7 authorization))))"

record MetadataAttributesGetterConfig =
  mc_NamespaceKey :: string
  mc_ResourceKey :: string
  mc_NameKey :: string

record Attributes =
  at_User :: string
  at_Namespace :: string
  at_Resource :: string
  at_Name :: string

record auth_config =
  au_AuthenticateToken :: "string \<Rightarrow> goerror + string option"
  au_Sum256 :: "string \<Rightarrow> nat list"
  au_attr :: MetadataAttributesGetterConfig
  au_prefix :: string
  au_provisioning :: bool

definition AuthenticateContext :: "auth_config \<Rightarrow> Context \<Rightarrow> goerror + string option" where
  "AuthenticateContext au ctx =
     (case BearerTokenFromContext ctx of Inl err \<Rightarrow> Inl err | Inr token \<Rightarrow> au_AuthenticateToken au token)"

text \<open>\<open>normalizeName\<close>: the three regular expressions as list functions.\<close>

abbreviation code_in :: "char \<Rightarrow> nat \<Rightarrow> nat \<Rightarrow> bool" where
  "code_in c lo hi \<equiv> lo \<le> (of_char c :: nat) \<and> (of_char c :: nat) \<le> hi"

definition validChar :: "char \<Rightarrow> bool" where
  "validChar c \<longleftrightarrow> c = CHR ''-'' \<or> code_in c 97 122 \<or> code_in c 65 90 \<or> code_in c 48 57"

definition replaceInvalid :: "string \<Rightarrow> string" where
  "replaceInvalid s = map (\<lambda>c. if validChar c then c else CHR ''-'') s"

fun collapseHyphens :: "string \<Rightarrow> string" where
  "collapseHyphens (a # b # cs) =
     (if a = CHR ''-'' \<and> b = CHR ''-'' then collapseHyphens (b # cs) else a # collapseHyphens (b # cs))"
| "collapseHyphens s = s"

definition trimHyphens :: "string \<Rightarrow> string" where
  "trimHyphens s =
     (let s1 = (if s \<noteq> [] \<and> hd s = CHR ''-'' then tl s else s)
      in if s1 \<noteq> [] \<and> last s1 = CHR ''-'' then butlast s1 else s1)"

definition hex_digit :: "nat \<Rightarrow> char" where
  "hex_digit d = ''0123456789abcdef'' ! (d mod 16)"

definition hex_EncodeToString :: "nat list \<Rightarrow> string" where
  "hex_EncodeToString bs = concat (map (\<lambda>b. [hex_digit (b div 16), hex_digit b]) bs)"

definition normalizeName :: "(string \<Rightarrow> nat list) \<Rightarrow> string \<Rightarrow> string" where
  "normalizeName sum256 name =
     (let hash = sum256 name;
          sanitized = trimHyphens (collapseHyphens (replaceInvalid (strings_ToLower name)));
          sanitized = (if length sanitized > 37 then take 37 sanitized else sanitized)
      in strings_Join [''oidc'', sanitized, hex_EncodeToString (take 3 hash)] ''-'')"

definition mdGet :: "metadata \<Rightarrow> string \<Rightarrow> goerror + string" where
  "mdGet md k =
     (let v = md k in
      if length v < 1 then Inl (StatusError InvalidArgument (''missing metadata: '' @ k))
      else if length v > 1 then Inl (StatusError InvalidArgument (''multiple metadata: '' @ k))
      else Inr (v ! 0))"

definition ContextAttributes :: "auth_config \<Rightarrow> Context \<Rightarrow> string \<Rightarrow> goerror + Attributes" where
  "ContextAttributes au ctx user =
     (case cx_Metadata ctx of
        None \<Rightarrow> Inl (StatusError InvalidArgument ''missing metadata'')
      | Some md \<Rightarrow>
          (case mdGet md (mc_NamespaceKey (au_attr au)) of
             Inl err \<Rightarrow> Inl err
           | Inr namespace \<Rightarrow>
               (case mdGet md (mc_ResourceKey (au_attr au)) of
                  Inl err \<Rightarrow> Inl err
                | Inr resource \<Rightarrow>
                    (case mdGet md (mc_NameKey (au_attr au)) of
                       Inl err \<Rightarrow> Inl err
                     | Inr name \<Rightarrow>
                         Inr \<lparr>at_User = user, at_Namespace = namespace, at_Resource = resource,
                              at_Name = (if name = [] then normalizeName (au_Sum256 au) user else name)\<rparr>))))"

definition VerifyOIDCToken :: "auth_config \<Rightarrow> Context \<Rightarrow> goerror + Attributes" where
  "VerifyOIDCToken au ctx =
     (case AuthenticateContext au ctx of
        Inl err \<Rightarrow> Inl err
      | Inr None \<Rightarrow> Inl (Errorf ''failed to authenticate token'')
      | Inr (Some user) \<Rightarrow> ContextAttributes au ctx user)"

datatype Decision = DecisionDeny | DecisionAllow | DecisionNoOpinion

definition Authorize ::
  "'s kube \<Rightarrow> auth_config \<Rightarrow> 's \<Rightarrow> Attributes \<Rightarrow> (Decision \<times> string \<times> goerror option) \<times> 's" where
  "Authorize k au s attributes =
     (let key = \<lparr>nn_Namespace = at_Namespace attributes, nn_Name = at_Name attributes\<rparr> in
      if at_Resource attributes = ''Exporter'' then
        (case k_getExporter k s key of
           Inl err \<Rightarrow> ((DecisionDeny, ''failed to get exporter'', Some err), s)
         | Inr e \<Rightarrow>
             if at_User attributes \<in> set (Exporter_Usernames e (au_prefix au))
             then ((DecisionAllow, [], None), s) else ((DecisionDeny, [], None), s))
      else if at_Resource attributes = ''Client'' then
        (let decide = (\<lambda>c. if at_User attributes \<in> set (Client_Usernames c (au_prefix au))
                           then (DecisionAllow, [], None) else (DecisionDeny, [], None)) in
         case k_getClient k s key of
           Inr c \<Rightarrow> (decide c, s)
         | Inl err \<Rightarrow>
             if IsNotFound err \<and> au_provisioning au then
               (case k_createClient k s
                       \<lparr>cl_Meta = zero_ObjectMeta\<lparr>om_Namespace := at_Namespace attributes, om_Name := at_Name attributes\<rparr>,
                        cl_Spec = \<lparr>csp_Username = Some (at_User attributes)\<rparr>, cl_Status = zero_ClientStatus\<rparr> of
                  (Inl err, s1) \<Rightarrow> ((DecisionDeny, ''failed to provision client'', Some err), s1)
                | (Inr c, s1) \<Rightarrow> (decide c, s1))
             else ((DecisionDeny, ''failed to get client'', Some err), s))
      else ((DecisionDeny, ''invalid object kind'', None), s))"

text \<open>
  \<open>VerifyClientObjectToken\<close> and \<open>VerifyExporterObjectToken\<close> are the same code but for the
  kind and the final read; \<open>get\<close> is that read.
\<close>

definition VerifyObjectToken ::
  "'s kube \<Rightarrow> auth_config \<Rightarrow> string \<Rightarrow> ('s \<Rightarrow> NamespacedName \<Rightarrow> goerror + 'a) \<Rightarrow> 's \<Rightarrow> Context \<Rightarrow> (goerror + 'a) \<times> 's" where
  "VerifyObjectToken k au kind get s ctx =
     (case VerifyOIDCToken au ctx of
        Inl err \<Rightarrow> (Inl err, s)
      | Inr attrs \<Rightarrow>
          if at_Resource attrs \<noteq> kind then (Inl (StatusError InvalidArgument ''object kind mismatch''), s)
          else
            (case Authorize k au s attrs of
               ((_, _, Some err), s1) \<Rightarrow> (Inl err, s1)
             | ((decision, _, None), s1) \<Rightarrow>
                 if decision \<noteq> DecisionAllow then (Inl (StatusError PermissionDenied ''permission denied''), s1)
                 else (get s1 \<lparr>nn_Namespace = at_Namespace attrs, nn_Name = at_Name attrs\<rparr>, s1)))"

definition VerifyClientObjectToken :: "'s kube \<Rightarrow> auth_config \<Rightarrow> 's \<Rightarrow> Context \<Rightarrow> (goerror + Client) \<times> 's" where
  "VerifyClientObjectToken k au s ctx = VerifyObjectToken k au ''Client'' (k_getClient k) s ctx"

definition VerifyExporterObjectToken :: "'s kube \<Rightarrow> auth_config \<Rightarrow> 's \<Rightarrow> Context \<Rightarrow> (goerror + Exporter) \<times> 's" where
  "VerifyExporterObjectToken k au s ctx = VerifyObjectToken k au ''Exporter'' (k_getExporter k) s ctx"

definition AuthClient :: "'s kube \<Rightarrow> auth_config \<Rightarrow> 's \<Rightarrow> Context \<Rightarrow> string \<Rightarrow> (goerror + Client) \<times> 's" where
  "AuthClient k au s ctx namespace =
     (case VerifyClientObjectToken k au s ctx of
        (Inl err, s1) \<Rightarrow> (Inl err, s1)
      | (Inr jclient, s1) \<Rightarrow>
          if namespace \<noteq> om_Namespace (cl_Meta jclient)
          then (Inl (StatusError PermissionDenied ''namespace mismatch''), s1) else (Inr jclient, s1))"

definition AuthExporter :: "'s kube \<Rightarrow> auth_config \<Rightarrow> 's \<Rightarrow> Context \<Rightarrow> string \<Rightarrow> (goerror + Exporter) \<times> 's" where
  "AuthExporter k au s ctx namespace =
     (case VerifyExporterObjectToken k au s ctx of
        (Inl err, s1) \<Rightarrow> (Inl err, s1)
      | (Inr jexporter, s1) \<Rightarrow>
          if namespace \<noteq> om_Namespace (e_Meta jexporter)
          then (Inl (StatusError PermissionDenied ''namespace mismatch''), s1) else (Inr jexporter, s1))"

section \<open>Who is let in\<close>

text \<open>The user a request authenticates as: exactly one header, a bearer token the authenticator accepts.\<close>

definition request_user :: "auth_config \<Rightarrow> Context \<Rightarrow> string \<Rightarrow> bool" where
  "request_user au ctx user \<longleftrightarrow>
     (\<exists>md scheme token. cx_Metadata ctx = Some md \<and> md ''authorization'' = [scheme @ token] \<and>
        length scheme = 7 \<and> strings_EqualFold scheme ''Bearer '' \<and> au_AuthenticateToken au token = Inr (Some user))"

lemma BearerTokenFromContext_Inr:
  "BearerTokenFromContext ctx = Inr token \<longleftrightarrow>
     (\<exists>md scheme. cx_Metadata ctx = Some md \<and> md ''authorization'' = [scheme @ token] \<and>
        length scheme = 7 \<and> strings_EqualFold scheme ''Bearer '')"
  (is "?l = ?r")
proof
  assume ?l
  then obtain md a where "cx_Metadata ctx = Some md" "md ''authorization'' = [a]" "7 \<le> length a"
    "strings_EqualFold (take 7 a) ''Bearer ''" "token = drop 7 a"
    by (auto simp: BearerTokenFromContext_def Let_def not_less length_Suc_conv le_Suc_eq split: option.splits if_splits)
  then show ?r by (intro exI [of _ md] exI [of _ "take 7 a"]) simp
next
  assume ?r
  then show ?l by (auto simp: BearerTokenFromContext_def Let_def)
qed

lemma VerifyOIDCToken_Inr:
  assumes "VerifyOIDCToken au ctx = Inr attrs"
  shows "request_user au ctx (at_User attrs)"
proof -
  from assms obtain user where "AuthenticateContext au ctx = Inr (Some user)" "ContextAttributes au ctx user = Inr attrs"
    by (auto simp: VerifyOIDCToken_def split: sum.splits option.splits)
  moreover from this(2) have "at_User attrs = user"
    by (auto simp: ContextAttributes_def split: option.splits sum.splits)
  ultimately show ?thesis
    unfolding request_user_def AuthenticateContext_def
    by (auto simp: BearerTokenFromContext_Inr split: sum.splits)
qed

text \<open>
  What the final read returns: an object stored under the key; and an object that was just
  provisioned is read back with the spec it was created with.
\<close>

definition client_store :: "'s kube \<Rightarrow> bool" where
  "client_store k \<longleftrightarrow>
     (\<forall>s n c. k_getClient k s n = Inr c \<longrightarrow> key_of (cl_Meta c) = n) \<and>
     (\<forall>s c c' s'. k_createClient k s c = (Inr c', s') \<longrightarrow>
        cl_Spec c' = cl_Spec c \<and> k_getClient k s' (key_of (cl_Meta c)) = Inr c')"

lemma client_store_get: "client_store k \<Longrightarrow> k_getClient k s n = Inr c \<Longrightarrow> key_of (cl_Meta c) = n"
  unfolding client_store_def by fast

lemma client_store_create:
  "client_store k \<Longrightarrow> k_createClient k s c = (Inr c', s') \<Longrightarrow>
   cl_Spec c' = cl_Spec c \<and> k_getClient k s' (key_of (cl_Meta c)) = Inr c'"
  unfolding client_store_def by fast

lemma VerifyObjectToken_Inr:
  assumes "VerifyObjectToken k au kind get s ctx = (Inr a, s')"
  obtains attrs r where "VerifyOIDCToken au ctx = Inr attrs" "at_Resource attrs = kind"
    "Authorize k au s attrs = ((DecisionAllow, r, None), s')"
    "get s' \<lparr>nn_Namespace = at_Namespace attrs, nn_Name = at_Name attrs\<rparr> = Inr a"
  using assms by (auto simp: VerifyObjectToken_def split: sum.splits prod.splits option.splits if_splits)

lemma AuthClient_Inr:
  assumes "AuthClient k au s ctx ns = (Inr c, s')"
  shows "VerifyObjectToken k au ''Client'' (k_getClient k) s ctx = (Inr c, s')" "om_Namespace (cl_Meta c) = ns"
  using assms by (auto simp: AuthClient_def VerifyClientObjectToken_def split: sum.splits prod.splits if_splits)

lemma AuthExporter_Inr:
  assumes "AuthExporter k au s ctx ns = (Inr e, s')"
  shows "VerifyObjectToken k au ''Exporter'' (k_getExporter k) s ctx = (Inr e, s')" "om_Namespace (e_Meta e) = ns"
  using assms by (auto simp: AuthExporter_def VerifyExporterObjectToken_def split: sum.splits prod.splits if_splits)

lemma Authorize_client:
  assumes "Authorize k au s attrs = ((DecisionAllow, r, None), s')" "at_Resource attrs = ''Client''" "client_store k"
  shows "\<exists>c. k_getClient k s' \<lparr>nn_Namespace = at_Namespace attrs, nn_Name = at_Name attrs\<rparr> = Inr c \<and>
    at_User attrs \<in> set (Client_Usernames c (au_prefix au))"
proof (cases "k_getClient k s \<lparr>nn_Namespace = at_Namespace attrs, nn_Name = at_Name attrs\<rparr>")
  case (Inr c)
  with assms(1,2) show ?thesis by (auto simp: Authorize_def Let_def split: if_splits)
next
  case (Inl err)
  let ?c = "\<lparr>cl_Meta = zero_ObjectMeta\<lparr>om_Namespace := at_Namespace attrs, om_Name := at_Name attrs\<rparr>,
    cl_Spec = \<lparr>csp_Username = Some (at_User attrs)\<rparr>, cl_Status = zero_ClientStatus\<rparr>"
  from Inl assms(1,2) obtain c where c: "k_createClient k s ?c = (Inr c, s')"
    and u: "at_User attrs \<in> set (Client_Usernames c (au_prefix au))"
    by (auto simp: Authorize_def Let_def split: if_splits sum.splits prod.splits)
  from client_store_create [OF assms(3) c] u show ?thesis by (auto simp: key_of_def)
qed

text \<open>
  C10: A request that \<open>AuthClient\<close> lets in carries exactly one authorization header with a
  bearer token, the token authenticates a user, the client returned is the stored object of
  the requested namespace, and the user is one of its user names (its internal subject under
  the prefix, or the user name in its spec).
\<close>

theorem authenticated_client:
  assumes "AuthClient k au s ctx ns = (Inr c, s')" "client_store k"
  shows "\<exists>user. request_user au ctx user \<and> user \<in> set (Client_Usernames c (au_prefix au)) \<and>
    om_Namespace (cl_Meta c) = ns \<and> k_getClient k s' (key_of (cl_Meta c)) = Inr c"
  using AuthClient_Inr(1) [OF assms(1)]
proof (cases rule: VerifyObjectToken_Inr)
  case (1 attrs r)
  from Authorize_client [OF 1(3,2) assms(2)] 1(4) have "at_User attrs \<in> set (Client_Usernames c (au_prefix au))"
    by auto
  moreover from client_store_get [OF assms(2) 1(4)] 1(4) have "k_getClient k s' (key_of (cl_Meta c)) = Inr c" by simp
  ultimately show ?thesis
    using VerifyOIDCToken_Inr [OF 1(1)] AuthClient_Inr(2) [OF assms(1)] by blast
qed

lemma authenticated_exporter_user:
  assumes "AuthExporter k au s ctx ns = (Inr e, s')"
  shows "s' = s \<and> (\<exists>user. request_user au ctx user \<and> user \<in> set (Exporter_Usernames e (au_prefix au)))"
  using AuthExporter_Inr(1) [OF assms]
proof (cases rule: VerifyObjectToken_Inr)
  case (1 attrs r)
  then have "s' = s" "at_User attrs \<in> set (Exporter_Usernames e (au_prefix au))"
    by (auto simp: Authorize_def Let_def split: sum.splits if_splits)
  with VerifyOIDCToken_Inr [OF 1(1)] show ?thesis by blast
qed

lemma request_user_unique: "request_user au ctx u \<Longrightarrow> request_user au ctx v \<Longrightarrow> u = v"
  by (auto simp: request_user_def)

lemma authenticated_client_user:
  assumes "AuthClient k au s ctx ns = (Inr c, s')" "client_store k" "request_user au ctx user"
  shows "user \<in> set (Client_Usernames c (au_prefix au))"
proof -
  obtain attrs r where "VerifyOIDCToken au ctx = Inr attrs" "at_Resource attrs = ''Client''"
    "Authorize k au s attrs = ((DecisionAllow, r, None), s')"
    "k_getClient k s' \<lparr>nn_Namespace = at_Namespace attrs, nn_Name = at_Name attrs\<rparr> = Inr c"
    using AuthClient_Inr(1) [OF assms(1)] by (rule VerifyObjectToken_Inr)
  with Authorize_client [of k au s attrs r s'] assms(2) VerifyOIDCToken_Inr [of au ctx attrs]
    request_user_unique [OF assms(3)] show ?thesis by auto
qed

text \<open>
  C11: The internal token of a client lets its bearer act as that client only. As a client it
  is accepted for one with the same namespace, name and UID (those it was migrated from, where
  it was), provided that these parts hold no colon in both clients and the accepted one does
  not name that user in its spec. As an exporter it is accepted only for one that names that
  user in its spec, whatever the parts hold. Kubernetes allows no colon in namespaces, names
  and UIDs but does not check the migration annotations; with a colon in one of them two
  clients can share a subject, see \<open>migrated_subjects_collide\<close>.
\<close>

theorem internal_token_isolated:
  assumes user: "request_user au ctx (au_prefix au @ Client_InternalSubject c0)" and store: "client_store k"
  shows "(AuthClient k au s ctx ns = (Inr c, s') \<longrightarrow> colon_free (cl_Meta c0) \<longrightarrow> colon_free (cl_Meta c) \<longrightarrow>
      csp_Username (cl_Spec c) \<noteq> Some (au_prefix au @ Client_InternalSubject c0) \<longrightarrow>
      subject_parts (cl_Meta c) = subject_parts (cl_Meta c0)) \<and>
    (AuthExporter k au s ctx ns = (Inr e, s'') \<longrightarrow>
      esp_Username (e_Spec e) = Some (au_prefix au @ Client_InternalSubject c0))"
proof (intro conjI impI)
  assume c: "AuthClient k au s ctx ns = (Inr c, s')" and free: "colon_free (cl_Meta c0)" "colon_free (cl_Meta c)"
    and spec: "csp_Username (cl_Spec c) \<noteq> Some (au_prefix au @ Client_InternalSubject c0)"
  from authenticated_client_user [OF c store user] spec
  have "Client_InternalSubject c = Client_InternalSubject c0"
    by (auto simp: Client_Usernames_def split: option.splits)
  then show "subject_parts (cl_Meta c) = subject_parts (cl_Meta c0)"
    by (rule client_subject.subject_inj [OF free(2,1)])
next
  assume e: "AuthExporter k au s ctx ns = (Inr e, s'')"
  from authenticated_exporter_user [OF e] request_user_unique [OF user]
  have "au_prefix au @ Client_InternalSubject c0 \<in> set (Exporter_Usernames e (au_prefix au))" by auto
  with subjects_disjoint show "esp_Username (e_Spec e) = Some (au_prefix au @ Client_InternalSubject c0)"
    by (auto simp: Exporter_Usernames_def split: option.splits)
qed

text \<open>
  Two clients with different parts and the same subject: the first was migrated with the UID
  \<open>u:v\<close>, the second with the namespace \<open>lab:alice\<close>.
\<close>

definition migrated_client :: "string \<Rightarrow> string \<Rightarrow> string \<Rightarrow> Client" where
  "migrated_client name namespace uid = \<lparr>cl_Meta = zero_ObjectMeta\<lparr>om_Namespace := ''lab'', om_Name := name,
     om_Annotations := [(AnnotationMigratedNamespace, namespace), (AnnotationMigratedUID, uid)]\<rparr>,
     cl_Spec = \<lparr>csp_Username = None\<rparr>, cl_Status = zero_ClientStatus\<rparr>"

theorem migrated_subjects_collide:
  "Client_InternalSubject (migrated_client ''alice'' ''lab'' ''u:v'') = Client_InternalSubject (migrated_client ''u'' ''lab:alice'' ''v'') \<and>
   subject_parts (cl_Meta (migrated_client ''alice'' ''lab'' ''u:v'')) \<noteq> subject_parts (cl_Meta (migrated_client ''u'' ''lab:alice'' ''v''))"
  by (rule conjI; code_simp)

section \<open>Provisioned names\<close>

definition dns_char :: "char \<Rightarrow> bool" where
  "dns_char c \<longleftrightarrow> c = CHR ''-'' \<or> code_in c 97 122 \<or> code_in c 48 57"

definition dns_label :: "string \<Rightarrow> bool" where
  "dns_label s \<longleftrightarrow> s \<noteq> [] \<and> length s \<le> 63 \<and> list_all dns_char s \<and> hd s \<noteq> CHR ''-'' \<and> last s \<noteq> CHR ''-''"

lemma validChar_lower:
  assumes "validChar (ascii_lower c)"
  shows "dns_char (ascii_lower c)"
proof (cases "code_in c 65 90")
  case True
  then have "(of_char (ascii_lower c) :: nat) = of_char c + 32"
    by (simp add: ascii_lower_def take_bit_eq_mod)
  with True show ?thesis by (simp add: dns_char_def)
next
  case False
  then have "ascii_lower c = c" by (auto simp: ascii_lower_def)
  with False assms show ?thesis by (auto simp: validChar_def dns_char_def)
qed

lemma set_collapseHyphens: "set (collapseHyphens s) \<subseteq> set s"
  by (induction s rule: collapseHyphens.induct) auto

lemma set_trimHyphens: "set (trimHyphens s) \<subseteq> set s"
  by (auto simp: trimHyphens_def Let_def dest: in_set_butlastD list.set_sel(2))

lemma sanitized_chars:
  "list_all dns_char (trimHyphens (collapseHyphens (replaceInvalid (strings_ToLower s))))"
proof -
  have "dns_char c" if "c \<in> set (replaceInvalid (strings_ToLower s))" for c
    using that validChar_lower by (auto simp: replaceInvalid_def strings_ToLower_def dns_char_def)
  then show ?thesis using set_trimHyphens set_collapseHyphens unfolding list_all_iff by (meson subsetD)
qed

lemma hex_EncodeToString_chars: "c \<in> set (hex_EncodeToString bs) \<Longrightarrow> dns_char c \<and> c \<noteq> CHR ''-''"
proof -
  have hex: "list_all (\<lambda>c. dns_char c \<and> c \<noteq> CHR ''-'') ''0123456789abcdef''" by code_simp
  have "hex_digit d \<in> set ''0123456789abcdef''" for d
    unfolding hex_digit_def by (rule nth_mem) simp
  with hex have "dns_char (hex_digit d) \<and> hex_digit d \<noteq> CHR ''-''" for d
    unfolding list_all_iff by blast
  then show "c \<in> set (hex_EncodeToString bs) \<Longrightarrow> dns_char c \<and> c \<noteq> CHR ''-''"
    by (auto simp: hex_EncodeToString_def)
qed

lemma length_hex: "length (hex_EncodeToString bs) = 2 * length bs"
  by (induction bs) (simp_all add: hex_EncodeToString_def)

text \<open>
  C38: The name given to a provisioned client is a valid DNS label of at most 49 characters,
  whatever the user name is: letters are lowered, everything else becomes hyphens, and the
  prefix and the hash of the user name keep the ends alphanumeric.
\<close>

theorem normalizeName_dns_label:
  assumes "3 \<le> length (sum256 name)"
  shows "dns_label (normalizeName sum256 name) \<and> length (normalizeName sum256 name) \<le> 49"
proof -
  let ?san = "trimHyphens (collapseHyphens (replaceInvalid (strings_ToLower name)))"
  let ?s = "if length ?san > 37 then take 37 ?san else ?san"
  let ?h = "hex_EncodeToString (take 3 (sum256 name))"
  have n: "normalizeName sum256 name = ''oidc-'' @ ?s @ ''-'' @ ?h"
    by (simp add: normalizeName_def Let_def)
  have h: "length ?h = 6" using assms by (simp add: length_hex)
  then have "?h \<noteq> []" by auto
  then have "last ?h \<noteq> CHR ''-''" using hex_EncodeToString_chars last_in_set by blast
  with \<open>?h \<noteq> []\<close> have last: "last (normalizeName sum256 name) \<noteq> CHR ''-''" unfolding n by simp
  have "list_all dns_char ?s"
    using sanitized_chars [of name] by (auto simp: list_all_iff dest: in_set_takeD)
  moreover have "list_all dns_char ?h"
    unfolding list_all_iff using hex_EncodeToString_chars by blast
  moreover have "list_all dns_char ''oidc-''" "list_all dns_char ''-''" by (code_simp, code_simp)
  ultimately have chars: "list_all dns_char (normalizeName sum256 name)" unfolding n list_all_append by blast
  have "length ?s \<le> 37" by simp
  with h have len: "length (normalizeName sum256 name) \<le> 49" unfolding n length_append by simp
  have "hd (normalizeName sum256 name) \<noteq> CHR ''-''" "normalizeName sum256 name \<noteq> []" unfolding n by simp_all
  with last chars len show ?thesis by (simp add: dns_label_def)
qed


section \<open>Acceptance and provisioning\<close>

text \<open>
  A client is let in with its own credential: a request with one bearer token that
  authenticates its internal subject, and metadata that names it, returns the client and
  changes nothing.
\<close>

theorem own_token_accepted:
  assumes "cx_Metadata ctx = Some md" "md ''authorization'' = [''Bearer '' @ token]"
    and "au_AuthenticateToken au token = Inr (Some (au_prefix au @ Client_InternalSubject c))"
    and "md (mc_NamespaceKey (au_attr au)) = [om_Namespace (cl_Meta c)]" "md (mc_ResourceKey (au_attr au)) = [''Client'']"
    and "md (mc_NameKey (au_attr au)) = [om_Name (cl_Meta c)]" "om_Name (cl_Meta c) \<noteq> []"
    and "k_getClient k s (key_of (cl_Meta c)) = Inr c"
  shows "AuthClient k au s ctx (om_Namespace (cl_Meta c)) = (Inr c, s)"
proof -
  have "BearerTokenFromContext ctx = Inr token"
    unfolding BearerTokenFromContext_Inr using assms(1,2)
    by (intro exI [of _ md] exI [of _ "''Bearer ''"]) (simp add: strings_EqualFold_def)
  with assms have "VerifyOIDCToken au ctx = Inr \<lparr>at_User = au_prefix au @ Client_InternalSubject c,
      at_Namespace = om_Namespace (cl_Meta c), at_Resource = ''Client'', at_Name = om_Name (cl_Meta c)\<rparr>"
    by (simp add: VerifyOIDCToken_def AuthenticateContext_def ContextAttributes_def mdGet_def)
  with assms show ?thesis
    by (simp add: AuthClient_def VerifyClientObjectToken_def VerifyObjectToken_def Authorize_def Let_def
        Client_Usernames_def key_of_def)
qed

text \<open>
  Authenticating a client changes the cluster only where provisioning is enabled and the
  client the request names does not exist: then one client is created, under that namespace
  and name, with the authenticated user as its user name, also when the request is then
  refused because its namespace is another one.
\<close>

theorem provisioning_creates_named_client:
  assumes "AuthClient k au s ctx ns = (r, s')" "s' \<noteq> s"
  shows "\<exists>attrs err. VerifyOIDCToken au ctx = Inr attrs \<and> au_provisioning au \<and>
    k_getClient k s \<lparr>nn_Namespace = at_Namespace attrs, nn_Name = at_Name attrs\<rparr> = Inl err \<and> IsNotFound err \<and>
    s' = snd (k_createClient k s
      \<lparr>cl_Meta = zero_ObjectMeta\<lparr>om_Namespace := at_Namespace attrs, om_Name := at_Name attrs\<rparr>,
       cl_Spec = \<lparr>csp_Username = Some (at_User attrs)\<rparr>, cl_Status = zero_ClientStatus\<rparr>)"
proof -
  from assms obtain r1 where "VerifyObjectToken k au ''Client'' (k_getClient k) s ctx = (r1, s')"
    by (auto simp: AuthClient_def VerifyClientObjectToken_def split: sum.splits prod.splits if_splits)
  with assms(2) obtain attrs d where "VerifyOIDCToken au ctx = Inr attrs" "at_Resource attrs = ''Client''"
    "Authorize k au s attrs = (d, s')"
    by (auto simp: VerifyObjectToken_def split: sum.splits prod.splits option.splits if_splits)
  with assms(2) show ?thesis
    by (auto simp: Authorize_def Let_def split: sum.splits prod.splits if_splits)
qed

section \<open>Evaluated instances\<close>

text \<open>An authenticator of the tokens of \<open>mem_jwt\<close>, in the way the configuration maps the subject claim.\<close>

definition mem_AuthenticateToken :: "string \<Rightarrow> goerror + string option" where
  "mem_AuthenticateToken token =
     (if Signer_Validate mem_jwt sample_signer Second token = None
      then Inr (Some (''internal:'' @ strings_Split token CHR ''|'' ! 3)) else Inr None)"

definition mem_auth :: "bool \<Rightarrow> auth_config" where
  "mem_auth prov = \<lparr>au_AuthenticateToken = mem_AuthenticateToken, au_Sum256 = (\<lambda>s. [1, 2, 3]),
     au_attr = \<lparr>mc_NamespaceKey = ''jumpstarter-namespace'', mc_ResourceKey = ''jumpstarter-kind'',
       mc_NameKey = ''jumpstarter-name''\<rparr>,
     au_prefix = ''internal:'', au_provisioning = prov\<rparr>"

definition sample_token :: string where
  "sample_token = projr (Signer_Token mem_jwt sample_signer Second Second (Client_InternalSubject (sample_client ''alice'')))"

definition sample_ctx :: "string \<Rightarrow> Context" where
  "sample_ctx name = \<lparr>cx_Metadata = Some (\<lambda>k.
     if k = ''authorization'' then [''bearer '' @ sample_token]
     else if k = ''jumpstarter-namespace'' then [''lab'']
     else if k = ''jumpstarter-kind'' then [''Client'']
     else if k = ''jumpstarter-name'' then [name] else [])\<rparr>"

lemma sample_auth_eval:
  "AuthClient mem_kube (mem_auth False) sample_cluster (sample_ctx ''alice'') ''lab'' =
     (Inr (sample_client ''alice''), sample_cluster)"
  by code_simp

lemma mem_client_store: "client_store mem_kube"
  unfolding client_store_def
proof (intro conjI allI impI)
  fix s n c
  assume "k_getClient mem_kube s n = Inr c"
  then show "key_of (cl_Meta c) = n"
    by (auto simp: mem_kube_def mem_get_def find_key split: option.splits)
next
  fix s c c' s'
  assume "k_createClient mem_kube s c = (Inr c', s')"
  then show "cl_Spec c' = cl_Spec c" "k_getClient mem_kube s' (key_of (cl_Meta c)) = Inr c'"
    by (auto simp: mem_kube_def mem_put_def mem_create_def mem_get_def keyed_def key_of_def find_append
        split: option.splits sum.splits)
qed

theorem authenticated_client_witness:
  "\<exists>user. request_user (mem_auth False) (sample_ctx ''alice'') user \<and>
     user \<in> set (Client_Usernames (sample_client ''alice'') (au_prefix (mem_auth False)))"
  using authenticated_client [OF sample_auth_eval mem_client_store] by blast

lemma sample_user:
  "request_user (mem_auth False) (sample_ctx ''alice'')
     (au_prefix (mem_auth False) @ Client_InternalSubject (sample_client ''alice''))"
  unfolding request_user_def
proof (intro exI conjI)
  show "cx_Metadata (sample_ctx ''alice'') = Some (the (cx_Metadata (sample_ctx ''alice'')))"
    by (simp add: sample_ctx_def)
  show "the (cx_Metadata (sample_ctx ''alice'')) ''authorization'' = [''bearer '' @ sample_token]"
    by (simp add: sample_ctx_def)
qed (simp, code_simp, code_simp)

lemma sample_colon_free: "colon_free (cl_Meta (sample_client ''alice''))"
  by code_simp

theorem internal_token_isolated_witness:
  "subject_parts (cl_Meta (sample_client ''alice'')) = [''lab'', ''alice'', ''uid-alice'']"
proof -
  have "csp_Username (cl_Spec (sample_client ''alice'')) \<noteq>
      Some (au_prefix (mem_auth False) @ Client_InternalSubject (sample_client ''alice''))" by code_simp
  with internal_token_isolated [OF sample_user mem_client_store,
      of sample_cluster "''lab''" "sample_client ''alice''" sample_cluster] sample_auth_eval sample_colon_free
  have "subject_parts (cl_Meta (sample_client ''alice'')) = subject_parts (cl_Meta (sample_client ''alice''))" by blast
  moreover have "subject_parts (cl_Meta (sample_client ''alice'')) = [''lab'', ''alice'', ''uid-alice'']" by code_simp
  ultimately show ?thesis by simp
qed

theorem normalizeName_dns_label_witness:
  "dns_label (normalizeName (\<lambda>s. [44, 38, 180, 107]) ''@Foo@@example.com@'') \<and>
   normalizeName (\<lambda>s. [44, 38, 180, 107]) ''@Foo@@example.com@'' = ''oidc-foo-example-com-2c26b4''"
proof -
  have "normalizeName (\<lambda>s. [44, 38, 180, 107]) ''@Foo@@example.com@'' = ''oidc-foo-example-com-2c26b4''" by code_simp
  with normalizeName_dns_label [of "\<lambda>s. [44, 38, 180, 107]" "''@Foo@@example.com@''"] show ?thesis by simp
qed

theorem own_token_accepted_witness:
  "AuthClient mem_kube (mem_auth False) sample_cluster
     (\<lparr>cx_Metadata = Some ((the (cx_Metadata (sample_ctx ''alice''))) (''authorization'' := [''Bearer '' @ sample_token]))\<rparr>)
     (om_Namespace (cl_Meta (sample_client ''alice''))) = (Inr (sample_client ''alice''), sample_cluster)"
proof (rule own_token_accepted [OF Context.select_convs(1)])
  show "au_AuthenticateToken (mem_auth False) sample_token =
      Inr (Some (au_prefix (mem_auth False) @ Client_InternalSubject (sample_client ''alice'')))"
    by code_simp
  show "k_getClient mem_kube sample_cluster (key_of (cl_Meta (sample_client ''alice''))) = Inr (sample_client ''alice'')"
    by code_simp
qed (simp_all add: sample_ctx_def mem_auth_def sample_client_def sample_meta_def)

definition sample_provisioned :: cluster where
  "sample_provisioned = snd (AuthClient mem_kube (mem_auth True) sample_cluster (sample_ctx ''carol'') ''elsewhere'')"

theorem provisioning_creates_named_client_witness:
  "cu_Clients sample_provisioned \<noteq> cu_Clients sample_cluster \<and> au_provisioning (mem_auth True)"
proof
  show ne: "cu_Clients sample_provisioned \<noteq> cu_Clients sample_cluster" by code_simp
  have eq: "AuthClient mem_kube (mem_auth True) sample_cluster (sample_ctx ''carol'') ''elsewhere'' =
      (fst (AuthClient mem_kube (mem_auth True) sample_cluster (sample_ctx ''carol'') ''elsewhere''), sample_provisioned)"
    by (simp add: sample_provisioned_def)
  from ne have "sample_provisioned \<noteq> sample_cluster" by metis
  from provisioning_creates_named_client [OF eq this] show "au_provisioning (mem_auth True)" by (elim exE conjE)
qed

end
