(* ===== verification/ControllerService.thy ===== *)
theory ControllerService
  imports Auth
begin

text \<open>
  The gRPC service of exporters and of clients of the first API version
  (\<open>src/internal/service/controller_service.go\<close>, \<open>helpers.go\<close>): registration of exporters,
  the queues through which \<open>Dial\<close> hands a router token to a \<open>Listen\<close>, the choice of a router,
  the status stream, and the lease calls.

  The state of the service is the map of listen queues, by lease name; a queue is the buffer of
  a channel of capacity 8. A \<open>select\<close> takes the branch that the run at hand takes as an
  argument; \<open>None\<close> says that this branch is not ready.
\<close>

section \<open>Messages\<close>

record DriverInstanceReport =
  dr_Uuid :: string
  dr_ParentUuid :: "string option"
  dr_Labels :: strmap

record RegisterRequest =
  rr_Labels :: strmap
  rr_Reports :: "DriverInstanceReport list"

record RegisterResponse =
  rrs_Uuid :: string

record ListenResponse =
  lrs_RouterEndpoint :: string
  lrs_RouterToken :: string

record StatusResponse =
  srs_Leased :: bool
  srs_LeaseName :: "string option"
  srs_ClientName :: "string option"

record DialResponse =
  drs_RouterEndpoint :: string
  drs_RouterToken :: string

record GetLeaseResponse =
  gl_Duration :: "pbDuration option"
  gl_Selector :: LabelSelector
  gl_BeginTime :: "pbTimestamp option"
  gl_EndTime :: "pbTimestamp option"
  gl_ExporterUuid :: "string option"
  gl_Conditions :: "pbCondition list"

record RequestLeaseRequest =
  rq_Duration :: "pbDuration option"
  rq_Selector :: "LabelSelector option"

section \<open>Registration\<close>

definition authenticateClient :: "'s kube \<Rightarrow> auth_config \<Rightarrow> 's \<Rightarrow> Context \<Rightarrow> (goerror + Client) \<times> 's" where
  "authenticateClient k au s ctx = VerifyClientObjectToken k au s ctx"

definition authenticateExporter :: "'s kube \<Rightarrow> auth_config \<Rightarrow> 's \<Rightarrow> Context \<Rightarrow> (goerror + Exporter) \<times> 's" where
  "authenticateExporter k au s ctx = VerifyExporterObjectToken k au s ctx"

definition managedLabel :: "string \<Rightarrow> bool" where
  "managedLabel key \<longleftrightarrow> strings_HasPrefix key ''jumpstarter.dev/''"

text \<open>The two loops over the labels: drop the managed ones, set those of the request.\<close>

definition registerLabels :: "strmap \<Rightarrow> strmap \<Rightarrow> strmap" where
  "registerLabels labels request =
     fold (\<lambda>(key, v) m. if managedLabel key then mset_key m key v else m) request
       (filter (\<lambda>(key, v). \<not> managedLabel key) labels)"

definition Register ::
  "'s kube \<Rightarrow> auth_config \<Rightarrow> 's \<Rightarrow> Context \<Rightarrow> RegisterRequest \<Rightarrow> (goerror + RegisterResponse) \<times> 's" where
  "Register k au s ctx req =
     (case authenticateExporter k au s ctx of
        (Inl err, s1) \<Rightarrow> (Inl err, s1)
      | (Inr exporter, s1) \<Rightarrow>
          (let e1 = exporter\<lparr>e_Meta := (e_Meta exporter)\<lparr>om_Labels :=
                 registerLabels (om_Labels (e_Meta exporter)) (rr_Labels req)\<rparr>\<rparr>
           in case k_patchExporter k s1 e1 exporter of
                (Inl err, s2) \<Rightarrow> (Inl (StatusErrorOf Internal ''unable to update exporter: '' err), s2)
              | (Inr e2, s2) \<Rightarrow>
                  (let e3 = e2\<lparr>e_Status := (e_Status e2)\<lparr>es_Devices :=
                         Some (map (\<lambda>r. \<lparr>d_Uuid = dr_Uuid r, d_ParentUuid = dr_ParentUuid r, d_Labels = dr_Labels r\<rparr>)
                                 (rr_Reports req))\<rparr>\<rparr>
                   in case k_statusPatchExporter k s2 e3 e2 of
                        (Inl err, s3) \<Rightarrow> (Inl (StatusErrorOf Internal ''unable to update exporter status: '' err), s3)
                      | (Inr e4, s3) \<Rightarrow> (Inr \<lparr>rrs_Uuid = om_UID (e_Meta e4)\<rparr>, s3))))"

definition Unregister :: "'s kube \<Rightarrow> auth_config \<Rightarrow> 's \<Rightarrow> Context \<Rightarrow> (goerror + unit) \<times> 's" where
  "Unregister k au s ctx =
     (case authenticateExporter k au s ctx of
        (Inl err, s1) \<Rightarrow> (Inl err, s1)
      | (Inr exporter, s1) \<Rightarrow>
          (case k_statusPatchExporter k s1
                  (exporter\<lparr>e_Status := (e_Status exporter)\<lparr>es_Devices := None\<rparr>\<rparr>) exporter of
             (Inl err, s2) \<Rightarrow> (Inl (StatusErrorOf Internal ''unable to update exporter status: '' err), s2)
           | (Inr _, s2) \<Rightarrow> (Inr (), s2)))"

section \<open>Routers\<close>

record RouterEntry =
  re_Endpoint :: string
  re_Labels :: strmap

type_synonym Router = "(string \<times> RouterEntry) list"

fun MatchLabels_loop :: "strmap \<Rightarrow> strmap \<Rightarrow> int \<Rightarrow> int" where
  "MatchLabels_loop candidate [] n = n"
| "MatchLabels_loop candidate ((key, vt) # target) n =
     (case mget candidate key of
        Some vc \<Rightarrow> if vc = vt then MatchLabels_loop candidate target (n + 1) else - 1
      | None \<Rightarrow> - 1)"

definition MatchLabels :: "strmap \<Rightarrow> strmap \<Rightarrow> int" where
  "MatchLabels candidate target = MatchLabels_loop candidate target 0"

definition cmp_Compare :: "int \<Rightarrow> int \<Rightarrow> int" where
  "cmp_Compare a b = (if a < b then - 1 else if a > b then 1 else 0)"

definition routerCmp :: "strmap \<Rightarrow> RouterEntry \<Rightarrow> RouterEntry \<Rightarrow> int" where
  "routerCmp labels a b = - cmp_Compare (MatchLabels (re_Labels a) labels) (MatchLabels (re_Labels b) labels)"

definition routerCandidates :: "Router \<Rightarrow> strmap \<Rightarrow> RouterEntry list" where
  "routerCandidates router labels = SortFunc (routerCmp labels) (map snd router)"

section \<open>Dial and Listen\<close>

type_synonym queues = "(string \<times> ListenResponse list) list"

definition queue_capacity :: nat where
  "queue_capacity = 8"

record StreamClaims =
  sc_Issuer :: string
  sc_Subject :: string
  sc_Audience :: "string list"
  sc_ExpiresAt :: time
  sc_NotBefore :: time
  sc_IssuedAt :: time
  sc_ID :: string

text \<open>What a \<open>Dial\<close> takes from its surroundings: signing, the key, two random ids, three clock readings.\<close>

record dial_env =
  de_SignHS256 :: "string \<Rightarrow> StreamClaims \<Rightarrow> goerror + string"
  de_routerKey :: string
  de_stream :: string
  de_id :: string
  de_now1 :: time
  de_now2 :: time
  de_now3 :: time

datatype select_branch = SelectDone | SelectQueue

definition streamClaims :: "dial_env \<Rightarrow> StreamClaims" where
  "streamClaims de =
     \<lparr>sc_Issuer = ''https://jumpstarter.dev/stream'', sc_Subject = de_stream de,
      sc_Audience = [''https://jumpstarter.dev/router''],
      sc_ExpiresAt = time_Add (de_now1 de) (30 * Minute), sc_NotBefore = de_now2 de, sc_IssuedAt = de_now3 de,
      sc_ID = de_id de\<rparr>"

text \<open>Everything before the channel operation: the token to hand out, or the error.\<close>

definition Dial_prepare ::
  "'s kube \<Rightarrow> auth_config \<Rightarrow> Router \<Rightarrow> dial_env \<Rightarrow> 's \<Rightarrow> Context \<Rightarrow> string \<Rightarrow> (goerror + ListenResponse) \<times> 's" where
  "Dial_prepare k au router de s ctx leaseName =
     (case authenticateClient k au s ctx of
        (Inl err, s1) \<Rightarrow> (Inl err, s1)
      | (Inr client, s1) \<Rightarrow>
          (if leaseName = [] then Inl (Errorf ''empty lease name'')
           else
             (case k_getLease k s1 \<lparr>nn_Namespace = om_Namespace (cl_Meta client), nn_Name = leaseName\<rparr> of
                Inl err \<Rightarrow> Inl err
              | Inr lease \<Rightarrow>
                  if sp_ClientRef (l_Spec lease) \<noteq> om_Name (cl_Meta client) then Inl (Errorf ''permission denied'')
                  else
                    (case st_ExporterRef (l_Status lease) of
                       None \<Rightarrow> Inl (Errorf ''lease not active'')
                     | Some name \<Rightarrow>
                         (case k_getExporter k s1 \<lparr>nn_Namespace = om_Namespace (cl_Meta client), nn_Name = name\<rparr> of
                            Inl err \<Rightarrow> Inl err
                          | Inr exporter \<Rightarrow>
                              (let candidates = routerCandidates router (om_Labels (e_Meta exporter)) in
                               if length candidates = 0 then Inl (Errorf ''no router available'')
                               else
                                 (case de_SignHS256 de (de_routerKey de) (streamClaims de) of
                                    Inl _ \<Rightarrow> Inl (StatusError Internal ''unable to sign token'')
                                  | Inr token \<Rightarrow> Inr \<lparr>lrs_RouterEndpoint = re_Endpoint (candidates ! 0),
                                                     lrs_RouterToken = token\<rparr>))))), s1))"

text \<open>\<open>LoadOrStore\<close> of the queue of a lease, where the queue is not used at once.\<close>

definition load_queue :: "queues \<Rightarrow> string \<Rightarrow> queues" where
  "load_queue qs leaseName = (case LoadOrStore qs leaseName [] of (_, _, qs1) \<Rightarrow> qs1)"

text \<open>The send on the queue of the lease, which blocks while the queue is full.\<close>

definition queue_send :: "queues \<Rightarrow> string \<Rightarrow> ListenResponse \<Rightarrow> queues option" where
  "queue_send qs leaseName response =
     (let (queue, _, qs1) = LoadOrStore qs leaseName [] in
      if length queue < queue_capacity then Some (mset_key qs1 leaseName (queue @ [response])) else None)"

definition Dial ::
  "'s kube \<Rightarrow> auth_config \<Rightarrow> Router \<Rightarrow> dial_env \<Rightarrow> select_branch \<Rightarrow> 's \<Rightarrow> queues \<Rightarrow> Context \<Rightarrow> string
   \<Rightarrow> ((goerror + DialResponse) \<times> queues \<times> 's) option" where
  "Dial k au router de branch s qs ctx leaseName =
     (case Dial_prepare k au router de s ctx leaseName of
        (Inl err, s1) \<Rightarrow> Some (Inl err, qs, s1)
      | (Inr response, s1) \<Rightarrow>
          (case branch of
             SelectDone \<Rightarrow> Some (Inl CtxErr, load_queue qs leaseName, s1)
           | SelectQueue \<Rightarrow>
               map_option (\<lambda>qs2. (Inr \<lparr>drs_RouterEndpoint = lrs_RouterEndpoint response,
                                       drs_RouterToken = lrs_RouterToken response\<rparr>, qs2, s1))
                 (queue_send qs leaseName response)))"

text \<open>Opening a \<open>Listen\<close>: the checks, then the queue of the lease is loaded or created.\<close>

definition Listen_open ::
  "'s kube \<Rightarrow> auth_config \<Rightarrow> 's \<Rightarrow> queues \<Rightarrow> Context \<Rightarrow> string \<Rightarrow> (goerror + queues) \<times> 's" where
  "Listen_open k au s qs ctx leaseName =
     (case authenticateExporter k au s ctx of
        (Inl err, s1) \<Rightarrow> (Inl err, s1)
      | (Inr exporter, s1) \<Rightarrow>
          (if leaseName = [] then Inl (Errorf ''empty lease name'')
           else
             (case k_getLease k s1 \<lparr>nn_Namespace = om_Namespace (e_Meta exporter), nn_Name = leaseName\<rparr> of
                Inl err \<Rightarrow> Inl err
              | Inr lease \<Rightarrow>
                  if st_ExporterRef (l_Status lease) \<noteq> Some (om_Name (e_Meta exporter))
                  then Inl (Errorf ''permission denied'')
                  else Inr (load_queue qs leaseName)), s1))"

text \<open>One turn of the loop of \<open>Listen\<close> that receives a message from the queue.\<close>

definition queue_recv :: "queues \<Rightarrow> string \<Rightarrow> (ListenResponse \<times> queues) option" where
  "queue_recv qs leaseName =
     (case mget qs leaseName of
        Some (msg # rest) \<Rightarrow> Some (msg, mset_key qs leaseName rest)
      | _ \<Rightarrow> None)"

text \<open>
  A turn of the loop of \<open>Listen\<close>: the context is done, or a message is there and is sent,
  with the result of the send. The turn returns from the handler or goes on (\<open>None\<close>), with
  the message delivered.
\<close>

datatype listen_event = ListenDone | ListenMsg "goerror option"

definition Listen_turn ::
  "queues \<Rightarrow> string \<Rightarrow> listen_event \<Rightarrow> (goerror option option \<times> ListenResponse option \<times> queues) option" where
  "Listen_turn qs leaseName ev =
     (case ev of
        ListenDone \<Rightarrow> Some (Some None, None, qs)
      | ListenMsg sendErr \<Rightarrow>
          map_option (\<lambda>(msg, qs1). case sendErr of
               None \<Rightarrow> (None, Some msg, qs1)
             | Some err \<Rightarrow> (Some (Some err), None, qs1))
            (queue_recv qs leaseName))"

section \<open>The status stream\<close>

datatype watch_event = Added Exporter | Modified Exporter | Deleted Exporter | Bookmark | WatchError string

text \<open>What the loop can receive; \<open>sendErr\<close> is the result of a send that the turn may make.\<close>

datatype status_event = EvDone | EvTick time | EvClosed | EvWatch watch_event "goerror option"

record status_state =
  ss_exporter :: Exporter
  ss_watchedLastSeen :: "time option"
  ss_last :: "StatusResponse option"

definition online_patch :: "'s kube \<Rightarrow> 's \<Rightarrow> time \<Rightarrow> Exporter \<Rightarrow> Exporter \<times> 's" where
  "online_patch k s now exporter =
     (let e1 = exporter\<lparr>e_Status := (e_Status exporter)\<lparr>es_LastSeen := now\<rparr>\<rparr> in
      case k_statusPatchExporter k s e1 exporter of
        (Inl err, s1) \<Rightarrow> (e1, s1)
      | (Inr e2, s1) \<Rightarrow> (e2, s1))"

definition statusResponse :: "'s kube \<Rightarrow> 's \<Rightarrow> Exporter \<Rightarrow> goerror + StatusResponse" where
  "statusResponse k s exporter =
     (case es_LeaseRef (e_Status exporter) of
        None \<Rightarrow> Inr \<lparr>srs_Leased = False, srs_LeaseName = None, srs_ClientName = None\<rparr>
      | Some leaseName \<Rightarrow>
          (case k_getLease k s \<lparr>nn_Namespace = om_Namespace (e_Meta exporter), nn_Name = leaseName\<rparr> of
             Inl err \<Rightarrow> Inl err
           | Inr lease \<Rightarrow> Inr \<lparr>srs_Leased = True, srs_LeaseName = Some leaseName,
                               srs_ClientName = Some (sp_ClientRef (l_Spec lease))\<rparr>))"

definition status_watch ::
  "'s kube \<Rightarrow> 's \<Rightarrow> status_state \<Rightarrow> Exporter \<Rightarrow> goerror option
   \<Rightarrow> goerror option + status_state \<times> StatusResponse option" where
  "status_watch k s st exporter sendErr =
     (case statusResponse k s exporter of
        Inl err \<Rightarrow> Inl (Some err)
      | Inr status \<Rightarrow>
          (let st1 = st\<lparr>ss_exporter := exporter, ss_watchedLastSeen := Some (es_LastSeen (e_Status exporter))\<rparr> in
           if ss_last st = Some status then Inr (st1, None)
           else case sendErr of
                  Some err \<Rightarrow> Inl (Some err)
                | None \<Rightarrow> Inr (st1\<lparr>ss_last := Some status\<rparr>, Some status)))"

text \<open>
  One turn of the loop: it returns from the handler (with or without an error), or goes on
  with a new state, having sent a message or not.
\<close>

definition status_step ::
  "'s kube \<Rightarrow> 's \<Rightarrow> status_state \<Rightarrow> status_event
   \<Rightarrow> (goerror option + status_state \<times> StatusResponse option) \<times> 's" where
  "status_step k s st ev =
     (case ev of
        EvDone \<Rightarrow> (Inl None, s)
      | EvTick now \<Rightarrow>
          (case ss_watchedLastSeen st of
             Some w \<Rightarrow>
               if w \<noteq> es_LastSeen (e_Status (ss_exporter st))
               then (Inl (Some (Errorf ''last seen time mismatch'')), s)
               else (let (e, s1) = online_patch k s now (ss_exporter st) in (Inr (st\<lparr>ss_exporter := e\<rparr>, None), s1))
           | None \<Rightarrow> (let (e, s1) = online_patch k s now (ss_exporter st) in (Inr (st\<lparr>ss_exporter := e\<rparr>, None), s1)))
      | EvClosed \<Rightarrow> (Inl (Some (Errorf ''watch channel closed'')), s)
      | EvWatch w sendErr \<Rightarrow>
          (case w of
             Added e \<Rightarrow> (status_watch k s st e sendErr, s)
           | Modified e \<Rightarrow> (status_watch k s st e sendErr, s)
           | Deleted e \<Rightarrow> (status_watch k s st e sendErr, s)
           | Bookmark \<Rightarrow> (Inr (st, None), s)
           | WatchError _ \<Rightarrow> (Inl (Some (Errorf ''received error when watching exporter'')), s)))"

text \<open>The loop over the events of a stream: the messages sent, in order, and how it ended.\<close>

fun status_loop ::
  "'s kube \<Rightarrow> 's \<Rightarrow> status_state \<Rightarrow> status_event list
   \<Rightarrow> StatusResponse list \<times> (goerror option + status_state) \<times> 's" where
  "status_loop k s st [] = ([], Inr st, s)"
| "status_loop k s st (ev # evs) =
     (case status_step k s st ev of
        (Inl r, s1) \<Rightarrow> ([], Inl r, s1)
      | (Inr (st1, sent), s1) \<Rightarrow>
          (let (out, r, s2) = status_loop k s1 st1 evs
           in ((case sent of None \<Rightarrow> [] | Some m \<Rightarrow> [m]) @ out, r, s2)))"

text \<open>
  \<open>Status\<close> after authentication and with the watch open: unless the context is done the
  exporter is marked seen once, then the loop runs.
\<close>

definition Status_stream ::
  "'s kube \<Rightarrow> auth_config \<Rightarrow> 's \<Rightarrow> Context \<Rightarrow> goerror option \<Rightarrow> bool \<Rightarrow> time \<Rightarrow> status_event list
   \<Rightarrow> StatusResponse list \<times> (goerror option + status_state) \<times> 's" where
  "Status_stream k au s ctx watchErr ctxDone now evs =
     (case authenticateExporter k au s ctx of
        (Inl err, s1) \<Rightarrow> ([], Inl (Some err), s1)
      | (Inr exporter, s1) \<Rightarrow>
          (case watchErr of
             Some err \<Rightarrow> ([], Inl (Some err), s1)
           | None \<Rightarrow>
               if ctxDone then ([], Inl None, s1)
               else (let (e, s2) = online_patch k s1 now exporter
                     in status_loop k s2 \<lparr>ss_exporter = e, ss_watchedLastSeen = None, ss_last = None\<rparr> evs)))"

section \<open>Leases\<close>

definition pb_condition :: "ext \<Rightarrow> Condition \<Rightarrow> pbCondition" where
  "pb_condition x c = condition_ToProtobuf x c"

definition Controller_GetLease ::
  "'s kube \<Rightarrow> ext \<Rightarrow> auth_config \<Rightarrow> 's \<Rightarrow> Context \<Rightarrow> string \<Rightarrow> (goerror + GetLeaseResponse) \<times> 's" where
  "Controller_GetLease k x au s ctx name =
     (case authenticateClient k au s ctx of
        (Inl err, s1) \<Rightarrow> (Inl err, s1)
      | (Inr client, s1) \<Rightarrow>
          (case k_getLease k s1 \<lparr>nn_Namespace = om_Namespace (cl_Meta client), nn_Name = name\<rparr> of
             Inl err \<Rightarrow> Inl err
           | Inr lease \<Rightarrow>
               if sp_ClientRef (l_Spec lease) \<noteq> om_Name (cl_Meta client) then Inl (Errorf ''GetLease permission denied'')
               else
                 (let respond = (\<lambda>uuid.
                      \<lparr>gl_Duration = map_option (x_durationpb_New x) (sp_Duration (l_Spec lease)),
                       gl_Selector = sp_Selector (l_Spec lease),
                       gl_BeginTime = map_option (x_timestamppb_New x) (st_BeginTime (l_Status lease)),
                       gl_EndTime = map_option (x_timestamppb_New x) (st_EndTime (l_Status lease)),
                       gl_ExporterUuid = uuid,
                       gl_Conditions = map (pb_condition x) (st_Conditions (l_Status lease))\<rparr>)
                  in case st_ExporterRef (l_Status lease) of
                       None \<Rightarrow> Inr (respond None)
                     | Some en \<Rightarrow>
                         (case k_getExporter k s1 \<lparr>nn_Namespace = om_Namespace (cl_Meta client), nn_Name = en\<rparr> of
                            Inl _ \<Rightarrow> Inl (Errorf ''GetLease fetch exporter uuid failed'')
                          | Inr e \<Rightarrow> Inr (respond (Some (om_UID (e_Meta e)))))), s1))"

text \<open>\<open>uuid\<close> is the result of \<open>uuid.NewV7\<close>.\<close>

definition RequestLease ::
  "'s kube \<Rightarrow> ext \<Rightarrow> auth_config \<Rightarrow> goerror + string \<Rightarrow> 's \<Rightarrow> Context \<Rightarrow> RequestLeaseRequest \<Rightarrow> (goerror + string) \<times> 's" where
  "RequestLease k x au uuid s ctx req =
     (case authenticateClient k au s ctx of
        (Inl err, s1) \<Rightarrow> (Inl err, s1)
      | (Inr client, s1) \<Rightarrow>
          (case uuid of
             Inl err \<Rightarrow> (Inl err, s1)
           | Inr leaseName \<Rightarrow>
               (case k_createLease k s1
                       \<lparr>l_Meta = zero_ObjectMeta\<lparr>om_Namespace := om_Namespace (cl_Meta client), om_Name := leaseName\<rparr>,
                        l_Spec = \<lparr>sp_ClientRef = om_Name (cl_Meta client),
                          sp_Duration = map_option (x_AsDuration x) (rq_Duration req),
                          sp_Selector = (case rq_Selector req of None \<Rightarrow> zero_LabelSelector | Some sel \<Rightarrow> sel),
                          sp_Release = False, sp_BeginTime = None, sp_EndTime = None\<rparr>,
                        l_Status = zero_LeaseStatus\<rparr> of
                  (Inl err, s2) \<Rightarrow> (Inl err, s2)
                | (Inr lease, s2) \<Rightarrow> (Inr (om_Name (l_Meta lease)), s2))))"

definition ReleaseLease :: "'s kube \<Rightarrow> auth_config \<Rightarrow> 's \<Rightarrow> Context \<Rightarrow> string \<Rightarrow> (goerror + unit) \<times> 's" where
  "ReleaseLease k au s ctx name =
     (case authenticateClient k au s ctx of
        (Inl err, s1) \<Rightarrow> (Inl err, s1)
      | (Inr jclient, s1) \<Rightarrow>
          (case k_getLease k s1 \<lparr>nn_Namespace = om_Namespace (cl_Meta jclient), nn_Name = name\<rparr> of
             Inl err \<Rightarrow> (Inl err, s1)
           | Inr lease \<Rightarrow>
               if sp_ClientRef (l_Spec lease) \<noteq> om_Name (cl_Meta jclient)
               then (Inl (Errorf ''ReleaseLease permission denied''), s1)
               else
                 (case k_patchLease k s1 (lease\<lparr>l_Spec := (l_Spec lease)\<lparr>sp_Release := True\<rparr>\<rparr>) lease of
                    (Inl err, s2) \<Rightarrow> (Inl err, s2)
                  | (Inr _, s2) \<Rightarrow> (Inr (), s2))))"

definition Controller_ListLeases :: "'s kube \<Rightarrow> auth_config \<Rightarrow> 's \<Rightarrow> Context \<Rightarrow> (goerror + string list) \<times> 's" where
  "Controller_ListLeases k au s ctx =
     (case authenticateClient k au s ctx of
        (Inl err, s1) \<Rightarrow> (Inl err, s1)
      | (Inr jclient, s1) \<Rightarrow>
          (case k_listLeases k s1 [InNamespace (om_Namespace (cl_Meta jclient)), MatchingActiveLeases] of
             Inl err \<Rightarrow> Inl err
           | Inr (leases, _) \<Rightarrow>
               Inr (map (\<lambda>l. om_Name (l_Meta l))
                 (filter (\<lambda>l. sp_ClientRef (l_Spec l) = om_Name (cl_Meta jclient)) leases)), s1))"

section \<open>Properties of registration\<close>

lemma fold_managed:
  "go_map req \<Longrightarrow> mget (fold (\<lambda>(key, v) m. if managedLabel key then mset_key m key v else m) req m) key =
     (if managedLabel key \<and> mget req key \<noteq> None then mget req key else mget m key)"
proof (induction req arbitrary: m)
  case (Cons a req)
  obtain k v where a: "a = (k, v)" by (cases a)
  from Cons.prems a have fresh: "mget req k = None" "go_map req"
    by (auto simp: go_map_def map_of_eq_None_iff)
  show ?case
  proof (cases "managedLabel k")
    case True
    with Cons.IH [OF fresh(2), of "mset_key m k v"] a fresh(1) show ?thesis by (auto simp: update_conv')
  next
    case False
    with Cons.IH [OF fresh(2), of m] a show ?thesis by auto
  qed
qed simp

text \<open>
  C30: Registration gives an exporter exactly the labels under \<open>jumpstarter.dev/\<close> that the
  request names, and leaves every other label of the exporter alone, whatever the request says.
\<close>

theorem register_labels_exact:
  assumes "go_map request"
  shows "mget (registerLabels labels request) key = (if managedLabel key then mget request key else mget labels key)"
  using fold_managed [OF assms, of "filter (\<lambda>(key, v). \<not> managedLabel key) labels" key]
    mget_filter_key [of "\<lambda>k. \<not> managedLabel k" labels key]
  by (auto simp: registerLabels_def)

theorem register_labels_exact_witness:
  "mget (registerLabels [(''board'', ''rpi''), (''jumpstarter.dev/a'', ''1'')]
     [(''jumpstarter.dev/b'', ''2''), (''board'', ''x'')]) ''board'' = Some ''rpi''"
proof -
  have "go_map [(''jumpstarter.dev/b'', ''2''), (''board'', ''x'')]" by (simp add: go_map_def)
  moreover have "\<not> managedLabel ''board''" by code_simp
  ultimately show ?thesis using register_labels_exact by simp
qed

section \<open>Properties of the choice of a router\<close>

lemma MatchLabels_loop_eq:
  "0 \<le> n \<Longrightarrow> MatchLabels_loop c t n =
     (if list_all (\<lambda>(k, v). mget c k = Some v) t then n + int (length t) else - 1)"
  by (induction t arbitrary: n) (auto split: option.splits)

lemma MatchLabels_eq:
  "MatchLabels c t = (if list_all (\<lambda>(k, v). mget c k = Some v) t then int (length t) else - 1)"
  by (simp add: MatchLabels_def MatchLabels_loop_eq)

interpretation router_order: weak_cmp "\<lambda>_. True" "routerCmp labels" for labels
  by unfold_locales (auto simp: routerCmp_def cmp_Compare_def split: if_splits)

lemma routerCandidates_first:
  assumes "routerCandidates router labels = r # rs"
  shows "r \<in> snd ` set router" "\<And>r'. r' \<in> snd ` set router \<Longrightarrow> MatchLabels (re_Labels r') labels \<le> MatchLabels (re_Labels r) labels"
proof -
  from assms have "set (r # rs) = set (map snd router)"
    unfolding routerCandidates_def by (metis set_SortFunc)
  then show "r \<in> snd ` set router" by auto
  fix r' assume r': "r' \<in> snd ` set router"
  have "sort_result (routerCmp labels) (map snd router) (r # rs)"
    using router_order.SortFunc_sort_result [of "map snd router" labels] assms by (simp add: routerCandidates_def)
  then have "routerCmp labels r r' \<le> 0"
    using r' by (intro router_order.sort_result_hd_least [of "map snd router"]) auto
  then show "MatchLabels (re_Labels r') labels \<le> MatchLabels (re_Labels r) labels"
    by (auto simp: routerCmp_def cmp_Compare_def split: if_splits)
qed

text \<open>
  A router counts as a match for an exporter only when it carries every label of the
  exporter, and all matches count the same. The router that \<open>Dial\<close> picks is a match whenever
  there is one; otherwise all routers compare equal and it is any of them.
\<close>

theorem router_choice:
  assumes "routerCandidates router labels = r # rs"
  shows "r \<in> snd ` set router \<and>
    ((\<exists>r'\<in>snd ` set router. list_all (\<lambda>(k, v). mget (re_Labels r') k = Some v) labels) \<longrightarrow>
       list_all (\<lambda>(k, v). mget (re_Labels r) k = Some v) labels)"
proof (intro conjI impI)
  show "r \<in> snd ` set router" by (rule routerCandidates_first(1) [OF assms])
  assume "\<exists>r'\<in>snd ` set router. list_all (\<lambda>(k, v). mget (re_Labels r') k = Some v) labels"
  then obtain r' where r': "r' \<in> snd ` set router" "MatchLabels (re_Labels r') labels = int (length labels)"
    by (metis MatchLabels_eq)
  from routerCandidates_first(2) [OF assms r'(1)] r'(2) have "0 \<le> MatchLabels (re_Labels r) labels" by simp
  then show "list_all (\<lambda>(k, v). mget (re_Labels r) k = Some v) labels"
    by (simp add: MatchLabels_eq split: if_splits)
qed

theorem router_choice_witness:
  "routerCandidates [(''default'', \<lparr>re_Endpoint = ''a:443'', re_Labels = []\<rparr>),
      (''zone'', \<lparr>re_Endpoint = ''b:443'', re_Labels = [(''zone'', ''x''), (''site'', ''y'')]\<rparr>)] [(''zone'', ''x'')] =
     [\<lparr>re_Endpoint = ''b:443'', re_Labels = [(''zone'', ''x''), (''site'', ''y'')]\<rparr>, \<lparr>re_Endpoint = ''a:443'', re_Labels = []\<rparr>] \<and>
   list_all (\<lambda>(k, v). mget [(''zone'', ''x''), (''site'', ''y'')] k = Some v) [(''zone'', ''x'')]"
proof -
  have eq: "routerCandidates [(''default'', \<lparr>re_Endpoint = ''a:443'', re_Labels = []\<rparr>),
      (''zone'', \<lparr>re_Endpoint = ''b:443'', re_Labels = [(''zone'', ''x''), (''site'', ''y'')]\<rparr>)] [(''zone'', ''x'')] =
     [\<lparr>re_Endpoint = ''b:443'', re_Labels = [(''zone'', ''x''), (''site'', ''y'')]\<rparr>, \<lparr>re_Endpoint = ''a:443'', re_Labels = []\<rparr>]"
    by code_simp
  from router_choice [OF eq] eq show ?thesis by simp
qed

section \<open>Properties of Dial and Listen\<close>

text \<open>
  The interface of a family of bounded queues: an append that is refused when the queue is
  full, a removal of the first message, and the contents they act on. A history of sends and
  receives is \<open>fifo\<close> when, queue by queue, what was sent is what was received followed by
  what is still there.
\<close>

datatype ('k, 'm) queue_event = Sent 'k 'm | Got 'k 'm

fun sent_to :: "'k \<Rightarrow> ('k, 'm) queue_event list \<Rightarrow> 'm list" where
  "sent_to k [] = []"
| "sent_to k (Sent n m # evs) = (if n = k then m # sent_to k evs else sent_to k evs)"
| "sent_to k (Got n m # evs) = sent_to k evs"

fun got_from :: "'k \<Rightarrow> ('k, 'm) queue_event list \<Rightarrow> 'm list" where
  "got_from k [] = []"
| "got_from k (Got n m # evs) = (if n = k then m # got_from k evs else got_from k evs)"
| "got_from k (Sent n m # evs) = got_from k evs"

lemma sent_to_append [simp]: "sent_to k (evs @ fs) = sent_to k evs @ sent_to k fs"
  by (induction k evs rule: sent_to.induct) auto

lemma got_from_append [simp]: "got_from k (evs @ fs) = got_from k evs @ got_from k fs"
  by (induction k evs rule: got_from.induct) auto

definition fifo :: "('q \<Rightarrow> 'k \<Rightarrow> 'm list) \<Rightarrow> ('k, 'm) queue_event list \<Rightarrow> 'q \<Rightarrow> bool" where
  "fifo content evs q \<longleftrightarrow> (\<forall>k. sent_to k evs = got_from k evs @ content q k)"

locale bounded_queues =
  fixes send :: "'q \<Rightarrow> 'k \<Rightarrow> 'm \<Rightarrow> 'q option" and recv :: "'q \<Rightarrow> 'k \<Rightarrow> ('m \<times> 'q) option"
    and content :: "'q \<Rightarrow> 'k \<Rightarrow> 'm list" and cap :: nat
  assumes send_content: "send q n m = Some q' \<Longrightarrow> content q' k = content q k @ (if k = n then [m] else [])"
    and send_room: "(\<exists>q'. send q n m = Some q') \<longleftrightarrow> length (content q n) < cap"
    and recv_content: "recv q n = Some (m, q') \<Longrightarrow> content q k = (if k = n then m # content q' k else content q' k)"
    and recv_ready: "(\<exists>m q'. recv q n = Some (m, q')) \<longleftrightarrow> content q n \<noteq> []"
begin

lemma fifo_send: "fifo content evs q \<Longrightarrow> send q n m = Some q' \<Longrightarrow> fifo content (evs @ [Sent n m]) q'"
  using send_content by (auto simp: fifo_def)

lemma fifo_recv: "fifo content evs q \<Longrightarrow> recv q n = Some (m, q') \<Longrightarrow> fifo content (evs @ [Got n m]) q'"
  using recv_content [of q n m q'] by (auto simp: fifo_def)

lemma cap_send:
  assumes "\<And>k. length (content q k) \<le> cap" "send q n m = Some q'"
  shows "length (content q' k) \<le> cap"
proof -
  from assms(2) have "length (content q n) < cap" using send_room by blast
  with assms send_content [OF assms(2), of k] show ?thesis by auto
qed

lemma cap_recv: "(\<And>k. length (content q k) \<le> cap) \<Longrightarrow> recv q n = Some (m, q') \<Longrightarrow> length (content q' k) \<le> cap"
  using recv_content [of q n m q' k] by (metis Suc_leD length_Cons)

text \<open>A message sent to an empty queue is the next one received from it.\<close>

lemma send_recv: "content q n = [] \<Longrightarrow> send q n m = Some q' \<Longrightarrow> \<exists>q''. recv q' n = Some (m, q'')"
  using send_content [of q n m q' n] recv_ready [of q' n] recv_content [of q' n] by fastforce

end

definition contents :: "queues \<Rightarrow> string \<Rightarrow> ListenResponse list" where
  "contents qs n = (case mget qs n of None \<Rightarrow> [] | Some q \<Rightarrow> q)"

definition queues_ok :: "queues \<Rightarrow> bool" where
  "queues_ok qs \<longleftrightarrow> (\<forall>n. length (contents qs n) \<le> queue_capacity)"

lemma contents_update: "contents (mset_key qs n q) m = (if m = n then q else contents qs m)"
  by (auto simp: contents_def update_conv')

lemma contents_LoadOrStore:
  "LoadOrStore qs n [] = (q, l, qs') \<Longrightarrow> q = contents qs n \<and> contents qs' = contents qs"
  by (auto simp: LoadOrStore_def contents_update fun_eq_iff split: option.splits) (simp_all add: contents_def)

lemma contents_loaded [simp]: "contents (load_queue qs n) = contents qs"
  using contents_LoadOrStore [of qs n] by (auto simp: load_queue_def split: prod.split)

lemma queue_send_eq:
  "\<exists>qs1. contents qs1 = contents qs \<and> queue_send qs n m =
     (if length (contents qs n) < queue_capacity then Some (mset_key qs1 n (contents qs n @ [m])) else None)"
proof -
  obtain q l qs1 where L: "LoadOrStore qs n [] = (q, l, qs1)" by (metis prod_cases3)
  with contents_LoadOrStore [OF L] show ?thesis by (intro exI [of _ qs1]) (simp add: queue_send_def)
qed

interpretation listen_queues: bounded_queues queue_send queue_recv contents queue_capacity
proof
  fix qs n m qs' k
  show "queue_send qs n m = Some qs' \<Longrightarrow> contents qs' k = contents qs k @ (if k = n then [m] else [])"
    using queue_send_eq [of qs n m] by (auto simp: contents_update split: if_splits)
  show "(\<exists>q'. queue_send qs n m = Some q') \<longleftrightarrow> length (contents qs n) < queue_capacity"
    using queue_send_eq [of qs n m] by (auto split: if_splits)
  show "queue_recv qs n = Some (m, qs') \<Longrightarrow> contents qs k = (if k = n then m # contents qs' k else contents qs' k)"
    by (auto simp: queue_recv_def contents_def update_conv' split: option.splits list.splits)
  show "(\<exists>m q'. queue_recv qs n = Some (m, q')) \<longleftrightarrow> contents qs n \<noteq> []"
    by (auto simp: queue_recv_def contents_def split: option.splits list.splits)
qed

text \<open>The message a dial response stands for.\<close>

definition dialed :: "DialResponse \<Rightarrow> ListenResponse" where
  "dialed r = \<lparr>lrs_RouterEndpoint = drs_RouterEndpoint r, lrs_RouterToken = drs_RouterToken r\<rparr>"

lemma dialed_simp [simp]:
  "dialed \<lparr>drs_RouterEndpoint = lrs_RouterEndpoint m, drs_RouterToken = lrs_RouterToken m\<rparr> = m"
  by (simp add: dialed_def)

lemma Dial_Inr:
  assumes "Dial k au router de b s qs ctx n = Some (Inr resp, qs', s')"
  shows "Dial_prepare k au router de s ctx n = (Inr (dialed resp), s')" "queue_send qs n (dialed resp) = Some qs'"
  using assms by (auto simp: Dial_def split: prod.splits sum.splits select_branch.splits)

text \<open>The endpoint in the answer to a dial is that of a configured router.\<close>

lemma Dial_endpoint:
  assumes "Dial k au router de b s qs ctx n = Some (Inr resp, qs', s')"
  shows "drs_RouterEndpoint resp \<in> re_Endpoint ` snd ` set router"
proof -
  from Dial_Inr(1) [OF assms] obtain labels where
    "routerCandidates router labels \<noteq> []" "drs_RouterEndpoint resp = re_Endpoint (routerCandidates router labels ! 0)"
    by (auto simp: Dial_prepare_def dialed_def Let_def split: prod.splits sum.splits if_splits option.splits)
  moreover from this obtain r rs where "routerCandidates router labels = r # rs" by (cases "routerCandidates router labels") auto
  ultimately show ?thesis using routerCandidates_first(1) [of router labels r rs] by simp
qed

lemma Dial_Inl: "Dial k au router de b s qs ctx n = Some (Inl e, qs', s') \<Longrightarrow> contents qs' = contents qs"
  by (auto simp: Dial_def split: prod.splits sum.splits select_branch.splits)

lemma Listen_open_Inr: "Listen_open k au s qs ctx n = (Inr qs', s') \<Longrightarrow> contents qs' = contents qs"
  by (auto simp: Listen_open_def split: prod.splits sum.splits if_splits)

text \<open>
  C9: A \<open>Dial\<close> that succeeds was made by an authenticated client, for a lease of that client
  in its namespace that has an exporter; the token it returns was signed for this stream and
  is the one it appended to the queue of the lease, and no other queue changed.
\<close>

theorem dial_authorized:
  assumes "Dial k au router de b s qs ctx n = Some (Inr resp, qs', s')"
  shows "\<exists>client lease e. authenticateClient k au s ctx = (Inr client, s') \<and>
      k_getLease k s' \<lparr>nn_Namespace = om_Namespace (cl_Meta client), nn_Name = n\<rparr> = Inr lease \<and>
      sp_ClientRef (l_Spec lease) = om_Name (cl_Meta client) \<and> st_ExporterRef (l_Status lease) = Some e \<and>
      de_SignHS256 de (de_routerKey de) (streamClaims de) = Inr (drs_RouterToken resp) \<and>
      (\<forall>m. contents qs' m = contents qs m @ (if m = n then [dialed resp] else []))"
proof -
  note d = Dial_Inr [OF assms]
  from d(1) have "\<exists>client lease e. authenticateClient k au s ctx = (Inr client, s') \<and>
      k_getLease k s' \<lparr>nn_Namespace = om_Namespace (cl_Meta client), nn_Name = n\<rparr> = Inr lease \<and>
      sp_ClientRef (l_Spec lease) = om_Name (cl_Meta client) \<and> st_ExporterRef (l_Status lease) = Some e \<and>
      de_SignHS256 de (de_routerKey de) (streamClaims de) = Inr (drs_RouterToken resp)"
    by (auto simp: Dial_prepare_def dialed_def Let_def split: prod.splits sum.splits if_splits option.splits)
  with listen_queues.send_content [OF d(2)] show ?thesis by blast
qed

text \<open>
  A run of the service: dials (whether they succeed or not), listens that are opened, and
  messages received by a listen, in any order and under any states of the cluster.
\<close>

inductive service_run ::
  "'s kube \<Rightarrow> auth_config \<Rightarrow> Router \<Rightarrow> (string, ListenResponse) queue_event list \<Rightarrow> queues \<Rightarrow> bool" for k au router where
  start: "service_run k au router [] []"
| dial: "service_run k au router evs qs \<Longrightarrow> Dial k au router de b s qs ctx n = Some (Inr resp, qs', s') \<Longrightarrow>
    service_run k au router (evs @ [Sent n (dialed resp)]) qs'"
| dial_fails: "service_run k au router evs qs \<Longrightarrow> Dial k au router de b s qs ctx n = Some (Inl e, qs', s') \<Longrightarrow>
    service_run k au router evs qs'"
| listen: "service_run k au router evs qs \<Longrightarrow> Listen_open k au s qs ctx n = (Inr qs', s') \<Longrightarrow>
    service_run k au router evs qs'"
| receive: "service_run k au router evs qs \<Longrightarrow> queue_recv qs n = Some (m, qs') \<Longrightarrow>
    service_run k au router (evs @ [Got n m]) qs'"

text \<open>
  C16: Over any run of the service, the tokens handed to listens of a lease name are those of
  the dials of that name, each once, in the order of the dials, except for the last ones that
  are still queued; and no queue ever holds more than eight.
\<close>

theorem tokens_delivered_in_order:
  assumes "service_run k au router evs qs"
  shows "sent_to n evs = got_from n evs @ contents qs n \<and> length (contents qs n) \<le> 8"
proof -
  have "fifo contents evs qs \<and> queues_ok qs"
    using assms
  proof induction
    case start
    then show ?case by (simp add: fifo_def queues_ok_def contents_def)
  next
    case (dial evs qs de b s ctx n resp qs' s')
    note send = Dial_Inr(2) [OF dial.hyps(2)]
    from dial.IH listen_queues.fifo_send [OF _ send] listen_queues.cap_send [OF _ send] show ?case
      by (simp add: queues_ok_def)
  next
    case (dial_fails evs qs de b s ctx n e qs' s')
    from Dial_Inl [OF dial_fails.hyps(2)] dial_fails.IH show ?case by (simp add: fifo_def queues_ok_def)
  next
    case (listen evs qs s ctx n qs' s')
    from Listen_open_Inr [OF listen.hyps(2)] listen.IH show ?case by (simp add: fifo_def queues_ok_def)
  next
    case (receive evs qs n m qs')
    from receive.IH listen_queues.fifo_recv [OF _ receive.hyps(2)] listen_queues.cap_recv [OF _ receive.hyps(2)]
    show ?case by (simp add: queues_ok_def)
  qed
  then show ?thesis by (simp add: fifo_def queues_ok_def queue_capacity_def)
qed

text \<open>
  The queue of a dial is found by the name of the lease alone: a token dialed on an empty
  queue is what the next listen on that lease name receives, whichever namespace the
  authenticated exporter and its lease are in.
\<close>

theorem listen_receives_dialed_token:
  assumes "Dial k au router de b s qs ctx n = Some (Inr resp, qs1, s1)" "contents qs n = []"
    and "Listen_open k au s2 qs1 ctx' n = (Inr qs2, s3)"
  shows "\<exists>qs3. queue_recv qs2 n = Some (dialed resp, qs3)"
proof -
  have "contents qs2 n = [dialed resp]"
    using listen_queues.send_content [OF Dial_Inr(2) [OF assms(1)], of n] assms(2) Listen_open_Inr [OF assms(3)] by simp
  then obtain m q where r: "queue_recv qs2 n = Some (m, q)"
    using listen_queues.recv_ready [of qs2 n] by auto
  with listen_queues.recv_content [OF r, of n] \<open>contents qs2 n = [dialed resp]\<close> show ?thesis by auto
qed

text \<open>
  A token whose send to the exporter fails is lost: it is taken off the queue and not
  delivered, while the other tokens stay.
\<close>

theorem failed_send_loses_token:
  assumes "Listen_turn qs n (ListenMsg (Some err)) = Some (fin, sent, qs')"
  shows "\<exists>token. contents qs n = token # contents qs' n \<and> sent = None \<and> fin = Some (Some err) \<and>
    (\<forall>m. m \<noteq> n \<longrightarrow> contents qs' m = contents qs m)"
proof -
  from assms obtain token where r: "queue_recv qs n = Some (token, qs')" "sent = None" "fin = Some (Some err)"
    by (auto simp: Listen_turn_def)
  from listen_queues.recv_content [OF r(1)] r show ?thesis by (metis (full_types))
qed

text \<open>
  A dial succeeds whenever its client is authenticated and owns a lease of that name with
  an exporter that exists, a router is configured, signing works and the queue has room;
  whether the lease has ended plays no part.
\<close>

theorem dial_succeeds:
  assumes "authenticateClient k au s ctx = (Inr client, s1)" "n \<noteq> []"
    and "k_getLease k s1 \<lparr>nn_Namespace = om_Namespace (cl_Meta client), nn_Name = n\<rparr> = Inr lease"
    and "sp_ClientRef (l_Spec lease) = om_Name (cl_Meta client)" "st_ExporterRef (l_Status lease) = Some e"
    and "k_getExporter k s1 \<lparr>nn_Namespace = om_Namespace (cl_Meta client), nn_Name = e\<rparr> = Inr exporter"
    and "router \<noteq> []" "de_SignHS256 de (de_routerKey de) (streamClaims de) = Inr token"
    and "length (contents qs n) < 8"
  shows "\<exists>resp qs'. Dial k au router de SelectQueue s qs ctx n = Some (Inr resp, qs', s1) \<and> drs_RouterToken resp = token"
proof -
  have "routerCandidates router (om_Labels (e_Meta exporter)) \<noteq> []"
    using assms(7) by (simp add: routerCandidates_def)
  with assms have "\<exists>ep. Dial_prepare k au router de s ctx n = (Inr \<lparr>lrs_RouterEndpoint = ep, lrs_RouterToken = token\<rparr>, s1)"
    by (simp add: Dial_prepare_def Let_def)
  then obtain ep where p: "Dial_prepare k au router de s ctx n = (Inr \<lparr>lrs_RouterEndpoint = ep, lrs_RouterToken = token\<rparr>, s1)" ..
  from assms(9) obtain qs' where "queue_send qs n \<lparr>lrs_RouterEndpoint = ep, lrs_RouterToken = token\<rparr> = Some qs'"
    using listen_queues.send_room [of qs n] by (auto simp: queue_capacity_def)
  with p show ?thesis by (simp add: Dial_def)
qed

section \<open>Properties of the status stream\<close>

definition last_sent :: "status_state \<Rightarrow> StatusResponse list" where
  "last_sent st = (case ss_last st of None \<Rightarrow> [] | Some m \<Rightarrow> [m])"

lemma status_step_sent:
  assumes "status_step k s st ev = (Inr (st1, sent), s1)"
  shows "(sent = None \<and> ss_last st1 = ss_last st) \<or> (\<exists>m. sent = Some m \<and> ss_last st1 = Some m \<and> ss_last st \<noteq> Some m)"
  using assms
  by (auto simp: status_step_def status_watch_def Let_def split: status_event.splits watch_event.splits option.splits
      sum.splits if_splits prod.splits)

lemma status_loop_adj: "distinct_adj (last_sent st @ fst (status_loop k s st evs))"
proof (induction evs arbitrary: s st)
  case Nil
  then show ?case by (simp add: last_sent_def split: option.splits)
next
  case (Cons ev evs)
  show ?case
  proof (cases "status_step k s st ev")
    case (Pair r s1)
    show ?thesis
    proof (cases r)
      case (Inl a)
      with Pair show ?thesis by (simp add: last_sent_def split: option.splits)
    next
      case (Inr p)
      obtain st1 sent where p: "p = (st1, sent)" by (cases p)
      with Pair Inr have step: "status_step k s st ev = (Inr (st1, sent), s1)" by simp
      obtain out rr s2 where loop: "status_loop k s1 st1 evs = (out, rr, s2)" by (metis prod_cases3)
      from Cons.IH [of st1 s1] status_step_sent [OF step] loop step show ?thesis
        by (auto simp: last_sent_def split: option.splits)
    qed
  qed
qed

text \<open>
  The status stream never sends the same status twice in a row, from the start of the
  stream on and whatever events it sees.
\<close>

theorem status_never_repeated:
  "distinct_adj (fst (Status_stream k au s ctx watchErr ctxDone now evs))"
proof -
  have "distinct_adj (fst (status_loop k s2 \<lparr>ss_exporter = e, ss_watchedLastSeen = None, ss_last = None\<rparr> evs))" for s2 e
    using status_loop_adj [of "\<lparr>ss_exporter = e, ss_watchedLastSeen = None, ss_last = None\<rparr>"] by (simp add: last_sent_def)
  then show ?thesis
    by (auto simp: Status_stream_def split: prod.splits sum.splits option.splits)
qed

text \<open>
  The watchdog of the status stream: if a tick marks the exporter as seen at a time other
  than the one last watched, and the next event is again a tick, with no news from the watch
  in between, the stream is ended with an error.
\<close>

theorem silent_watch_ends_stream:
  assumes "status_step k s st (EvTick t) = (Inr (st1, sent), s1)" "ss_watchedLastSeen st = Some w"
    and "es_LastSeen (e_Status (ss_exporter st1)) \<noteq> w"
  shows "status_step k s1 st1 (EvTick t') = (Inl (Some (Errorf ''last seen time mismatch'')), s1)"
  using assms by (auto simp: status_step_def split: prod.splits if_splits)

section \<open>Evaluated instances\<close>

text \<open>
  Two namespaces with a lease of the same name: in \<open>lab\<close> it is a lease of alice, held on
  \<open>rpi-a\<close> and already ended; in \<open>annex\<close> it is held on the exporter \<open>far\<close>. Tokens are
  user names.
\<close>

definition in_annex :: "ObjectMeta \<Rightarrow> ObjectMeta" where
  "in_annex m = m\<lparr>om_Namespace := ''annex''\<rparr>"

definition two_labs :: cluster where
  "two_labs = empty_cluster\<lparr>
     cu_Exporters := [sample_exporter ''rpi-a'' True,
       (sample_exporter ''far'' True)\<lparr>e_Meta := in_annex (e_Meta (sample_exporter ''far'' True))\<rparr>],
     cu_Clients := [sample_client ''alice''],
     cu_Leases := [(held ''rpi-a'' 0 (sample_lease ''mine'' ''alice'' None))
         \<lparr>l_Status := (l_Status (held ''rpi-a'' 0 (sample_lease ''mine'' ''alice'' None)))\<lparr>st_Ended := True\<rparr>\<rparr>,
       (held ''far'' 0 (sample_lease ''mine'' ''dave'' None))
         \<lparr>l_Meta := in_annex (l_Meta (sample_lease ''mine'' ''dave'' None))\<rparr>]\<rparr>"

definition plain_auth :: auth_config where
  "plain_auth = \<lparr>au_AuthenticateToken = (\<lambda>t. Inr (Some t)), au_Sum256 = (\<lambda>s. [1, 2, 3]),
     au_attr = \<lparr>mc_NamespaceKey = ''jumpstarter-namespace'', mc_ResourceKey = ''jumpstarter-kind'',
       mc_NameKey = ''jumpstarter-name''\<rparr>,
     au_prefix = ''internal:'', au_provisioning = False\<rparr>"

definition plain_ctx :: "string \<Rightarrow> string \<Rightarrow> string \<Rightarrow> string \<Rightarrow> Context" where
  "plain_ctx ns kind name user = \<lparr>cx_Metadata = Some (\<lambda>k.
     if k = ''authorization'' then [''Bearer '' @ user]
     else if k = ''jumpstarter-namespace'' then [ns]
     else if k = ''jumpstarter-kind'' then [kind]
     else if k = ''jumpstarter-name'' then [name] else [])\<rparr>"

abbreviation alice_ctx :: Context where
  "alice_ctx \<equiv> plain_ctx ''lab'' ''Client'' ''alice'' ''internal:client:lab:alice:uid-alice''"

abbreviation far_ctx :: Context where
  "far_ctx \<equiv> plain_ctx ''annex'' ''Exporter'' ''far'' ''internal:exporter:annex:far:uid-far''"

definition sample_dial_env :: dial_env where
  "sample_dial_env = \<lparr>de_SignHS256 = (\<lambda>key c. Inr (sc_Subject c @ ''.'' @ key)), de_routerKey = ''key'',
     de_stream = ''stream-1'', de_id = ''id-1'', de_now1 = 0, de_now2 = 0, de_now3 = 0\<rparr>"

definition sample_router :: Router where
  "sample_router = [(''default'', \<lparr>re_Endpoint = ''a:443'', re_Labels = []\<rparr>)]"

abbreviation sample_response :: DialResponse where
  "sample_response \<equiv> \<lparr>drs_RouterEndpoint = ''a:443'', drs_RouterToken = ''stream-1.key''\<rparr>"

lemma alice_authenticated:
  "authenticateClient mem_kube plain_auth two_labs alice_ctx = (Inr (sample_client ''alice''), two_labs)"
  by code_simp

lemma alice_dials:
  "Dial mem_kube plain_auth sample_router sample_dial_env SelectQueue two_labs [] alice_ctx ''mine'' =
     Some (Inr sample_response, [(''mine'', [dialed sample_response])], two_labs)"
  by code_simp

lemma far_listens:
  "Listen_open mem_kube plain_auth two_labs [(''mine'', [dialed sample_response])] far_ctx ''mine'' =
     (Inr [(''mine'', [dialed sample_response])], two_labs)"
  by code_simp

theorem dial_authorized_witness:
  "\<exists>client lease. authenticateClient mem_kube plain_auth two_labs alice_ctx = (Inr client, two_labs) \<and>
     k_getLease mem_kube two_labs \<lparr>nn_Namespace = om_Namespace (cl_Meta client), nn_Name = ''mine''\<rparr> = Inr lease \<and>
     sp_ClientRef (l_Spec lease) = om_Name (cl_Meta client)"
  using dial_authorized [OF alice_dials] by blast

theorem tokens_delivered_in_order_witness:
  "sent_to ''mine'' [Sent ''mine'' (dialed sample_response)] =
     got_from ''mine'' [Sent ''mine'' (dialed sample_response)] @ contents [(''mine'', [dialed sample_response])] ''mine''"
proof -
  have "service_run mem_kube plain_auth sample_router ([] @ [Sent ''mine'' (dialed sample_response)])
      [(''mine'', [dialed sample_response])]"
    by (rule service_run.dial [OF service_run.start alice_dials])
  from tokens_delivered_in_order [OF this, of "''mine''"] show ?thesis by simp
qed

theorem listen_receives_dialed_token_witness:
  "\<exists>qs3. queue_recv [(''mine'', [dialed sample_response])] ''mine'' = Some (dialed sample_response, qs3)"
proof -
  have "contents [] ''mine'' = []" by (simp add: contents_def)
  from listen_receives_dialed_token [OF alice_dials this far_listens] show ?thesis .
qed

theorem failed_send_loses_token_witness:
  "contents [(''mine'', [dialed sample_response])] ''mine'' \<noteq> [] \<and> contents [(''mine'', [])] ''mine'' = []"
proof -
  have "Listen_turn [(''mine'', [dialed sample_response])] ''mine'' (ListenMsg (Some CtxErr)) =
      Some (Some (Some CtxErr), None, [(''mine'', [])])" by code_simp
  from failed_send_loses_token [OF this] show ?thesis by (auto simp: contents_def)
qed

abbreviation ended_mine :: Lease where
  "ended_mine \<equiv> hd (cu_Leases two_labs)"

theorem dial_succeeds_witness:
  "st_Ended (l_Status ended_mine) \<and>
   (\<exists>resp qs'. Dial mem_kube plain_auth sample_router sample_dial_env SelectQueue two_labs [] alice_ctx ''mine'' =
      Some (Inr resp, qs', two_labs) \<and> drs_RouterToken resp = ''stream-1.key'')"
proof
  show "st_Ended (l_Status ended_mine)" by code_simp
  show "\<exists>resp qs'. Dial mem_kube plain_auth sample_router sample_dial_env SelectQueue two_labs [] alice_ctx ''mine'' =
      Some (Inr resp, qs', two_labs) \<and> drs_RouterToken resp = ''stream-1.key''"
  proof (rule dial_succeeds [OF alice_authenticated])
    show "k_getLease mem_kube two_labs \<lparr>nn_Namespace = om_Namespace (cl_Meta (sample_client ''alice'')), nn_Name = ''mine''\<rparr>
        = Inr ended_mine" by code_simp
    show "sp_ClientRef (l_Spec ended_mine) = om_Name (cl_Meta (sample_client ''alice''))" by code_simp
    show "st_ExporterRef (l_Status ended_mine) = Some ''rpi-a''" by code_simp
    show "k_getExporter mem_kube two_labs \<lparr>nn_Namespace = om_Namespace (cl_Meta (sample_client ''alice'')), nn_Name = ''rpi-a''\<rparr>
        = Inr (sample_exporter ''rpi-a'' True)" by code_simp
  qed (simp_all add: sample_router_def sample_dial_env_def streamClaims_def contents_def)
qed

abbreviation watched :: status_state where
  "watched \<equiv> \<lparr>ss_exporter = sample_exporter ''rpi-a'' True, ss_watchedLastSeen = Some 0, ss_last = None\<rparr>"

theorem silent_watch_ends_stream_witness:
  "fst (status_step mem_kube two_labs watched (EvTick 5)) \<noteq> Inl (Some (Errorf ''last seen time mismatch'')) \<and>
   (\<exists>st1 s1. status_step mem_kube s1 st1 (EvTick 9) = (Inl (Some (Errorf ''last seen time mismatch'')), s1))"
proof -
  have ok: "case fst (status_step mem_kube two_labs watched (EvTick 5)) of Inl _ \<Rightarrow> False
      | Inr (st1, sent) \<Rightarrow> es_LastSeen (e_Status (ss_exporter st1)) \<noteq> 0" by code_simp
  then obtain st1 sent s1 where step: "status_step mem_kube two_labs watched (EvTick 5) = (Inr (st1, sent), s1)"
    by (auto split: sum.splits simp: prod_eq_iff)
  with ok have "es_LastSeen (e_Status (ss_exporter st1)) \<noteq> 0" by simp
  from silent_watch_ends_stream [OF step _ this] step show ?thesis by auto
qed

end
