(* ===== verification/ClientService.thy ===== *)
theory ClientService
  imports ControllerService LeaseExclusion
begin

text \<open>
  The gRPC service of clients, second API version
  (\<open>src/internal/service/client/v1/client_service.go\<close>): reading exporters and leases,
  creating, updating and releasing leases. \<open>now\<close> and \<open>clock\<close> are the clock readings that
  \<open>ToProtobuf\<close> makes for leases in progress; \<open>uuid\<close> is the result of \<open>uuid.NewV7\<close>.
\<close>

section \<open>Messages\<close>

datatype pbExporterStatus = EXPORTER_STATUS_UNSPECIFIED | EXPORTER_STATUS_OFFLINE | EXPORTER_STATUS_AVAILABLE
  | EXPORTER_STATUS_BEFORE_LEASE_HOOK | EXPORTER_STATUS_LEASE_READY | EXPORTER_STATUS_AFTER_LEASE_HOOK
  | EXPORTER_STATUS_BEFORE_LEASE_HOOK_FAILED | EXPORTER_STATUS_AFTER_LEASE_HOOK_FAILED

record cpbExporter =
  pe_Name :: string
  pe_Labels :: strmap
  pe_Online :: bool
  pe_Status :: pbExporterStatus

record cpbListExportersResponse =
  ler_Exporters :: "cpbExporter list"
  ler_NextPageToken :: string

record ListExportersRequest =
  leq_Parent :: string
  leq_PageSize :: int
  leq_PageToken :: string
  leq_Filter :: string

record ListLeasesRequest =
  llq_Parent :: string
  llq_PageSize :: int
  llq_PageToken :: string
  llq_Filter :: string
  llq_OnlyActive :: "bool option"

record CreateLeaseRequest =
  clq_Parent :: string
  clq_LeaseId :: string
  clq_Lease :: "cpbLease option"

definition Exporter_ToProtobuf :: "ext \<Rightarrow> Exporter \<Rightarrow> cpbExporter" where
  "Exporter_ToProtobuf x e =
     \<lparr>pe_Name = UnparseExporterIdentifier (key_of (e_Meta e)), pe_Labels = om_Labels (e_Meta e),
      pe_Online = x_IsStatusConditionTrue x (es_Conditions (e_Status e)) ExporterConditionTypeOnline,
      pe_Status = EXPORTER_STATUS_UNSPECIFIED\<rparr>"

definition ExporterList_ToProtobuf :: "ext \<Rightarrow> Exporter list \<Rightarrow> string \<Rightarrow> cpbListExportersResponse" where
  "ExporterList_ToProtobuf x items continue =
     \<lparr>ler_Exporters = map (Exporter_ToProtobuf x) items, ler_NextPageToken = continue\<rparr>"

section \<open>Reading\<close>

definition GetExporter ::
  "'s kube \<Rightarrow> ext \<Rightarrow> auth_config \<Rightarrow> 's \<Rightarrow> Context \<Rightarrow> string \<Rightarrow> (goerror + cpbExporter) \<times> 's" where
  "GetExporter k x au s ctx name =
     (case ParseExporterIdentifier name of
        Inl err \<Rightarrow> (Inl err, s)
      | Inr key \<Rightarrow>
          (case AuthClient k au s ctx (nn_Namespace key) of
             (Inl err, s1) \<Rightarrow> (Inl err, s1)
           | (Inr _, s1) \<Rightarrow>
               (case k_getExporter k s1 key of
                  Inl err \<Rightarrow> (Inl err, s1)
                | Inr jexporter \<Rightarrow> (Inr (Exporter_ToProtobuf x jexporter), s1))))"

definition ListExporters ::
  "'s kube \<Rightarrow> ext \<Rightarrow> auth_config \<Rightarrow> 's \<Rightarrow> Context \<Rightarrow> ListExportersRequest
   \<Rightarrow> (goerror + cpbListExportersResponse) \<times> 's" where
  "ListExporters k x au s ctx req =
     (case ParseNamespaceIdentifier (leq_Parent req) of
        Inl err \<Rightarrow> (Inl err, s)
      | Inr namespace \<Rightarrow>
          (case AuthClient k au s ctx namespace of
             (Inl err, s1) \<Rightarrow> (Inl err, s1)
           | (Inr _, s1) \<Rightarrow>
               (case x_labels_Parse x (leq_Filter req) of
                  Inl err \<Rightarrow> (Inl err, s1)
                | Inr selector \<Rightarrow>
                    (case k_listExporters k s1 [InNamespace namespace, MatchingLabelsSelector selector,
                            Limit (leq_PageSize req), Continue (leq_PageToken req)] of
                       Inl err \<Rightarrow> (Inl err, s1)
                     | Inr (items, continue) \<Rightarrow> (Inr (ExporterList_ToProtobuf x items continue), s1)))))"

definition GetLease ::
  "'s kube \<Rightarrow> ext \<Rightarrow> auth_config \<Rightarrow> time \<Rightarrow> 's \<Rightarrow> Context \<Rightarrow> string \<Rightarrow> (goerror + cpbLease) \<times> 's" where
  "GetLease k x au now s ctx name =
     (case ParseLeaseIdentifier name of
        Inl err \<Rightarrow> (Inl err, s)
      | Inr key \<Rightarrow>
          (case AuthClient k au s ctx (nn_Namespace key) of
             (Inl err, s1) \<Rightarrow> (Inl err, s1)
           | (Inr _, s1) \<Rightarrow>
               (case k_getLease k s1 key of
                  Inl err \<Rightarrow> (Inl err, s1)
                | Inr jlease \<Rightarrow> (Inr (Lease_ToProtobuf x now jlease), s1))))"

definition listLeasesOptions :: "string \<Rightarrow> selector \<Rightarrow> ListLeasesRequest \<Rightarrow> listOption list" where
  "listLeasesOptions namespace selector req =
     [InNamespace namespace, MatchingLabelsSelector selector, Limit (llq_PageSize req), Continue (llq_PageToken req)] @
     (if llq_OnlyActive req = None \<or> llq_OnlyActive req = Some True then [MatchingActiveLeases] else [])"

definition ListLeases ::
  "'s kube \<Rightarrow> ext \<Rightarrow> auth_config \<Rightarrow> (nat \<Rightarrow> time) \<Rightarrow> 's \<Rightarrow> Context \<Rightarrow> ListLeasesRequest
   \<Rightarrow> (goerror + cpbListLeasesResponse) \<times> 's" where
  "ListLeases k x au clock s ctx req =
     (case ParseNamespaceIdentifier (llq_Parent req) of
        Inl err \<Rightarrow> (Inl err, s)
      | Inr namespace \<Rightarrow>
          (case AuthClient k au s ctx namespace of
             (Inl err, s1) \<Rightarrow> (Inl err, s1)
           | (Inr _, s1) \<Rightarrow>
               (case x_labels_Parse x (llq_Filter req) of
                  Inl err \<Rightarrow> (Inl err, s1)
                | Inr selector \<Rightarrow>
                    (case k_listLeases k s1 (listLeasesOptions namespace selector req) of
                       Inl err \<Rightarrow> (Inl err, s1)
                     | Inr (items, continue) \<Rightarrow> (Inr (LeaseList_ToProtobuf x clock items continue), s1)))))"

section \<open>Writing\<close>

definition CreateLease ::
  "'s kube \<Rightarrow> ext \<Rightarrow> auth_config \<Rightarrow> time \<Rightarrow> goerror + string \<Rightarrow> 's \<Rightarrow> Context \<Rightarrow> CreateLeaseRequest
   \<Rightarrow> (goerror + cpbLease) \<times> 's" where
  "CreateLease k x au now uuid s ctx req =
     (case ParseNamespaceIdentifier (clq_Parent req) of
        Inl err \<Rightarrow> (Inl err, s)
      | Inr namespace \<Rightarrow>
          (case AuthClient k au s ctx namespace of
             (Inl err, s1) \<Rightarrow> (Inl err, s1)
           | (Inr jclient, s1) \<Rightarrow>
               (case uuid of
                  Inl err \<Rightarrow> (Inl err, s1)
                | Inr name \<Rightarrow>
                    (case clq_Lease req of
                       None \<Rightarrow> (Inl (Panic ''invalid memory address or nil pointer dereference''), s1)
                     | Some lease \<Rightarrow>
                         (case LeaseFromProtobuf x lease \<lparr>nn_Namespace = namespace, nn_Name = name\<rparr>
                                 (om_Name (cl_Meta jclient)) of
                            Inl err \<Rightarrow> (Inl err, s1)
                          | Inr jlease \<Rightarrow>
                              (case k_createLease k s1 jlease of
                                 (Inl err, s2) \<Rightarrow> (Inl err, s2)
                               | (Inr jlease1, s2) \<Rightarrow> (Inr (Lease_ToProtobuf x now jlease1), s2)))))))"

text \<open>\<open>UpdateLease\<close>: the time fields of the spec, as far as the request gives them.\<close>

definition update_times :: "cpbLease \<Rightarrow> Lease \<Rightarrow> Lease \<Rightarrow> goerror + Lease" where
  "update_times lease desired jlease =
     (if pl_BeginTime lease \<noteq> None \<and> st_ExporterRef (l_Status jlease) \<noteq> None \<and>
         (sp_BeginTime (l_Spec jlease) = None \<or> sp_BeginTime (l_Spec jlease) \<noteq> sp_BeginTime (l_Spec desired))
      then Inl (Errorf ''cannot update BeginTime: lease has already started'')
      else Inr (jlease\<lparr>l_Spec := (l_Spec jlease)
        \<lparr>sp_BeginTime := (if pl_BeginTime lease \<noteq> None then sp_BeginTime (l_Spec desired) else sp_BeginTime (l_Spec jlease)),
         sp_Duration := (if pl_Duration lease \<noteq> None then sp_Duration (l_Spec desired) else sp_Duration (l_Spec jlease)),
         sp_EndTime := (if pl_EndTime lease \<noteq> None then sp_EndTime (l_Spec desired) else sp_EndTime (l_Spec jlease))\<rparr>\<rparr>))"

text \<open>The transfer to a new client.\<close>

definition transfer_lease :: "'s kube \<Rightarrow> 's \<Rightarrow> NamespacedName \<Rightarrow> cpbLease \<Rightarrow> Lease \<Rightarrow> goerror + Lease" where
  "transfer_lease k s key lease jlease =
     (case pl_Client lease of
        None \<Rightarrow> Inr jlease
      | Some newClient \<Rightarrow>
          if newClient = [] then Inr jlease
          else if st_ExporterRef (l_Status jlease) = None
          then Inl (Errorf ''cannot transfer lease: lease has not started yet'')
          else if st_Ended (l_Status jlease)
          then Inl (Errorf ''cannot transfer lease: lease has already ended'')
          else
            (case ParseClientIdentifier newClient of
               Inl err \<Rightarrow> Inl err
             | Inr newClientKey \<Rightarrow>
                 if nn_Namespace newClientKey \<noteq> nn_Namespace key
                 then Inl (Errorf ''cannot transfer lease to client in different namespace'')
                 else
                   (case k_getClient k s newClientKey of
                      Inl err \<Rightarrow> Inl (WrapError ''target client not found: '' err)
                    | Inr _ \<Rightarrow> Inr (jlease\<lparr>l_Spec := (l_Spec jlease)\<lparr>sp_ClientRef := nn_Name newClientKey\<rparr>\<rparr>))))"

text \<open>Everything between the permission check and the patch.\<close>

definition updated_lease :: "'s kube \<Rightarrow> ext \<Rightarrow> 's \<Rightarrow> NamespacedName \<Rightarrow> string \<Rightarrow> cpbLease \<Rightarrow> Lease \<Rightarrow> goerror + Lease" where
  "updated_lease k x s key client lease jlease =
     (case LeaseFromProtobuf x lease key client of
        Inl err \<Rightarrow> Inl err
      | Inr desired \<Rightarrow>
          (case update_times lease desired jlease of
             Inl err \<Rightarrow> Inl err
           | Inr jlease1 \<Rightarrow>
               (case transfer_lease k s key lease jlease1 of
                  Inl err \<Rightarrow> Inl err
                | Inr jlease2 \<Rightarrow>
                    (case ReconcileLeaseTimeFields (sp_BeginTime (l_Spec jlease2)) (sp_EndTime (l_Spec jlease2))
                            (sp_Duration (l_Spec jlease2)) of
                       (Some err, _, _, _) \<Rightarrow> Inl err
                     | (None, b, e, d) \<Rightarrow>
                         Inr (jlease2\<lparr>l_Spec := (l_Spec jlease2)\<lparr>sp_BeginTime := b, sp_EndTime := e, sp_Duration := d\<rparr>\<rparr>)))))"

definition UpdateLease ::
  "'s kube \<Rightarrow> ext \<Rightarrow> auth_config \<Rightarrow> time \<Rightarrow> 's \<Rightarrow> Context \<Rightarrow> cpbLease option \<Rightarrow> (goerror + cpbLease) \<times> 's" where
  "UpdateLease k x au now s ctx req =
     (case req of
        None \<Rightarrow> (Inl (Panic ''invalid memory address or nil pointer dereference''), s)
      | Some lease \<Rightarrow>
          (case ParseLeaseIdentifier (pl_Name lease) of
             Inl err \<Rightarrow> (Inl err, s)
           | Inr key \<Rightarrow>
               (case AuthClient k au s ctx (nn_Namespace key) of
                  (Inl err, s1) \<Rightarrow> (Inl err, s1)
                | (Inr jclient, s1) \<Rightarrow>
                    (case k_getLease k s1 key of
                       Inl err \<Rightarrow> (Inl err, s1)
                     | Inr jlease \<Rightarrow>
                         if sp_ClientRef (l_Spec jlease) \<noteq> om_Name (cl_Meta jclient)
                         then (Inl (Errorf ''UpdateLease permission denied''), s1)
                         else
                           (case updated_lease k x s1 key (om_Name (cl_Meta jclient)) lease jlease of
                              Inl err \<Rightarrow> (Inl err, s1)
                            | Inr jlease1 \<Rightarrow>
                                (case k_patchLease k s1 jlease1 jlease of
                                   (Inl err, s2) \<Rightarrow> (Inl err, s2)
                                 | (Inr jlease2, s2) \<Rightarrow> (Inr (Lease_ToProtobuf x now jlease2), s2)))))))"

definition DeleteLease ::
  "'s kube \<Rightarrow> auth_config \<Rightarrow> 's \<Rightarrow> Context \<Rightarrow> string \<Rightarrow> (goerror + unit) \<times> 's" where
  "DeleteLease k au s ctx name =
     (case ParseLeaseIdentifier name of
        Inl err \<Rightarrow> (Inl err, s)
      | Inr key \<Rightarrow>
          (case AuthClient k au s ctx (nn_Namespace key) of
             (Inl err, s1) \<Rightarrow> (Inl err, s1)
           | (Inr jclient, s1) \<Rightarrow>
               (case k_getLease k s1 key of
                  Inl err \<Rightarrow> (Inl err, s1)
                | Inr jlease \<Rightarrow>
                    if sp_ClientRef (l_Spec jlease) \<noteq> om_Name (cl_Meta jclient)
                    then (Inl (Errorf ''DeleteLease permission denied''), s1)
                    else
                      (case k_patchLease k s1 (jlease\<lparr>l_Spec := (l_Spec jlease)\<lparr>sp_Release := True\<rparr>\<rparr>) jlease of
                         (Inl err, s2) \<Rightarrow> (Inl err, s2)
                       | (Inr _, s2) \<Rightarrow> (Inr (), s2)))))"

section \<open>What the handlers rely on of the API server\<close>

text \<open>
  The handlers have a client of their own, without a cache: a get answers with the object as
  stored. A created lease is stored under its key with an empty status; a merge patch made
  from the object as stored changes metadata and spec to those sent and leaves the status
  alone; creating a client leaves the leases alone.
\<close>

definition create_law :: "'s kube \<Rightarrow> ('s \<Rightarrow> NamespacedName \<Rightarrow> Lease option) \<Rightarrow> bool" where
  "create_law k view \<longleftrightarrow>
     (\<forall>s l. case k_createLease k s l of
        (Inl _, s') \<Rightarrow> view s' = view s
      | (Inr l2, s') \<Rightarrow> view s (key_of (l_Meta l)) = None \<and> view s' = (view s)(key_of (l_Meta l) \<mapsto> l2) \<and>
          l_Status l2 = zero_LeaseStatus \<and> l_Spec l2 = l_Spec l \<and> om_Labels (l_Meta l2) = om_Labels (l_Meta l))"

definition patch_law :: "'s kube \<Rightarrow> ('s \<Rightarrow> NamespacedName \<Rightarrow> Lease option) \<Rightarrow> bool" where
  "patch_law k view \<longleftrightarrow>
     (\<forall>s l orig. view s (key_of (l_Meta l)) = Some orig \<longrightarrow>
        (case k_patchLease k s l orig of
           (Inl _, s') \<Rightarrow> view s' = view s
         | (Inr l2, s') \<Rightarrow> view s' = (view s)(key_of (l_Meta l) \<mapsto> l2) \<and> l_Status l2 = l_Status orig \<and>
             l_Spec l2 = l_Spec l \<and> om_Labels (l_Meta l2) = om_Labels (l_Meta l)))"

definition service_store :: "'s kube \<Rightarrow> ('s \<Rightarrow> NamespacedName \<Rightarrow> Lease option) \<Rightarrow> bool" where
  "service_store k view \<longleftrightarrow>
     (\<forall>s n l. view s n = Some l \<longrightarrow> key_of (l_Meta l) = n) \<and>
     (\<forall>s n l. k_getLease k s n = Inr l \<longrightarrow> view s n = Some l) \<and>
     create_law k view \<and> patch_law k view \<and>
     (\<forall>s c. view (snd (k_createClient k s c)) = view s)"

lemma service_store_client: "service_store k view \<Longrightarrow> k_createClient k s c = (r, s') \<Longrightarrow> view s' = view s"
  unfolding service_store_def by (metis snd_conv)

lemma service_store_create:
  assumes "service_store k view" "k_createLease k s l = (Inr l2, s')"
  shows "view s (key_of (l_Meta l)) = None" "view s' = (view s)(key_of (l_Meta l) \<mapsto> l2)"
    "l_Status l2 = zero_LeaseStatus" "l_Spec l2 = l_Spec l" "om_Labels (l_Meta l2) = om_Labels (l_Meta l)"
  using assms by (auto simp: service_store_def create_law_def dest!: spec [of _ s] spec [of _ l])

lemma service_store_create_Inl:
  "service_store k view \<Longrightarrow> k_createLease k s l = (Inl e, s') \<Longrightarrow> view s' = view s"
  by (auto simp: service_store_def create_law_def dest!: spec [of _ s] spec [of _ l])

lemma patch_law_at:
  assumes "service_store k view" "k_getLease k s key = Inr orig" "l_Meta l = l_Meta orig"
  shows "view s key = Some orig" "case k_patchLease k s l orig of
      (Inl _, s') \<Rightarrow> view s' = view s
    | (Inr l2, s') \<Rightarrow> view s' = (view s)(key \<mapsto> l2) \<and> l_Status l2 = l_Status orig \<and> l_Spec l2 = l_Spec l \<and>
        om_Labels (l_Meta l2) = om_Labels (l_Meta l)"
proof -
  show v: "view s key = Some orig" using assms(1,2) by (simp add: service_store_def)
  have key: "key_of (l_Meta l) = key" using assms(1,3) v by (simp add: service_store_def)
  from assms(1) have "patch_law k view" by (simp add: service_store_def)
  from this [unfolded patch_law_def, rule_format, of s l orig, unfolded key, OF v] show "case k_patchLease k s l orig of
      (Inl _, s') \<Rightarrow> view s' = view s
    | (Inr l2, s') \<Rightarrow> view s' = (view s)(key \<mapsto> l2) \<and> l_Status l2 = l_Status orig \<and> l_Spec l2 = l_Spec l \<and>
        om_Labels (l_Meta l2) = om_Labels (l_Meta l)" .
qed

lemma service_store_patch:
  assumes "service_store k view" "k_getLease k s key = Inr orig" "l_Meta l = l_Meta orig"
    "k_patchLease k s l orig = (Inr l2, s')"
  shows "view s key = Some orig" "view s' = (view s)(key \<mapsto> l2)" "l_Status l2 = l_Status orig" "l_Spec l2 = l_Spec l"
    "om_Labels (l_Meta l2) = om_Labels (l_Meta orig)"
  using patch_law_at [OF assms(1-3)] assms(3,4) by simp_all

lemma service_store_patch_Inl:
  assumes "service_store k view" "k_getLease k s key = Inr orig" "l_Meta l = l_Meta orig"
    "k_patchLease k s l orig = (Inl e, s')"
  shows "view s' = view s"
  using patch_law_at(2) [OF assms(1-3)] assms(4) by simp

section \<open>The handlers and the history of the cluster\<close>

lemma VerifyObjectToken_view:
  assumes "service_store k view" "VerifyObjectToken k au kind get s ctx = (r, s')"
  shows "view s' = view s"
proof -
  have "view (snd (Authorize k au s a)) = view s" for a
    using service_store_client [OF assms(1)]
    by (auto simp: Authorize_def Let_def split: sum.splits prod.splits if_splits)
  with assms(2) show ?thesis
    unfolding VerifyObjectToken_def by (auto split: sum.splits prod.splits option.splits if_splits) (metis snd_conv)+
qed

lemma AuthClient_view:
  assumes "service_store k view" "AuthClient k au s ctx ns = (r, s')"
  shows "view s' = view s"
  using assms(2) VerifyObjectToken_view [OF assms(1)]
  by (auto simp: AuthClient_def VerifyClientObjectToken_def split: sum.splits prod.splits if_splits)

lemma AuthClient_unprovisioned:
  assumes "\<not> au_provisioning au"
  shows "snd (AuthClient k au s ctx ns) = s"
proof -
  have a: "snd (Authorize k au s a) = s" for a
    using assms by (auto simp: Authorize_def Let_def split: sum.split prod.split)
  have v: "snd (VerifyObjectToken k au kind get s ctx) = s" for kind and get :: "'a \<Rightarrow> NamespacedName \<Rightarrow> goerror + Client"
    unfolding VerifyObjectToken_def
    by (auto split: sum.splits prod.splits option.splits) (metis a snd_conv)+
  show ?thesis
    by (auto simp: AuthClient_def VerifyClientObjectToken_def split: sum.splits prod.splits) (metis v snd_conv)+
qed

lemma authenticateClient_view:
  "service_store k view \<Longrightarrow> authenticateClient k au s ctx = (r, s') \<Longrightarrow> view s' = view s"
  unfolding authenticateClient_def VerifyClientObjectToken_def by (rule VerifyObjectToken_view)

text \<open>The two ways a handler writes to the leases.\<close>

lemma patch_cluster_step:
  assumes "service_store h view" "k_getLease h s1 key = Inr orig" "l_Meta l = l_Meta orig"
    "k_patchLease h s1 l orig = (r, s')" "view s1 = view s"
  shows "cluster_step k x view s s'"
proof (cases r)
  case (Inl e)
  with assms service_store_patch_Inl [OF assms(1-3)] show ?thesis by (intro cluster_step.other) simp
next
  case (Inr l2)
  with service_store_patch [OF assms(1-3)] assms(4,5) show ?thesis
    by (intro cluster_step.edit [of _ _ key orig l2]) simp_all
qed

lemma create_cluster_step:
  assumes "service_store h view" "k_createLease h s1 l = (r, s')" "view s1 = view s"
  shows "cluster_step k x view s s'"
proof (cases r)
  case (Inl e)
  with assms service_store_create_Inl [OF assms(1)] show ?thesis by (intro cluster_step.other) simp
next
  case (Inr l2)
  note c = service_store_create [OF assms(1) assms(2) [unfolded Inr]]
  from c assms(3) show ?thesis
    by (intro cluster_step.create [of view s "key_of (l_Meta l)" l2]) simp_all
qed

lemma LeaseFromProtobuf_Inr:
  assumes "LeaseFromProtobuf x req key c = Inr l"
  shows "l_Meta l = zero_ObjectMeta\<lparr>om_Namespace := nn_Namespace key, om_Name := nn_Name key\<rparr>"
    "sp_ClientRef (l_Spec l) = c" "\<not> sp_Release (l_Spec l)" "ParseLabelSelector x (pl_Selector req) = Inr (sp_Selector (l_Spec l))"
    "ReconcileLeaseTimeFields (map_option (x_AsTime x) (pl_BeginTime req)) (map_option (x_AsTime x) (pl_EndTime req))
       (map_option (x_AsDuration x) (pl_Duration req)) =
       (None, sp_BeginTime (l_Spec l), sp_EndTime (l_Spec l), sp_Duration (l_Spec l))"
  using assms by (auto simp: LeaseFromProtobuf_def split: sum.splits prod.splits option.splits)

lemma update_times_Inr:
  "update_times lease desired l = Inr l' \<Longrightarrow> l_Meta l' = l_Meta l \<and> l_Status l' = l_Status l \<and>
     sp_Selector (l_Spec l') = sp_Selector (l_Spec l) \<and> sp_Release (l_Spec l') = sp_Release (l_Spec l) \<and>
     sp_ClientRef (l_Spec l') = sp_ClientRef (l_Spec l)"
  by (auto simp: update_times_def split: if_splits)

lemma transfer_lease_Inr:
  assumes "transfer_lease k s key lease l = Inr l'"
  shows "l' = l \<or> (\<exists>c new. st_ExporterRef (l_Status l) \<noteq> None \<and> \<not> st_Ended (l_Status l) \<and>
      k_getClient k s \<lparr>nn_Namespace = nn_Namespace key, nn_Name = new\<rparr> = Inr c \<and>
      l' = l\<lparr>l_Spec := (l_Spec l)\<lparr>sp_ClientRef := new\<rparr>\<rparr>)"
  using assms
  by (cases "pl_Client lease")
    (auto simp: transfer_lease_def split: sum.splits if_splits, metis NamespacedName.surjective old.unit.exhaust)

lemma updated_lease_Inr:
  assumes "updated_lease k x s key client lease l = Inr l'"
  shows "l_Meta l' = l_Meta l \<and> l_Status l' = l_Status l"
    "sp_Selector (l_Spec l') = sp_Selector (l_Spec l) \<and> sp_Release (l_Spec l') = sp_Release (l_Spec l)"
    "sp_ClientRef (l_Spec l') = sp_ClientRef (l_Spec l) \<or> (st_ExporterRef (l_Status l) \<noteq> None \<and> \<not> st_Ended (l_Status l) \<and>
       (\<exists>c. k_getClient k s \<lparr>nn_Namespace = nn_Namespace key, nn_Name = sp_ClientRef (l_Spec l')\<rparr> = Inr c))"
proof -
  from assms obtain desired l1 l2 b e d where
    step: "update_times lease desired l = Inr l1" "transfer_lease k s key lease l1 = Inr l2"
      "l' = l2\<lparr>l_Spec := (l_Spec l2)\<lparr>sp_BeginTime := b, sp_EndTime := e, sp_Duration := d\<rparr>\<rparr>"
    by (auto simp: updated_lease_def split: sum.splits prod.splits option.splits)
  note t = update_times_Inr [OF step(1)]
  from transfer_lease_Inr [OF step(2)] t step(3)
  show "l_Meta l' = l_Meta l \<and> l_Status l' = l_Status l"
    "sp_Selector (l_Spec l') = sp_Selector (l_Spec l) \<and> sp_Release (l_Spec l') = sp_Release (l_Spec l)"
    by auto
  from transfer_lease_Inr [OF step(2)] t step(3)
  show "sp_ClientRef (l_Spec l') = sp_ClientRef (l_Spec l) \<or> (st_ExporterRef (l_Status l) \<noteq> None \<and> \<not> st_Ended (l_Status l) \<and>
       (\<exists>c. k_getClient k s \<lparr>nn_Namespace = nn_Namespace key, nn_Name = sp_ClientRef (l_Spec l')\<rparr> = Inr c))"
    by auto
qed

text \<open>A successful update, taken apart.\<close>

lemma UpdateLease_Inr:
  assumes "UpdateLease k x au now s ctx req = (Inr resp, s')"
  obtains lease key client s1 jlease l1 l2 where "req = Some lease" "ParseLeaseIdentifier (pl_Name lease) = Inr key"
    "AuthClient k au s ctx (nn_Namespace key) = (Inr client, s1)" "k_getLease k s1 key = Inr jlease"
    "sp_ClientRef (l_Spec jlease) = om_Name (cl_Meta client)"
    "updated_lease k x s1 key (om_Name (cl_Meta client)) lease jlease = Inr l1"
    "k_patchLease k s1 l1 jlease = (Inr l2, s')" "resp = Lease_ToProtobuf x now l2"
  using assms by (auto simp: UpdateLease_def split: option.splits sum.splits prod.splits if_splits)

lemma UpdateLease_step:
  assumes st: "service_store h view" and up: "UpdateLease h x0 au now s ctx req = (r, s')"
  shows "cluster_step k x view s s'"
proof -
  from up consider "s' = s" | ns r1 where "AuthClient h au s ctx ns = (r1, s')"
    | key lease client s1 jlease l1 r1 where "AuthClient h au s ctx (nn_Namespace key) = (Inr client, s1)"
        "k_getLease h s1 key = Inr jlease" "updated_lease h x0 s1 key (om_Name (cl_Meta client)) lease jlease = Inr l1"
        "k_patchLease h s1 l1 jlease = (r1, s')"
    by (auto simp: UpdateLease_def split: option.splits sum.splits prod.splits if_splits)
  then show ?thesis
  proof cases
    case 1
    then show ?thesis by (intro cluster_step.other) simp
  next
    case (2 ns r1)
    with AuthClient_view [OF st] show ?thesis by (intro cluster_step.other) blast
  next
    case (3 key lease client s1 jlease l1 r1)
    from updated_lease_Inr(1) [OF 3(3)] patch_cluster_step [OF st 3(2) _ 3(4) AuthClient_view [OF st 3(1)]]
    show ?thesis by simp
  qed
qed

lemma DeleteLease_step:
  assumes st: "service_store h view" and up: "DeleteLease h au s ctx name = (r, s')"
  shows "cluster_step k x view s s'"
proof -
  from up consider "s' = s" | ns r1 where "AuthClient h au s ctx ns = (r1, s')"
    | key client s1 jlease r1 where "AuthClient h au s ctx (nn_Namespace key) = (Inr client, s1)"
        "k_getLease h s1 key = Inr jlease"
        "k_patchLease h s1 (jlease\<lparr>l_Spec := (l_Spec jlease)\<lparr>sp_Release := True\<rparr>\<rparr>) jlease = (r1, s')"
    by (auto simp: DeleteLease_def split: sum.splits prod.splits if_splits)
  then show ?thesis
  proof cases
    case 1
    then show ?thesis by (intro cluster_step.other) simp
  next
    case (2 ns r1)
    with AuthClient_view [OF st] show ?thesis by (intro cluster_step.other) blast
  next
    case (3 key client s1 jlease r1)
    from patch_cluster_step [OF st 3(2) _ 3(3) AuthClient_view [OF st 3(1)]] show ?thesis by simp
  qed
qed

lemma ReleaseLease_step:
  assumes st: "service_store h view" and up: "ReleaseLease h au s ctx name = (r, s')"
  shows "cluster_step k x view s s'"
proof -
  from up consider r1 where "authenticateClient h au s ctx = (r1, s')"
    | key client s1 jlease r1 where "authenticateClient h au s ctx = (Inr client, s1)"
        "k_getLease h s1 key = Inr jlease"
        "k_patchLease h s1 (jlease\<lparr>l_Spec := (l_Spec jlease)\<lparr>sp_Release := True\<rparr>\<rparr>) jlease = (r1, s')"
    by (auto simp: ReleaseLease_def split: sum.splits prod.splits if_splits)
  then show ?thesis
  proof cases
    case (1 r1)
    with authenticateClient_view [OF st] show ?thesis by (intro cluster_step.other) blast
  next
    case (2 key client s1 jlease r1)
    from patch_cluster_step [OF st 2(2) _ 2(3) authenticateClient_view [OF st 2(1)]] show ?thesis by simp
  qed
qed

lemma RequestLease_step:
  assumes st: "service_store h view" and up: "RequestLease h x0 au uuid s ctx req = (r, s')"
  shows "cluster_step k x view s s'"
proof -
  from up consider r1 where "authenticateClient h au s ctx = (r1, s')"
    | client s1 l r1 where "authenticateClient h au s ctx = (Inr client, s1)"
        "k_createLease h s1 l = (r1, s')"
    by (auto simp: RequestLease_def split: sum.splits prod.splits)
  then show ?thesis
  proof cases
    case (1 r1)
    with authenticateClient_view [OF st] show ?thesis by (intro cluster_step.other) blast
  next
    case (2 client s1 l r1)
    from create_cluster_step [OF st 2(2) authenticateClient_view [OF st 2(1)]] show ?thesis .
  qed
qed

lemma CreateLease_step:
  assumes st: "service_store h view" and up: "CreateLease h x0 au now uuid s ctx req = (r, s')"
  shows "cluster_step k x view s s'"
proof -
  from up consider "s' = s" | ns r1 where "AuthClient h au s ctx ns = (r1, s')"
    | ns client s1 l r1 where "AuthClient h au s ctx ns = (Inr client, s1)" "k_createLease h s1 l = (r1, s')"
    by (auto simp: CreateLease_def split: option.splits sum.splits prod.splits)
  then show ?thesis
  proof cases
    case 1
    then show ?thesis by (intro cluster_step.other) simp
  next
    case (2 ns r1)
    with AuthClient_view [OF st] show ?thesis by (intro cluster_step.other) blast
  next
    case (3 ns client s1 l r1)
    from create_cluster_step [OF st 3(2) AuthClient_view [OF st 3(1)]] show ?thesis .
  qed
qed

text \<open>A call of one of the handlers that write leases, by any caller and with any outcome.\<close>

inductive lease_call :: "'s kube \<Rightarrow> ext \<Rightarrow> auth_config \<Rightarrow> 's \<Rightarrow> 's \<Rightarrow> bool" for k x au where
  request: "RequestLease k x au uuid s ctx req = (r1, s') \<Longrightarrow> lease_call k x au s s'"
| release: "ReleaseLease k au s ctx name = (r2, s') \<Longrightarrow> lease_call k x au s s'"
| create: "CreateLease k x au now uuid s ctx creq = (r3, s') \<Longrightarrow> lease_call k x au s s'"
| update: "UpdateLease k x au now s ctx ureq = (r4, s') \<Longrightarrow> lease_call k x au s s'"
| delete: "DeleteLease k au s ctx name = (r5, s') \<Longrightarrow> lease_call k x au s s'"

lemma lease_call_step: "lease_call h x' au s s' \<Longrightarrow> service_store h view \<Longrightarrow> cluster_step k x view s s'"
  by (induction rule: lease_call.induct)
    (auto intro: RequestLease_step ReleaseLease_step CreateLease_step UpdateLease_step DeleteLease_step)

text \<open>
  A history of the running system: reconciles of leases, by passes whose list of active leases
  shows the holders, and calls of the handlers. The reconciler reads through the cached client
  of the manager (\<open>k\<close>), the handlers through their own (\<open>h\<close>).
\<close>

inductive system_step ::
  "'s kube \<Rightarrow> 's kube \<Rightarrow> ext \<Rightarrow> auth_config \<Rightarrow> ('s \<Rightarrow> NamespacedName \<Rightarrow> Lease option) \<Rightarrow> 's \<Rightarrow> 's \<Rightarrow> bool"
  for k h x au view where
  reconcile: "Lease_Reconcile k x c s req = (res, s') \<Longrightarrow> sees_holders k view s req \<Longrightarrow> system_step k h x au view s s'"
| call: "lease_call h x au s s' \<Longrightarrow> system_step k h x au view s s'"

inductive_cases system_stepE: "system_step k h x au view s s'"

text \<open>
  C7: Whatever clients ask of the lease handlers of both API versions (successful or not), and
  in whatever order the calls and the reconciles run, no two leases of a namespace that have
  not ended come to have the same exporter, if none did before and each reconcile reads a list
  of active leases that shows the holders at that moment (the reconciler lists through a cache
  that may lag behind; the handlers read the API server itself). So no sequence of client calls
  gives out an exporter twice.
\<close>

theorem handlers_keep_exclusion:
  assumes "(system_step k h x au view)\<^sup>*\<^sup>* s s'" "lease_store k view" "service_store h view" "ctrlref_ok x"
    and "exclusive (view s)"
  shows "exclusive (view s')"
  using assms(1)
proof induction
  case base
  with assms(5) show ?case by simp
next
  case (step y z)
  from step.hyps(2) have "cluster_step k x view y z"
    by (cases rule: system_stepE) (auto intro: cluster_step.reconcile lease_call_step [OF _ assms(3)])
  then show ?case using assms(2,4) step.IH by (rule cluster_step_exclusive)
qed

section \<open>Properties of the handlers\<close>

text \<open>A \<open>metav1.Duration\<close> is a 64-bit number, in a request and in a stored lease.\<close>

definition durations_ok :: "'s kube \<Rightarrow> ext \<Rightarrow> bool" where
  "durations_ok k x \<longleftrightarrow> (\<forall>p. is_int64 (x_AsDuration x p)) \<and>
     (\<forall>s n l d. k_getLease k s n = Inr l \<longrightarrow> sp_Duration (l_Spec l) = Some d \<longrightarrow> is_int64 d)"

lemma request_times_consistent:
  assumes "LeaseFromProtobuf x req key c = Inr l" "durations_ok k x"
  shows "time_fields_consistent (sp_BeginTime (l_Spec l)) (sp_EndTime (l_Spec l)) (sp_Duration (l_Spec l))"
  using ReconcileLeaseTimeFields_sound(1) [OF LeaseFromProtobuf_Inr(5) [OF assms(1)]] assms(2)
  by (auto simp: durations_ok_def)

lemma consistent_int64: "time_fields_consistent b e (Some d) \<Longrightarrow> e \<noteq> None \<Longrightarrow> is_int64 d"
  by (auto simp: time_fields_consistent_def time_Sub_int64 split: option.splits)

lemma desired_duration_int64:
  assumes "LeaseFromProtobuf x req key c = Inr l" "durations_ok k x" "sp_Duration (l_Spec l) = Some d"
  shows "is_int64 d"
proof (cases "sp_EndTime (l_Spec l)")
  case None
  have i: "\<forall>v. map_option (x_AsDuration x) (pl_Duration req) = Some v \<longrightarrow> is_int64 v"
    using assms(2) by (auto simp: durations_ok_def)
  from None ReconcileLeaseTimeFields_sound(2,5) [OF LeaseFromProtobuf_Inr(5) [OF assms(1)] i] assms(3)
  have "map_option (x_AsDuration x) (pl_Duration req) = Some d" by simp
  with i show ?thesis by blast
next
  case (Some e)
  with consistent_int64 request_times_consistent [OF assms(1,2)] assms(3) show ?thesis by fastforce
qed

lemma updated_lease_times:
  assumes up: "updated_lease k x s key client lease l = Inr l'" and ok: "durations_ok k x"
    and get: "k_getLease k s0 n = Inr l"
  shows "time_fields_consistent (sp_BeginTime (l_Spec l')) (sp_EndTime (l_Spec l')) (sp_Duration (l_Spec l'))"
proof -
  from up obtain desired l1 l2 b e d where
    step: "LeaseFromProtobuf x lease key client = Inr desired" "update_times lease desired l = Inr l1"
      "transfer_lease k s key lease l1 = Inr l2"
    and rec: "ReconcileLeaseTimeFields (sp_BeginTime (l_Spec l2)) (sp_EndTime (l_Spec l2)) (sp_Duration (l_Spec l2)) = (None, b, e, d)"
    and l': "l' = l2\<lparr>l_Spec := (l_Spec l2)\<lparr>sp_BeginTime := b, sp_EndTime := e, sp_Duration := d\<rparr>\<rparr>"
    by (auto simp: updated_lease_def split: sum.splits prod.splits option.splits)
  have "sp_Duration (l_Spec l2) = sp_Duration (l_Spec l1)" using transfer_lease_Inr [OF step(3)] by auto
  moreover have "sp_Duration (l_Spec l1) \<in> {sp_Duration (l_Spec desired), sp_Duration (l_Spec l)}"
    using step(2) by (auto simp: update_times_def split: if_splits)
  moreover have "\<forall>v. sp_Duration (l_Spec l) = Some v \<longrightarrow> is_int64 v"
    using ok get unfolding durations_ok_def by blast
  ultimately have "\<forall>v. sp_Duration (l_Spec l2) = Some v \<longrightarrow> is_int64 v"
    using desired_duration_int64 [OF step(1) ok] by auto
  from ReconcileLeaseTimeFields_sound(1) [OF rec this] l' show ?thesis by simp
qed

text \<open>
  C23: An \<open>UpdateLease\<close> that succeeds was made by the owner of the lease. What it sends keeps
  metadata, status, selector and release mark, has consistent time fields, and names another
  client only if the lease has an exporter, has not ended, and that client exists in the same
  namespace.
\<close>

theorem update_lease_effect:
  assumes "UpdateLease k x au now s ctx (Some lease) = (Inr resp, s')" "durations_ok k x"
  shows "\<exists>key client s1 l l1 l2. ParseLeaseIdentifier (pl_Name lease) = Inr key \<and>
    AuthClient k au s ctx (nn_Namespace key) = (Inr client, s1) \<and> k_getLease k s1 key = Inr l \<and>
    sp_ClientRef (l_Spec l) = om_Name (cl_Meta client) \<and>
    k_patchLease k s1 l1 l = (Inr l2, s') \<and> resp = Lease_ToProtobuf x now l2 \<and>
    l_Meta l1 = l_Meta l \<and> l_Status l1 = l_Status l \<and>
    sp_Selector (l_Spec l1) = sp_Selector (l_Spec l) \<and> sp_Release (l_Spec l1) = sp_Release (l_Spec l) \<and>
    time_fields_consistent (sp_BeginTime (l_Spec l1)) (sp_EndTime (l_Spec l1)) (sp_Duration (l_Spec l1)) \<and>
    (sp_ClientRef (l_Spec l1) \<noteq> sp_ClientRef (l_Spec l) \<longrightarrow>
       st_ExporterRef (l_Status l) \<noteq> None \<and> \<not> st_Ended (l_Status l) \<and>
       (\<exists>c. k_getClient k s1 \<lparr>nn_Namespace = nn_Namespace key, nn_Name = sp_ClientRef (l_Spec l1)\<rparr> = Inr c))"
  using assms(1)
proof (cases rule: UpdateLease_Inr)
  case (1 lease' key client s1 l l1 l2)
  note u = updated_lease_Inr [OF 1(6)] updated_lease_times [OF 1(6) assms(2) 1(4)]
  show ?thesis
    by (rule exI [of _ key], rule exI [of _ client], rule exI [of _ s1], rule exI [of _ l], rule exI [of _ l1],
        rule exI [of _ l2]) (use 1 u in auto)
qed

text \<open>
  C26: An \<open>UpdateLease\<close> whose request carries no duration, and not both a begin and an end,
  fails whatever the stored lease has, since fields that are left out are not kept from the
  stored lease. It writes no lease: all that can have changed is what authenticating the
  caller changes, which is the client object it creates where provisioning is enabled and
  nothing otherwise.
\<close>

theorem update_without_duration_rejected:
  assumes "pl_Duration lease = None" "pl_BeginTime lease = None \<or> pl_EndTime lease = None"
  shows "\<exists>err s'. UpdateLease k x au now s ctx (Some lease) = (Inl err, s') \<and>
    (s' = s \<or> (\<exists>ns. s' = snd (AuthClient k au s ctx ns))) \<and>
    (\<not> au_provisioning au \<longrightarrow> s' = s) \<and>
    (service_store k view \<longrightarrow> view s' = view s)"
proof -
  have "\<exists>err. LeaseFromProtobuf x lease key c = Inl err" for key c
  proof (cases "LeaseFromProtobuf x lease key c")
    case (Inr l)
    from ReconcileLeaseTimeFields_ok_iff [of "map_option (x_AsTime x) (pl_BeginTime lease)"
        "map_option (x_AsTime x) (pl_EndTime lease)" "map_option (x_AsDuration x) (pl_Duration lease)"]
      LeaseFromProtobuf_Inr(5) [OF Inr] assms
    show ?thesis by (auto simp: time_fields_accepted_def split: option.splits)
  qed simp
  then have "\<exists>err. updated_lease k x s1 key c lease l = Inl err" for s1 key c l
    by (metis (no_types, lifting) old.sum.simps(5) updated_lease_def)
  then have "\<exists>err s'. UpdateLease k x au now s ctx (Some lease) = (Inl err, s') \<and>
      (s' = s \<or> (\<exists>ns. s' = snd (AuthClient k au s ctx ns)))"
    by (auto simp: UpdateLease_def split: sum.splits prod.splits) (metis Inl_Inr_False snd_conv)+
  then obtain err s' where u: "UpdateLease k x au now s ctx (Some lease) = (Inl err, s')"
      "s' = s \<or> (\<exists>ns. s' = snd (AuthClient k au s ctx ns))"
    by (elim exE conjE) (rule that)
  moreover from u(2) have "s' = s" if "\<not> au_provisioning au"
    using AuthClient_unprovisioned [OF that] by metis
  moreover from u(2) have "view s' = view s" if "service_store k view"
    using AuthClient_view [OF that prod.collapse [symmetric]] by metis
  ultimately show ?thesis by blast
qed

text \<open>
  The begin of a lease that has started can still be changed: if its spec has none, a
  request with an end and a positive duration, and no begin, sets it to the difference, whereas
  a request that names that begin itself is refused.
\<close>

theorem started_lease_begin_changes:
  assumes "st_ExporterRef (l_Status l) \<noteq> None" "sp_BeginTime (l_Spec l) = None"
    and "pl_BeginTime lease = None" "pl_EndTime lease = Some e" "pl_Duration lease = Some d" "pl_Client lease = None"
    and "0 < x_AsDuration x d" "is_int64 (x_AsDuration x d)" "ParseLabelSelector x (pl_Selector lease) = Inr sel"
  shows "(\<exists>l'. updated_lease k x s key client lease l = Inr l' \<and>
       sp_BeginTime (l_Spec l') = Some (x_AsTime x e - x_AsDuration x d)) \<and>
    updated_lease k x s key client (lease\<lparr>pl_BeginTime := Some b, pl_Duration := None, pl_EndTime := None\<rparr>) l \<noteq> Inr l2"
proof
  have w: "wrap64 (- x_AsDuration x d) = - x_AsDuration x d"
    using assms(7,8) by (intro wrap64_id) (simp add: is_int64_def minInt64_def maxInt64_def)
  have r: "ReconcileLeaseTimeFields None (Some (x_AsTime x e)) (Some (x_AsDuration x d)) =
      (None, Some (x_AsTime x e - x_AsDuration x d), Some (x_AsTime x e), Some (x_AsDuration x d))"
    using assms(7) by (simp add: ReconcileLeaseTimeFields_def w time_Add_def)
  with assms show "\<exists>l'. updated_lease k x s key client lease l = Inr l' \<and>
       sp_BeginTime (l_Spec l') = Some (x_AsTime x e - x_AsDuration x d)"
    by (simp add: updated_lease_def LeaseFromProtobuf_def update_times_def transfer_lease_def)
  show "updated_lease k x s key client (lease\<lparr>pl_BeginTime := Some b, pl_Duration := None, pl_EndTime := None\<rparr>) l \<noteq> Inr l2"
    using assms(1,2) by (auto simp: updated_lease_def update_times_def split: sum.splits)
qed

text \<open>
  C24: A lease created by \<open>CreateLease\<close> is one of the authenticated client, in the namespace
  the request names, with a fresh name (the id in the request plays no part), consistent time
  fields with a positive duration, and no release mark.
\<close>

theorem create_lease_effect:
  assumes "CreateLease k x au now uuid s ctx req = (Inr resp, s')" "durations_ok k x"
  shows "\<exists>ns client s1 name l l2. ParseNamespaceIdentifier (clq_Parent req) = Inr ns \<and>
    AuthClient k au s ctx ns = (Inr client, s1) \<and> uuid = Inr name \<and> k_createLease k s1 l = (Inr l2, s') \<and>
    resp = Lease_ToProtobuf x now l2 \<and> key_of (l_Meta l) = \<lparr>nn_Namespace = ns, nn_Name = name\<rparr> \<and>
    sp_ClientRef (l_Spec l) = om_Name (cl_Meta client) \<and> \<not> sp_Release (l_Spec l) \<and>
    time_fields_consistent (sp_BeginTime (l_Spec l)) (sp_EndTime (l_Spec l)) (sp_Duration (l_Spec l))"
proof -
  from assms(1) obtain ns client s1 name lease l l2 where c: "ParseNamespaceIdentifier (clq_Parent req) = Inr ns"
    "AuthClient k au s ctx ns = (Inr client, s1)" "uuid = Inr name"
    "LeaseFromProtobuf x lease \<lparr>nn_Namespace = ns, nn_Name = name\<rparr> (om_Name (cl_Meta client)) = Inr l"
    "k_createLease k s1 l = (Inr l2, s')" "resp = Lease_ToProtobuf x now l2"
    by (auto simp: CreateLease_def split: option.splits sum.splits prod.splits)
  from c LeaseFromProtobuf_Inr [OF c(4)] request_times_consistent [OF c(4) assms(2)] show ?thesis
    by (intro exI [of _ ns] exI [of _ client] exI [of _ s1] exI [of _ name] exI [of _ l] exI [of _ l2])
      (simp add: key_of_def)
qed

text \<open>
  C25: After a \<open>DeleteLease\<close> that succeeds the lease is still stored, with the status it had
  and marked for release, all other leases are as they were, and every later pass of the
  reconciler over it that goes through ends it.
\<close>

theorem deleted_lease_ends:
  assumes "DeleteLease k au s ctx name = (Inr u, s')" "service_store k view" "ParseLeaseIdentifier name = Inr key"
  shows "\<exists>l0 l. view s key = Some l0 \<and> view s' = (view s)(key \<mapsto> l) \<and> l_Status l = l_Status l0 \<and>
    l_Spec l = (l_Spec l0)\<lparr>sp_Release := True\<rparr> \<and>
    (\<forall>k' x c s'' r l'. reconcileStatus k' x c s'' l = Inr (r, l') \<longrightarrow> st_Ended (l_Status l'))"
proof -
  from assms(1,3) obtain client s1 l0 l where d: "AuthClient k au s ctx (nn_Namespace key) = (Inr client, s1)"
    "k_getLease k s1 key = Inr l0"
    "k_patchLease k s1 (l0\<lparr>l_Spec := (l_Spec l0)\<lparr>sp_Release := True\<rparr>\<rparr>) l0 = (Inr l, s')"
    by (auto simp: DeleteLease_def split: sum.splits prod.splits if_splits)
  note p = service_store_patch [OF assms(2) d(2) _ d(3), simplified]
  have "st_Ended (l_Status l')" if "reconcileStatus k' x c s'' l = Inr (r, l')" for k' x c s'' r l'
  proof -
    from that obtain r1 l1 where first: "reconcileStatusExporterRef k' x c s'' zero_Result l = Inr (r1, l1)"
      and last: "reconcileStatusEnded x c r1 (reconcileStatusBeginEndTimes x c l1) = (r, l')"
      by (rule reconcileStatus_elim)
    have "must_end x c (reconcileStatusBeginEndTimes x c l1)"
      using p reconcileStatusExporterRef_spec(1) [OF first] by (simp add: must_end_def reconcileStatusBeginEndTimes_frame)
    with reconcileStatusEnded_ended [OF last] show ?thesis by simp
  qed
  with p AuthClient_view [OF assms(2) d(1)] show ?thesis by (intro exI [of _ l0] exI [of _ l]) auto
qed

text \<open>
  The list options of the client library: an option given later replaces an earlier one of
  its kind, so of several label selectors only the last is used.
\<close>

definition last_selector_wins :: "'s kube \<Rightarrow> bool" where
  "last_selector_wins k \<longleftrightarrow>
     (\<forall>s a sel b c sel'. k_listLeases k s (a @ [MatchingLabelsSelector sel] @ b @ [MatchingLabelsSelector sel'] @ c) =
        k_listLeases k s (a @ b @ [MatchingLabelsSelector sel'] @ c))"

text \<open>
  Unless inactive leases are asked for, the filter of a \<open>ListLeases\<close> request is without
  effect: any two filters that parse give the same answer.
\<close>

theorem list_leases_ignores_filter:
  assumes "last_selector_wins k" "llq_OnlyActive req \<noteq> Some False"
    and "x_labels_Parse x (llq_Filter req) = Inr sel" "x_labels_Parse x filter' = Inr sel'"
  shows "ListLeases k x au clock s ctx (req\<lparr>llq_Filter := filter'\<rparr>) = ListLeases k x au clock s ctx req"
proof -
  have "k_listLeases k s1 (listLeasesOptions ns sl req) =
      k_listLeases k s1 ([InNamespace ns] @ [Limit (llq_PageSize req), Continue (llq_PageToken req)] @ [MatchingActiveLeases] @ [])"
    for s1 ns sl
    using assms(1) [unfolded last_selector_wins_def, rule_format, of s1 "[InNamespace ns]" sl
        "[Limit (llq_PageSize req), Continue (llq_PageToken req)]" _ "[]"] assms(2)
    by (cases "llq_OnlyActive req") (auto simp: listLeasesOptions_def MatchingActiveLeases_def)
  moreover have "listLeasesOptions ns sl (req\<lparr>llq_Filter := filter'\<rparr>) = listLeasesOptions ns sl req" for ns sl
    by (simp add: listLeasesOptions_def)
  ultimately show ?thesis using assms(3,4) by (simp add: ListLeases_def split: sum.split prod.split)
qed

section \<open>Evaluated instances\<close>

lemma mem_create_law: "create_law mem_kube mem_view"
proof -
  have "mem_view (put_leases c (cu_Leases c @ [l\<lparr>l_Status := zero_LeaseStatus\<rparr>])) =
      (mem_view c)(key_of (l_Meta l) \<mapsto> l\<lparr>l_Status := zero_LeaseStatus\<rparr>)"
    if "find (keyed l_Meta (key_of (l_Meta l))) (cu_Leases c) = None" for c l
    using that by (auto simp: mem_view_def find_append fun_eq_iff keyed_iff split: option.splits)
  then show ?thesis
    by (auto simp: create_law_def mem_kube_def mem_put_def mem_create_def mem_view_def split: option.splits)
qed

lemma mem_patch_law: "patch_law mem_kube mem_view"
proof -
  have w: "write_law (\<lambda>c l. mem_put put_leases c (mem_write l_Meta lease_main (cu_Leases c) l)) mem_view keep_status"
    by (rule mem_write_law) (simp_all add: keep_status_def)
  show ?thesis
    unfolding patch_law_def
  proof (intro allI impI)
    fix s and l orig :: Lease
    assume v: "mem_view s (key_of (l_Meta l)) = Some orig"
    obtain r s' where p: "k_patchLease mem_kube s l orig = (r, s')" by (cases "k_patchLease mem_kube s l orig")
    then have q: "mem_put put_leases s (mem_write l_Meta lease_main (cu_Leases s) l) = (r, s')" by (simp add: mem_kube_def)
    show "case k_patchLease mem_kube s l orig of (Inl _, s') \<Rightarrow> mem_view s' = mem_view s
      | (Inr l2, s') \<Rightarrow> mem_view s' = (mem_view s)(key_of (l_Meta l) \<mapsto> l2) \<and> l_Status l2 = l_Status orig \<and>
          l_Spec l2 = l_Spec l \<and> om_Labels (l_Meta l2) = om_Labels (l_Meta l)"
    proof (cases r)
      case (Inl e)
      with p q write_law_Inl [OF w] show ?thesis by auto
    next
      case (Inr l2)
      with write_law_Inr [OF w, of s l l2 s'] q v p show ?thesis by (auto simp: keep_status_def)
    qed
  qed
qed

lemma mem_service_store: "service_store mem_kube mem_view"
proof -
  have "\<forall>s n l. mem_view s n = Some l \<longrightarrow> key_of (l_Meta l) = n"
    by (auto simp: mem_view_def dest: find_keyed_SomeD)
  moreover have "\<forall>s n l. k_getLease mem_kube s n = Inr l \<longrightarrow> mem_view s n = Some l"
    by (auto simp: mem_kube_def mem_get_def mem_view_def split: option.splits)
  moreover have "\<forall>s c. mem_view (snd (k_createClient mem_kube s c)) = mem_view s"
    by (auto simp: mem_kube_def mem_put_def mem_view_def fun_eq_iff split: sum.splits)
  ultimately show ?thesis using mem_create_law mem_patch_law by (simp add: service_store_def)
qed

definition alice_request :: cpbLease where
  "alice_request = \<lparr>pl_Name = ''namespaces/lab/leases/mine'', pl_Selector = ''board=rpi'',
     pl_Duration = Some (120, 0), pl_EffectiveDuration = None, pl_BeginTime = None, pl_EffectiveBeginTime = None,
     pl_EndTime = None, pl_EffectiveEndTime = None, pl_Client = None, pl_Exporter = None, pl_Conditions = []\<rparr>"

definition create_request :: CreateLeaseRequest where
  "create_request = \<lparr>clq_Parent = ''namespaces/lab'', clq_LeaseId = ''wanted'', clq_Lease = Some alice_request\<rparr>"

definition created_lab :: cluster where
  "created_lab = snd (CreateLease mem_kube mem_ext plain_auth 0 (Inr ''u-1'') idle_lab alice_ctx create_request)"

definition served_lab :: cluster where
  "served_lab = snd (Lease_Reconcile mem_kube mem_ext sample_clock created_lab \<lparr>nn_Namespace = ''lab'', nn_Name = ''u-1''\<rparr>)"

lemma created_truthful: "labels_truthful (mem_view created_lab)"
proof -
  have "list_all (\<lambda>l. \<not> ended_label l) (cu_Leases created_lab)" by code_simp
  then show ?thesis by (auto simp: labels_truthful_def mem_view_def list_all_iff dest!: find_keyed_SomeD)
qed

theorem handlers_keep_exclusion_witness:
  "map (\<lambda>l. st_ExporterRef (l_Status l)) (cu_Leases served_lab) = [Some ''rpi-a''] \<and> exclusive (mem_view served_lab)"
proof -
  have one: "map (\<lambda>l. st_ExporterRef (l_Status l)) (cu_Leases served_lab) = [Some ''rpi-a'']" by code_simp
  have "lease_call mem_kube mem_ext plain_auth idle_lab created_lab"
    unfolding created_lab_def by (rule lease_call.create [OF prod.collapse [symmetric]])
  moreover have "system_step mem_kube mem_kube mem_ext plain_auth mem_view created_lab served_lab"
    unfolding served_lab_def
    by (rule system_step.reconcile [OF prod.collapse [symmetric] mem_sees_holders [OF created_truthful]])
  ultimately have "(system_step mem_kube mem_kube mem_ext plain_auth mem_view)\<^sup>*\<^sup>* idle_lab served_lab"
    by (meson rtranclp.rtrancl_into_rtrancl rtranclp.rtrancl_refl system_step.call)
  from handlers_keep_exclusion [OF this mem_lease_store mem_service_store mem_ext_ctrlref_ok] one show ?thesis
    by (simp add: idle_view exclusive_def)
qed

text \<open>A server that does not decode a lease whose duration is no 64-bit number.\<close>

definition decoding_kube :: "cluster kube" where
  "decoding_kube = mem_kube\<lparr>k_getLease := (\<lambda>c n.
     case mem_get l_Meta (cu_Leases c) n of
       Inl e \<Rightarrow> Inl e
     | Inr l \<Rightarrow> (case sp_Duration (l_Spec l) of None \<Rightarrow> Inr l
         | Some d \<Rightarrow> if is_int64 d then Inr l else Inl (ApiError (OtherApiError ''cannot decode''))))\<rparr>"

lemma decoding_durations: "durations_ok decoding_kube mem_ext"
  by (auto simp: durations_ok_def decoding_kube_def mem_ext_def is_int64_def int64_defs
      split: sum.splits option.splits if_splits)

definition active_lab :: cluster where
  "active_lab = two_labs\<lparr>cu_Clients := [sample_client ''alice'', sample_client ''bob''],
     cu_Leases := [held ''rpi-a'' 0 (sample_lease ''mine'' ''alice'' (Some Minute))]\<rparr>"

definition bob_update :: "(goerror + cpbLease) \<times> cluster" where
  "bob_update = UpdateLease decoding_kube mem_ext plain_auth 0 active_lab alice_ctx
     (Some (alice_request\<lparr>pl_Client := Some ''namespaces/lab/clients/bob''\<rparr>))"

lemma bob_update_ok: "isl (fst bob_update) = False"
  by code_simp

theorem update_lease_effect_witness:
  "\<exists>key client s1. ParseLeaseIdentifier (pl_Name alice_request) = Inr key \<and>
     AuthClient decoding_kube plain_auth active_lab alice_ctx (nn_Namespace key) = (Inr client, s1)"
proof -
  have "UpdateLease decoding_kube mem_ext plain_auth 0 active_lab alice_ctx
      (Some (alice_request\<lparr>pl_Client := Some ''namespaces/lab/clients/bob''\<rparr>)) = (Inr (projr (fst bob_update)), snd bob_update)"
    using bob_update_ok by (metis bob_update_def prod.collapse sum.collapse(2))
  from update_lease_effect [OF this decoding_durations] show ?thesis by auto
qed

theorem update_without_duration_rejected_witness:
  "\<exists>err s'. UpdateLease mem_kube mem_ext plain_auth 0 active_lab alice_ctx
     (Some (alice_request\<lparr>pl_Duration := None, pl_EndTime := Some (300, 0)\<rparr>)) = (Inl err, s') \<and>
     s' = active_lab \<and> mem_view s' = mem_view active_lab"
proof -
  have "\<not> au_provisioning plain_auth" by code_simp
  then show ?thesis
    using update_without_duration_rejected [of "alice_request\<lparr>pl_Duration := None, pl_EndTime := Some (300, 0)\<rparr>"
        mem_kube mem_ext plain_auth 0 active_lab alice_ctx mem_view] mem_service_store
    by (auto simp: alice_request_def)
qed

abbreviation mine_held :: Lease where
  "mine_held \<equiv> held ''rpi-a'' 0 (sample_lease ''mine'' ''alice'' (Some Minute))"

theorem started_lease_begin_changes_witness:
  "\<exists>l'. updated_lease mem_kube mem_ext active_lab mine ''alice'' (alice_request\<lparr>pl_EndTime := Some (300, 0)\<rparr>) mine_held = Inr l' \<and>
     sp_BeginTime (l_Spec l') = Some (180 * Second)"
proof -
  have "0 < x_AsDuration mem_ext (120, 0)" "is_int64 (x_AsDuration mem_ext (120, 0))" by (code_simp, code_simp)
  moreover have "ParseLabelSelector mem_ext (pl_Selector (alice_request\<lparr>pl_EndTime := Some (300, 0)\<rparr>)) =
      Inr (sample_selector ''board'' ''rpi'')" by code_simp
  moreover have "x_AsTime mem_ext (300, 0) - x_AsDuration mem_ext (120, 0) = 180 * Second" by code_simp
  ultimately show ?thesis
    using started_lease_begin_changes [of mine_held "alice_request\<lparr>pl_EndTime := Some (300, 0)\<rparr>" "(300, 0)" "(120, 0)"
        mem_ext "sample_selector ''board'' ''rpi''" mem_kube active_lab mine "''alice''"]
    by (auto simp: alice_request_def sample_lease_def)
qed

lemma created_ok: "isl (fst (CreateLease decoding_kube mem_ext plain_auth 0 (Inr ''u-1'') idle_lab alice_ctx create_request)) = False"
  by code_simp

theorem create_lease_effect_witness:
  "\<exists>ns name (l :: Lease). ParseNamespaceIdentifier (clq_Parent create_request) = Inr ns \<and> name = ''u-1'' \<and>
     key_of (l_Meta l) = \<lparr>nn_Namespace = ns, nn_Name = name\<rparr>"
proof -
  have "CreateLease decoding_kube mem_ext plain_auth 0 (Inr ''u-1'') idle_lab alice_ctx create_request =
      (Inr (projr (fst (CreateLease decoding_kube mem_ext plain_auth 0 (Inr ''u-1'') idle_lab alice_ctx create_request))),
       snd (CreateLease decoding_kube mem_ext plain_auth 0 (Inr ''u-1'') idle_lab alice_ctx create_request))"
    using created_ok by (metis prod.collapse sum.collapse(2))
  from create_lease_effect [OF this decoding_durations] show ?thesis by auto
qed

definition deleted_lab :: cluster where
  "deleted_lab = snd (DeleteLease mem_kube plain_auth active_lab alice_ctx ''namespaces/lab/leases/mine'')"

definition deleted_lease :: Lease where
  "deleted_lease = the (mem_view deleted_lab mine)"

lemma deleted_eval:
  "DeleteLease mem_kube plain_auth active_lab alice_ctx ''namespaces/lab/leases/mine'' = (Inr (), deleted_lab)"
  "ParseLeaseIdentifier ''namespaces/lab/leases/mine'' = Inr mine" "mem_view deleted_lab mine = Some deleted_lease"
  by (code_simp, code_simp, code_simp)

lemma deleted_pass_ok: "isl (reconcileStatus mem_kube mem_ext sample_clock deleted_lab deleted_lease) = False"
  by code_simp

theorem deleted_lease_ends_witness:
  "sp_Release (l_Spec deleted_lease) \<and>
   (\<exists>r l'. reconcileStatus mem_kube mem_ext sample_clock deleted_lab deleted_lease = Inr (r, l') \<and> st_Ended (l_Status l'))"
proof -
  obtain r l' where p: "reconcileStatus mem_kube mem_ext sample_clock deleted_lab deleted_lease = Inr (r, l')"
    using deleted_pass_ok by (metis prod.collapse sum.collapse(2))
  from deleted_lease_ends [OF deleted_eval(1) mem_service_store deleted_eval(2)] obtain l where
    l: "mem_view deleted_lab = (mem_view active_lab)(mine \<mapsto> l)" "sp_Release (l_Spec l)"
      "\<forall>(k' :: cluster kube) x c s'' r l'. reconcileStatus k' x c s'' l = Inr (r, l') \<longrightarrow> st_Ended (l_Status l')"
    by (elim exE conjE) (rule that, simp_all)
  then have "l = deleted_lease" using deleted_eval(3) by simp
  with l p show ?thesis by blast
qed

definition list_request :: ListLeasesRequest where
  "list_request = \<lparr>llq_Parent = ''namespaces/lab'', llq_PageSize = 0, llq_PageToken = [], llq_Filter = ''board=rpi'',
     llq_OnlyActive = None\<rparr>"

lemma mem_options_snd: "mem_options (a @ [MatchingLabelsSelector sel] @ b @ [MatchingLabelsSelector sel'] @ c) acc =
    mem_options (a @ b @ [MatchingLabelsSelector sel'] @ c) acc"
proof -
  have last: "mem_options (b @ [MatchingLabelsSelector sel'] @ c) (ns, sl) =
      mem_options (b @ [MatchingLabelsSelector sel'] @ c) (ns, sl')" for ns sl sl' and b
  proof (induction b arbitrary: ns sl sl')
    case (Cons p b)
    then show ?case by (cases p) auto
  qed simp
  show ?thesis
  proof (induction a arbitrary: acc)
    case Nil
    obtain ns sl where "acc = (ns, sl)" by (cases acc)
    with last [of b ns sel sl] show ?case by simp
  next
    case (Cons p a)
    then show ?case by (cases p; cases acc) auto
  qed
qed

lemma mem_last_selector_wins: "last_selector_wins mem_kube"
  unfolding last_selector_wins_def by (simp add: mem_kube_def mem_list_def mem_options_snd [simplified])

theorem list_leases_ignores_filter_witness:
  "ListLeases mem_kube mem_ext plain_auth (\<lambda>i. 0) active_lab alice_ctx (list_request\<lparr>llq_Filter := []\<rparr>) =
   ListLeases mem_kube mem_ext plain_auth (\<lambda>i. 0) active_lab alice_ctx list_request"
proof -
  have "x_labels_Parse mem_ext (llq_Filter list_request) =
      Inr [\<lparr>rq_Key = ''board'', rq_Operator = SelEquals, rq_Values = [''rpi'']\<rparr>]" by code_simp
  moreover have "x_labels_Parse mem_ext [] = Inr []" by code_simp
  moreover have "llq_OnlyActive list_request \<noteq> Some False" by code_simp
  ultimately show ?thesis 
    by (intro list_leases_ignores_filter [OF mem_last_selector_wins])
qed

end
