(* ===== verification/RouterService.thy ===== *)
theory RouterService
  imports ControllerService "HOL-Library.Sublist"
begin

text \<open>
  The router (\<open>src/internal/service/router_service.go\<close>, \<open>router_support.go\<close>): it checks
  the token of a stream, joins the second stream of a name to the first one, and copies frames
  both ways.

  A stream is a number. The state is the map \<open>pending\<close> from stream names to the stream that
  came first; \<open>jwt.ParseWithClaims\<close> with the options the code sets is an argument, applied to
  the time, the token, the key, the accepted algorithms, issuer and audience; it returns the subject.
\<close>

section \<open>Authentication\<close>

record router_env =
  ro_ParseWithClaims :: "time \<Rightarrow> string \<Rightarrow> string \<Rightarrow> string list \<Rightarrow> string \<Rightarrow> string \<Rightarrow> goerror + string"
  ro_ROUTER_KEY :: string
  ro_now :: time

definition router_authenticate :: "router_env \<Rightarrow> Context \<Rightarrow> goerror + string" where
  "router_authenticate ro ctx =
     (case BearerTokenFromContext ctx of
        Inl err \<Rightarrow> Inl err
      | Inr token \<Rightarrow>
          (case ro_ParseWithClaims ro (ro_now ro) token (ro_ROUTER_KEY ro) [''HS256'', ''HS384'', ''HS512'']
                  ''https://jumpstarter.dev/stream'' ''https://jumpstarter.dev/router'' of
             Inl err \<Rightarrow> Inl (StatusError InvalidArgument ''invalid jwt token'')
           | Inr subject \<Rightarrow> Inr subject))"

section \<open>Rendezvous\<close>

type_synonym pending = "(string \<times> nat) list"

datatype stream_role = WaitForOther | ForwardTo nat

definition Stream_open :: "router_env \<Rightarrow> pending \<Rightarrow> Context \<Rightarrow> nat \<Rightarrow> (goerror + stream_role) \<times> pending" where
  "Stream_open ro pend ctx stream =
     (case router_authenticate ro ctx of
        Inl err \<Rightarrow> (Inl err, pend)
      | Inr streamName \<Rightarrow>
          (case LoadOrStore pend streamName stream of
             (actual, loaded, pend1) \<Rightarrow> (Inr (if loaded then ForwardTo actual else WaitForOther), pend1)))"

section \<open>Forwarding\<close>

record frame =
  f_Payload :: string
  f_FrameType :: int

datatype recv_result = RecvMsg frame | RecvEOF | RecvErr goerror

text \<open>
  The loop of \<open>pipe\<close> over what \<open>Recv\<close> returns; each frame comes with the result of the
  \<open>Send\<close> that the loop makes of it. The second part is the return value, or \<open>None\<close> while
  the loop waits for the next frame.
\<close>

fun pipe :: "(recv_result \<times> goerror option) list \<Rightarrow> frame list \<times> goerror option option" where
  "pipe [] = ([], None)"
| "pipe ((RecvEOF, _) # rs) = ([], Some None)"
| "pipe ((RecvErr err, _) # rs) = ([], Some (Some err))"
| "pipe ((RecvMsg msg, None) # rs) = (let (out, r) = pipe rs in (msg # out, r))"
| "pipe ((RecvMsg msg, Some err) # rs) = ([], Some (Some err))"

text \<open>
  \<open>Forward\<close>: the context of the group is done at the first error or when both pipes have
  returned; after that the result is the one of \<open>Wait\<close>, which waits for both and returns the
  first error. \<open>aFirst\<close> says which pipe returned first.
\<close>

definition group_Wait :: "bool \<Rightarrow> goerror option option \<Rightarrow> goerror option option \<Rightarrow> goerror option option" where
  "group_Wait aFirst ra rb =
     (case (ra, rb) of
        (Some ea, Some eb) \<Rightarrow>
          Some (let (e1, e2) = (if aFirst then (ea, eb) else (eb, ea)) in
                case e1 of Some err \<Rightarrow> Some err | None \<Rightarrow> e2)
      | _ \<Rightarrow> None)"

definition group_done :: "goerror option option \<Rightarrow> goerror option option \<Rightarrow> bool" where
  "group_done ra rb \<longleftrightarrow>
     (case ra of Some (Some _) \<Rightarrow> True | _ \<Rightarrow> False) \<or> (case rb of Some (Some _) \<Rightarrow> True | _ \<Rightarrow> False) \<or>
     (ra \<noteq> None \<and> rb \<noteq> None)"

definition Forward ::
  "bool \<Rightarrow> (recv_result \<times> goerror option) list \<Rightarrow> (recv_result \<times> goerror option) list
   \<Rightarrow> frame list \<times> frame list \<times> goerror option option" where
  "Forward aFirst fromA fromB =
     (let (toB, ra) = pipe fromA; (toA, rb) = pipe fromB
      in (toB, toA, if group_done ra rb then group_Wait aFirst ra rb else None))"

section \<open>Properties\<close>

text \<open>The frames before the first that is not a frame or cannot be sent.\<close>

definition relayed :: "(recv_result \<times> goerror option) list \<Rightarrow> frame list" where
  "relayed rs = map (\<lambda>(r, _). case r of RecvMsg m \<Rightarrow> m) (takeWhile (\<lambda>(r, e). (\<exists>m. r = RecvMsg m) \<and> e = None) rs)"

lemma fst_pipe: "fst (pipe rs) = relayed rs"
  by (induction rs rule: pipe.induct) (auto simp: relayed_def split: prod.splits)

lemma pipe_None_iff: "snd (pipe rs) = None \<longleftrightarrow> (\<forall>(r, e)\<in>set rs. (\<exists>m. r = RecvMsg m) \<and> e = None)"
  by (induction rs rule: pipe.induct) (auto split: prod.splits)

lemma pipe_append:
  "pipe (rs @ ss) = (if snd (pipe rs) = None then (fst (pipe rs) @ fst (pipe ss), snd (pipe ss)) else pipe rs)"
  by (induction rs rule: pipe.induct) (auto split: prod.splits)

text \<open>
  C18: Frames are relayed unchanged, in order and once: what each side is sent is what the other
  side sent, up to the end, a receive error or a failed send, and more input never changes what
  has been relayed.
\<close>

theorem forward_relays:
  assumes "Forward aFirst fromA fromB = (toB, toA, r)"
  shows "toB = relayed fromA \<and> toA = relayed fromB \<and>
    prefix toB (fst (Forward aFirst (fromA @ moreA) fromB))"
  using assms fst_pipe [of fromA] fst_pipe [of fromB] pipe_append [of fromA moreA]
  by (auto simp: Forward_def group_Wait_def split: prod.splits if_splits option.splits)

theorem forward_relays_witness:
  "Forward True [(RecvMsg \<lparr>f_Payload = ''hi'', f_FrameType = 0\<rparr>, None), (RecvErr CtxErr, None)] [] =
     ([\<lparr>f_Payload = ''hi'', f_FrameType = 0\<rparr>], [], None) \<and>
   relayed [(RecvMsg \<lparr>f_Payload = ''hi'', f_FrameType = 0\<rparr>, None), (RecvErr CtxErr, None)] =
     [\<lparr>f_Payload = ''hi'', f_FrameType = 0\<rparr>]"
proof -
  have eq: "Forward True [(RecvMsg \<lparr>f_Payload = ''hi'', f_FrameType = 0\<rparr>, None), (RecvErr CtxErr, None)] [] =
     ([\<lparr>f_Payload = ''hi'', f_FrameType = 0\<rparr>], [], None)" by code_simp
  from forward_relays [OF eq] eq show ?thesis by simp
qed

text \<open>
  C19: \<open>Forward\<close> returns exactly when both directions have ended, each with the end of its
  input, a receive error or a failed send; an error of one side alone does not end it.
\<close>

theorem forward_returns_iff:
  "snd (snd (Forward aFirst fromA fromB)) \<noteq> None \<longleftrightarrow>
     length (relayed fromA) < length fromA \<and> length (relayed fromB) < length fromB"
proof -
  have "snd (pipe rs) \<noteq> None \<longleftrightarrow> length (relayed rs) < length rs" for rs
    by (induction rs rule: pipe.induct) (auto simp: relayed_def split: prod.splits)
  from this [of fromA] this [of fromB] show ?thesis
    by (auto simp: Forward_def group_Wait_def group_done_def split: prod.splits option.splits)
qed

text \<open>
  A run of the router: streams that are accepted, with their name and role, and streams that
  are refused, in the order in which they come.
\<close>

inductive router_run :: "router_env \<Rightarrow> (nat \<times> string \<times> stream_role) list \<Rightarrow> pending \<Rightarrow> bool" for ro where
  start: "router_run ro [] []"
| accept: "router_run ro evs pend \<Longrightarrow> router_authenticate (ro\<lparr>ro_now := now\<rparr>) ctx = Inr name \<Longrightarrow>
    Stream_open (ro\<lparr>ro_now := now\<rparr>) pend ctx stream = (Inr role, pend') \<Longrightarrow>
    router_run ro (evs @ [(stream, name, role)]) pend'"
| refuse: "router_run ro evs pend \<Longrightarrow> Stream_open (ro\<lparr>ro_now := now\<rparr>) pend ctx stream = (Inl err, pend') \<Longrightarrow>
    router_run ro evs pend'"

definition first_of :: "string \<Rightarrow> (nat \<times> string \<times> stream_role) list \<Rightarrow> nat option" where
  "first_of name evs = map_option fst (find (\<lambda>(_, n, _). n = name) evs)"

lemma first_of_append:
  "first_of name (evs @ fs) = (case first_of name evs of None \<Rightarrow> first_of name fs | Some t \<Rightarrow> Some t)"
  by (induction evs) (auto simp: first_of_def)

lemma Stream_open_Inr:
  assumes "router_authenticate ro ctx = Inr name" "Stream_open ro pend ctx stream = (Inr role, pend')"
  shows "role = (case mget pend name of None \<Rightarrow> WaitForOther | Some t \<Rightarrow> ForwardTo t)"
    "mget pend' n = (if n = name \<and> mget pend name = None then Some stream else mget pend n)"
  using assms by (auto simp: Stream_open_def LoadOrStore_def update_conv' split: option.splits)

lemma router_run_pending: "router_run ro evs pend \<Longrightarrow> mget pend name = first_of name evs"
proof (induction arbitrary: name rule: router_run.induct)
  case start
  then show ?case by (simp add: first_of_def)
next
  case (accept evs pend now ctx n stream role pend')
  have "first_of name [(stream, n, role)] = (if name = n then Some stream else None)" by (simp add: first_of_def)
  with accept.IH Stream_open_Inr(2) [OF accept.hyps(2,3), of name] show ?case
    by (auto simp: first_of_append split: option.splits)
next
  case (refuse evs pend now ctx stream err pend')
  then show ?case by (auto simp: Stream_open_def split: sum.splits prod.splits)
qed

text \<open>
  C17: Over any run of the router, the first stream of a name waits and every later one is
  joined to that first stream, and to no stream of another name; an entry is never taken back,
  so this holds for a third stream and for one that comes when the first is long gone.
\<close>

theorem streams_joined_by_name:
  assumes "router_run ro evs pend" "evs = pre @ (stream, name, role) # post"
  shows "role = (case first_of name pre of None \<Rightarrow> WaitForOther | Some t \<Rightarrow> ForwardTo t)"
  using assms
proof (induction arbitrary: post rule: router_run.induct)
  case (accept evs pend now ctx n stream' role' pend')
  show ?case
  proof (cases post rule: rev_cases)
    case Nil
    with accept.prems have "evs = pre" "n = name" "role' = role" by auto
    with Stream_open_Inr(1) [OF accept.hyps(2,3)] router_run_pending [OF accept.hyps(1)] show ?thesis by simp
  next
    case (snoc post' e)
    with accept.prems have "evs = pre @ (stream, name, role) # post'" by (metis append_assoc append_Cons butlast_snoc)
    then show ?thesis by (rule accept.IH)
  qed
qed simp_all

section \<open>Evaluated instances\<close>

text \<open>A parser of tokens of the form subject, dot, key.\<close>

definition mem_router :: router_env where
  "mem_router = \<lparr>ro_ParseWithClaims = (\<lambda>now token key algs iss aud.
       case strings_Split token CHR ''.'' of
         [subject, k] \<Rightarrow> if k = key then Inr subject else Inl (Errorf ''signature is invalid'')
       | _ \<Rightarrow> Inl (Errorf ''token is malformed'')),
     ro_ROUTER_KEY = ''key'', ro_now = 0\<rparr>"

definition token_ctx :: "string \<Rightarrow> Context" where
  "token_ctx token = \<lparr>cx_Metadata = Some (\<lambda>k. if k = ''authorization'' then [''Bearer '' @ token] else [])\<rparr>"

lemma token_ctx_bearer: "BearerTokenFromContext (token_ctx token) = Inr token"
proof -
  have "strings_EqualFold ''Bearer '' ''Bearer ''" by code_simp
  then show ?thesis by (simp add: token_ctx_def BearerTokenFromContext_def)
qed

theorem streams_joined_by_name_witness:
  "router_run mem_router [(1, ''s'', WaitForOther), (2, ''s'', ForwardTo 1), (3, ''s'', ForwardTo 1)] [(''s'', 1)] \<and>
   ForwardTo 1 = (case first_of ''s'' [(1, ''s'', WaitForOther), (2, ''s'', ForwardTo 1)] of
     None \<Rightarrow> WaitForOther | Some t \<Rightarrow> ForwardTo t)"
proof -
  have a: "router_authenticate (mem_router\<lparr>ro_now := 0\<rparr>) (token_ctx ''s.key'') = Inr ''s''" by code_simp
  have o: "Stream_open (mem_router\<lparr>ro_now := 0\<rparr>) [] (token_ctx ''s.key'') 1 = (Inr WaitForOther, [(''s'', 1)])"
    "Stream_open (mem_router\<lparr>ro_now := 0\<rparr>) [(''s'', 1)] (token_ctx ''s.key'') 2 = (Inr (ForwardTo 1), [(''s'', 1)])"
    "Stream_open (mem_router\<lparr>ro_now := 0\<rparr>) [(''s'', 1)] (token_ctx ''s.key'') 3 = (Inr (ForwardTo 1), [(''s'', 1)])"
    by (code_simp, code_simp, code_simp)
  have run: "router_run mem_router [(1, ''s'', WaitForOther), (2, ''s'', ForwardTo 1), (3, ''s'', ForwardTo 1)] [(''s'', 1)]"
    using router_run.accept [OF router_run.accept [OF router_run.accept [OF router_run.start a o(1)] a o(2)] a o(3)] by simp
  have "[(1, ''s'', WaitForOther), (2, ''s'', ForwardTo 1), (3, ''s'', ForwardTo 1)] =
      [(1, ''s'', WaitForOther), (2, ''s'', ForwardTo 1)] @ (3, ''s'', ForwardTo (1::nat)) # []" by simp
  from streams_joined_by_name [OF run this] run show ?thesis by blast
qed

end
