(* ===== verification/Config.thy ===== *)
theory Config
  imports ControllerService
begin

text \<open>
  The configuration (\<open>src/internal/config\<close>, \<open>src/internal/oidc/config.go\<close>): the sections of
  the config map, the keepalive policy of the gRPC servers, and the authenticator that accepts
  the internal tokens beside those of the configured issuers.

  YAML decoding, certificate loading and the construction of a JWT authenticator are library
  calls, collected in \<open>config_env\<close>, as is \<open>time.ParseDuration\<close>.
\<close>

section \<open>Data\<close>

record InternalAuth =
  in_Prefix :: string
  in_TokenLifetime :: string

record K8s =
  k8_Enabled :: bool

record Provisioning =
  pv_Enabled :: bool

record Keepalive =
  ka_MinTime :: string
  ka_PermitWithoutStream :: bool
  ka_Timeout :: string
  ka_IntervalTime :: string
  ka_MaxConnectionIdle :: string
  ka_MaxConnectionAge :: string
  ka_MaxConnectionAgeGrace :: string

record Grpc =
  gr_Keepalive :: Keepalive

record Issuer =
  is_URL :: string
  is_CertificateAuthority :: string
  is_Audiences :: "string list"

record JWTAuthenticator =
  ja_Issuer :: Issuer
  ja_UsernameClaim :: string
  ja_UsernamePrefix :: "string option"

record Authentication =
  aut_Internal :: InternalAuth
  aut_K8s :: K8s
  aut_JWT :: "JWTAuthenticator list"

record Config =
  cf_Authentication :: Authentication
  cf_Provisioning :: Provisioning
  cf_Grpc :: Grpc

text \<open>The older form of the section (\<open>api/v1alpha1/authenticationconfiguration_types.go\<close>).\<close>

record AuthenticationConfiguration =
  ac_Prefix :: string
  ac_JWT :: "JWTAuthenticator list"

record EnforcementPolicy =
  kp_MinTime :: duration
  kp_PermitWithoutStream :: bool

record ('ca, 'u, 'a) config_env =
  ce_ParseDuration :: "string \<Rightarrow> goerror + duration"
  ce_UnmarshalRouter :: "string \<Rightarrow> goerror + Router"
  ce_UnmarshalConfig :: "string \<Rightarrow> goerror + Config"
  ce_DecodeLegacy :: "string \<Rightarrow> goerror + AuthenticationConfiguration"
  ce_Stat :: "string \<Rightarrow> bool"
  ce_DynamicCA :: "string \<Rightarrow> goerror + 'ca"
  ce_StaticCA :: "string \<Rightarrow> goerror + 'ca"
  ce_Convert :: "JWTAuthenticator \<Rightarrow> goerror + 'u"
  ce_New :: "'u \<Rightarrow> 'ca option \<Rightarrow> goerror + 'a"
  ce_NewFailOnError :: "'a list \<Rightarrow> 'a"

section \<open>gRPC\<close>

definition ParseDuration :: "('ca, 'u, 'a) config_env \<Rightarrow> string \<Rightarrow> goerror + duration" where
  "ParseDuration ce s = (if s = [] then Inr 0 else ce_ParseDuration ce s)"

definition LoadGrpcConfiguration :: "('ca, 'u, 'a) config_env \<Rightarrow> Grpc \<Rightarrow> goerror + EnforcementPolicy" where
  "LoadGrpcConfiguration ce config =
     (let ka = gr_Keepalive config in
      case ParseDuration ce (ka_MinTime ka) of
        Inl err \<Rightarrow> Inl (WrapError ''failed to parse keepalive minTime: '' err)
      | Inr minTime \<Rightarrow>
          Inr \<lparr>kp_MinTime = (if minTime = 0 then 1000000000 else minTime),
               kp_PermitWithoutStream = ka_PermitWithoutStream ka\<rparr>)"

section \<open>Authentication\<close>

text \<open>The body of the loop of \<open>newJWTAuthenticator\<close>, for one authenticator.\<close>

definition jwt_one :: "('ca, 'u, 'a) config_env \<Rightarrow> JWTAuthenticator \<Rightarrow> goerror + 'a" where
  "jwt_one ce ja =
     (let ca = is_CertificateAuthority (ja_Issuer ja);
          loaded = (if length ca > 0 then
                      (if ce_Stat ce ca
                       then map_sum id (\<lambda>c. (Some c, ja\<lparr>ja_Issuer := (ja_Issuer ja)\<lparr>is_CertificateAuthority := []\<rparr>\<rparr>)) (ce_DynamicCA ce ca)
                       else map_sum id (\<lambda>c. (Some c, ja)) (ce_StaticCA ce ca))
                    else Inr (None, ja))
      in case loaded of
           Inl err \<Rightarrow> Inl err
         | Inr (oidcCAContent, ja1) \<Rightarrow>
             (case ce_Convert ce ja1 of
                Inl err \<Rightarrow> Inl err
              | Inr unversioned \<Rightarrow> ce_New ce unversioned oidcCAContent))"

fun jwt_loop :: "('ca, 'u, 'a) config_env \<Rightarrow> JWTAuthenticator list \<Rightarrow> 'a list \<Rightarrow> goerror + 'a list" where
  "jwt_loop ce [] jwtAuthenticators = Inr jwtAuthenticators"
| "jwt_loop ce (ja # jas) jwtAuthenticators =
     (case jwt_one ce ja of
        Inl err \<Rightarrow> Inl err
      | Inr oidcAuth \<Rightarrow> jwt_loop ce jas (jwtAuthenticators @ [oidcAuth]))"

definition newJWTAuthenticator :: "('ca, 'u, 'a) config_env \<Rightarrow> Authentication \<Rightarrow> goerror + 'a" where
  "newJWTAuthenticator ce config = map_sum id (ce_NewFailOnError ce) (jwt_loop ce (aut_JWT config) [])"

definition internal_issuer :: "'key Signer \<Rightarrow> string \<Rightarrow> string \<Rightarrow> JWTAuthenticator" where
  "internal_issuer signer certificateAuthority prefix =
     \<lparr>ja_Issuer = \<lparr>is_URL = sg_issuer signer, is_CertificateAuthority = certificateAuthority, is_Audiences = [sg_audience signer]\<rparr>,
      ja_UsernameClaim = ''sub'', ja_UsernamePrefix = Some prefix\<rparr>"

definition LoadAuthenticationConfiguration ::
  "('ca, 'u, 'a) config_env \<Rightarrow> Authentication \<Rightarrow> 'key Signer \<Rightarrow> string \<Rightarrow> goerror + 'a \<times> string" where
  "LoadAuthenticationConfiguration ce config signer certificateAuthority =
     (let prefix = (if in_Prefix (aut_Internal config) = [] then ''internal:'' else in_Prefix (aut_Internal config));
          config1 = config\<lparr>aut_Internal := (aut_Internal config)\<lparr>in_Prefix := prefix\<rparr>,
            aut_JWT := aut_JWT config @ [internal_issuer signer certificateAuthority prefix]\<rparr>
      in case newJWTAuthenticator ce config1 of
           Inl err \<Rightarrow> Inl err
         | Inr authn \<Rightarrow> Inr (authn, in_Prefix (aut_Internal config1)))"

text \<open>The same for the older form, which is decoded first.\<close>

definition oidc_newJWTAuthenticator ::
  "('ca, 'u, 'a) config_env \<Rightarrow> AuthenticationConfiguration \<Rightarrow> goerror + 'a" where
  "oidc_newJWTAuthenticator ce config = map_sum id (ce_NewFailOnError ce) (jwt_loop ce (ac_JWT config) [])"

definition oidc_LoadAuthenticationConfiguration ::
  "('ca, 'u, 'a) config_env \<Rightarrow> string \<Rightarrow> 'key Signer \<Rightarrow> string \<Rightarrow> goerror + 'a \<times> string" where
  "oidc_LoadAuthenticationConfiguration ce configuration signer certificateAuthority =
     (case ce_DecodeLegacy ce configuration of
        Inl err \<Rightarrow> Inl err
      | Inr config \<Rightarrow>
          (let prefix = (if ac_Prefix config = [] then ''internal:'' else ac_Prefix config);
               config1 = config\<lparr>ac_Prefix := prefix, ac_JWT := ac_JWT config @ [internal_issuer signer certificateAuthority prefix]\<rparr>
           in case oidc_newJWTAuthenticator ce config1 of
                Inl err \<Rightarrow> Inl err
              | Inr authn \<Rightarrow> Inr (authn, ac_Prefix config1)))"

section \<open>The config map\<close>

record 'a configuration =
  co_authenticator :: 'a
  co_prefix :: string
  co_router :: Router
  co_keepalive :: EnforcementPolicy
  co_provisioning :: Provisioning

text \<open>\<open>get\<close> is the read of the config map, which gives its data.\<close>

definition LoadRouterConfiguration ::
  "('ca, 'u, 'a) config_env \<Rightarrow> goerror + strmap \<Rightarrow> goerror + EnforcementPolicy" where
  "LoadRouterConfiguration ce get =
     (case get of
        Inl err \<Rightarrow> Inl err
      | Inr data \<Rightarrow>
          (case mget data ''config'' of
             None \<Rightarrow> Inl (Errorf ''LoadRouterConfiguration: missing config section'')
           | Some rawConfig \<Rightarrow>
               (case ce_UnmarshalConfig ce rawConfig of
                  Inl err \<Rightarrow> Inl err
                | Inr config \<Rightarrow> LoadGrpcConfiguration ce (cf_Grpc config))))"

definition LoadConfiguration ::
  "('ca, 'u, 'a) config_env \<Rightarrow> goerror + strmap \<Rightarrow> 'key Signer \<Rightarrow> string \<Rightarrow> goerror + 'a configuration" where
  "LoadConfiguration ce get signer certificateAuthority =
     (case get of
        Inl err \<Rightarrow> Inl err
      | Inr data \<Rightarrow>
          (case mget data ''router'' of
             None \<Rightarrow> Inl (Errorf ''LoadConfiguration: missing router section'')
           | Some rawRouter \<Rightarrow>
               (case ce_UnmarshalRouter ce rawRouter of
                  Inl err \<Rightarrow> Inl err
                | Inr router \<Rightarrow>
                    (case mget data ''authentication'' of
                       Some raw \<Rightarrow>
                         (case oidc_LoadAuthenticationConfiguration ce raw signer certificateAuthority of
                            Inl err \<Rightarrow> Inl err
                          | Inr (authn, prefix) \<Rightarrow>
                              Inr \<lparr>co_authenticator = authn, co_prefix = prefix, co_router = router,
                                   co_keepalive = \<lparr>kp_MinTime = 1 * Second, kp_PermitWithoutStream = True\<rparr>,
                                   co_provisioning = \<lparr>pv_Enabled = False\<rparr>\<rparr>)
                     | None \<Rightarrow>
                         (case mget data ''config'' of
                            None \<Rightarrow> Inl (Errorf ''LoadConfiguration: missing config section'')
                          | Some rawConfig \<Rightarrow>
                              (case ce_UnmarshalConfig ce rawConfig of
                                 Inl err \<Rightarrow> Inl err
                               | Inr config \<Rightarrow>
                                   (case LoadAuthenticationConfiguration ce (cf_Authentication config) signer certificateAuthority of
                                      Inl err \<Rightarrow> Inl err
                                    | Inr (authn, prefix) \<Rightarrow>
                                        (case LoadGrpcConfiguration ce (cf_Grpc config) of
                                           Inl err \<Rightarrow> Inl err
                                         | Inr serverOptions \<Rightarrow>
                                             Inr \<lparr>co_authenticator = authn, co_prefix = prefix, co_router = router,
                                                  co_keepalive = serverOptions,
                                                  co_provisioning = cf_Provisioning config\<rparr>))))))))"

section \<open>Properties\<close>

text \<open>Authenticators are built one per entry, in order, and all of them must succeed.\<close>

definition union_of :: "('ca, 'u, 'a) config_env \<Rightarrow> JWTAuthenticator list \<Rightarrow> 'a \<Rightarrow> bool" where
  "union_of ce jas authn \<longleftrightarrow>
     (\<exists>as. list_all2 (\<lambda>ja a. jwt_one ce ja = Inr a) jas as \<and> authn = ce_NewFailOnError ce as)"

lemma jwt_loop_Inr:
  "jwt_loop ce jas acc = Inr as \<longleftrightarrow> (\<exists>bs. as = acc @ bs \<and> list_all2 (\<lambda>ja b. jwt_one ce ja = Inr b) jas bs)"
proof (induction jas arbitrary: acc)
  case Nil
  show ?case by (simp add: eq_commute)
next
  case (Cons ja jas)
  show ?case
  proof (cases "jwt_one ce ja")
    case (Inl e)
    then show ?thesis by (simp add: list_all2_Cons1)
  next
    case (Inr a)
    have "(\<exists>bs. as = (acc @ [a]) @ bs \<and> list_all2 (\<lambda>ja b. jwt_one ce ja = Inr b) jas bs) \<longleftrightarrow>
        (\<exists>bs. as = acc @ bs \<and> list_all2 (\<lambda>ja b. jwt_one ce ja = Inr b) (ja # jas) bs)"
      using Inr by (auto simp: list_all2_Cons1)
    with Cons.IH [of "acc @ [a]"] Inr show ?thesis by simp
  qed
qed

lemma jwt_union: "map_sum id (ce_NewFailOnError ce) (jwt_loop ce jas []) = Inr authn \<longleftrightarrow> union_of ce jas authn"
proof -
  have eq: "jwt_loop ce jas [] = Inr as \<longleftrightarrow> list_all2 (\<lambda>ja a. jwt_one ce ja = Inr a) jas as" for as
    by (simp add: jwt_loop_Inr)
  have "union_of ce jas authn \<longleftrightarrow> (\<exists>as. jwt_loop ce jas [] = Inr as \<and> authn = ce_NewFailOnError ce as)"
    unfolding union_of_def eq by (rule refl)
  also have "\<dots> \<longleftrightarrow> map_sum id (ce_NewFailOnError ce) (jwt_loop ce jas []) = Inr authn"
    by (cases "jwt_loop ce jas []") (simp_all, fastforce)
  finally show ?thesis by (rule sym)
qed

lemma LoadAuthenticationConfiguration_Inr:
  assumes "LoadAuthenticationConfiguration ce config signer ca = Inr (authn, prefix)"
  shows "prefix \<noteq> []" "union_of ce (aut_JWT config @ [internal_issuer signer ca prefix]) authn"
  using assms
  by (auto simp: LoadAuthenticationConfiguration_def newJWTAuthenticator_def Let_def jwt_union [symmetric]
      split: sum.splits if_splits)

lemma oidc_LoadAuthenticationConfiguration_Inr:
  assumes "oidc_LoadAuthenticationConfiguration ce raw signer ca = Inr (authn, prefix)"
  shows "prefix \<noteq> []" "\<exists>config. ce_DecodeLegacy ce raw = Inr config \<and>
    union_of ce (ac_JWT config @ [internal_issuer signer ca prefix]) authn"
  using assms
  by (auto simp: oidc_LoadAuthenticationConfiguration_def oidc_newJWTAuthenticator_def Let_def jwt_union [symmetric]
      split: sum.splits if_splits)

lemma LoadGrpcConfiguration_Inr: "LoadGrpcConfiguration ce g = Inr p \<Longrightarrow> kp_MinTime p \<noteq> 0"
  by (auto simp: LoadGrpcConfiguration_def Let_def split: sum.splits if_splits)

text \<open>
  A configuration that loads accepts the controller's own tokens: the prefix it returns is
  never empty, and the authenticator is the union of those of the configured issuers followed by
  one for the signer's issuer and audience, which takes the user name from the subject under
  that same prefix. An older authentication section wins over the one in the config section, and
  provisioning is then off; the keepalive time is never zero.
\<close>

theorem loaded_configuration_accepts_own_tokens:
  assumes "LoadConfiguration ce (Inr data) signer ca = Inr co"
  shows "co_prefix co \<noteq> [] \<and> kp_MinTime (co_keepalive co) \<noteq> 0 \<and>
    (\<exists>raw. mget data ''router'' = Some raw \<and> ce_UnmarshalRouter ce raw = Inr (co_router co)) \<and>
    (case mget data ''authentication'' of
       Some raw \<Rightarrow> \<not> pv_Enabled (co_provisioning co) \<and> (\<exists>config. ce_DecodeLegacy ce raw = Inr config \<and>
         union_of ce (ac_JWT config @ [internal_issuer signer ca (co_prefix co)]) (co_authenticator co))
     | None \<Rightarrow> (\<exists>raw config. mget data ''config'' = Some raw \<and> ce_UnmarshalConfig ce raw = Inr config \<and>
         co_provisioning co = cf_Provisioning config \<and>
         union_of ce (aut_JWT (cf_Authentication config) @ [internal_issuer signer ca (co_prefix co)]) (co_authenticator co)))"
proof (cases "mget data ''authentication''")
  case None
  with assms obtain raw rr router config authn prefix p where
    l: "mget data ''router'' = Some rr" "ce_UnmarshalRouter ce rr = Inr router" "mget data ''config'' = Some raw"
      "ce_UnmarshalConfig ce raw = Inr config"
      "LoadAuthenticationConfiguration ce (cf_Authentication config) signer ca = Inr (authn, prefix)"
      "LoadGrpcConfiguration ce (cf_Grpc config) = Inr p"
      "co = \<lparr>co_authenticator = authn, co_prefix = prefix, co_router = router, co_keepalive = p,
             co_provisioning = cf_Provisioning config\<rparr>"
    by (auto simp: LoadConfiguration_def split: sum.splits option.splits)
  from None l LoadAuthenticationConfiguration_Inr [OF l(5)] LoadGrpcConfiguration_Inr [OF l(6)] show ?thesis by simp
next
  case (Some raw)
  with assms obtain rr router authn prefix where
    l: "mget data ''router'' = Some rr" "ce_UnmarshalRouter ce rr = Inr router"
      "oidc_LoadAuthenticationConfiguration ce raw signer ca = Inr (authn, prefix)"
      "co = \<lparr>co_authenticator = authn, co_prefix = prefix, co_router = router,
             co_keepalive = \<lparr>kp_MinTime = 1 * Second, kp_PermitWithoutStream = True\<rparr>,
             co_provisioning = \<lparr>pv_Enabled = False\<rparr>\<rparr>"
    by (auto simp: LoadConfiguration_def split: sum.splits option.splits)
  from Some l oidc_LoadAuthenticationConfiguration_Inr [OF l(3)] show ?thesis by (simp add: Second_def)
qed

definition mem_config :: "(string, JWTAuthenticator, string list) config_env" where
  "mem_config = \<lparr>ce_ParseDuration = (\<lambda>s. Inl (Errorf ''invalid duration'')), ce_UnmarshalRouter = (\<lambda>s. Inr []),
     ce_UnmarshalConfig = (\<lambda>s. Inr \<lparr>cf_Authentication = \<lparr>aut_Internal = \<lparr>in_Prefix = [], in_TokenLifetime = []\<rparr>,
        aut_K8s = \<lparr>k8_Enabled = False\<rparr>, aut_JWT = []\<rparr>, cf_Provisioning = \<lparr>pv_Enabled = True\<rparr>,
        cf_Grpc = \<lparr>gr_Keepalive = \<lparr>ka_MinTime = [], ka_PermitWithoutStream = False, ka_Timeout = [],
          ka_IntervalTime = [], ka_MaxConnectionIdle = [], ka_MaxConnectionAge = [], ka_MaxConnectionAgeGrace = []\<rparr>\<rparr>\<rparr>),
     ce_DecodeLegacy = (\<lambda>s. Inl (Errorf ''no kind match'')), ce_Stat = (\<lambda>s. False), ce_DynamicCA = Inr,
     ce_StaticCA = Inr, ce_Convert = Inr,
     ce_New = (\<lambda>ja ca. Inr [is_URL (ja_Issuer ja) @ '' '' @ the (ja_UsernamePrefix ja)]), ce_NewFailOnError = concat\<rparr>"

definition sample_configuration :: "string list configuration" where
  "sample_configuration = projr (LoadConfiguration mem_config (Inr [(''router'', ''{}''), (''config'', ''{}'')]) sample_signer [])"

theorem loaded_configuration_accepts_own_tokens_witness:
  "co_authenticator sample_configuration = [sg_issuer sample_signer @ '' internal:''] \<and> co_prefix sample_configuration \<noteq> []"
proof -
  have "LoadConfiguration mem_config (Inr [(''router'', ''{}''), (''config'', ''{}'')]) sample_signer [] = Inr sample_configuration"
    by code_simp
  from loaded_configuration_accepts_own_tokens [OF this]
  have "co_prefix sample_configuration \<noteq> []" by (elim conjE)
  moreover have "co_authenticator sample_configuration = [sg_issuer sample_signer @ '' internal:'']" by code_simp
  ultimately show ?thesis by simp
qed

text \<open>
  With an empty keepalive section, pings at most once a second are enforced and pings
  without an active stream are refused.
\<close>

theorem default_keepalive:
  "LoadGrpcConfiguration ce \<lparr>gr_Keepalive = \<lparr>ka_MinTime = [], ka_PermitWithoutStream = False, ka_Timeout = t,
     ka_IntervalTime = i, ka_MaxConnectionIdle = a, ka_MaxConnectionAge = b, ka_MaxConnectionAgeGrace = c\<rparr>\<rparr> =
   Inr \<lparr>kp_MinTime = Second, kp_PermitWithoutStream = False\<rparr>"
  by (simp add: LoadGrpcConfiguration_def ParseDuration_def Second_def)

end
