(* ===== verification/OperatorTypes.thy ===== *)
theory OperatorTypes
  imports Config
begin

text \<open>
  The operator that deploys the controller and the routers
  (\<open>src/deploy/operator\<close>): the \<open>Jumpstarter\<close> resource (\<open>api/v1alpha1/jumpstarter_types.go\<close>),
  the Kubernetes objects that the operator writes, and the calls it makes of the API server.

  Values that the code only hands through (resource requirements, topology constraints) are
  texts. A \<open>metav1.Duration\<close> is a number of nanoseconds. \<open>intstr.FromInt\<close> is the number.
\<close>

section \<open>The Jumpstarter resource\<close>

record RouteConfig =
  rc_Enabled :: bool
  rc_Annotations :: strmap
  rc_Labels :: strmap

record IngressConfig =
  ic_Enabled :: bool
  ic_Class :: string
  ic_Annotations :: strmap
  ic_Labels :: strmap

record NodePortConfig =
  np_Enabled :: bool
  np_Port :: int
  np_Annotations :: strmap
  np_Labels :: strmap

record LoadBalancerConfig =
  lb_Enabled :: bool
  lb_Port :: int
  lb_Annotations :: strmap
  lb_Labels :: strmap

record ClusterIPConfig =
  ci_Enabled :: bool
  ci_Annotations :: strmap
  ci_Labels :: strmap

record Endpoint =
  ept_Address :: string
  ept_Route :: "RouteConfig option"
  ept_Ingress :: "IngressConfig option"
  ept_NodePort :: "NodePortConfig option"
  ept_LoadBalancer :: "LoadBalancerConfig option"
  ept_ClusterIP :: "ClusterIPConfig option"

record GRPCKeepaliveConfig =
  gk_MinTime :: "duration option"
  gk_PermitWithoutStream :: bool
  gk_Timeout :: "duration option"
  gk_MaxConnectionIdle :: "duration option"
  gk_MaxConnectionAge :: "duration option"
  gk_MaxConnectionAgeGrace :: "duration option"
  gk_IntervalTime :: "duration option"

record TLSConfig =
  tls_CertSecret :: string

record GRPCConfig =
  gc_TLS :: TLSConfig
  gc_Endpoints :: "Endpoint list"
  gc_Keepalive :: "GRPCKeepaliveConfig option"

record InternalAuthConfig =
  ia_Prefix :: string
  ia_Enabled :: bool
  ia_TokenLifetime :: "duration option"

record K8sAuthConfig =
  ka8_Enabled :: bool

record AuthenticationConfig =
  acf_Internal :: InternalAuthConfig
  acf_K8s :: K8sAuthConfig
  acf_JWT :: "JWTAuthenticator list"

record ExporterOptions =
  eo_OfflineTimeout :: "duration option"

record RestAPIConfig =
  ra_TLS :: TLSConfig
  ra_Endpoints :: "Endpoint list"

record ControllerConfig =
  cc_Image :: string
  cc_ImagePullPolicy :: string
  cc_Resources :: string
  cc_Replicas :: int
  cc_ExporterOptions :: ExporterOptions
  cc_RestAPI :: RestAPIConfig
  cc_GRPC :: GRPCConfig
  cc_Authentication :: AuthenticationConfig

record RoutersConfig =
  ro_Image :: string
  ro_ImagePullPolicy :: string
  ro_Resources :: string
  ro_Replicas :: int
  ro_TopologySpreadConstraints :: "string list"
  ro_GRPC :: GRPCConfig

record JumpstarterSpec =
  js_BaseDomain :: string
  js_UseCertManager :: bool
  js_Controller :: ControllerConfig
  js_Routers :: RoutersConfig
  js_Authentication :: AuthenticationConfig

record Jumpstarter =
  j_Meta :: ObjectMeta
  j_DeletionTimestamp :: "time option"
  j_Spec :: JumpstarterSpec

section \<open>The objects the operator writes\<close>

datatype ServiceType = ServiceTypeClusterIP | ServiceTypeNodePort | ServiceTypeLoadBalancer

record ServicePort =
  svp_Name :: string
  svp_Port :: int
  svp_TargetPort :: int
  svp_Protocol :: string
  svp_AppProtocol :: "string option"
  svp_NodePort :: int

record Service =
  svc_Meta :: ObjectMeta
  svc_Selector :: strmap
  svc_Ports :: "ServicePort list"
  svc_Type :: ServiceType
  svc_LoadBalancerClass :: "string option"
  svc_ExternalTrafficPolicy :: string

record IngressRule =
  ir_Host :: string
  ir_Path :: string
  ir_PathType :: string
  ir_ServiceName :: string
  ir_ServicePort :: int

record Ingress =
  ing_Meta :: ObjectMeta
  ing_ClassName :: "string option"
  ing_Rules :: "IngressRule list"
  ing_TLSHosts :: "string list list"

record Route =
  rt_Meta :: ObjectMeta
  rt_Host :: string
  rt_Path :: string
  rt_TargetPort :: "int option"
  rt_ToKind :: string
  rt_ToName :: string
  rt_ToWeight :: "int option"
  rt_TLS :: "(string \<times> string) option"
  rt_WildcardPolicy :: string

datatype EnvSource = EnvValue string | EnvSecret string string | EnvField string string

record EnvVar =
  ev_Name :: string
  ev_Source :: EnvSource

record HTTPProbe =
  pr_Path :: string
  pr_Port :: int
  pr_Scheme :: string
  pr_InitialDelaySeconds :: int
  pr_PeriodSeconds :: int
  pr_TimeoutSeconds :: int
  pr_SuccessThreshold :: int
  pr_FailureThreshold :: int

record Container =
  ct_Name :: string
  ct_Image :: string
  ct_ImagePullPolicy :: string
  ct_Command :: "string list"
  ct_Args :: "string list"
  ct_Env :: "EnvVar list"
  ct_Ports :: "(int \<times> string \<times> string) list"
  ct_LivenessProbe :: "HTTPProbe option"
  ct_ReadinessProbe :: "HTTPProbe option"
  ct_Resources :: string
  ct_TerminationMessagePath :: string
  ct_TerminationMessagePolicy :: string
  ct_AllowPrivilegeEscalation :: "bool option"
  ct_CapabilitiesDrop :: "string list"

record PodTemplate =
  pt_Labels :: strmap
  pt_RestartPolicy :: string
  pt_DNSPolicy :: string
  pt_TerminationGracePeriodSeconds :: "int option"
  pt_Containers :: "Container list"
  pt_RunAsNonRoot :: "bool option"
  pt_SeccompProfile :: string
  pt_ServiceAccountName :: string
  pt_DeprecatedServiceAccount :: string
  pt_SchedulerName :: string
  pt_TopologySpreadConstraints :: "string list"

record DeploymentStrategy =
  ds_Type :: string
  ds_MaxSurge :: "string option"
  ds_MaxUnavailable :: "string option"

record DeploymentSpec =
  dsp_Replicas :: "int option"
  dsp_ProgressDeadlineSeconds :: "int option"
  dsp_RevisionHistoryLimit :: "int option"
  dsp_MinReadySeconds :: int
  dsp_Paused :: bool
  dsp_Strategy :: DeploymentStrategy
  dsp_Selector :: strmap
  dsp_Template :: PodTemplate

text \<open>
  Labels and annotations whose nil-ness the comparison functions look at are options in the
  desired object; \<open>None\<close> is nil.
\<close>

record Deployment =
  dp_Meta :: ObjectMeta
  dp_Labels :: "strmap option"
  dp_Annotations :: "strmap option"
  dp_Spec :: DeploymentSpec

record ConfigMap =
  cm_Meta :: ObjectMeta
  cm_Labels :: "strmap option"
  cm_Annotations :: "strmap option"
  cm_Data :: "strmap option"
  cm_BinaryData :: "strmap option"

record ServiceAccount =
  sa_Meta :: ObjectMeta
  sa_Labels :: "strmap option"
  sa_Annotations :: "strmap option"

record PolicyRule =
  pr_APIGroups :: "string list"
  pr_Resources :: "string list"
  pr_Verbs :: "string list"

record Role =
  rl_Meta :: ObjectMeta
  rl_Labels :: "strmap option"
  rl_Annotations :: "strmap option"
  rl_Rules :: "PolicyRule list option"

record RoleRef =
  rr_APIGroup :: string
  rr_Kind :: string
  rr_Name :: string

record Subject =
  su_Kind :: string
  su_Name :: string
  su_Namespace :: string

record RoleBinding =
  rb_Meta :: ObjectMeta
  rb_Labels :: "strmap option"
  rb_Annotations :: "strmap option"
  rb_Subjects :: "Subject list option"
  rb_RoleRef :: RoleRef

section \<open>The API server\<close>

text \<open>
  \<open>controllerutil.CreateOrUpdate\<close> is a call of its own for each kind: it is given the key and
  the mutate function, which takes the stored object, or \<open>None\<close> when the object is to be created
  (the code tells by the zero creation timestamp), and returns what is to be stored. The other
  calls are as in theory \<open>Kube\<close>.
\<close>

type_synonym ('s, 'o) createOrUpdate =
  "'s \<Rightarrow> NamespacedName \<Rightarrow> ('o option \<Rightarrow> goerror + 'o) \<Rightarrow> goerror option \<times> 's"

record 's okube =
  ok_getJumpstarter :: "'s \<Rightarrow> NamespacedName \<Rightarrow> goerror + Jumpstarter"
  ok_applyService :: "('s, Service) createOrUpdate"
  ok_applyIngress :: "('s, Ingress) createOrUpdate"
  ok_applyRoute :: "('s, Route) createOrUpdate"
  ok_applyDeployment :: "('s, Deployment) createOrUpdate"
  ok_applyConfigMap :: "('s, ConfigMap) createOrUpdate"
  ok_applyServiceAccount :: "('s, ServiceAccount) createOrUpdate"
  ok_applyRole :: "('s, Role) createOrUpdate"
  ok_applyRoleBinding :: "('s, RoleBinding) createOrUpdate"
  ok_listRouterDeployments :: "'s \<Rightarrow> string \<Rightarrow> strmap \<Rightarrow> goerror + ObjectMeta list"
  ok_deleteDeployment :: "'s \<Rightarrow> NamespacedName \<Rightarrow> goerror option \<times> 's"
  ok_deleteService :: "'s \<Rightarrow> NamespacedName \<Rightarrow> goerror option \<times> 's"
  ok_getSecret :: "'s \<Rightarrow> NamespacedName \<Rightarrow> goerror + Secret"
  ok_createSecret :: "'s \<Rightarrow> Secret \<Rightarrow> (goerror + Secret) \<times> 's"

text \<open>Sequencing of calls that return an error or nil.\<close>

definition and_then :: "goerror option \<times> 's \<Rightarrow> ('s \<Rightarrow> goerror option \<times> 's) \<Rightarrow> goerror option \<times> 's" where
  "and_then r f = (case r of (Some err, s) \<Rightarrow> (Some err, s) | (None, s) \<Rightarrow> f s)"

fun for_each :: "('a \<Rightarrow> 's \<Rightarrow> goerror option \<times> 's) \<Rightarrow> 'a list \<Rightarrow> 's \<Rightarrow> goerror option \<times> 's" where
  "for_each f [] s = (None, s)"
| "for_each f (a # as) s = and_then (f a s) (for_each f as)"

lemma and_then_simps [simp]:
  "and_then (Some err, s) f = (Some err, s)" "and_then (None, s) f = f s"
  by (simp_all add: and_then_def)

lemma and_then_ok: "and_then r f = (None, s') \<longleftrightarrow> (\<exists>s. r = (None, s) \<and> f s = (None, s'))"
  by (cases r; cases "fst r") auto

lemma for_each_append: "for_each f (as @ bs) s = and_then (for_each f as s) (for_each f bs)"
  by (induction as arbitrary: s) (auto simp: and_then_def split: prod.splits option.splits)

text \<open>An invariant of every step of a loop is one of the loop, whether it fails or not.\<close>

lemma for_each_invariant:
  assumes "\<And>a s r s'. a \<in> set as \<Longrightarrow> P s \<Longrightarrow> f a s = (r, s') \<Longrightarrow> P s'" "P s" "for_each f as s = (r, s')"
  shows "P s'"
  using assms
proof (induction as arbitrary: s)
  case (Cons a as)
  obtain r1 s1 where fa: "f a s = (r1, s1)" by (cases "f a s")
  with Cons.prems(1) [of a s r1 s1] Cons.prems(2) have P1: "P s1" by simp
  show ?case
  proof (cases r1)
    case None
    with fa Cons.prems(3) have "for_each f as s1 = (r, s')" by simp
    with P1 Cons.prems(1) show ?thesis by (intro Cons.IH [of s1]) auto
  next
    case (Some e)
    with fa Cons.prems(3) P1 show ?thesis by simp
  qed
qed simp

end
