(* ===== verification/HostPort.thy ===== *)
theory HostPort
  imports Prelude
begin

text \<open>
  Host and port of an address, as the package \<open>net\<close> of the standard library splits and joins
  them; used by the operator, which builds addresses, and by the services, which read them.
\<close>

section \<open>Definitions\<close>

fun index_byte :: "string \<Rightarrow> char \<Rightarrow> nat option" where
  "index_byte [] c = None"
| "index_byte (x # xs) c = (if x = c then Some 0 else map_option Suc (index_byte xs c))"

definition last_index :: "string \<Rightarrow> char \<Rightarrow> nat option" where
  "last_index s c = map_option (\<lambda>i. length s - 1 - i) (index_byte (rev s) c)"

text \<open>\<open>net.SplitHostPort\<close> and \<open>net.JoinHostPort\<close>.\<close>

definition SplitHostPort :: "string \<Rightarrow> goerror + string \<times> string" where
  "SplitHostPort hostport =
     (case last_index hostport CHR '':'' of
        None \<Rightarrow> Inl (Errorf ''missing port in address'')
      | Some i \<Rightarrow>
          (let rest = (\<lambda>host j k.
              if index_byte (drop j hostport) CHR ''['' \<noteq> None then Inl (Errorf ''unexpected [ in address'')
              else if index_byte (drop k hostport) CHR '']'' \<noteq> None then Inl (Errorf ''unexpected ] in address'')
              else Inr (host, drop (i + 1) hostport)) in
           if hd hostport = CHR ''['' then
             (case index_byte hostport CHR '']'' of
                None \<Rightarrow> Inl (Errorf ''missing ] in address'')
              | Some e \<Rightarrow>
                  if e + 1 = length hostport then Inl (Errorf ''missing port in address'')
                  else if e + 1 = i then rest (take (e - 1) (drop 1 hostport)) 1 (e + 1)
                  else if hostport ! (e + 1) = CHR '':'' then Inl (Errorf ''too many colons in address'')
                  else Inl (Errorf ''missing port in address''))
           else if index_byte (take i hostport) CHR '':'' \<noteq> None then Inl (Errorf ''too many colons in address'')
           else rest (take i hostport) 0 0))"

definition JoinHostPort :: "string \<Rightarrow> string \<Rightarrow> string" where
  "JoinHostPort host port =
     (if index_byte host CHR '':'' \<noteq> None then ''['' @ host @ '']:'' @ port else host @ '':'' @ port)"

section \<open>Splitting what was joined\<close>

lemma index_byte_None [simp]: "index_byte s c = None \<longleftrightarrow> c \<notin> set s"
  by (induction s) auto

lemma index_byte_append: "c \<notin> set s \<Longrightarrow> index_byte (s @ c # t) c = Some (length s)"
  by (induction s) auto

lemma last_index_append: "c \<notin> set t \<Longrightarrow> last_index (s @ c # t) c = Some (length s)"
  by (simp add: last_index_def index_byte_append)

lemma last_index_None [simp]: "last_index s c = None \<longleftrightarrow> c \<notin> set s"
  by (simp add: last_index_def)

abbreviation bracket_free :: "string \<Rightarrow> bool" where
  "bracket_free s \<equiv> CHR ''['' \<notin> set s \<and> CHR '']'' \<notin> set s"

lemma SplitHostPort_plain:
  assumes "bracket_free host" "CHR '':'' \<notin> set host" "bracket_free port" "CHR '':'' \<notin> set port"
  shows "SplitHostPort (host @ '':'' @ port) = Inr (host, port)"
proof -
  have "hd (host @ CHR '':'' # port) \<noteq> CHR ''[''" using assms(1) by (cases host) auto
  with assms show ?thesis by (simp add: SplitHostPort_def last_index_append Let_def)
qed

lemma SplitHostPort_bracketed:
  assumes "bracket_free host" "bracket_free port" "CHR '':'' \<notin> set port"
  shows "SplitHostPort (''['' @ host @ '']:'' @ port) = Inr (host, port)"
proof -
  let ?hp = "''['' @ host @ '']:'' @ port"
  have i: "last_index ?hp CHR '':'' = Some (length host + 2)"
    using last_index_append [OF assms(3), of "''['' @ host @ '']''"] by simp
  have e: "index_byte ?hp CHR '']'' = Some (length host + 1)"
    using index_byte_append [of "CHR '']''" "''['' @ host" "CHR '':'' # port"] assms(1) by simp
  show ?thesis using assms i e by (simp add: SplitHostPort_def Let_def)
qed

lemma colon_decomp: "c \<in> set s \<Longrightarrow> \<exists>a b. s = a @ c # b \<and> c \<notin> set b"
  by (metis split_list_last)

end
