(* ===== verification/OperatorConfig.thy ===== *)
theory OperatorConfig
  imports OperatorTypes HostPort
begin

text \<open>
  The part of the operator that turns the \<open>Jumpstarter\<close> resource into the configuration of the
  controller and the names and addresses of the routers
  (\<open>src/deploy/operator/internal/controller/jumpstarter/jumpstarter_controller.go\<close>), and what
  the controller makes of that configuration (theory \<open>Config\<close>).
\<close>

section \<open>Library functions on texts\<close>

text \<open>\<open>strings.ReplaceAll\<close>, for a text to replace that is not empty.\<close>

function replace_all :: "string \<Rightarrow> string \<Rightarrow> string \<Rightarrow> string" where
  "replace_all old new [] = []"
| "replace_all old new (c # cs) =
     (if old \<noteq> [] \<and> strings_HasPrefix (c # cs) old then new @ replace_all old new (drop (length old) (c # cs))
      else c # replace_all old new cs)"
  by pat_completeness auto

termination
  by (relation "measure (\<lambda>(old, new, s). length s)") auto

section \<open>Names and addresses\<close>

definition replicas :: "Jumpstarter \<Rightarrow> int list" where
  "replicas j = [0..ro_Replicas (js_Routers (j_Spec j)) - 1]"

definition substituteReplica :: "string \<Rightarrow> int \<Rightarrow> string" where
  "substituteReplica address replicaIndex = replace_all ''$(replica)'' (itoa replicaIndex) address"

definition ensurePort :: "string \<Rightarrow> string \<Rightarrow> string" where
  "ensurePort address defaultPort =
     (case SplitHostPort address of
        Inr _ \<Rightarrow> address
      | Inl _ \<Rightarrow> JoinHostPort address defaultPort)"

definition buildRouterEndpointForReplica :: "Jumpstarter \<Rightarrow> int \<Rightarrow> string" where
  "buildRouterEndpointForReplica j replicaIndex =
     (let eps = gc_Endpoints (ro_GRPC (js_Routers (j_Spec j)));
          fallback = ''router-'' @ itoa replicaIndex @ ''.'' @ js_BaseDomain (j_Spec j) @ '':443''
      in if length eps > 0 \<and> ept_Address (eps ! 0) \<noteq> []
         then ensurePort (substituteReplica (ept_Address (eps ! 0)) replicaIndex) ''443''
         else fallback)"

definition buildServiceNameForReplicaEndpoint :: "Jumpstarter \<Rightarrow> int \<Rightarrow> int \<Rightarrow> string" where
  "buildServiceNameForReplicaEndpoint j replicaIndex endpointIdx =
     (if endpointIdx = 0 then om_Name (j_Meta j) @ ''-router-'' @ itoa replicaIndex
      else om_Name (j_Meta j) @ ''-router-'' @ itoa replicaIndex @ ''-'' @ itoa endpointIdx)"

definition buildEndpointForReplica :: "Jumpstarter \<Rightarrow> int \<Rightarrow> int \<Rightarrow> Endpoint \<Rightarrow> Endpoint" where
  "buildEndpointForReplica j replicaIndex endpointIdx baseEndpoint =
     (if ept_Address baseEndpoint \<noteq> []
      then baseEndpoint\<lparr>ept_Address := substituteReplica (ept_Address baseEndpoint) replicaIndex\<rparr>
      else if endpointIdx = 0
      then baseEndpoint\<lparr>ept_Address := ''router-'' @ itoa replicaIndex @ ''.'' @ js_BaseDomain (j_Spec j)\<rparr>
      else baseEndpoint\<lparr>ept_Address :=
        ''router-'' @ itoa replicaIndex @ ''-'' @ itoa endpointIdx @ ''.'' @ js_BaseDomain (j_Spec j)\<rparr>)"

section \<open>The configuration\<close>

definition buildRouter :: "Jumpstarter \<Rightarrow> Router" where
  "buildRouter j =
     map (\<lambda>i. (if i > 0 then ''router-'' @ itoa i else ''default'',
               \<lparr>re_Endpoint = buildRouterEndpointForReplica j i,
                re_Labels = (if i > 0 then [(''router-index'', itoa i)] else [])\<rparr>)) (replicas j)"

abbreviation set_text :: "duration option \<Rightarrow> string \<Rightarrow> string" where
  "set_text d old \<equiv> (case d of Some v \<Rightarrow> duration_String v | None \<Rightarrow> old)"

definition buildConfig :: "Jumpstarter \<Rightarrow> Config" where
  "buildConfig j =
     (let ac = cc_Authentication (js_Controller (j_Spec j)); internal = acf_Internal ac;
          auth = \<lparr>aut_Internal =
              (if ia_Enabled internal
               then \<lparr>in_Prefix = (if ia_Prefix internal = [] then ''internal:'' else ia_Prefix internal),
                     in_TokenLifetime = set_text (ia_TokenLifetime internal) []\<rparr>
               else \<lparr>in_Prefix = [], in_TokenLifetime = []\<rparr>),
            aut_K8s = \<lparr>k8_Enabled = ka8_Enabled (acf_K8s ac)\<rparr>, aut_JWT = acf_JWT ac\<rparr>;
          ka = \<lparr>ka_MinTime = ''1s'', ka_PermitWithoutStream = True, ka_Timeout = [], ka_IntervalTime = [],
                ka_MaxConnectionIdle = [], ka_MaxConnectionAge = [], ka_MaxConnectionAgeGrace = []\<rparr>
      in \<lparr>cf_Authentication = auth, cf_Provisioning = \<lparr>pv_Enabled = False\<rparr>,
          cf_Grpc = \<lparr>gr_Keepalive =
            (case gc_Keepalive (cc_GRPC (js_Controller (j_Spec j))) of
               None \<Rightarrow> ka
             | Some g \<Rightarrow>
                 ka\<lparr>ka_MinTime := set_text (gk_MinTime g) (ka_MinTime ka),
                    ka_PermitWithoutStream := gk_PermitWithoutStream g,
                    ka_Timeout := set_text (gk_Timeout g) (ka_Timeout ka),
                    ka_IntervalTime := set_text (gk_IntervalTime g) (ka_IntervalTime ka),
                    ka_MaxConnectionIdle := set_text (gk_MaxConnectionIdle g) (ka_MaxConnectionIdle ka),
                    ka_MaxConnectionAge := set_text (gk_MaxConnectionAge g) (ka_MaxConnectionAge ka),
                    ka_MaxConnectionAgeGrace := set_text (gk_MaxConnectionAgeGrace g) (ka_MaxConnectionAgeGrace ka)\<rparr>)\<rparr>\<rparr>)"

text \<open>\<open>yaml.Marshal\<close> of the two structures is a library call.\<close>

record yaml_env =
  ym_Config :: "Config \<Rightarrow> goerror + string"
  ym_Router :: "Router \<Rightarrow> goerror + string"

definition createConfigMap :: "yaml_env \<Rightarrow> Jumpstarter \<Rightarrow> goerror + ConfigMap" where
  "createConfigMap ym j =
     (case ym_Config ym (buildConfig j) of
        Inl err \<Rightarrow> Inl (WrapError ''failed to marshal config to YAML: '' err)
      | Inr configYAML \<Rightarrow>
          (case ym_Router ym (buildRouter j) of
             Inl err \<Rightarrow> Inl (WrapError ''failed to marshal router to YAML: '' err)
           | Inr routerYAML \<Rightarrow>
               Inr \<lparr>cm_Meta = zero_ObjectMeta\<lparr>om_Name := ''jumpstarter-controller'', om_Namespace := om_Namespace (j_Meta j)\<rparr>,
                    cm_Labels = Some [(''app'', ''jumpstarter-controller''), (''control-plane'', ''controller-manager'')],
                    cm_Annotations = None,
                    cm_Data = Some [(''config'', configYAML), (''router'', routerYAML)],
                    cm_BinaryData = None\<rparr>))"

section \<open>Addresses\<close>

text \<open>
  \<open>ensurePort\<close> on an address without brackets gives an address that splits into host and
  port: those of the address if it had a port, else the whole address (a name, an IPv4 or an
  IPv6 address) and the default port.
\<close>

theorem ensure_port_splits:
  assumes "bracket_free address" "bracket_free port" "CHR '':'' \<notin> set port"
  shows "SplitHostPort (ensurePort address port) =
    (case SplitHostPort address of Inr hp \<Rightarrow> Inr hp | Inl _ \<Rightarrow> Inr (address, port))"
proof (cases "SplitHostPort address")
  case (Inr hp)
  then show ?thesis by (simp add: ensurePort_def)
next
  case (Inl err)
  then show ?thesis
    using SplitHostPort_plain [OF assms(1) _ assms(2,3)] SplitHostPort_bracketed [OF assms]
    by (simp add: ensurePort_def JoinHostPort_def)
qed

theorem ensure_port_splits_witness:
  "SplitHostPort (ensurePort ''fd00::1'' ''443'') = Inr (''fd00::1'', ''443'') \<and>
   SplitHostPort (ensurePort ''grpc.example.com:9090'' ''443'') = Inr (''grpc.example.com'', ''9090'')"
proof -
  have "SplitHostPort ''fd00::1'' = Inl (Errorf ''too many colons in address'')"
    "SplitHostPort ''grpc.example.com:9090'' = Inr (''grpc.example.com'', ''9090'')" by (code_simp, code_simp)
  with ensure_port_splits [of "''fd00::1''" "''443''"] ensure_port_splits [of "''grpc.example.com:9090''" "''443''"]
  show ?thesis by simp
qed

text \<open>
  An IPv6 address that is already in brackets and has no port is bracketed once more, and
  the result is no valid address.
\<close>

theorem bracketed_ipv6_malformed:
  assumes "bracket_free host" "CHR '':'' \<in> set host"
  shows "ensurePort (''['' @ host @ '']'') port = ''[['' @ host @ '']]:'' @ port \<and>
    (CHR '':'' \<notin> set port \<longrightarrow> (\<exists>err. SplitHostPort (''[['' @ host @ '']]:'' @ port) = Inl err))"
proof -
  from colon_decomp [OF assms(2)] obtain a b where ab: "host = a @ CHR '':'' # b" "CHR '':'' \<notin> set b" by blast
  have l: "last_index (''['' @ host @ '']'') CHR '':'' = Some (length a + 1)"
    using last_index_append [of "CHR '':''" "b @ '']''" "''['' @ a"] ab by simp
  have e: "index_byte (''['' @ host @ '']'') CHR '']'' = Some (length host + 1)"
    using index_byte_append [of "CHR '']''" "''['' @ host" "[]"] assms(1) by simp
  have "SplitHostPort (''['' @ host @ '']'') = Inl (Errorf ''missing port in address'')"
    using l e by (simp add: SplitHostPort_def Let_def)
  then have "ensurePort (''['' @ host @ '']'') port = ''[['' @ host @ '']]:'' @ port"
    using assms(2) by (simp add: ensurePort_def JoinHostPort_def)
  moreover have "\<exists>err. SplitHostPort (''[['' @ host @ '']]:'' @ port) = Inl err" if "CHR '':'' \<notin> set port"
  proof -
    have "last_index (''[['' @ host @ '']]:'' @ port) CHR '':'' = Some (length host + 4)"
      using last_index_append [OF that, of "''[['' @ host @ '']]''"] by simp
    moreover have "index_byte (''[['' @ host @ '']]:'' @ port) CHR '']'' = Some (length host + 2)"
      using index_byte_append [of "CHR '']''" "''[['' @ host" "'']:'' @ port"] assms(1) by simp
    ultimately show ?thesis by (simp add: SplitHostPort_def Let_def nth_append)
  qed
  ultimately show ?thesis by simp
qed

theorem bracketed_ipv6_malformed_witness:
  "ensurePort ''[2001:db8::1]'' ''443'' = ''[[2001:db8::1]]:443''"
  using bracketed_ipv6_malformed [of "''2001:db8::1''" "''443''"] by simp

section \<open>Routers\<close>

text \<open>
  The router map has one entry per replica, under names that are all different (it is a
  map), whatever the endpoints are.
\<close>

theorem router_entry_per_replica:
  "go_map (buildRouter j) \<and> length (buildRouter j) = nat (ro_Replicas (js_Routers (j_Spec j)))"
proof -
  have "inj_on (\<lambda>i. if i > 0 then ''router-'' @ itoa i else ''default'') (set (replicas j))"
    by (rule inj_onI) (auto simp: replicas_def itoa_inj_nonneg split: if_splits)
  then show ?thesis
    by (simp add: go_map_def buildRouter_def replicas_def distinct_map comp_def)
qed

text \<open>
  With the routers that the operator configures, an exporter that carries any label other
  than \<open>router-index\<close> matches no router, so that all routers compare equal and its labels have
  no influence on which router is picked.
\<close>

theorem operator_routers_never_match:
  assumes "(key, v) \<in> set labels" "key \<noteq> ''router-index''"
    and "r1 \<in> snd ` set (buildRouter j)" "r2 \<in> snd ` set (buildRouter j)"
  shows "MatchLabels (re_Labels r1) labels = - 1 \<and> routerCmp labels r1 r2 = 0"
proof -
  have "MatchLabels (re_Labels r) labels = - 1" if "r \<in> snd ` set (buildRouter j)" for r
  proof -
    from that have "mget (re_Labels r) key = None" using assms(2) by (auto simp: buildRouter_def)
    with assms(1) show ?thesis by (force simp: MatchLabels_eq list_all_iff)
  qed
  with assms(3,4) show ?thesis by (simp add: routerCmp_def cmp_Compare_def)
qed

section \<open>The configuration, as the controller reads it\<close>

text \<open>Decoding gives back what was encoded, and parsing what \<open>String\<close> printed, for the durations at hand.\<close>

definition yaml_ok :: "yaml_env \<Rightarrow> ('ca, 'u, 'a) config_env \<Rightarrow> bool" where
  "yaml_ok ym ce \<longleftrightarrow>
     (\<forall>c t. ym_Config ym c = Inr t \<longrightarrow> ce_UnmarshalConfig ce t = Inr c) \<and>
     (\<forall>r t. ym_Router ym r = Inr t \<longrightarrow> ce_UnmarshalRouter ce t = Inr r)"

definition durations_print :: "('ca, 'u, 'a) config_env \<Rightarrow> Jumpstarter \<Rightarrow> bool" where
  "durations_print ce j \<longleftrightarrow>
     ce_ParseDuration ce (duration_String Second) = Inr Second \<and>
     (\<forall>g d. gc_Keepalive (cc_GRPC (js_Controller (j_Spec j))) = Some g \<longrightarrow> gk_MinTime g = Some d \<longrightarrow>
        ce_ParseDuration ce (duration_String d) = Inr d)"

definition minTime_of :: "Jumpstarter \<Rightarrow> duration" where
  "minTime_of j =
     (case gc_Keepalive (cc_GRPC (js_Controller (j_Spec j))) of
        None \<Rightarrow> Second
      | Some g \<Rightarrow> (case gk_MinTime g of None \<Rightarrow> Second | Some d \<Rightarrow> if d = 0 then Second else d))"

lemma buildConfig_minTime:
  assumes "durations_print ce j"
  shows "LoadGrpcConfiguration ce (cf_Grpc (buildConfig j)) =
    Inr \<lparr>kp_MinTime = minTime_of j, kp_PermitWithoutStream =
      (case gc_Keepalive (cc_GRPC (js_Controller (j_Spec j))) of None \<Rightarrow> True | Some g \<Rightarrow> gk_PermitWithoutStream g)\<rparr>"
proof -
  have p: "ParseDuration ce (duration_String d) = Inr d" if "ce_ParseDuration ce (duration_String d) = Inr d" for d
    using that duration_String_nonempty by (simp add: ParseDuration_def)
  from p [of Second] assms have "ParseDuration ce (duration_String Second) = Inr Second" by (simp add: durations_print_def)
  then have s: "ParseDuration ce ''1s'' = Inr 1000000000" unfolding one_second by (simp add: Second_def)
  show ?thesis
  proof (cases "gc_Keepalive (cc_GRPC (js_Controller (j_Spec j)))")
    case None
    with s show ?thesis by (simp add: LoadGrpcConfiguration_def buildConfig_def Let_def minTime_of_def Second_def)
  next
    case (Some g)
    with s p assms [unfolded durations_print_def] show ?thesis
      by (cases "gk_MinTime g") (simp_all add: LoadGrpcConfiguration_def buildConfig_def Let_def minTime_of_def Second_def)
  qed
qed

lemma union_of_ex: "(\<forall>ja\<in>set jas. \<exists>a. jwt_one ce ja = Inr a) \<Longrightarrow> \<exists>authn. union_of ce jas authn"
proof -
  assume "\<forall>ja\<in>set jas. \<exists>a. jwt_one ce ja = Inr a"
  then have "list_all2 (\<lambda>ja a. jwt_one ce ja = Inr a) jas (map (\<lambda>ja. SOME a. jwt_one ce ja = Inr a) jas)"
    by (auto simp: list_all2_conv_all_nth intro: someI_ex)
  then show ?thesis unfolding union_of_def by blast
qed

definition internal_prefix :: "Jumpstarter \<Rightarrow> string" where
  "internal_prefix j =
     (let internal = acf_Internal (cc_Authentication (js_Controller (j_Spec j))) in
      if ia_Enabled internal \<and> ia_Prefix internal \<noteq> [] then ia_Prefix internal else ''internal:'')"

text \<open>
  The controller loads the config map that the operator writes, if the configured issuers
  can be set up: it gets the router map, the keepalive settings of the resource and no
  provisioning. It accepts internal tokens in every case: also when the resource disables the
  internal method, in which case the prefix is \<open>internal:\<close>.
\<close>

theorem operator_config_loads:
  assumes cm: "createConfigMap ym j = Inr cm" "cm_Data cm = Some data"
    and env: "yaml_ok ym ce" "durations_print ce j"
    and jwt: "\<forall>ja\<in>set (acf_JWT (cc_Authentication (js_Controller (j_Spec j))) @ [internal_issuer signer ca (internal_prefix j)]).
      \<exists>a. jwt_one ce ja = Inr a"
  shows "\<exists>co. LoadConfiguration ce (Inr data) signer ca = Inr co \<and> co_router co = buildRouter j \<and>
    \<not> pv_Enabled (co_provisioning co) \<and> co_prefix co = internal_prefix j \<and> kp_MinTime (co_keepalive co) = minTime_of j \<and>
    union_of ce (acf_JWT (cc_Authentication (js_Controller (j_Spec j))) @ [internal_issuer signer ca (internal_prefix j)])
      (co_authenticator co)"
proof -
  from cm obtain ct rt where t: "ym_Config ym (buildConfig j) = Inr ct" "ym_Router ym (buildRouter j) = Inr rt"
    and data: "data = [(''config'', ct), (''router'', rt)]"
    by (auto simp: createConfigMap_def split: sum.splits)
  from t env(1) have u: "ce_UnmarshalConfig ce ct = Inr (buildConfig j)" "ce_UnmarshalRouter ce rt = Inr (buildRouter j)"
    by (simp_all add: yaml_ok_def)
  from union_of_ex [OF jwt] obtain authn where un: "union_of ce (acf_JWT (cc_Authentication (js_Controller (j_Spec j)))
      @ [internal_issuer signer ca (internal_prefix j)]) authn" ..
  then have "LoadAuthenticationConfiguration ce (cf_Authentication (buildConfig j)) signer ca = Inr (authn, internal_prefix j)"
    unfolding jwt_union [symmetric]
    by (auto simp: LoadAuthenticationConfiguration_def newJWTAuthenticator_def buildConfig_def internal_prefix_def Let_def)
  with u data buildConfig_minTime [OF env(2)] un show ?thesis
    by (simp add: LoadConfiguration_def) (simp add: buildConfig_def Let_def)
qed

section \<open>Evaluated instances\<close>

definition sample_endpoint :: "string \<Rightarrow> Endpoint" where
  "sample_endpoint address = \<lparr>ept_Address = address, ept_Route = None, ept_Ingress = None, ept_NodePort = None,
     ept_LoadBalancer = None, ept_ClusterIP = None\<rparr>"

definition sample_grpc :: "Endpoint list \<Rightarrow> GRPCConfig" where
  "sample_grpc eps = \<lparr>gc_TLS = \<lparr>tls_CertSecret = []\<rparr>, gc_Endpoints = eps, gc_Keepalive = None\<rparr>"

definition sample_authn :: AuthenticationConfig where
  "sample_authn = \<lparr>acf_Internal = \<lparr>ia_Prefix = [], ia_Enabled = False, ia_TokenLifetime = None\<rparr>,
     acf_K8s = \<lparr>ka8_Enabled = False\<rparr>, acf_JWT = []\<rparr>"

definition sample_jumpstarter :: Jumpstarter where
  "sample_jumpstarter = \<lparr>j_Meta = sample_meta ''js'' [], j_DeletionTimestamp = None,
     j_Spec = \<lparr>js_BaseDomain = ''example.com'', js_UseCertManager = False,
       js_Controller = \<lparr>cc_Image = ''controller:1'', cc_ImagePullPolicy = ''IfNotPresent'', cc_Resources = [], cc_Replicas = 2,
         cc_ExporterOptions = \<lparr>eo_OfflineTimeout = None\<rparr>,
         cc_RestAPI = \<lparr>ra_TLS = \<lparr>tls_CertSecret = []\<rparr>, ra_Endpoints = []\<rparr>,
         cc_GRPC = sample_grpc [], cc_Authentication = sample_authn\<rparr>,
       js_Routers = \<lparr>ro_Image = ''router:1'', ro_ImagePullPolicy = ''IfNotPresent'', ro_Resources = [], ro_Replicas = 2,
         ro_TopologySpreadConstraints = [], ro_GRPC = sample_grpc [sample_endpoint ''r$(replica).example.com'']\<rparr>,
       js_Authentication = sample_authn\<rparr>\<rparr>"

theorem operator_routers_never_match_witness:
  "routerCmp [(''board'', ''rpi'')] (snd (buildRouter sample_jumpstarter ! 0)) (snd (buildRouter sample_jumpstarter ! 1)) = 0 \<and>
   map (re_Endpoint \<circ> snd) (buildRouter sample_jumpstarter) = [''r0.example.com:443'', ''r1.example.com:443'']"
proof -
  have l: "length (buildRouter sample_jumpstarter) = 2" by code_simp
  have "snd (buildRouter sample_jumpstarter ! 0) \<in> snd ` set (buildRouter sample_jumpstarter)"
    "snd (buildRouter sample_jumpstarter ! 1) \<in> snd ` set (buildRouter sample_jumpstarter)" using l by simp_all
  from operator_routers_never_match [OF _ _ this, of "''board''" "''rpi''" "[(''board'', ''rpi'')]"]
  have "routerCmp [(''board'', ''rpi'')] (snd (buildRouter sample_jumpstarter ! 0)) (snd (buildRouter sample_jumpstarter ! 1)) = 0"
    by simp
  moreover have "map (re_Endpoint \<circ> snd) (buildRouter sample_jumpstarter) = [''r0.example.com:443'', ''r1.example.com:443'']"
    by code_simp
  ultimately show ?thesis ..
qed

text \<open>An encoding that knows the sample only.\<close>

definition sample_yaml :: yaml_env where
  "sample_yaml = \<lparr>ym_Config = (\<lambda>c. if c = buildConfig sample_jumpstarter then Inr ''C'' else Inl (Errorf ''unknown'')),
     ym_Router = (\<lambda>r. if r = buildRouter sample_jumpstarter then Inr ''R'' else Inl (Errorf ''unknown''))\<rparr>"

definition sample_cenv :: "(string, JWTAuthenticator, string list) config_env" where
  "sample_cenv = mem_config\<lparr>ce_UnmarshalConfig := (\<lambda>t. Inr (buildConfig sample_jumpstarter)),
     ce_UnmarshalRouter := (\<lambda>t. Inr (buildRouter sample_jumpstarter)),
     ce_ParseDuration := (\<lambda>t. if t = ''1s'' then Inr Second else Inl (Errorf ''invalid duration''))\<rparr>"

definition sample_configmap :: ConfigMap where
  "sample_configmap = projr (createConfigMap sample_yaml sample_jumpstarter)"

lemma sample_yaml_ok: "yaml_ok sample_yaml sample_cenv"
  by (auto simp: yaml_ok_def sample_yaml_def sample_cenv_def split: if_splits)

theorem operator_config_loads_witness:
  "\<exists>co. LoadConfiguration sample_cenv (Inr [(''config'', ''C''), (''router'', ''R'')]) sample_signer [] = Inr co \<and>
     co_prefix co = ''internal:'' \<and> \<not> ia_Enabled (acf_Internal (cc_Authentication (js_Controller (j_Spec sample_jumpstarter))))"
proof -
  have c: "createConfigMap sample_yaml sample_jumpstarter = Inr sample_configmap"
    by (simp add: sample_configmap_def createConfigMap_def sample_yaml_def)
  have d: "cm_Data sample_configmap = Some [(''config'', ''C''), (''router'', ''R'')]"
    by (simp add: sample_configmap_def createConfigMap_def sample_yaml_def)
  have p: "durations_print sample_cenv sample_jumpstarter"
    unfolding durations_print_def one_second
    by (simp add: sample_cenv_def sample_jumpstarter_def sample_grpc_def)
  have j: "\<forall>ja\<in>set (acf_JWT (cc_Authentication (js_Controller (j_Spec sample_jumpstarter))) @
      [internal_issuer sample_signer [] (internal_prefix sample_jumpstarter)]). \<exists>a. jwt_one sample_cenv ja = Inr a"
    by (simp add: sample_cenv_def mem_config_def jwt_one_def Let_def)
  have "internal_prefix sample_jumpstarter = ''internal:''"
    "\<not> ia_Enabled (acf_Internal (cc_Authentication (js_Controller (j_Spec sample_jumpstarter))))" by (code_simp, code_simp)
  with operator_config_loads [OF c d sample_yaml_ok p j] show ?thesis by auto
qed

end
