(* ===== verification/OperatorEndpoints.thy ===== *)
theory OperatorEndpoints
  imports OperatorConfig
begin

text \<open>
  The endpoints of the operator
  (\<open>src/deploy/operator/internal/controller/jumpstarter/endpoints\<close>): defaults, and the
  services, ingresses and routes that expose the controller and each router replica.
\<close>

section \<open>Defaults\<close>

definition enabled_by :: "('a \<Rightarrow> bool) \<Rightarrow> 'a option \<Rightarrow> bool" where
  "enabled_by on c = (case c of None \<Rightarrow> False | Some v \<Rightarrow> on v)"

definition service_type_enabled :: "Endpoint \<Rightarrow> bool" where
  "service_type_enabled ep \<longleftrightarrow>
     enabled_by rc_Enabled (ept_Route ep) \<or> enabled_by ic_Enabled (ept_Ingress ep) \<or>
     enabled_by lb_Enabled (ept_LoadBalancer ep) \<or> enabled_by np_Enabled (ept_NodePort ep) \<or>
     enabled_by ci_Enabled (ept_ClusterIP ep)"

definition ensureEndpointServiceType :: "bool \<Rightarrow> bool \<Rightarrow> Endpoint \<Rightarrow> Endpoint" where
  "ensureEndpointServiceType routeAvailable ingressAvailable ep =
     (if service_type_enabled ep then ep
      else if routeAvailable then ep\<lparr>ept_Route := Some \<lparr>rc_Enabled = True, rc_Annotations = [], rc_Labels = []\<rparr>\<rparr>
      else if ingressAvailable
      then ep\<lparr>ept_Ingress := Some \<lparr>ic_Enabled = True, ic_Class = [], ic_Annotations = [], ic_Labels = []\<rparr>\<rparr>
      else ep\<lparr>ept_ClusterIP := Some \<lparr>ci_Enabled = True, ci_Annotations = [], ci_Labels = []\<rparr>\<rparr>)"

definition blank_Endpoint :: "string \<Rightarrow> Endpoint" where
  "blank_Endpoint address = \<lparr>ept_Address = address, ept_Route = None, ept_Ingress = None, ept_NodePort = None,
     ept_LoadBalancer = None, ept_ClusterIP = None\<rparr>"

definition default_endpoints :: "bool \<Rightarrow> bool \<Rightarrow> string \<Rightarrow> Endpoint list \<Rightarrow> Endpoint list" where
  "default_endpoints routeAvailable ingressAvailable address eps =
     (if length eps = 0 then [ensureEndpointServiceType routeAvailable ingressAvailable (blank_Endpoint address)]
      else map (ensureEndpointServiceType routeAvailable ingressAvailable) eps)"

definition ApplyEndpointDefaults :: "bool \<Rightarrow> bool \<Rightarrow> JumpstarterSpec \<Rightarrow> JumpstarterSpec" where
  "ApplyEndpointDefaults routeAvailable ingressAvailable spec =
     (if js_BaseDomain spec = [] then spec
      else
        (let c = js_Controller spec; r = js_Routers spec;
             c1 = c\<lparr>cc_GRPC := (cc_GRPC c)\<lparr>gc_Endpoints :=
               default_endpoints routeAvailable ingressAvailable (''grpc.'' @ js_BaseDomain spec) (gc_Endpoints (cc_GRPC c))\<rparr>\<rparr>;
             r1 = r\<lparr>ro_GRPC := (ro_GRPC r)\<lparr>gc_Endpoints :=
               default_endpoints routeAvailable ingressAvailable (''router-$(replica).'' @ js_BaseDomain spec)
                 (gc_Endpoints (ro_GRPC r))\<rparr>\<rparr>
         in spec\<lparr>js_Controller := c1, js_Routers := r1\<rparr>))"

section \<open>Services\<close>

record op_env =
  oe_IngressAvailable :: bool
  oe_RouteAvailable :: bool
  oe_IsDNS1123Subdomain :: "string \<Rightarrow> string list"
  oe_SetControllerReference :: "ObjectMeta \<Rightarrow> ObjectMeta \<Rightarrow> goerror + ObjectMeta"

definition MergeMaps :: "strmap \<Rightarrow> strmap \<Rightarrow> strmap" where
  "MergeMaps base overrides =
     fold (\<lambda>(key, v) m. mset_key m key v) overrides (fold (\<lambda>(key, v) m. mset_key m key v) base [])"

text \<open>The node ports that are kept from the stored service.\<close>

definition keep_node_ports :: "ServicePort list \<Rightarrow> ServicePort list \<Rightarrow> ServicePort list" where
  "keep_node_ports existing ports =
     map (\<lambda>i. if i < length existing \<and> svp_NodePort (existing ! i) \<noteq> 0
              then (ports ! i)\<lparr>svp_NodePort := svp_NodePort (existing ! i)\<rparr> else ports ! i) [0..<length ports]"

definition mutate_service :: "op_env \<Rightarrow> Service \<Rightarrow> ObjectMeta \<Rightarrow> Service option \<Rightarrow> goerror + Service" where
  "mutate_service oe service own stored =
     (case stored of
        None \<Rightarrow> map_sum id (\<lambda>m. service\<lparr>svc_Meta := m\<rparr>) (oe_SetControllerReference oe own (svc_Meta service))
      | Some existing \<Rightarrow>
          (let ports = (if svc_Type service = ServiceTypeNodePort \<or> svc_Type service = ServiceTypeLoadBalancer
                        then keep_node_ports (svc_Ports existing) (svc_Ports service) else svc_Ports service);
               e1 = existing\<lparr>
                 svc_LoadBalancerClass := (case svc_LoadBalancerClass service of
                     Some cl \<Rightarrow> if cl \<noteq> [] then Some cl else svc_LoadBalancerClass existing
                   | None \<Rightarrow> svc_LoadBalancerClass existing),
                 svc_ExternalTrafficPolicy := (if svc_ExternalTrafficPolicy service \<noteq> []
                   then svc_ExternalTrafficPolicy service else svc_ExternalTrafficPolicy existing),
                 svc_Ports := ports, svc_Selector := svc_Selector service, svc_Type := svc_Type service\<rparr>;
               meta = (svc_Meta existing)\<lparr>om_Labels := om_Labels (svc_Meta service), om_Annotations := om_Annotations (svc_Meta service)\<rparr>
           in map_sum id (\<lambda>m. e1\<lparr>svc_Meta := m\<rparr>) (oe_SetControllerReference oe own meta)))"

definition createOrUpdateService ::
  "'s okube \<Rightarrow> op_env \<Rightarrow> Service \<Rightarrow> ObjectMeta \<Rightarrow> 's \<Rightarrow> goerror option \<times> 's" where
  "createOrUpdateService k oe service own s =
     ok_applyService k s (key_of (svc_Meta service)) (mutate_service oe service own)"

definition desired_service ::
  "ObjectMeta \<Rightarrow> ServicePort \<Rightarrow> string \<Rightarrow> ServiceType \<Rightarrow> strmap \<Rightarrow> strmap \<Rightarrow> strmap \<Rightarrow> strmap \<Rightarrow> Service" where
  "desired_service own servicePort nameSuffix serviceType podSelector baseLabels annotations extraLabels =
     \<lparr>svc_Meta = zero_ObjectMeta\<lparr>om_Name := svp_Name servicePort @ nameSuffix, om_Namespace := om_Namespace own,
        om_Labels := MergeMaps baseLabels extraLabels, om_Annotations := annotations\<rparr>,
      svc_Selector = podSelector, svc_Ports = [servicePort], svc_Type = serviceType,
      svc_LoadBalancerClass = None, svc_ExternalTrafficPolicy = []\<rparr>"

definition createService ::
  "'s okube \<Rightarrow> op_env \<Rightarrow> ObjectMeta \<Rightarrow> ServicePort \<Rightarrow> string \<Rightarrow> ServiceType \<Rightarrow> strmap \<Rightarrow> strmap \<Rightarrow> strmap \<Rightarrow> strmap
   \<Rightarrow> 's \<Rightarrow> goerror option \<times> 's" where
  "createService k oe own servicePort nameSuffix serviceType podSelector baseLabels annotations extraLabels s =
     createOrUpdateService k oe
       (desired_service own servicePort nameSuffix serviceType podSelector baseLabels annotations extraLabels) own s"

section \<open>Ingresses and routes\<close>

definition extractHostname :: "string \<Rightarrow> string" where
  "extractHostname address =
     (if strings_HasPrefix address ''['' then
        (case index_byte address CHR '']'' of Some idx \<Rightarrow> take (idx - 1) (drop 1 address) | None \<Rightarrow> address)
      else
        (case last_index address CHR '':'' of
           Some idx \<Rightarrow> if length (filter (\<lambda>c. c = CHR '':'') address) > 1 then address else take idx address
         | None \<Rightarrow> address))"

definition ingress_annotations :: strmap where
  "ingress_annotations =
     [(''nginx.ingress.kubernetes.io/ssl-redirect'', ''true''),
      (''nginx.ingress.kubernetes.io/backend-protocol'', ''GRPC''),
      (''nginx.ingress.kubernetes.io/proxy-read-timeout'', ''300''),
      (''nginx.ingress.kubernetes.io/proxy-send-timeout'', ''300''),
      (''nginx.ingress.kubernetes.io/ssl-passthrough'', ''true'')]"

definition desired_ingress :: "ObjectMeta \<Rightarrow> string \<Rightarrow> int \<Rightarrow> string \<Rightarrow> IngressConfig \<Rightarrow> strmap \<Rightarrow> Ingress" where
  "desired_ingress own serviceName servicePort hostname ic baseLabels =
     \<lparr>ing_Meta = zero_ObjectMeta\<lparr>om_Name := serviceName @ ''-ing'', om_Namespace := om_Namespace own,
        om_Labels := MergeMaps baseLabels (ic_Labels ic),
        om_Annotations := MergeMaps ingress_annotations (ic_Annotations ic)\<rparr>,
      ing_ClassName = (if ic_Class ic \<noteq> [] then Some (ic_Class ic) else None),
      ing_Rules = [\<lparr>ir_Host = hostname, ir_Path = ''/'', ir_PathType = ''Prefix'', ir_ServiceName = serviceName,
                    ir_ServicePort = servicePort\<rparr>],
      ing_TLSHosts = [[hostname]]\<rparr>"

definition mutate_ingress :: "op_env \<Rightarrow> Ingress \<Rightarrow> ObjectMeta \<Rightarrow> Ingress option \<Rightarrow> goerror + Ingress" where
  "mutate_ingress oe ingress own stored =
     (let m0 = (case stored of
            None \<Rightarrow> zero_ObjectMeta\<lparr>om_Name := om_Name (ing_Meta ingress), om_Namespace := om_Namespace (ing_Meta ingress)\<rparr>
          | Some e \<Rightarrow> ing_Meta e);
          m1 = m0\<lparr>om_Labels := om_Labels (ing_Meta ingress), om_Annotations := om_Annotations (ing_Meta ingress)\<rparr>
      in map_sum id (\<lambda>m. \<lparr>ing_Meta = m, ing_ClassName = ing_ClassName ingress, ing_Rules = ing_Rules ingress,
            ing_TLSHosts = ing_TLSHosts ingress\<rparr>) (oe_SetControllerReference oe own m1))"

definition createIngressForEndpoint ::
  "'s okube \<Rightarrow> op_env \<Rightarrow> ObjectMeta \<Rightarrow> string \<Rightarrow> int \<Rightarrow> Endpoint \<Rightarrow> IngressConfig \<Rightarrow> strmap \<Rightarrow> 's \<Rightarrow> goerror option \<times> 's" where
  "createIngressForEndpoint k oe own serviceName servicePort endpoint ic baseLabels s =
     (let hostname = extractHostname (ept_Address endpoint) in
      if \<not> oe_IngressAvailable oe \<or> hostname = [] \<or> oe_IsDNS1123Subdomain oe hostname \<noteq> [] then (None, s)
      else
        (let ingress = desired_ingress own serviceName servicePort hostname ic baseLabels
         in ok_applyIngress k s (key_of (ing_Meta ingress)) (mutate_ingress oe ingress own)))"

definition route_annotations :: strmap where
  "route_annotations =
     [(''haproxy.router.openshift.io/timeout'', ''2d''), (''haproxy.router.openshift.io/timeout-tunnel'', ''2d'')]"

definition desired_route :: "ObjectMeta \<Rightarrow> string \<Rightarrow> int \<Rightarrow> string \<Rightarrow> RouteConfig \<Rightarrow> strmap \<Rightarrow> Route" where
  "desired_route own serviceName servicePort hostname rc baseLabels =
     \<lparr>rt_Meta = zero_ObjectMeta\<lparr>om_Name := serviceName @ ''-route'', om_Namespace := om_Namespace own,
        om_Labels := MergeMaps baseLabels (rc_Labels rc),
        om_Annotations := MergeMaps route_annotations (rc_Annotations rc)\<rparr>,
      rt_Host = hostname, rt_Path = [], rt_TargetPort = Some servicePort, rt_ToKind = ''Service'', rt_ToName = serviceName,
      rt_ToWeight = Some 100, rt_TLS = Some (''passthrough'', ''None''), rt_WildcardPolicy = ''None''\<rparr>"

definition mutate_route :: "op_env \<Rightarrow> Route \<Rightarrow> ObjectMeta \<Rightarrow> Route option \<Rightarrow> goerror + Route" where
  "mutate_route oe route own stored =
     (let m0 = (case stored of
            None \<Rightarrow> zero_ObjectMeta\<lparr>om_Name := om_Name (rt_Meta route), om_Namespace := om_Namespace (rt_Meta route)\<rparr>
          | Some e \<Rightarrow> rt_Meta e);
          m1 = m0\<lparr>om_Labels := om_Labels (rt_Meta route), om_Annotations := om_Annotations (rt_Meta route)\<rparr>
      in map_sum id (\<lambda>m. route\<lparr>rt_Meta := m\<rparr>) (oe_SetControllerReference oe own m1))"

definition createRouteForEndpoint ::
  "'s okube \<Rightarrow> op_env \<Rightarrow> ObjectMeta \<Rightarrow> string \<Rightarrow> int \<Rightarrow> Endpoint \<Rightarrow> RouteConfig \<Rightarrow> strmap \<Rightarrow> 's \<Rightarrow> goerror option \<times> 's" where
  "createRouteForEndpoint k oe own serviceName servicePort endpoint rc baseLabels s =
     (let hostname = extractHostname (ept_Address endpoint) in
      if \<not> oe_RouteAvailable oe \<or> hostname = [] \<or> oe_IsDNS1123Subdomain oe hostname \<noteq> [] then (None, s)
      else
        (let route = desired_route own serviceName servicePort hostname rc baseLabels
         in ok_applyRoute k s (key_of (rt_Meta route)) (mutate_route oe route own)))"

section \<open>One endpoint\<close>

text \<open>The common tail of the two functions below: everything after the labels are made up.\<close>

definition reconcile_endpoint ::
  "'s okube \<Rightarrow> op_env \<Rightarrow> ObjectMeta \<Rightarrow> Endpoint \<Rightarrow> ServicePort \<Rightarrow> strmap \<Rightarrow> strmap \<Rightarrow> 's \<Rightarrow> goerror option \<times> 's" where
  "reconcile_endpoint k oe own endpoint servicePort podSelector baseLabels s =
     and_then (case ept_Ingress endpoint of
         Some ic \<Rightarrow> if ic_Enabled ic
           then createIngressForEndpoint k oe own (svp_Name servicePort) (svp_Port servicePort) endpoint ic baseLabels s
           else (None, s)
       | None \<Rightarrow> (None, s))
     (\<lambda>s. and_then (case ept_Route endpoint of
         Some rc \<Rightarrow> if rc_Enabled rc
           then createRouteForEndpoint k oe own (svp_Name servicePort) (svp_Port servicePort) endpoint rc baseLabels s
           else (None, s)
       | None \<Rightarrow> (None, s))
     (\<lambda>s. and_then (case ept_LoadBalancer endpoint of
         Some lb \<Rightarrow> if lb_Enabled lb
           then createService k oe own servicePort ''-lb'' ServiceTypeLoadBalancer podSelector baseLabels
             (lb_Annotations lb) (lb_Labels lb) s
           else (None, s)
       | None \<Rightarrow> (None, s))
     (\<lambda>s. and_then (case ept_NodePort endpoint of
         Some np \<Rightarrow> if np_Enabled np
           then createService k oe own servicePort ''-np'' ServiceTypeNodePort podSelector baseLabels
             (np_Annotations np) (np_Labels np) s
           else (None, s)
       | None \<Rightarrow> (None, s))
     (\<lambda>s. if enabled_by ci_Enabled (ept_ClusterIP endpoint) \<or> enabled_by ic_Enabled (ept_Ingress endpoint) \<or>
             enabled_by rc_Enabled (ept_Route endpoint)
          then (let (annotations, labels) = (case ept_ClusterIP endpoint of
                      None \<Rightarrow> ([], []) | Some ci \<Rightarrow> (ci_Annotations ci, ci_Labels ci))
                in createService k oe own servicePort [] ServiceTypeClusterIP podSelector baseLabels annotations labels s)
          else (None, s)))))"

definition ReconcileControllerEndpoint ::
  "'s okube \<Rightarrow> op_env \<Rightarrow> ObjectMeta \<Rightarrow> Endpoint \<Rightarrow> ServicePort \<Rightarrow> 's \<Rightarrow> goerror option \<times> 's" where
  "ReconcileControllerEndpoint k oe own endpoint servicePort s =
     reconcile_endpoint k oe own endpoint servicePort [(''app'', ''jumpstarter-controller'')]
       [(''component'', ''controller''), (''app'', ''jumpstarter-controller''), (''controller'', om_Name own)] s"

definition ReconcileRouterReplicaEndpoint ::
  "'s okube \<Rightarrow> op_env \<Rightarrow> ObjectMeta \<Rightarrow> int \<Rightarrow> int \<Rightarrow> Endpoint \<Rightarrow> ServicePort \<Rightarrow> 's \<Rightarrow> goerror option \<times> 's" where
  "ReconcileRouterReplicaEndpoint k oe own replicaIndex endpointIdx endpoint servicePort s =
     reconcile_endpoint k oe own endpoint servicePort [(''app'', om_Name own @ ''-router-'' @ itoa replicaIndex)]
       [(''component'', ''router''), (''router'', om_Name own), (''router-index'', itoa replicaIndex),
        (''endpoint-idx'', itoa endpointIdx)] s"

section \<open>Properties of the defaults\<close>

lemma ensureEndpointServiceType_enabled: "service_type_enabled (ensureEndpointServiceType ra ia ep)"
  by (auto simp: ensureEndpointServiceType_def service_type_enabled_def enabled_by_def)

lemma ensureEndpointServiceType_id: "service_type_enabled ep \<Longrightarrow> ensureEndpointServiceType ra ia ep = ep"
  by (simp add: ensureEndpointServiceType_def)

lemma default_endpoints_enabled:
  "default_endpoints ra ia a eps \<noteq> [] \<and> (\<forall>ep\<in>set (default_endpoints ra ia a eps). service_type_enabled ep)"
  by (cases eps) (auto simp: default_endpoints_def ensureEndpointServiceType_enabled)

lemma default_endpoints_again: "default_endpoints ra' ia' a' (default_endpoints ra ia a eps) = default_endpoints ra ia a eps"
proof -
  have "map (ensureEndpointServiceType ra' ia') (default_endpoints ra ia a eps) = default_endpoints ra ia a eps"
    using default_endpoints_enabled [of ra ia a eps] by (intro map_idI) (auto intro: ensureEndpointServiceType_id)
  with default_endpoints_enabled [of ra ia a eps] show ?thesis by (simp add: default_endpoints_def [of ra' ia' a'])
qed

text \<open>
  With a base domain set, applying the defaults leaves the controller and the routers with
  at least one endpoint each, every endpoint with some service type enabled, and the endpoints
  that had one as they were; applying them again changes nothing, even if the capabilities of
  the cluster have changed.
\<close>

theorem defaults_expose_every_endpoint:
  assumes "js_BaseDomain spec \<noteq> []" "spec' = ApplyEndpointDefaults ra ia spec"
  shows "(\<forall>eps\<in>{gc_Endpoints (cc_GRPC (js_Controller spec')), gc_Endpoints (ro_GRPC (js_Routers spec'))}.
      eps \<noteq> [] \<and> (\<forall>ep\<in>set eps. service_type_enabled ep)) \<and>
    (\<forall>ep\<in>set (gc_Endpoints (ro_GRPC (js_Routers spec))). service_type_enabled ep \<longrightarrow>
       ep \<in> set (gc_Endpoints (ro_GRPC (js_Routers spec')))) \<and>
    ApplyEndpointDefaults ra' ia' spec' = spec'"
proof (intro conjI)
  have c: "gc_Endpoints (cc_GRPC (js_Controller spec')) =
      default_endpoints ra ia (''grpc.'' @ js_BaseDomain spec) (gc_Endpoints (cc_GRPC (js_Controller spec)))"
    and r: "gc_Endpoints (ro_GRPC (js_Routers spec')) =
      default_endpoints ra ia (''router-$(replica).'' @ js_BaseDomain spec) (gc_Endpoints (ro_GRPC (js_Routers spec)))"
    using assms by (simp_all add: ApplyEndpointDefaults_def Let_def)
  show "\<forall>eps\<in>{gc_Endpoints (cc_GRPC (js_Controller spec')), gc_Endpoints (ro_GRPC (js_Routers spec'))}.
      eps \<noteq> [] \<and> (\<forall>ep\<in>set eps. service_type_enabled ep)"
    unfolding c r by (simp add: default_endpoints_enabled)
  show "\<forall>ep\<in>set (gc_Endpoints (ro_GRPC (js_Routers spec))). service_type_enabled ep \<longrightarrow>
      ep \<in> set (gc_Endpoints (ro_GRPC (js_Routers spec')))"
    unfolding r by (force simp: default_endpoints_def ensureEndpointServiceType_id image_iff)
  have again: "default_endpoints ra' ia' a (gc_Endpoints (cc_GRPC (js_Controller spec'))) = gc_Endpoints (cc_GRPC (js_Controller spec'))"
    "default_endpoints ra' ia' a (gc_Endpoints (ro_GRPC (js_Routers spec'))) = gc_Endpoints (ro_GRPC (js_Routers spec'))" for a
    unfolding c r by (rule default_endpoints_again)+
  have "js_BaseDomain spec' = js_BaseDomain spec" using assms by (simp add: ApplyEndpointDefaults_def Let_def)
  with assms(1) show "ApplyEndpointDefaults ra' ia' spec' = spec'"
    by (simp add: ApplyEndpointDefaults_def [of ra' ia'] Let_def again)
qed

theorem defaults_expose_every_endpoint_witness:
  "gc_Endpoints (cc_GRPC (js_Controller (ApplyEndpointDefaults True False (j_Spec sample_jumpstarter)))) \<noteq> [] \<and>
   ApplyEndpointDefaults False True (ApplyEndpointDefaults True False (j_Spec sample_jumpstarter)) =
     ApplyEndpointDefaults True False (j_Spec sample_jumpstarter)"
  using defaults_expose_every_endpoint [OF _ refl, of "j_Spec sample_jumpstarter" True False False True]
  by (simp add: sample_jumpstarter_def)

section \<open>Properties of host names\<close>

lemma index_byte_nth: "index_byte s c = Some i \<Longrightarrow> i < length s \<and> s ! i = c \<and> c \<notin> set (take i s)"
proof (induction s arbitrary: i)
  case (Cons x xs)
  then show ?case by (auto split: if_splits)
qed simp

lemma index_byte_mem: "index_byte s c = Some i \<Longrightarrow> c \<in> set s"
  by (drule index_byte_nth) auto

lemma last_index_split: "last_index s c = Some i \<Longrightarrow> s = take i s @ c # drop (Suc i) s \<and> c \<notin> set (drop (Suc i) s)"
proof -
  assume li: "last_index s c = Some i"
  then have "c \<in> set s" by (metis last_index_None option.distinct(1))
  then obtain a b where ab: "s = a @ c # b" "c \<notin> set b" by (metis split_list_last)
  with li last_index_append [OF ab(2), of a] have "i = length a" by simp
  with ab show ?thesis by simp
qed

text \<open>
  On every address with a port, in the sense of the standard library, \<open>extractHostname\<close>
  returns the host that \<open>net.SplitHostPort\<close> does.
\<close>

theorem extractHostname_agrees:
  assumes "SplitHostPort address = Inr (host, port)"
  shows "extractHostname address = host"
proof -
  from assms obtain i where i: "last_index address CHR '':'' = Some i"
    by (auto simp: SplitHostPort_def split: option.splits)
  note sp = last_index_split [OF i]
  have ne: "address \<noteq> []" using i by (auto simp: last_index_def)
  show ?thesis
  proof (cases "hd address = CHR ''[''")
    case True
    with ne have "strings_HasPrefix address ''[''" by (cases address) (simp_all add: strings_HasPrefix_def)
    with True assms i show ?thesis
      by (auto simp: SplitHostPort_def extractHostname_def Let_def split: option.splits if_splits
          dest: index_byte_mem)
  next
    case False
    then have "\<not> strings_HasPrefix address ''[''" using ne by (cases address) (simp_all add: strings_HasPrefix_def)
    moreover from False assms i have h: "host = take i address" "CHR '':'' \<notin> set (take i address)"
      by (auto simp: SplitHostPort_def Let_def split: option.splits if_splits)
    have one: "filter (\<lambda>c. c = CHR '':'') (a @ CHR '':'' # b) = [CHR '':'']"
      if "CHR '':'' \<notin> set a" "CHR '':'' \<notin> set b" for a b :: string
    proof -
      have "filter (\<lambda>c. c = CHR '':'') a = []" "filter (\<lambda>c. c = CHR '':'') b = []"
        using that by (auto simp: filter_empty_conv)
      then show ?thesis by simp
    qed
    note one [OF h(2) conjunct2 [OF sp]]
    with sp have "filter (\<lambda>c. c = CHR '':'') address = [CHR '':'']" by metis
    ultimately show ?thesis using i h(1) by (simp add: extractHostname_def)
  qed
qed

theorem extractHostname_agrees_witness:
  "extractHostname ''[2001:db8::1]:8443'' = ''2001:db8::1'' \<and> extractHostname ''grpc.example.com:9090'' = ''grpc.example.com''"
proof -
  have "SplitHostPort ''[2001:db8::1]:8443'' = Inr (''2001:db8::1'', ''8443'')"
    "SplitHostPort ''grpc.example.com:9090'' = Inr (''grpc.example.com'', ''9090'')" by (code_simp, code_simp)
  from this [THEN extractHostname_agrees] show ?thesis by simp
qed

section \<open>Properties of the services\<close>

text \<open>
  What \<open>CreateOrUpdate\<close> promises: an error changes nothing; else the object the mutate function
  makes of the stored one is stored. \<open>op_store\<close> says so of services and ingresses, and that
  writes of another kind leave them alone.
\<close>

definition apply_law :: "('s, 'o) createOrUpdate \<Rightarrow> ('s \<Rightarrow> NamespacedName \<Rightarrow> 'o option) \<Rightarrow> bool" where
  "apply_law ap view \<longleftrightarrow>
     (\<forall>s n m. case ap s n m of
        (Some err, s') \<Rightarrow> view s' = view s
      | (None, s') \<Rightarrow> (\<exists>obj. m (view s n) = Inr obj \<and> view s' = (view s)(n \<mapsto> obj)))"

definition apply_frame :: "('s, 'o) createOrUpdate \<Rightarrow> ('s \<Rightarrow> 'v) \<Rightarrow> bool" where
  "apply_frame ap view \<longleftrightarrow> (\<forall>s n m. view (snd (ap s n m)) = view s)"

definition op_store ::
  "'s okube \<Rightarrow> ('s \<Rightarrow> NamespacedName \<Rightarrow> Service option) \<Rightarrow> ('s \<Rightarrow> NamespacedName \<Rightarrow> Ingress option) \<Rightarrow> bool" where
  "op_store k sv iv \<longleftrightarrow>
     apply_law (ok_applyService k) sv \<and> apply_law (ok_applyIngress k) iv \<and>
     apply_frame (ok_applyIngress k) sv \<and> apply_frame (ok_applyRoute k) sv \<and>
     apply_frame (ok_applyService k) iv \<and> apply_frame (ok_applyRoute k) iv"

definition owner_ok :: "op_env \<Rightarrow> bool" where
  "owner_ok oe \<longleftrightarrow> (\<forall>own m m'. oe_SetControllerReference oe own m = Inr m' \<longrightarrow>
     m'\<lparr>om_OwnerReferences := om_OwnerReferences m\<rparr> = m)"

lemma apply_law_None:
  assumes "apply_law ap view" "ap s n m = (None, s')"
  obtains obj where "m (view s n) = Inr obj" "view s' = (view s)(n \<mapsto> obj)"
proof -
  from assms(1) have "case ap s n m of (Some err, s') \<Rightarrow> view s' = view s
      | (None, s') \<Rightarrow> (\<exists>obj. m (view s n) = Inr obj \<and> view s' = (view s)(n \<mapsto> obj))"
    unfolding apply_law_def by (elim allE)
  with assms(2) that show ?thesis by auto
qed

lemma apply_frame_eq: "apply_frame ap view \<Longrightarrow> ap s n m = (r, s') \<Longrightarrow> view s' = view s"
  unfolding apply_frame_def by (metis snd_conv)

text \<open>What a service that is as desired looks like.\<close>

definition serves :: "Service option \<Rightarrow> ServiceType \<Rightarrow> strmap \<Rightarrow> int \<Rightarrow> bool" where
  "serves stored t selector port \<longleftrightarrow>
     (\<exists>svc. stored = Some svc \<and> svc_Type svc = t \<and> svc_Selector svc = selector \<and> map svp_Port (svc_Ports svc) = [port])"

lemma mutate_service_serves:
  assumes "mutate_service oe (desired_service own p suffix t sel bl an el) ow stored = Inr svc"
  shows "serves (Some svc) t sel (svp_Port p)"
  using assms
  by (cases stored; cases "oe_SetControllerReference oe ow (zero_ObjectMeta\<lparr>om_Name := svp_Name p @ suffix,
        om_Namespace := om_Namespace own, om_Labels := MergeMaps bl el, om_Annotations := an\<rparr>)")
    (auto simp: mutate_service_def desired_service_def serves_def keep_node_ports_def Let_def map_sum_def split: sum.splits)

definition svc_key :: "ObjectMeta \<Rightarrow> ServicePort \<Rightarrow> string \<Rightarrow> NamespacedName" where
  "svc_key own p suffix = \<lparr>nn_Namespace = om_Namespace own, nn_Name = svp_Name p @ suffix\<rparr>"

lemma createService_view:
  assumes "op_store k sv iv" "createService k oe own p suffix t sel bl an el s = (None, s')"
  shows "serves (sv s' (svc_key own p suffix)) t sel (svp_Port p)" "n \<noteq> svc_key own p suffix \<Longrightarrow> sv s' n = sv s n" "iv s' = iv s"
proof -
  have key: "key_of (svc_Meta (desired_service own p suffix t sel bl an el)) = svc_key own p suffix"
    by (simp add: desired_service_def key_of_def svc_key_def zero_ObjectMeta_def)
  from assms(2) have ap: "ok_applyService k s (svc_key own p suffix)
      (mutate_service oe (desired_service own p suffix t sel bl an el) own) = (None, s')"
    by (simp add: createService_def createOrUpdateService_def key)
  from assms(1) have law: "apply_law (ok_applyService k) sv" and fr: "apply_frame (ok_applyService k) iv"
    by (simp_all add: op_store_def)
  obtain svc where m: "mutate_service oe (desired_service own p suffix t sel bl an el) own (sv s (svc_key own p suffix)) = Inr svc"
    and v: "sv s' = (sv s)(svc_key own p suffix \<mapsto> svc)" by (rule apply_law_None [OF law ap])
  from v mutate_service_serves [OF m] show "serves (sv s' (svc_key own p suffix)) t sel (svp_Port p)" by simp
  from v show "n \<noteq> svc_key own p suffix \<Longrightarrow> sv s' n = sv s n" by simp
  from apply_frame_eq [OF fr ap] show "iv s' = iv s" .
qed

lemma createIngress_frame:
  "op_store k sv iv \<Longrightarrow> createIngressForEndpoint k oe own sn sp ep ic bl s = (r, s') \<Longrightarrow> sv s' = sv s"
  by (auto simp: createIngressForEndpoint_def op_store_def Let_def split: if_splits dest: apply_frame_eq)

lemma createRoute_frame:
  "op_store k sv iv \<Longrightarrow> createRouteForEndpoint k oe own sn sp ep rc bl s = (r, s') \<Longrightarrow> sv s' = sv s \<and> iv s' = iv s"
  by (auto simp: createRouteForEndpoint_def op_store_def Let_def split: if_splits dest: apply_frame_eq)

lemma optional_step:
  "(case x of Some v \<Rightarrow> if on v then f v else (None, s) | None \<Rightarrow> (None, s)) = (None, s1) \<longleftrightarrow>
   (case x of Some v \<Rightarrow> if on v then f v = (None, s1) else s1 = s | None \<Rightarrow> s1 = s)"
  by (auto split: option.splits)

text \<open>The five stages of \<open>reconcile_endpoint\<close>, for a run without error.\<close>

lemma reconcile_endpoint_stages:
  assumes "reconcile_endpoint k oe own ep p sel bl s = (None, s')"
  obtains s1 s2 s3 s4 where
    "case ept_Ingress ep of Some ic \<Rightarrow> (if ic_Enabled ic
       then createIngressForEndpoint k oe own (svp_Name p) (svp_Port p) ep ic bl s = (None, s1) else s1 = s) | None \<Rightarrow> s1 = s"
    "case ept_Route ep of Some rc \<Rightarrow> (if rc_Enabled rc
       then createRouteForEndpoint k oe own (svp_Name p) (svp_Port p) ep rc bl s1 = (None, s2) else s2 = s1) | None \<Rightarrow> s2 = s1"
    "case ept_LoadBalancer ep of Some lb \<Rightarrow> (if lb_Enabled lb
       then createService k oe own p ''-lb'' ServiceTypeLoadBalancer sel bl (lb_Annotations lb) (lb_Labels lb) s2 = (None, s3)
       else s3 = s2) | None \<Rightarrow> s3 = s2"
    "case ept_NodePort ep of Some np \<Rightarrow> (if np_Enabled np
       then createService k oe own p ''-np'' ServiceTypeNodePort sel bl (np_Annotations np) (np_Labels np) s3 = (None, s4)
       else s4 = s3) | None \<Rightarrow> s4 = s3"
    "if enabled_by ci_Enabled (ept_ClusterIP ep) \<or> enabled_by ic_Enabled (ept_Ingress ep) \<or> enabled_by rc_Enabled (ept_Route ep)
     then (\<exists>an el. createService k oe own p [] ServiceTypeClusterIP sel bl an el s4 = (None, s')) else s' = s4"
proof -
  from assms obtain s1 s2 s3 s4 where st:
    "case ept_Ingress ep of Some ic \<Rightarrow> (if ic_Enabled ic
       then createIngressForEndpoint k oe own (svp_Name p) (svp_Port p) ep ic bl s = (None, s1) else s1 = s) | None \<Rightarrow> s1 = s"
    "case ept_Route ep of Some rc \<Rightarrow> (if rc_Enabled rc
       then createRouteForEndpoint k oe own (svp_Name p) (svp_Port p) ep rc bl s1 = (None, s2) else s2 = s1) | None \<Rightarrow> s2 = s1"
    "case ept_LoadBalancer ep of Some lb \<Rightarrow> (if lb_Enabled lb
       then createService k oe own p ''-lb'' ServiceTypeLoadBalancer sel bl (lb_Annotations lb) (lb_Labels lb) s2 = (None, s3)
       else s3 = s2) | None \<Rightarrow> s3 = s2"
    "case ept_NodePort ep of Some np \<Rightarrow> (if np_Enabled np
       then createService k oe own p ''-np'' ServiceTypeNodePort sel bl (np_Annotations np) (np_Labels np) s3 = (None, s4)
       else s4 = s3) | None \<Rightarrow> s4 = s3"
    and last: "(if enabled_by ci_Enabled (ept_ClusterIP ep) \<or> enabled_by ic_Enabled (ept_Ingress ep) \<or> enabled_by rc_Enabled (ept_Route ep)
     then (let (annotations, labels) = (case ept_ClusterIP ep of None \<Rightarrow> ([], []) | Some ci \<Rightarrow> (ci_Annotations ci, ci_Labels ci))
           in createService k oe own p [] ServiceTypeClusterIP sel bl annotations labels s4) else (None, s4)) = (None, s')"
    unfolding reconcile_endpoint_def and_then_ok optional_step by (elim exE conjE)
  from last show ?thesis by (intro that [OF st]) (auto simp: Let_def split: if_splits prod.splits)
qed


text \<open>The services an endpoint asks for, by the suffix of their names.\<close>

definition wanted_service :: "Endpoint \<Rightarrow> string \<Rightarrow> ServiceType option" where
  "wanted_service ep suffix =
     (if suffix = ''-lb'' \<and> enabled_by lb_Enabled (ept_LoadBalancer ep) then Some ServiceTypeLoadBalancer
      else if suffix = ''-np'' \<and> enabled_by np_Enabled (ept_NodePort ep) then Some ServiceTypeNodePort
      else if suffix = [] \<and> (enabled_by ci_Enabled (ept_ClusterIP ep) \<or> enabled_by ic_Enabled (ept_Ingress ep) \<or>
          enabled_by rc_Enabled (ept_Route ep)) then Some ServiceTypeClusterIP
      else None)"

lemma svc_key_inject [simp]: "svc_key own p x = svc_key own p y \<longleftrightarrow> x = y"
  by (simp add: svc_key_def)

lemma optional_service_step:
  assumes "op_store k sv iv"
    "case x of Some v \<Rightarrow> (if on v then createService k oe own p suffix t sel bl (an v) (el v) s = (None, s') else s' = s) | None \<Rightarrow> s' = s"
  shows "sv s' n = sv s n \<or> n = svc_key own p suffix \<and> enabled_by on x"
    "enabled_by on x \<Longrightarrow> serves (sv s' (svc_key own p suffix)) t sel (svp_Port p)" "iv s' = iv s"
  using assms createService_view [OF assms(1)] by (auto simp: enabled_by_def split: option.splits if_splits)

lemma reconcile_endpoint_services:
  assumes st: "op_store k sv iv" and ok: "reconcile_endpoint k oe own ep p sel bl s = (None, s')"
  shows "wanted_service ep suffix = Some t \<Longrightarrow> serves (sv s' (svc_key own p suffix)) t sel (svp_Port p)"
    "(\<And>suffix. wanted_service ep suffix \<noteq> None \<Longrightarrow> n \<noteq> svc_key own p suffix) \<Longrightarrow> sv s' n = sv s n"
proof -
  obtain s1 s2 s3 s4 where
    st1: "case ept_Ingress ep of Some ic \<Rightarrow> (if ic_Enabled ic
       then createIngressForEndpoint k oe own (svp_Name p) (svp_Port p) ep ic bl s = (None, s1) else s1 = s) | None \<Rightarrow> s1 = s"
    and st2: "case ept_Route ep of Some rc \<Rightarrow> (if rc_Enabled rc
       then createRouteForEndpoint k oe own (svp_Name p) (svp_Port p) ep rc bl s1 = (None, s2) else s2 = s1) | None \<Rightarrow> s2 = s1"
    and st3: "case ept_LoadBalancer ep of Some lb \<Rightarrow> (if lb_Enabled lb
       then createService k oe own p ''-lb'' ServiceTypeLoadBalancer sel bl (lb_Annotations lb) (lb_Labels lb) s2 = (None, s3)
       else s3 = s2) | None \<Rightarrow> s3 = s2"
    and st4: "case ept_NodePort ep of Some np \<Rightarrow> (if np_Enabled np
       then createService k oe own p ''-np'' ServiceTypeNodePort sel bl (np_Annotations np) (np_Labels np) s3 = (None, s4)
       else s4 = s3) | None \<Rightarrow> s4 = s3"
    and st5: "if enabled_by ci_Enabled (ept_ClusterIP ep) \<or> enabled_by ic_Enabled (ept_Ingress ep) \<or> enabled_by rc_Enabled (ept_Route ep)
     then (\<exists>an el. createService k oe own p [] ServiceTypeClusterIP sel bl an el s4 = (None, s')) else s' = s4"
    by (rule reconcile_endpoint_stages [OF ok])
  have v1: "sv s1 = sv s" using st1 by (auto split: option.splits if_splits dest: createIngress_frame [OF st])
  have v2: "sv s2 = sv s" using st2 v1 by (auto split: option.splits if_splits dest: createRoute_frame [OF st])
  note v3 = optional_service_step [OF st st3] and v4 = optional_service_step [OF st st4]
  have v5: "sv s' n = sv s4 n \<or> n = svc_key own p [] \<and> wanted_service ep [] \<noteq> None"
    "wanted_service ep [] \<noteq> None \<Longrightarrow> serves (sv s' (svc_key own p [])) ServiceTypeClusterIP sel (svp_Port p)" for n
    using st5 createService_view [OF st] by (auto simp: wanted_service_def split: if_splits)
  have v5': "sv s' (svc_key own p x) = sv s4 (svc_key own p x)" if "x \<noteq> []" for x
    using v5(1) [of "svc_key own p x"] that by simp
  have v4': "sv s4 (svc_key own p ''-lb'') = sv s3 (svc_key own p ''-lb'')"
    using v4(1) [of "svc_key own p ''-lb''"] by simp
  show "serves (sv s' (svc_key own p suffix)) t sel (svp_Port p)" if "wanted_service ep suffix = Some t"
    using that v3(2) v4(2) v5(2) v4' v5' [of "''-lb''"] v5' [of "''-np''"]
    by (auto simp: wanted_service_def split: if_splits)
  show "sv s' n = sv s n" if "\<And>suffix. wanted_service ep suffix \<noteq> None \<Longrightarrow> n \<noteq> svc_key own p suffix"
    using that [of "''-lb''"] that [of "''-np''"] that [of "[]"] v5(1) [of n] v4(1) [of n] v3(1) [of n] v2
    by (auto simp: wanted_service_def)
qed

end
