(* ===== verification/OperatorReconciler.thy ===== *)
theory OperatorReconciler
  imports OperatorEndpoints
begin

text \<open>
  The reconciler of the operator
  (\<open>src/deploy/operator/internal/controller/jumpstarter\<close>): the objects a \<open>Jumpstarter\<close> resource
  asks for (\<open>jumpstarter_controller.go\<close>, \<open>rbac.go\<close>), the comparison with what is stored
  (\<open>compare.go\<close>), the removal of what a smaller resource no longer asks for, and the pass over
  all of them. The logging, and the diff that is printed, are left out.
\<close>

section \<open>Comparison\<close>

text \<open>
  \<open>equality.Semantic.DeepEqual\<close>: maps by their entries, nil as the empty map or slice.
\<close>

definition maps_equal :: "strmap \<Rightarrow> strmap \<Rightarrow> bool" where
  "maps_equal a b \<longleftrightarrow> (\<forall>key\<in>set (map fst (a @ b)). mget a key = mget b key)"

definition nil_map :: "strmap option \<Rightarrow> strmap" where
  "nil_map m = (case m of None \<Rightarrow> [] | Some a \<Rightarrow> a)"

text \<open>The check that the functions below make of labels, annotations and data: nothing when nil is desired.\<close>

definition differs :: "strmap option \<Rightarrow> strmap option \<Rightarrow> bool" where
  "differs existing desired \<longleftrightarrow> desired \<noteq> None \<and> \<not> maps_equal (nil_map existing) (nil_map desired)"

definition templates_equal :: "PodTemplate \<Rightarrow> PodTemplate \<Rightarrow> bool" where
  "templates_equal a b \<longleftrightarrow> maps_equal (pt_Labels a) (pt_Labels b) \<and> a\<lparr>pt_Labels := []\<rparr> = b\<lparr>pt_Labels := []\<rparr>"

definition specs_equal :: "DeploymentSpec \<Rightarrow> DeploymentSpec \<Rightarrow> bool" where
  "specs_equal a b \<longleftrightarrow>
     dsp_Replicas a = dsp_Replicas b \<and> dsp_ProgressDeadlineSeconds a = dsp_ProgressDeadlineSeconds b \<and>
     dsp_RevisionHistoryLimit a = dsp_RevisionHistoryLimit b \<and> dsp_MinReadySeconds a = dsp_MinReadySeconds b \<and>
     dsp_Paused a = dsp_Paused b \<and> dsp_Strategy a = dsp_Strategy b \<and>
     maps_equal (dsp_Selector a) (dsp_Selector b) \<and> templates_equal (dsp_Template a) (dsp_Template b)"

definition deploymentNeedsUpdate :: "Deployment \<Rightarrow> Deployment \<Rightarrow> bool" where
  "deploymentNeedsUpdate existing desired \<longleftrightarrow>
     differs (dp_Labels existing) (dp_Labels desired) \<or> differs (dp_Annotations existing) (dp_Annotations desired) \<or>
     \<not> specs_equal (dp_Spec existing) (dp_Spec desired)"

definition configMapNeedsUpdate :: "ConfigMap \<Rightarrow> ConfigMap \<Rightarrow> bool" where
  "configMapNeedsUpdate existing desired \<longleftrightarrow>
     differs (cm_Labels existing) (cm_Labels desired) \<or> differs (cm_Annotations existing) (cm_Annotations desired) \<or>
     differs (cm_Data existing) (cm_Data desired) \<or> differs (cm_BinaryData existing) (cm_BinaryData desired)"

definition serviceAccountNeedsUpdate :: "ServiceAccount \<Rightarrow> ServiceAccount \<Rightarrow> bool" where
  "serviceAccountNeedsUpdate existing desired \<longleftrightarrow>
     differs (sa_Labels existing) (sa_Labels desired) \<or> differs (sa_Annotations existing) (sa_Annotations desired)"

definition roleNeedsUpdate :: "Role \<Rightarrow> Role \<Rightarrow> bool" where
  "roleNeedsUpdate existing desired \<longleftrightarrow>
     differs (rl_Labels existing) (rl_Labels desired) \<or> differs (rl_Annotations existing) (rl_Annotations desired) \<or>
     (rl_Rules desired \<noteq> None \<and> nil_list (rl_Rules existing) \<noteq> nil_list (rl_Rules desired))"

definition roleBindingNeedsUpdate :: "RoleBinding \<Rightarrow> RoleBinding \<Rightarrow> bool" where
  "roleBindingNeedsUpdate existing desired \<longleftrightarrow>
     differs (rb_Labels existing) (rb_Labels desired) \<or> differs (rb_Annotations existing) (rb_Annotations desired) \<or>
     (rb_Subjects desired \<noteq> None \<and> nil_list (rb_Subjects existing) \<noteq> nil_list (rb_Subjects desired)) \<or>
     (rr_Name (rb_RoleRef desired) \<noteq> [] \<and> rb_RoleRef existing \<noteq> rb_RoleRef desired)"

section \<open>Accounts and roles\<close>

definition rbac_labels :: strmap where
  "rbac_labels = [(''app'', ''jumpstarter-controller''), (''app.kubernetes.io/name'', ''jumpstarter-controller''),
     (''app.kubernetes.io/managed-by'', ''jumpstarter-operator'')]"

definition named :: "Jumpstarter \<Rightarrow> string \<Rightarrow> ObjectMeta" where
  "named j name = zero_ObjectMeta\<lparr>om_Name := name, om_Namespace := om_Namespace (j_Meta j)\<rparr>"

definition createServiceAccount :: "Jumpstarter \<Rightarrow> ServiceAccount" where
  "createServiceAccount j =
     \<lparr>sa_Meta = named j (om_Name (j_Meta j) @ ''-controller-manager''), sa_Labels = Some rbac_labels, sa_Annotations = None\<rparr>"

definition createRole :: "Jumpstarter \<Rightarrow> Role" where
  "createRole j =
     \<lparr>rl_Meta = named j (om_Name (j_Meta j) @ ''-controller-role''), rl_Labels = Some rbac_labels, rl_Annotations = None,
      rl_Rules = Some
       [\<lparr>pr_APIGroups = [''''], pr_Resources = [''configmaps''], pr_Verbs = [''get'', ''list'', ''watch'']\<rparr>,
        \<lparr>pr_APIGroups = [''''], pr_Resources = [''secrets''],
         pr_Verbs = [''get'', ''list'', ''watch'', ''create'', ''update'', ''patch'', ''delete'']\<rparr>,
        \<lparr>pr_APIGroups = [''jumpstarter.dev''],
         pr_Resources = [''clients'', ''exporters'', ''leases'', ''exporteraccesspolicies''],
         pr_Verbs = [''get'', ''list'', ''watch'', ''create'', ''update'', ''patch'', ''delete'']\<rparr>,
        \<lparr>pr_APIGroups = [''jumpstarter.dev''],
         pr_Resources = [''clients/status'', ''exporters/status'', ''leases/status'', ''exporteraccesspolicies/status''],
         pr_Verbs = [''get'', ''update'', ''patch'']\<rparr>,
        \<lparr>pr_APIGroups = [''jumpstarter.dev''],
         pr_Resources = [''clients/finalizers'', ''exporters/finalizers'', ''leases/finalizers'', ''exporteraccesspolicies/finalizers''],
         pr_Verbs = [''update'']\<rparr>,
        \<lparr>pr_APIGroups = [''''], pr_Resources = [''events''], pr_Verbs = [''create'', ''patch'']\<rparr>,
        \<lparr>pr_APIGroups = [''coordination.k8s.io''], pr_Resources = [''leases''],
         pr_Verbs = [''get'', ''list'', ''watch'', ''create'', ''update'', ''patch'', ''delete'']\<rparr>]\<rparr>"

definition createRoleBinding :: "Jumpstarter \<Rightarrow> RoleBinding" where
  "createRoleBinding j =
     \<lparr>rb_Meta = named j (om_Name (j_Meta j) @ ''-controller-rolebinding''), rb_Labels = Some rbac_labels, rb_Annotations = None,
      rb_Subjects = Some [\<lparr>su_Kind = ''ServiceAccount'', su_Name = om_Name (j_Meta j) @ ''-controller-manager'',
        su_Namespace = om_Namespace (j_Meta j)\<rparr>],
      rb_RoleRef = \<lparr>rr_APIGroup = ''rbac.authorization.k8s.io'', rr_Kind = ''Role'',
        rr_Name = om_Name (j_Meta j) @ ''-controller-role''\<rparr>\<rparr>"

definition mutate_serviceAccount :: "ServiceAccount \<Rightarrow> ServiceAccount option \<Rightarrow> goerror + ServiceAccount" where
  "mutate_serviceAccount desired stored =
     (case stored of
        None \<Rightarrow> Inr desired
      | Some existing \<Rightarrow>
          if \<not> serviceAccountNeedsUpdate existing desired then Inr existing
          else Inr (existing\<lparr>sa_Labels := sa_Labels desired, sa_Annotations := sa_Annotations desired\<rparr>))"

definition mutate_role :: "op_env \<Rightarrow> ObjectMeta \<Rightarrow> Role \<Rightarrow> Role option \<Rightarrow> goerror + Role" where
  "mutate_role oe own desired stored =
     (case stored of
        None \<Rightarrow> map_sum id (\<lambda>m. desired\<lparr>rl_Meta := m\<rparr>) (oe_SetControllerReference oe own (rl_Meta desired))
      | Some existing \<Rightarrow>
          if \<not> roleNeedsUpdate existing desired then Inr existing
          else map_sum id
            (\<lambda>m. existing\<lparr>rl_Meta := m, rl_Labels := rl_Labels desired, rl_Annotations := rl_Annotations desired,
               rl_Rules := rl_Rules desired\<rparr>)
            (oe_SetControllerReference oe own (rl_Meta existing)))"

definition mutate_roleBinding :: "op_env \<Rightarrow> ObjectMeta \<Rightarrow> RoleBinding \<Rightarrow> RoleBinding option \<Rightarrow> goerror + RoleBinding" where
  "mutate_roleBinding oe own desired stored =
     (case stored of
        None \<Rightarrow> map_sum id (\<lambda>m. desired\<lparr>rb_Meta := m\<rparr>) (oe_SetControllerReference oe own (rb_Meta desired))
      | Some existing \<Rightarrow>
          if \<not> roleBindingNeedsUpdate existing desired then Inr existing
          else map_sum id
            (\<lambda>m. existing\<lparr>rb_Meta := m, rb_Labels := rb_Labels desired, rb_Annotations := rb_Annotations desired,
               rb_Subjects := rb_Subjects desired, rb_RoleRef := rb_RoleRef desired\<rparr>)
            (oe_SetControllerReference oe own (rb_Meta existing)))"

definition reconcileRBAC :: "'s okube \<Rightarrow> op_env \<Rightarrow> Jumpstarter \<Rightarrow> 's \<Rightarrow> goerror option \<times> 's" where
  "reconcileRBAC k oe j s =
     and_then (ok_applyServiceAccount k s (key_of (sa_Meta (createServiceAccount j))) (mutate_serviceAccount (createServiceAccount j)))
     (\<lambda>s. and_then (ok_applyRole k s (key_of (rl_Meta (createRole j))) (mutate_role oe (j_Meta j) (createRole j)))
     (\<lambda>s. ok_applyRoleBinding k s (key_of (rb_Meta (createRoleBinding j)))
        (mutate_roleBinding oe (j_Meta j) (createRoleBinding j))))"

section \<open>Deployments\<close>

definition key_env :: "string \<Rightarrow> string \<Rightarrow> EnvVar" where
  "key_env name secret = \<lparr>ev_Name = name, ev_Source = EnvSecret secret ''key''\<rparr>"

definition grpcEndpoint :: "Jumpstarter \<Rightarrow> string" where
  "grpcEndpoint j =
     (case gc_Endpoints (cc_GRPC (js_Controller (j_Spec j))) of
        [] \<Rightarrow> []
      | ep # _ \<Rightarrow> if ept_Address ep \<noteq> [] then ensurePort (ept_Address ep) ''443''
                   else ''grpc.'' @ js_BaseDomain (j_Spec j) @ '':443'')"

definition createControllerDeployment :: "Jumpstarter \<Rightarrow> Deployment" where
  "createControllerDeployment j =
     (let labels = [(''component'', ''controller''), (''app'', ''jumpstarter-controller''), (''controller'', om_Name (j_Meta j))];
          c = js_Controller (j_Spec j) in
      \<lparr>dp_Meta = named j (om_Name (j_Meta j) @ ''-controller''), dp_Labels = Some labels, dp_Annotations = None,
       dp_Spec =
        \<lparr>dsp_Replicas = Some (cc_Replicas c), dsp_ProgressDeadlineSeconds = Some 600, dsp_RevisionHistoryLimit = Some 10,
         dsp_MinReadySeconds = 0, dsp_Paused = False,
         dsp_Strategy = \<lparr>ds_Type = ''RollingUpdate'', ds_MaxSurge = Some ''25%'', ds_MaxUnavailable = Some ''25%''\<rparr>,
         dsp_Selector = labels,
         dsp_Template =
          \<lparr>pt_Labels = labels, pt_RestartPolicy = ''Always'', pt_DNSPolicy = ''ClusterFirst'',
           pt_TerminationGracePeriodSeconds = Some 30,
           pt_Containers =
            [\<lparr>ct_Name = ''manager'', ct_Image = cc_Image c, ct_ImagePullPolicy = cc_ImagePullPolicy c, ct_Command = [],
              ct_Args = [''--leader-elect'', ''--health-probe-bind-address=:8081'', ''-metrics-bind-address=:8080''],
              ct_Env =
               [\<lparr>ev_Name = ''GRPC_ENDPOINT'', ev_Source = EnvValue (grpcEndpoint j)\<rparr>,
                key_env ''CONTROLLER_KEY'' ''jumpstarter-controller-secret'',
                key_env ''ROUTER_KEY'' ''jumpstarter-router-secret'',
                \<lparr>ev_Name = ''NAMESPACE'', ev_Source = EnvField ''metadata.namespace'' ''v1''\<rparr>,
                \<lparr>ev_Name = ''GIN_MODE'', ev_Source = EnvValue ''release''\<rparr>],
              ct_Ports = [(8082, ''grpc'', ''TCP''), (8080, ''metrics'', ''TCP''), (8081, ''health'', ''TCP'')],
              ct_LivenessProbe = Some \<lparr>pr_Path = ''/healthz'', pr_Port = 8081, pr_Scheme = ''HTTP'', pr_InitialDelaySeconds = 15,
                pr_PeriodSeconds = 20, pr_TimeoutSeconds = 1, pr_SuccessThreshold = 1, pr_FailureThreshold = 3\<rparr>,
              ct_ReadinessProbe = Some \<lparr>pr_Path = ''/readyz'', pr_Port = 8081, pr_Scheme = ''HTTP'', pr_InitialDelaySeconds = 5,
                pr_PeriodSeconds = 10, pr_TimeoutSeconds = 1, pr_SuccessThreshold = 1, pr_FailureThreshold = 3\<rparr>,
              ct_Resources = cc_Resources c, ct_TerminationMessagePath = ''/dev/termination-log'',
              ct_TerminationMessagePolicy = ''File'', ct_AllowPrivilegeEscalation = Some False, ct_CapabilitiesDrop = [''ALL'']\<rparr>],
           pt_RunAsNonRoot = Some True, pt_SeccompProfile = ''RuntimeDefault'',
           pt_ServiceAccountName = om_Name (j_Meta j) @ ''-controller-manager'', pt_DeprecatedServiceAccount = [],
           pt_SchedulerName = [], pt_TopologySpreadConstraints = []\<rparr>\<rparr>\<rparr>)"

definition createRouterDeployment :: "Jumpstarter \<Rightarrow> int \<Rightarrow> Deployment" where
  "createRouterDeployment j replicaIndex =
     (let baseAppLabel = om_Name (j_Meta j) @ ''-router-'' @ itoa replicaIndex;
          labels = [(''component'', ''router''), (''app'', baseAppLabel), (''router'', om_Name (j_Meta j)),
                    (''router-index'', itoa replicaIndex)];
          r = js_Routers (j_Spec j) in
      \<lparr>dp_Meta = named j (om_Name (j_Meta j) @ ''-router-'' @ itoa replicaIndex), dp_Labels = Some labels, dp_Annotations = None,
       dp_Spec =
        \<lparr>dsp_Replicas = Some 1, dsp_ProgressDeadlineSeconds = Some 600, dsp_RevisionHistoryLimit = Some 10,
         dsp_MinReadySeconds = 0, dsp_Paused = False,
         dsp_Strategy = \<lparr>ds_Type = ''RollingUpdate'', ds_MaxSurge = Some ''25%'', ds_MaxUnavailable = Some ''25%''\<rparr>,
         dsp_Selector = labels,
         dsp_Template =
          \<lparr>pt_Labels = labels, pt_RestartPolicy = ''Always'', pt_DNSPolicy = ''ClusterFirst'',
           pt_TerminationGracePeriodSeconds = Some 30,
           pt_Containers =
            [\<lparr>ct_Name = ''router'', ct_Image = ro_Image r, ct_ImagePullPolicy = ro_ImagePullPolicy r, ct_Command = [''/router''],
              ct_Args = [],
              ct_Env =
               [\<lparr>ev_Name = ''GRPC_ROUTER_ENDPOINT'', ev_Source = EnvValue (buildRouterEndpointForReplica j replicaIndex)\<rparr>,
                key_env ''ROUTER_KEY'' ''jumpstarter-router-secret'',
                \<lparr>ev_Name = ''NAMESPACE'', ev_Source = EnvField ''metadata.namespace'' ''v1''\<rparr>],
              ct_Ports = [(8083, ''grpc'', ''TCP''), (8080, ''metrics'', ''TCP''), (8081, ''health'', ''TCP'')],
              ct_LivenessProbe = None, ct_ReadinessProbe = None,
              ct_Resources = ro_Resources r, ct_TerminationMessagePath = ''/dev/termination-log'',
              ct_TerminationMessagePolicy = ''File'', ct_AllowPrivilegeEscalation = Some False, ct_CapabilitiesDrop = [''ALL'']\<rparr>],
           pt_RunAsNonRoot = Some True, pt_SeccompProfile = ''RuntimeDefault'',
           pt_ServiceAccountName = om_Name (j_Meta j) @ ''-controller-manager'', pt_DeprecatedServiceAccount = [],
           pt_SchedulerName = [], pt_TopologySpreadConstraints = ro_TopologySpreadConstraints r\<rparr>\<rparr>\<rparr>)"

text \<open>
  The mutate function of both deployments. The service account and the scheduler that the
  stored deployment has are taken over before the comparison.
\<close>

definition adopt :: "Deployment \<Rightarrow> Deployment \<Rightarrow> Deployment" where
  "adopt existing desired =
     (let t = dsp_Template (dp_Spec desired); et = dsp_Template (dp_Spec existing) in
      desired\<lparr>dp_Spec := (dp_Spec desired)\<lparr>dsp_Template :=
        t\<lparr>pt_DeprecatedServiceAccount := pt_DeprecatedServiceAccount et, pt_SchedulerName := pt_SchedulerName et\<rparr>\<rparr>\<rparr>)"

definition mutate_deployment :: "op_env \<Rightarrow> ObjectMeta \<Rightarrow> Deployment \<Rightarrow> Deployment option \<Rightarrow> goerror + Deployment" where
  "mutate_deployment oe own desired stored =
     (case stored of
        None \<Rightarrow> map_sum id (\<lambda>m. desired\<lparr>dp_Meta := m\<rparr>) (oe_SetControllerReference oe own (dp_Meta desired))
      | Some existing \<Rightarrow>
          (let desired = adopt existing desired in
           if \<not> deploymentNeedsUpdate existing desired then Inr existing
           else map_sum id
             (\<lambda>m. existing\<lparr>dp_Meta := m, dp_Labels := dp_Labels desired, dp_Annotations := dp_Annotations desired,
                dp_Spec := (dp_Spec existing)\<lparr>dsp_Replicas := dsp_Replicas (dp_Spec desired),
                  dsp_Selector := dsp_Selector (dp_Spec desired), dsp_Template := dsp_Template (dp_Spec desired)\<rparr>\<rparr>)
             (oe_SetControllerReference oe own (dp_Meta existing))))"

definition reconcileControllerDeployment :: "'s okube \<Rightarrow> op_env \<Rightarrow> Jumpstarter \<Rightarrow> 's \<Rightarrow> goerror option \<times> 's" where
  "reconcileControllerDeployment k oe j s =
     ok_applyDeployment k s (key_of (dp_Meta (createControllerDeployment j)))
       (mutate_deployment oe (j_Meta j) (createControllerDeployment j))"

text \<open>Indices from the replica count up to the bound of 100 the code has.\<close>

definition excess :: "Jumpstarter \<Rightarrow> int list" where
  "excess j = [ro_Replicas (js_Routers (j_Spec j))..99]"

definition delete_ignoring_NotFound :: "string \<Rightarrow> goerror option \<times> 's \<Rightarrow> goerror option \<times> 's" where
  "delete_ignoring_NotFound message r =
     (case r of
        (Some err, s) \<Rightarrow> if \<not> IsNotFound err then (Some (WrapError message err), s) else (None, s)
      | (None, s) \<Rightarrow> (None, s))"

definition cleanupExcessRouterDeployments :: "'s okube \<Rightarrow> Jumpstarter \<Rightarrow> 's \<Rightarrow> goerror option \<times> 's" where
  "cleanupExcessRouterDeployments k j s =
     (case ok_listRouterDeployments k s (om_Namespace (j_Meta j)) [(''router'', om_Name (j_Meta j))] of
        Inl err \<Rightarrow> (Some (WrapError ''failed to list router deployments: '' err), s)
      | Inr deployments \<Rightarrow>
          for_each (\<lambda>deployment s.
            if om_Name deployment \<in> set (map (\<lambda>idx. om_Name (j_Meta j) @ ''-router-'' @ itoa idx) (excess j))
            then delete_ignoring_NotFound (''failed to delete excess deployment '' @ om_Name deployment @ '': '')
              (ok_deleteDeployment k s (key_of deployment))
            else (None, s)) deployments s)"

definition reconcileRouterDeployment :: "'s okube \<Rightarrow> op_env \<Rightarrow> Jumpstarter \<Rightarrow> 's \<Rightarrow> goerror option \<times> 's" where
  "reconcileRouterDeployment k oe j s =
     and_then
       (for_each (\<lambda>i s. ok_applyDeployment k s (key_of (dp_Meta (createRouterDeployment j i)))
          (mutate_deployment oe (j_Meta j) (createRouterDeployment j i))) (replicas j) s)
       (cleanupExcessRouterDeployments k j)"

section \<open>Services\<close>

definition node_port :: "Endpoint \<Rightarrow> int" where
  "node_port ep = (case ept_NodePort ep of Some np \<Rightarrow> if np_Enabled np \<and> np_Port np > 0 then np_Port np else 0 | None \<Rightarrow> 0)"

definition controller_svcPort :: "Endpoint \<Rightarrow> ServicePort" where
  "controller_svcPort endpoint =
     \<lparr>svp_Name = ''controller-grpc'', svp_Port = 8082, svp_TargetPort = 8082, svp_Protocol = ''TCP'',
      svp_AppProtocol = Some ''h2c'', svp_NodePort = node_port endpoint\<rparr>"

definition router_svcPort :: "string \<Rightarrow> int \<Rightarrow> Endpoint \<Rightarrow> ServicePort" where
  "router_svcPort serviceName i endpoint =
     \<lparr>svp_Name = serviceName, svp_Port = 8083, svp_TargetPort = 8083, svp_Protocol = ''TCP'', svp_AppProtocol = Some ''h2c'',
      svp_NodePort = (if node_port endpoint = 0 then 0 else wrap32 (node_port endpoint + i))\<rparr>"

definition suffixes :: "string list" where
  "suffixes = [[], ''-lb'', ''-np'']"

text \<open>
  Deletion of the services of one endpoint index, with every suffix; the flag is
  \<open>foundAny\<close>.
\<close>

fun delete_suffixes ::
  "'s okube \<Rightarrow> Jumpstarter \<Rightarrow> string \<Rightarrow> int \<Rightarrow> int \<Rightarrow> string list \<Rightarrow> bool \<Rightarrow> 's \<Rightarrow> (goerror + bool) \<times> 's" where
  "delete_suffixes k j message idx endpointIdx [] found s = (Inr found, s)"
| "delete_suffixes k j message idx endpointIdx (suffix # rest) found s =
     (let name = buildServiceNameForReplicaEndpoint j idx endpointIdx @ suffix in
      case ok_deleteService k s \<lparr>nn_Namespace = om_Namespace (j_Meta j), nn_Name = name\<rparr> of
        (Some err, s) \<Rightarrow>
          if \<not> IsNotFound err then (Inl (WrapError (message @ name @ '': '') err), s)
          else delete_suffixes k j message idx endpointIdx rest found s
      | (None, s) \<Rightarrow> delete_suffixes k j message idx endpointIdx rest True s)"

fun delete_endpoints ::
  "'s okube \<Rightarrow> Jumpstarter \<Rightarrow> int \<Rightarrow> int list \<Rightarrow> bool \<Rightarrow> 's \<Rightarrow> (goerror + bool) \<times> 's" where
  "delete_endpoints k j idx [] found s = (Inr found, s)"
| "delete_endpoints k j idx (endpointIdx # rest) found s =
     (case delete_suffixes k j ''failed to delete excess service '' idx endpointIdx suffixes found s of
        (Inl err, s) \<Rightarrow> (Inl err, s)
      | (Inr found, s) \<Rightarrow> delete_endpoints k j idx rest found s)"

fun delete_replicas :: "'s okube \<Rightarrow> Jumpstarter \<Rightarrow> int list \<Rightarrow> 's \<Rightarrow> goerror option \<times> 's" where
  "delete_replicas k j [] s = (None, s)"
| "delete_replicas k j (idx # rest) s =
     (case delete_endpoints k j idx [0..9] False s of
        (Inl err, s) \<Rightarrow> (Some err, s)
      | (Inr found, s) \<Rightarrow> if \<not> found then (None, s) else delete_replicas k j rest s)"

fun delete_excess_endpoints :: "'s okube \<Rightarrow> Jumpstarter \<Rightarrow> int \<Rightarrow> int list \<Rightarrow> 's \<Rightarrow> goerror option \<times> 's" where
  "delete_excess_endpoints k j replicaIdx [] s = (None, s)"
| "delete_excess_endpoints k j replicaIdx (endpointIdx # rest) s =
     (case delete_suffixes k j ''failed to delete excess endpoint service '' replicaIdx endpointIdx suffixes False s of
        (Inl err, s) \<Rightarrow> (Some err, s)
      | (Inr found, s) \<Rightarrow> if \<not> found then (None, s) else delete_excess_endpoints k j replicaIdx rest s)"

definition numEndpoints :: "Jumpstarter \<Rightarrow> int" where
  "numEndpoints j =
     (let n = length (gc_Endpoints (ro_GRPC (js_Routers (j_Spec j)))) in if n = 0 then 1 else int n)"

definition cleanupExcessRouterServices :: "'s okube \<Rightarrow> Jumpstarter \<Rightarrow> 's \<Rightarrow> goerror option \<times> 's" where
  "cleanupExcessRouterServices k j s =
     and_then (delete_replicas k j (excess j) s)
       (for_each (\<lambda>replicaIdx. delete_excess_endpoints k j replicaIdx [numEndpoints j..9]) (replicas j))"

text \<open>The endpoints of one replica with their indices; a default one when none is configured.\<close>

definition replica_endpoints :: "Jumpstarter \<Rightarrow> int \<Rightarrow> (int \<times> Endpoint) list" where
  "replica_endpoints j i =
     (let eps = gc_Endpoints (ro_GRPC (js_Routers (j_Spec j))) in
      if length eps > 0
      then map (\<lambda>(idx, base). (int idx, buildEndpointForReplica j i (int idx) base)) (enumerate 0 eps)
      else [(0, blank_Endpoint (''router-'' @ itoa i @ ''.'' @ js_BaseDomain (j_Spec j)))])"

definition reconcileServices :: "'s okube \<Rightarrow> op_env \<Rightarrow> Jumpstarter \<Rightarrow> 's \<Rightarrow> goerror option \<times> 's" where
  "reconcileServices k oe j s =
     and_then (for_each (\<lambda>endpoint. ReconcileControllerEndpoint k oe (j_Meta j) endpoint (controller_svcPort endpoint))
        (gc_Endpoints (cc_GRPC (js_Controller (j_Spec j)))) s)
     (\<lambda>s. and_then (for_each (\<lambda>i. for_each (\<lambda>(endpointIdx, endpoint).
          ReconcileRouterReplicaEndpoint k oe (j_Meta j) i endpointIdx endpoint
            (router_svcPort (buildServiceNameForReplicaEndpoint j i endpointIdx) i endpoint))
          (replica_endpoints j i)) (replicas j) s)
     (cleanupExcessRouterServices k j))"

section \<open>Configuration and secrets\<close>

definition mutate_configMap :: "op_env \<Rightarrow> ObjectMeta \<Rightarrow> ConfigMap \<Rightarrow> ConfigMap option \<Rightarrow> goerror + ConfigMap" where
  "mutate_configMap oe own desired stored =
     (case stored of
        None \<Rightarrow> map_sum id (\<lambda>m. desired\<lparr>cm_Meta := m\<rparr>) (oe_SetControllerReference oe own (cm_Meta desired))
      | Some existing \<Rightarrow>
          if \<not> configMapNeedsUpdate existing desired then Inr existing
          else map_sum id
            (\<lambda>m. existing\<lparr>cm_Meta := m, cm_Labels := cm_Labels desired, cm_Annotations := cm_Annotations desired,
               cm_Data := cm_Data desired, cm_BinaryData := cm_BinaryData desired\<rparr>)
            (oe_SetControllerReference oe own (cm_Meta existing)))"

definition reconcileConfigMaps :: "'s okube \<Rightarrow> op_env \<Rightarrow> yaml_env \<Rightarrow> Jumpstarter \<Rightarrow> 's \<Rightarrow> goerror option \<times> 's" where
  "reconcileConfigMaps k oe ym j s =
     (case createConfigMap ym j of
        Inl err \<Rightarrow> (Some (WrapError ''failed to create configmap: '' err), s)
      | Inr desired \<Rightarrow> ok_applyConfigMap k s (key_of (cm_Meta desired)) (mutate_configMap oe (j_Meta j) desired))"

text \<open>
  \<open>base64.URLEncoding\<close>, with padding. \<open>rand.Read\<close> is a parameter: what it returns for the
  secret being made.
\<close>

definition base64_char :: "nat \<Rightarrow> char" where
  "base64_char n = ''ABCDEFGHIJKLMNOPQRSTUVWXYZabcdefghijklmnopqrstuvwxyz0123456789-_'' ! n"

fun base64url :: "nat list \<Rightarrow> string" where
  "base64url [] = []"
| "base64url [a] = [base64_char (a div 4), base64_char (a mod 4 * 16), CHR ''='', CHR ''='']"
| "base64url [a, b] =
     [base64_char (a div 4), base64_char (a mod 4 * 16 + b div 16), base64_char (b mod 16 * 4), CHR ''='']"
| "base64url (a # b # c # rest) =
     [base64_char (a div 4), base64_char (a mod 4 * 16 + b div 16), base64_char (b mod 16 * 4 + c div 64),
      base64_char (c mod 64)] @ base64url rest"

definition generateRandomKey :: "(nat \<Rightarrow> goerror + nat list) \<Rightarrow> nat \<Rightarrow> goerror + string" where
  "generateRandomKey rand len = map_sum id base64url (rand len)"

text \<open>
  The secret as it is created: the API server turns \<open>StringData\<close> into \<open>Data\<close> and sets the type
  \<open>Opaque\<close> where the code sets none.
\<close>

definition new_secret :: "Jumpstarter \<Rightarrow> string \<Rightarrow> string \<Rightarrow> Secret" where
  "new_secret j name randomKey =
     \<lparr>sec_Meta = (named j name)\<lparr>
        om_Labels := [(''app'', om_Name (j_Meta j)), (''app.kubernetes.io/managed-by'', ''jumpstarter-operator'')],
        om_Annotations := [(''jumpstarter.dev/orphan'', ''true'')]\<rparr>,
      sec_Type = SecretTypeOpaque, sec_Data = [(''key'', randomKey)]\<rparr>"

definition ensureSecretExists ::
  "'s okube \<Rightarrow> (string \<Rightarrow> nat \<Rightarrow> goerror + nat list) \<Rightarrow> Jumpstarter \<Rightarrow> string \<Rightarrow> 's \<Rightarrow> goerror option \<times> 's" where
  "ensureSecretExists k rand j name s =
     (case ok_getSecret k s \<lparr>nn_Namespace = om_Namespace (j_Meta j), nn_Name = name\<rparr> of
        Inr _ \<Rightarrow> (None, s)
      | Inl err \<Rightarrow>
          if \<not> IsNotFound err then (Some err, s)
          else
            (case generateRandomKey (rand name) 32 of
               Inl err \<Rightarrow> (Some (WrapError ''failed to generate random key: '' err), s)
             | Inr randomKey \<Rightarrow>
                 (case ok_createSecret k s (new_secret j name randomKey) of
                    (Inl err, s) \<Rightarrow>
                      if IsAlreadyExists err then (None, s)
                      else (Some (WrapError ''failed to create secret: '' err), s)
                  | (Inr _, s) \<Rightarrow> (None, s))))"

definition reconcileSecrets ::
  "'s okube \<Rightarrow> (string \<Rightarrow> nat \<Rightarrow> goerror + nat list) \<Rightarrow> Jumpstarter \<Rightarrow> 's \<Rightarrow> goerror option \<times> 's" where
  "reconcileSecrets k rand j s =
     and_then (ensureSecretExists k rand j ''jumpstarter-controller-secret'' s)
       (ensureSecretExists k rand j ''jumpstarter-router-secret'')"

section \<open>The pass\<close>

text \<open>\<open>updateStatus\<close> is a placeholder in the code: the status of the resource has no fields.\<close>

definition updateStatus :: "Jumpstarter \<Rightarrow> 's \<Rightarrow> goerror option \<times> 's" where
  "updateStatus j s = (None, s)"

definition ApplyDefaults :: "op_env \<Rightarrow> JumpstarterSpec \<Rightarrow> JumpstarterSpec" where
  "ApplyDefaults oe spec = ApplyEndpointDefaults (oe_RouteAvailable oe) (oe_IngressAvailable oe) spec"

lemma and_then_updateStatus [simp]: "and_then r (updateStatus j) = r"
  by (auto simp: and_then_def updateStatus_def split: prod.splits option.splits)

definition Jumpstarter_Reconcile ::
  "'s okube \<Rightarrow> op_env \<Rightarrow> yaml_env \<Rightarrow> (string \<Rightarrow> nat \<Rightarrow> goerror + nat list) \<Rightarrow> NamespacedName \<Rightarrow> 's
   \<Rightarrow> (Result \<times> goerror option) \<times> 's" where
  "Jumpstarter_Reconcile k oe ym rand req s =
     (case ok_getJumpstarter k s req of
        Inl err \<Rightarrow> if IsNotFound err then ((zero_Result, None), s) else ((zero_Result, Some err), s)
      | Inr j0 \<Rightarrow>
          if j_DeletionTimestamp j0 \<noteq> None then ((zero_Result, None), s)
          else
            (let j = j0\<lparr>j_Spec := ApplyDefaults oe (j_Spec j0)\<rparr> in
             case and_then (reconcileRBAC k oe j s)
               (\<lambda>s. and_then (reconcileControllerDeployment k oe j s)
               (\<lambda>s. and_then (reconcileRouterDeployment k oe j s)
               (\<lambda>s. and_then (reconcileServices k oe j s)
               (\<lambda>s. and_then (reconcileConfigMaps k oe ym j s)
               (\<lambda>s. and_then (reconcileSecrets k rand j s) (updateStatus j)))))) of
               (Some err, s) \<Rightarrow> ((zero_Result, Some err), s)
             | (None, s) \<Rightarrow> ((zero_Result\<lparr>r_RequeueAfter := 30 * Minute\<rparr>, None), s)))"

section \<open>Comparison with itself\<close>

lemma maps_equal_refl [simp]: "maps_equal a a"
  by (simp add: maps_equal_def)

lemma differs_refl [simp]: "\<not> differs a a"
  by (simp add: differs_def)

lemma templates_equal_refl [simp]: "templates_equal a a"
  by (simp add: templates_equal_def)

section \<open>Objects that settle\<close>

text \<open>
  The contract of a mutate function with its comparison: what it makes of any stored object
  needs no update, and an object that needs none is kept.
\<close>

locale settling =
  fixes needsUpdate :: "'o \<Rightarrow> bool" and mutate :: "'o option \<Rightarrow> goerror + 'o"
  assumes kept_as_is: "\<not> needsUpdate e \<Longrightarrow> mutate (Some e) = Inr e"
    and no_update_after: "st = None \<or> (\<exists>e. st = Some e \<and> needsUpdate e) \<Longrightarrow> mutate st = Inr d \<Longrightarrow> \<not> needsUpdate d"
begin

lemma settles: "mutate st = Inr d \<Longrightarrow> mutate (Some d) = Inr d"
  by (metis kept_as_is no_update_after not_None_eq sum.inject(2))

end

interpretation service_account: settling "\<lambda>e. serviceAccountNeedsUpdate e desired" "mutate_serviceAccount desired" for desired
  by unfold_locales (auto simp: mutate_serviceAccount_def serviceAccountNeedsUpdate_def split: option.splits)

interpretation role: settling "\<lambda>e. roleNeedsUpdate e desired" "mutate_role oe own desired" for oe own desired
  by unfold_locales (auto simp: mutate_role_def roleNeedsUpdate_def map_sum_def split: option.splits sum.splits)

interpretation role_binding: settling "\<lambda>e. roleBindingNeedsUpdate e desired" "mutate_roleBinding oe own desired" for oe own desired
  by unfold_locales (auto simp: mutate_roleBinding_def roleBindingNeedsUpdate_def map_sum_def split: option.splits sum.splits)

interpretation config_map: settling "\<lambda>e. configMapNeedsUpdate e desired" "mutate_configMap oe own desired" for oe own desired
  by unfold_locales (auto simp: mutate_configMap_def configMapNeedsUpdate_def map_sum_def split: option.splits sum.splits)

text \<open>
  Service account, role, role binding and config map settle: whatever is stored, what the
  mutate function makes of it is left as it is by another run.
\<close>

theorem objects_settle:
  "(mutate_serviceAccount a st1 = Inr a' \<longrightarrow> mutate_serviceAccount a (Some a') = Inr a') \<and>
   (mutate_role oe own b st2 = Inr b' \<longrightarrow> mutate_role oe own b (Some b') = Inr b') \<and>
   (mutate_roleBinding oe own c st3 = Inr c' \<longrightarrow> mutate_roleBinding oe own c (Some c') = Inr c') \<and>
   (mutate_configMap oe own m st4 = Inr m' \<longrightarrow> mutate_configMap oe own m (Some m') = Inr m')"
  using service_account.settles role.settles role_binding.settles config_map.settles by (intro conjI impI)

section \<open>Convergence of deployments\<close>

text \<open>The part of a deployment's specification that an update leaves as it is stored.\<close>

definition rollout :: "DeploymentSpec \<Rightarrow> DeploymentStrategy \<times> int option \<times> int option \<times> int \<times> bool" where
  "rollout d = (dsp_Strategy d, dsp_ProgressDeadlineSeconds d, dsp_RevisionHistoryLimit d, dsp_MinReadySeconds d, dsp_Paused d)"

text \<open>
  C40: After the mutate function has run on a stored deployment, another run on the result finds
  nothing to update exactly when the stored rollout strategy, progress deadline, revision history
  limit, minimum ready time and paused mark are the desired ones: these five fields are compared,
  with the rest of the specification, but never written. A deployment that someone paused is
  updated on every pass and stays paused.
\<close>

theorem deployment_converges_iff:
  assumes "mutate_deployment oe own desired (Some existing) = Inr d"
  shows "(\<not> deploymentNeedsUpdate d (adopt d desired)) = (rollout (dp_Spec existing) = rollout (dp_Spec desired)) \<and>
    rollout (dp_Spec d) = rollout (dp_Spec existing)"
proof (cases "deploymentNeedsUpdate existing (adopt existing desired)")
  case False
  with assms have "d = existing" by (simp add: mutate_deployment_def)
  with False show ?thesis
    by (auto simp: deploymentNeedsUpdate_def specs_equal_def rollout_def adopt_def Let_def)
next
  case True
  with assms obtain m where d: "d = existing\<lparr>dp_Meta := m, dp_Labels := dp_Labels desired, dp_Annotations := dp_Annotations desired,
      dp_Spec := (dp_Spec existing)\<lparr>dsp_Replicas := dsp_Replicas (dp_Spec desired), dsp_Selector := dsp_Selector (dp_Spec desired),
        dsp_Template := dsp_Template (dp_Spec (adopt existing desired))\<rparr>\<rparr>"
    by (cases "oe_SetControllerReference oe own (dp_Meta existing)") (auto simp: mutate_deployment_def adopt_def Let_def)
  have "adopt d desired = adopt existing desired" by (simp add: d adopt_def Let_def)
  then show ?thesis
    by (auto simp: d deploymentNeedsUpdate_def specs_equal_def rollout_def adopt_def Let_def)
qed

section \<open>Secrets\<close>

text \<open>What the secrets of the API server promise.\<close>

definition op_secret_store :: "'s okube \<Rightarrow> ('s \<Rightarrow> NamespacedName \<Rightarrow> Secret option) \<Rightarrow> bool" where
  "op_secret_store k v \<longleftrightarrow>
     (\<forall>s n. case ok_getSecret k s n of Inr x \<Rightarrow> v s n = Some x | Inl err \<Rightarrow> IsNotFound err \<longrightarrow> v s n = None) \<and>
     (\<forall>s x. case ok_createSecret k s x of
        (Inr y, s') \<Rightarrow> v s (key_of (sec_Meta x)) = None \<and> v s' = (v s)(key_of (sec_Meta x) \<mapsto> y) \<and> sec_Data y = sec_Data x
      | (Inl err, s') \<Rightarrow> v s' = v s \<and> (IsAlreadyExists err \<longrightarrow> v s (key_of (sec_Meta x)) \<noteq> None))"

lemma op_secret_get:
  assumes "op_secret_store k v"
  shows "ok_getSecret k s n = Inr x \<Longrightarrow> v s n = Some x" "ok_getSecret k s n = Inl err \<Longrightarrow> IsNotFound err \<Longrightarrow> v s n = None"
proof -
  from assms have "case ok_getSecret k s n of Inr x \<Rightarrow> v s n = Some x | Inl err \<Rightarrow> IsNotFound err \<longrightarrow> v s n = None"
    unfolding op_secret_store_def by (elim conjE allE)
  then show "ok_getSecret k s n = Inr x \<Longrightarrow> v s n = Some x" "ok_getSecret k s n = Inl err \<Longrightarrow> IsNotFound err \<Longrightarrow> v s n = None"
    by auto
qed

lemma op_secret_create:
  assumes "op_secret_store k v"
  shows "case ok_createSecret k s x of
        (Inr y, s') \<Rightarrow> v s (key_of (sec_Meta x)) = None \<and> v s' = (v s)(key_of (sec_Meta x) \<mapsto> y) \<and> sec_Data y = sec_Data x
      | (Inl err, s') \<Rightarrow> v s' = v s \<and> (IsAlreadyExists err \<longrightarrow> v s (key_of (sec_Meta x)) \<noteq> None)"
  using assms unfolding op_secret_store_def by (elim conjE allE)

abbreviation secret_key :: "Jumpstarter \<Rightarrow> string \<Rightarrow> NamespacedName" where
  "secret_key j name \<equiv> \<lparr>nn_Namespace = om_Namespace (j_Meta j), nn_Name = name\<rparr>"

lemma key_of_new_secret: "key_of (sec_Meta (new_secret j name rk)) = secret_key j name"
  by (simp add: new_secret_def named_def key_of_def zero_ObjectMeta_def)

lemma ensureSecretExists_keeps:
  assumes st: "op_secret_store k v" and run: "ensureSecretExists k rand j name s = (r, s')"
  shows "v s n = Some x \<Longrightarrow> v s' n = Some x" "r = None \<Longrightarrow> v s' (secret_key j name) \<noteq> None"
    "v s (secret_key j name) = None \<Longrightarrow> r = None \<Longrightarrow>
     \<exists>rk y. generateRandomKey (rand name) 32 = Inr rk \<and> v s' (secret_key j name) = Some y \<and> sec_Data y = [(''key'', rk)]"
    "n \<noteq> secret_key j name \<Longrightarrow> v s' n = v s n"
proof -
  have "(v s n = Some x \<longrightarrow> v s' n = Some x) \<and> (r = None \<longrightarrow> v s' (secret_key j name) \<noteq> None) \<and>
    (v s (secret_key j name) = None \<longrightarrow> r = None \<longrightarrow>
     (\<exists>rk y. generateRandomKey (rand name) 32 = Inr rk \<and> v s' (secret_key j name) = Some y \<and> sec_Data y = [(''key'', rk)])) \<and>
    (n \<noteq> secret_key j name \<longrightarrow> v s' n = v s n)"
  proof (cases "ok_getSecret k s (secret_key j name)")
    case (Inr y)
    with run op_secret_get(1) [OF st] show ?thesis by (auto simp: ensureSecretExists_def)
  next
    case (Inl err)
    show ?thesis
    proof (cases "IsNotFound err")
      case False
      with Inl run show ?thesis by (auto simp: ensureSecretExists_def)
    next
      case nf: True
      show ?thesis
      proof (cases "generateRandomKey (rand name) 32")
        case (Inl e)
        with nf run \<open>ok_getSecret k s _ = Inl err\<close> show ?thesis by (auto simp: ensureSecretExists_def)
      next
        case rk: (Inr rk)
        obtain c s1 where c: "ok_createSecret k s (new_secret j name rk) = (c, s1)" by fastforce
        note law = op_secret_create [OF st, of s "new_secret j name rk", unfolded c key_of_new_secret]
        show ?thesis
        proof (cases c)
          case (Inl e)
          with law run \<open>ok_getSecret k s _ = Inl err\<close> nf rk c show ?thesis
            by (auto simp: ensureSecretExists_def split: if_splits)
        next
          case (Inr y)
          then have "v s (secret_key j name) = None" "v s1 = (v s)(secret_key j name \<mapsto> y)" "sec_Data y = [(''key'', rk)]"
            using law by (simp_all add: new_secret_def)
          with run \<open>ok_getSecret k s _ = Inl err\<close> nf rk c Inr show ?thesis
            by (auto simp: ensureSecretExists_def split: if_splits)
        qed
      qed
    qed
  qed
  then show "v s n = Some x \<Longrightarrow> v s' n = Some x" "r = None \<Longrightarrow> v s' (secret_key j name) \<noteq> None"
    "v s (secret_key j name) = None \<Longrightarrow> r = None \<Longrightarrow>
     \<exists>rk y. generateRandomKey (rand name) 32 = Inr rk \<and> v s' (secret_key j name) = Some y \<and> sec_Data y = [(''key'', rk)]"
    "n \<noteq> secret_key j name \<Longrightarrow> v s' n = v s n"
    by blast+
qed

text \<open>
  C39: A pass over the secrets, whether it fails or not, changes no secret that exists; when it
  succeeds, the controller's and the router's keys exist, and one that was not there holds the encoding
  of the 32 bytes read for it.
\<close>

theorem secrets_never_replaced:
  assumes "op_secret_store k v" "reconcileSecrets k rand j s = (r, s')"
  shows "(\<forall>n x. v s n = Some x \<longrightarrow> v s' n = Some x) \<and>
    (r = None \<longrightarrow> (\<forall>name\<in>{''jumpstarter-controller-secret'', ''jumpstarter-router-secret''}.
       v s' (secret_key j name) \<noteq> None \<and>
       (v s (secret_key j name) = None \<longrightarrow> (\<exists>bytes y. rand name 32 = Inr bytes \<and> v s' (secret_key j name) = Some y \<and>
          sec_Data y = [(''key'', base64url bytes)]))))"
proof -
  obtain r1 s1 where e1: "ensureSecretExists k rand j ''jumpstarter-controller-secret'' s = (r1, s1)" by fastforce
  note k1 = ensureSecretExists_keeps [OF assms(1) e1]
  show ?thesis
  proof (cases r1)
    case (Some err)
    with e1 assms(2) have "s' = s1" "r = Some err" by (simp_all add: reconcileSecrets_def)
    with k1(1) show ?thesis by simp
  next
    case None
    with e1 assms(2) have "ensureSecretExists k rand j ''jumpstarter-router-secret'' s1 = (r, s')" by (simp add: reconcileSecrets_def)
    note k2 = ensureSecretExists_keeps [OF assms(1) this]
    have keep: "v s n = Some x \<Longrightarrow> v s' n = Some x" for n x by (rule k2(1) [OF k1(1)])
    have r_same: "v s1 (secret_key j ''jumpstarter-router-secret'') = v s (secret_key j ''jumpstarter-router-secret'')"
      by (rule k1(4)) simp
    have c_same: "v s' (secret_key j ''jumpstarter-controller-secret'') = v s1 (secret_key j ''jumpstarter-controller-secret'')"
      by (rule k2(4)) simp
    have key: "\<exists>bytes y. rand name 32 = Inr bytes \<and> z = Some y \<and> sec_Data y = [(''key'', base64url bytes)]"
      if "\<exists>rk y. generateRandomKey (rand name) 32 = Inr rk \<and> z = Some y \<and> sec_Data y = [(''key'', rk)]" for name z
      using that by (cases "rand name 32") (auto simp: generateRandomKey_def)
    note c = k1(2) [OF None, folded c_same] key [OF k1(3) [OF _ None], folded c_same]
      and r = k2(2) key [OF k2(3), unfolded r_same]
    show ?thesis unfolding ball_simps
      by (intro conjI allI impI TrueI; (erule keep | rule c(1) | erule c(2) | erule r(1) | erule (1) r(2)))
  qed
qed

lemma base64url_length: "length (base64url bs) = 4 * ((length bs + 2) div 3)"
proof (induction bs rule: base64url.induct)
  case (4 a b c rest)
  have "(length (a # b # c # rest) + 2) div 3 = Suc ((length rest + 2) div 3)" by simp
  with 4 show ?case by (simp only: base64url.simps length_append list.size) simp
qed simp_all

section \<open>A store, and a resource to try the operator on\<close>

record op_mem =
  mo_services :: "(NamespacedName \<times> Service) list"
  mo_ingresses :: "(NamespacedName \<times> Ingress) list"
  mo_secrets :: "(NamespacedName \<times> Secret) list"
  mo_jumpstarter :: Jumpstarter

definition mem_apply :: "('s \<Rightarrow> ('k \<times> 'o) list) \<Rightarrow> (('k \<times> 'o) list \<Rightarrow> 's \<Rightarrow> 's) \<Rightarrow> 's \<Rightarrow> 'k \<Rightarrow> ('o option \<Rightarrow> goerror + 'o)
    \<Rightarrow> goerror option \<times> 's" where
  "mem_apply get put s n m =
     (case m (mget (get s) n) of Inl err \<Rightarrow> (Some err, s) | Inr obj \<Rightarrow> (None, put (mset_key (get s) n obj) s))"

definition mem_void :: "('s, 'o) createOrUpdate" where
  "mem_void s n m = (case m None of Inl err \<Rightarrow> (Some err, s) | Inr obj \<Rightarrow> (None, s))"

definition mem_okube :: "op_mem okube" where
  "mem_okube =
     \<lparr>ok_getJumpstarter = (\<lambda>s n. if n = key_of (j_Meta (mo_jumpstarter s)) then Inr (mo_jumpstarter s) else Inl (ApiError NotFound)),
      ok_applyService = mem_apply mo_services (\<lambda>x. mo_services_update (\<lambda>_. x)),
      ok_applyIngress = mem_apply mo_ingresses (\<lambda>x. mo_ingresses_update (\<lambda>_. x)),
      ok_applyRoute = mem_void, ok_applyDeployment = mem_void, ok_applyConfigMap = mem_void,
      ok_applyServiceAccount = mem_void, ok_applyRole = mem_void, ok_applyRoleBinding = mem_void,
      ok_listRouterDeployments = (\<lambda>s ns labels. Inr []),
      ok_deleteDeployment = (\<lambda>s n. (Some (ApiError NotFound), s)),
      ok_deleteService = (\<lambda>s n. if mget (mo_services s) n = None then (Some (ApiError NotFound), s)
        else (None, s\<lparr>mo_services := AList.delete n (mo_services s)\<rparr>)),
      ok_getSecret = (\<lambda>s n. case mget (mo_secrets s) n of None \<Rightarrow> Inl (ApiError NotFound) | Some x \<Rightarrow> Inr x),
      ok_createSecret = (\<lambda>s x. if mget (mo_secrets s) (key_of (sec_Meta x)) = None
        then (Inr x, s\<lparr>mo_secrets := mset_key (mo_secrets s) (key_of (sec_Meta x)) x\<rparr>)
        else (Inl (ApiError AlreadyExists), s))\<rparr>"

definition sample_oe :: op_env where
  "sample_oe = \<lparr>oe_IngressAvailable = True, oe_RouteAvailable = False, oe_IsDNS1123Subdomain = (\<lambda>_. []),
     oe_SetControllerReference = (\<lambda>own m. Inr (m\<lparr>om_OwnerReferences := [om_Name own]\<rparr>))\<rparr>"

lemma mem_apply_law:
  assumes "\<And>x s. get (put x s) = x"
  shows "apply_law (mem_apply get put) (\<lambda>s. mget (get s))"
  by (auto simp: apply_law_def mem_apply_def assms update_conv' split: sum.splits)

lemma mem_op_secret_store: "op_secret_store mem_okube (\<lambda>s. mget (mo_secrets s))"
  by (auto simp: op_secret_store_def mem_okube_def update_conv' split: option.splits)

definition sample_op :: op_mem where
  "sample_op = \<lparr>mo_services = [], mo_ingresses = [], mo_secrets = [], mo_jumpstarter = sample_jumpstarter\<rparr>"

definition sample_rand :: "string \<Rightarrow> nat \<Rightarrow> goerror + nat list" where
  "sample_rand name n = Inr (replicate n 7)"

definition sample_drifted :: Deployment where
  "sample_drifted = (createControllerDeployment sample_jumpstarter)\<lparr>dp_Spec :=
     (dp_Spec (createControllerDeployment sample_jumpstarter))\<lparr>dsp_Strategy :=
        \<lparr>ds_Type = ''Recreate'', ds_MaxSurge = None, ds_MaxUnavailable = None\<rparr>\<rparr>\<rparr>"

theorem deployment_converges_iff_witness:
  "\<exists>d. mutate_deployment sample_oe (j_Meta sample_jumpstarter) (createControllerDeployment sample_jumpstarter)
     (Some sample_drifted) = Inr d \<and>
     deploymentNeedsUpdate d (adopt d (createControllerDeployment sample_jumpstarter))"
proof -
  obtain d where d: "mutate_deployment sample_oe (j_Meta sample_jumpstarter) (createControllerDeployment sample_jumpstarter)
     (Some sample_drifted) = Inr d"
    by (cases "deploymentNeedsUpdate sample_drifted (adopt sample_drifted (createControllerDeployment sample_jumpstarter))")
      (simp_all add: mutate_deployment_def sample_oe_def Let_def)
  have "rollout (dp_Spec sample_drifted) \<noteq> rollout (dp_Spec (createControllerDeployment sample_jumpstarter))"
    by (simp add: rollout_def sample_drifted_def createControllerDeployment_def Let_def)
  with deployment_converges_iff [OF d] d show ?thesis by (intro exI [of _ d]) simp
qed

theorem secrets_never_replaced_witness:
  "\<exists>y. mget (mo_secrets (snd (reconcileSecrets mem_okube sample_rand sample_jumpstarter sample_op)))
     (secret_key sample_jumpstarter ''jumpstarter-router-secret'') = Some y \<and>
     sec_Data y = [(''key'', base64url (replicate 32 7))]"
proof -
  let ?r = "reconcileSecrets mem_okube sample_rand sample_jumpstarter sample_op"
  have "fst ?r = None" by code_simp
  then have run: "?r = (None, snd ?r)" by (simp add: prod_eq_iff)
  have none: "mget (mo_secrets sample_op) (secret_key sample_jumpstarter ''jumpstarter-router-secret'') = None"
    by (simp add: sample_op_def)
  from secrets_never_replaced [OF mem_op_secret_store run] none show ?thesis
    by (auto simp: sample_rand_def)
qed

definition sample_role :: Role where
  "sample_role = (createRole sample_jumpstarter)\<lparr>rl_Rules := None\<rparr>"

theorem objects_settle_witness:
  "\<exists>r. mutate_role sample_oe (j_Meta sample_jumpstarter) (createRole sample_jumpstarter) (Some sample_role) = Inr r \<and>
     mutate_role sample_oe (j_Meta sample_jumpstarter) (createRole sample_jumpstarter) (Some r) = Inr r"
proof -
  obtain r where r: "mutate_role sample_oe (j_Meta sample_jumpstarter) (createRole sample_jumpstarter) (Some sample_role) = Inr r"
    by (cases "roleNeedsUpdate sample_role (createRole sample_jumpstarter)") (simp_all add: mutate_role_def sample_oe_def)
  with objects_settle show ?thesis by (intro exI [of _ r]) simp
qed

end
