(* ===== verification/OperatorServices.thy ===== *)
theory OperatorServices
  imports OperatorReconciler
begin

text \<open>
  What a pass of the operator does to the services and ingresses of the cluster: the services
  of the router replicas are as the resource asks, the removal of services never touches one
  that is asked for, and the ingress of the controller.
\<close>

section \<open>Services of the replicas\<close>

text \<open>
  What the removal of services promises, and that the writes after the services leave them
  alone.
\<close>

definition op_service_store ::
  "'s okube \<Rightarrow> ('s \<Rightarrow> NamespacedName \<Rightarrow> Service option) \<Rightarrow> ('s \<Rightarrow> NamespacedName \<Rightarrow> Ingress option) \<Rightarrow> bool" where
  "op_service_store k sv iv \<longleftrightarrow> op_store k sv iv \<and>
     (\<forall>s n. case ok_deleteService k s n of
        (None, s') \<Rightarrow> sv s' = (sv s)(n := None)
      | (Some err, s') \<Rightarrow> sv s' = sv s \<and> (IsNotFound err \<longrightarrow> sv s n = None)) \<and>
     apply_frame (ok_applyConfigMap k) sv \<and> (\<forall>s x. sv (snd (ok_createSecret k s x)) = sv s)"

lemma op_service_delete:
  assumes "op_service_store k sv iv" "ok_deleteService k s n = (r, s')"
  shows "sv s' = (if r = None then (sv s)(n := None) else sv s)" "r = Some err \<Longrightarrow> IsNotFound err \<Longrightarrow> sv s n = None"
proof -
  from assms(1) have "case ok_deleteService k s n of
        (None, s') \<Rightarrow> sv s' = (sv s)(n := None)
      | (Some err, s') \<Rightarrow> sv s' = sv s \<and> (IsNotFound err \<longrightarrow> sv s n = None)"
    unfolding op_service_store_def by (elim conjE allE)
  with assms(2) show "sv s' = (if r = None then (sv s)(n := None) else sv s)"
    "r = Some err \<Longrightarrow> IsNotFound err \<Longrightarrow> sv s n = None" by (auto split: option.splits)
qed

text \<open>The name of a router's service, and that it determines replica, endpoint and type.\<close>

definition rkey :: "Jumpstarter \<Rightarrow> int \<Rightarrow> int \<Rightarrow> string \<Rightarrow> NamespacedName" where
  "rkey j i e suffix = \<lparr>nn_Namespace = om_Namespace (j_Meta j), nn_Name = buildServiceNameForReplicaEndpoint j i e @ suffix\<rparr>"

lemma digits_then_dash:
  assumes "set a \<subseteq> set ''0123456789''" "set b \<subseteq> set ''0123456789''" "x = [] \<or> hd x = CHR ''-''" "y = [] \<or> hd y = CHR ''-''"
    "a @ x = b @ y"
  shows "a = b \<and> x = y"
proof -
  have "takeWhile (\<lambda>c. c \<noteq> CHR ''-'') (a @ x) = a" "takeWhile (\<lambda>c. c \<noteq> CHR ''-'') (b @ y) = b"
    using assms(1-4) by (cases x; cases y; force simp: takeWhile_append)+
  with assms(5) show ?thesis by auto
qed

lemma rkey_inject:
  assumes "0 \<le> i" "0 \<le> i'" "0 \<le> e" "0 \<le> e'" "x \<in> set suffixes" "x' \<in> set suffixes" "rkey j i e x = rkey j i' e' x'"
  shows "i = i' \<and> e = e' \<and> x = x'"
proof -
  let ?tail = "\<lambda>e x. (if e = 0 then [] else CHR ''-'' # itoa e) @ x"
  have hd: "?tail e x = [] \<or> hd (?tail e x) = CHR ''-''" if "x \<in> set suffixes" for e x
    using that by (auto simp: suffixes_def)
  from assms(7) have "itoa i @ ?tail e x = itoa i' @ ?tail e' x'"
    by (simp add: rkey_def buildServiceNameForReplicaEndpoint_def split: if_splits)
  from digits_then_dash [OF itoa_nonneg_digits [OF assms(1)] itoa_nonneg_digits [OF assms(2)] hd [OF assms(5)] hd [OF assms(6)] this]
  have i: "i = i'" and t: "?tail e x = ?tail e' x'" using itoa_inj_nonneg [OF assms(1,2)] by simp_all
  have dig: "itoa e \<noteq> []" "set (itoa e) \<subseteq> set ''0123456789''" if "0 \<le> e" for e
    using that itoa_nonneg_digits [OF that] by (simp_all add: itoa_def)
  have nd: "itoa e @ x \<noteq> ''lb'' \<and> itoa e @ x \<noteq> ''np''" if "0 \<le> e" for e x
    using dig [OF that] by (cases "itoa e") auto
  show ?thesis
  proof (cases "e = 0 \<or> e' = 0")
    case True
    with t nd [OF assms(3), of x] nd [OF assms(4), of x'] assms(5,6) i show ?thesis
      by (auto simp: suffixes_def split: if_splits)
  next
    case False
    then have "itoa e @ x = itoa e' @ x'" using t by simp
    from digits_then_dash [OF dig(2) [OF assms(3)] dig(2) [OF assms(4)] _ _ this]
    have "itoa e = itoa e' \<and> x = x'" using assms(5,6) by (auto simp: suffixes_def)
    with i itoa_inj_nonneg [OF assms(3,4)] show ?thesis by simp
  qed
qed

section \<open>Removal of services\<close>

text \<open>The removals only remove, and only services of the indices they are given.\<close>

definition removes :: "('s \<Rightarrow> NamespacedName \<Rightarrow> Service option) \<Rightarrow> NamespacedName set \<Rightarrow> 's \<Rightarrow> 's \<Rightarrow> bool" where
  "removes sv N s s' \<longleftrightarrow> (\<forall>n. sv s' n = sv s n \<or> n \<in> N \<and> sv s' n = None)"

lemma removes_refl: "removes sv N s s"
  by (simp add: removes_def)

lemma removes_trans: "removes sv N s s1 \<Longrightarrow> removes sv M s1 s' \<Longrightarrow> removes sv (N \<union> M) s s'"
  unfolding removes_def by (metis Un_iff)

lemma removes_mono: "removes sv N s s' \<Longrightarrow> N \<subseteq> M \<Longrightarrow> removes sv M s s'"
  unfolding removes_def by blast

lemma removes_None: "removes sv N s s' \<Longrightarrow> sv s n = None \<Longrightarrow> sv s' n = None"
  unfolding removes_def by metis

lemma delete_suffixes_removes:
  assumes st: "op_service_store k sv iv"
  shows "delete_suffixes k j msg idx e sfx found s = (r, s') \<Longrightarrow>
    removes sv (rkey j idx e ` set sfx) s s' \<and> (\<forall>b. r = Inr b \<longrightarrow> (\<forall>x\<in>set sfx. sv s' (rkey j idx e x) = None))"
proof (induction sfx arbitrary: found s)
  case Nil
  then show ?case by (auto simp: removes_refl)
next
  case (Cons x sfx)
  let ?n = "\<lparr>nn_Namespace = om_Namespace (j_Meta j), nn_Name = buildServiceNameForReplicaEndpoint j idx e @ x\<rparr>"
  obtain d s1 where d: "ok_deleteService k s ?n = (d, s1)" by fastforce
  note law = op_service_delete [OF st d]
  have n: "?n = rkey j idx e x" by (simp add: rkey_def)
  have rm: "removes sv {rkey j idx e x} s s1" using law(1) by (auto simp: removes_def n)
  show ?case
  proof (cases "\<exists>err. d = Some err \<and> \<not> IsNotFound err")
    case True
    then obtain err where "d = Some err" "\<not> IsNotFound err" by blast
    with Cons.prems d have "s1 = s'" "\<exists>e. r = Inl e" by (auto simp: Let_def)
    with rm show ?thesis by (auto intro: removes_mono)
  next
    case False
    then obtain found' where run: "delete_suffixes k j msg idx e sfx found' s1 = (r, s')"
      using Cons.prems d by (cases d) (auto simp: Let_def)
    from False law have gone: "sv s1 (rkey j idx e x) = None" by (cases d) (auto simp: n)
    note IH = Cons.IH [OF run]
    have "removes sv (rkey j idx e ` set (x # sfx)) s s'"
      by (rule removes_mono [OF removes_trans [OF rm conjunct1 [OF IH]]]) auto
    moreover have "sv s' (rkey j idx e x) = None" by (rule removes_None [OF conjunct1 [OF IH] gone])
    ultimately show ?thesis using conjunct2 [OF IH] by (simp only: set_simps ball_simps simp_thms)
  qed
qed

abbreviation rkeys :: "Jumpstarter \<Rightarrow> int \<Rightarrow> int set \<Rightarrow> NamespacedName set" where
  "rkeys j idx E \<equiv> (\<Union>e\<in>E. rkey j idx e ` set suffixes)"

lemma delete_endpoints_removes:
  assumes st: "op_service_store k sv iv"
  shows "delete_endpoints k j idx es found s = (r, s') \<Longrightarrow>
    removes sv (rkeys j idx (set es)) s s' \<and> (\<forall>b. r = Inr b \<longrightarrow> (\<forall>e\<in>set es. \<forall>x\<in>set suffixes. sv s' (rkey j idx e x) = None))"
proof (induction es arbitrary: found s)
  case Nil
  then show ?case by (auto simp: removes_refl)
next
  case (Cons e es)
  obtain d s1 where d: "delete_suffixes k j ''failed to delete excess service '' idx e suffixes found s = (d, s1)" by fastforce
  note del = delete_suffixes_removes [OF st d]
  show ?case
  proof (cases d)
    case (Inl err)
    with Cons.prems d have "s1 = s'" "r = Inl err" by auto
    with del show ?thesis by (auto intro: removes_mono)
  next
    case (Inr found')
    with Cons.prems d have run: "delete_endpoints k j idx es found' s1 = (r, s')" by auto
    note IH = Cons.IH [OF run]
    have "removes sv (rkeys j idx (set (e # es))) s s'"
      by (rule removes_mono [OF removes_trans [OF conjunct1 [OF del] conjunct1 [OF IH]]]) auto
    moreover have "sv s' (rkey j idx e x) = None" if "x \<in> set suffixes" for x
      using conjunct2 [OF del] Inr that by (intro removes_None [OF conjunct1 [OF IH]]) blast
    ultimately show ?thesis using conjunct2 [OF IH] by (simp only: set_simps ball_simps simp_thms) blast
  qed
qed

lemma delete_replicas_removes:
  assumes st: "op_service_store k sv iv"
  shows "delete_replicas k j is s = (r, s') \<Longrightarrow> removes sv (\<Union>i\<in>set is. rkeys j i {0..9}) s s' \<and>
    (r = None \<longrightarrow> (\<forall>i js. is = i # js \<longrightarrow> (\<forall>e\<in>{0..9}. \<forall>x\<in>set suffixes. sv s' (rkey j i e x) = None)))"
proof (induction "is" arbitrary: s)
  case Nil
  then show ?case by (auto simp: removes_refl)
next
  case (Cons i js)
  obtain d s1 where d: "delete_endpoints k j i [0..9] False s = (d, s1)" by fastforce
  note del = delete_endpoints_removes [OF st d, unfolded set_upto]
  show ?case
  proof (cases d)
    case (Inl err)
    with Cons.prems d have "s1 = s'" "r = Some err" by auto
    with del show ?thesis by (auto intro: removes_mono)
  next
    case (Inr found)
    show ?thesis
    proof (cases found)
      case False
      with Inr Cons.prems d have "s1 = s'" "r = None" by auto
      with del Inr show ?thesis by (auto intro: removes_mono)
    next
      case True
      with Inr Cons.prems d have run: "delete_replicas k j js s1 = (r, s')" by auto
      note IH = Cons.IH [OF run]
      have "removes sv (\<Union>i\<in>set (i # js). rkeys j i {0..9}) s s'"
        by (rule removes_mono [OF removes_trans [OF conjunct1 [OF del] conjunct1 [OF IH]]]) auto
      moreover have "sv s' (rkey j i e x) = None" if "e \<in> {0..9}" "x \<in> set suffixes" for e x
        using conjunct2 [OF del] Inr that by (intro removes_None [OF conjunct1 [OF IH]]) blast
      ultimately show ?thesis by simp
    qed
  qed
qed

lemma delete_excess_endpoints_removes:
  assumes st: "op_service_store k sv iv"
  shows "delete_excess_endpoints k j i es s = (r, s') \<Longrightarrow> removes sv (rkeys j i (set es)) s s'"
proof (induction es arbitrary: s)
  case Nil
  then show ?case by (auto simp: removes_refl)
next
  case (Cons e es)
  obtain d s1 where d: "delete_suffixes k j ''failed to delete excess endpoint service '' i e suffixes False s = (d, s1)" by fastforce
  note del = conjunct1 [OF delete_suffixes_removes [OF st d]]
  show ?case
  proof (cases "\<exists>found. d = Inr found \<and> found")
    case False
    with Cons.prems d have "s1 = s'" by (cases d) auto
    with del show ?thesis by (auto intro: removes_mono)
  next
    case True
    with Cons.prems d have "delete_excess_endpoints k j i es s1 = (r, s')" by auto
    from removes_trans [OF del Cons.IH [OF this]] show ?thesis by (rule removes_mono) auto
  qed
qed

lemma excess_endpoints_loop_removes:
  assumes st: "op_service_store k sv iv"
  shows "for_each (\<lambda>i. delete_excess_endpoints k j i es) is s = (r, s') \<Longrightarrow>
    removes sv (\<Union>i\<in>set is. rkeys j i (set es)) s s'"
proof (induction "is" arbitrary: s)
  case Nil
  then show ?case by (auto simp: removes_refl)
next
  case (Cons i "is")
  obtain d s1 where d: "delete_excess_endpoints k j i es s = (d, s1)" by fastforce
  note del = delete_excess_endpoints_removes [OF st d]
  show ?case
  proof (cases d)
    case None
    with Cons.prems d have "for_each (\<lambda>i. delete_excess_endpoints k j i es) is s1 = (r, s')" by simp
    from removes_trans [OF del Cons.IH [OF this]] show ?thesis by (rule removes_mono) auto
  next
    case (Some err)
    with Cons.prems d have "s1 = s'" by simp
    with del show ?thesis by (auto intro: removes_mono)
  qed
qed

text \<open>The services that the removals are about, and those that a resource keeps.\<close>

definition kept :: "Jumpstarter \<Rightarrow> int \<Rightarrow> int \<Rightarrow> bool" where
  "kept j i e \<longleftrightarrow> i \<in> set (replicas j) \<and> 0 \<le> e \<and> e < numEndpoints j"

lemma cleanup_removes:
  assumes st: "op_service_store k sv iv" and n: "0 \<le> ro_Replicas (js_Routers (j_Spec j))"
    and run: "cleanupExcessRouterServices k j s = (r, s')"
  shows "kept j i e \<Longrightarrow> x \<in> set suffixes \<Longrightarrow> sv s' (rkey j i e x) = sv s (rkey j i e x)"
    "r = None \<Longrightarrow> e \<in> {0..9} \<Longrightarrow> x \<in> set suffixes \<Longrightarrow> ro_Replicas (js_Routers (j_Spec j)) < 100 \<Longrightarrow>
     sv s' (rkey j (ro_Replicas (js_Routers (j_Spec j))) e x) = None"
proof -
  let ?R = "ro_Replicas (js_Routers (j_Spec j))"
  obtain d s1 where d: "delete_replicas k j (excess j) s = (d, s1)" by fastforce
  note del = delete_replicas_removes [OF st d]
  have rest: "removes sv (\<Union>i\<in>set (replicas j). rkeys j i {numEndpoints j..9}) s1 s'"
  proof (cases d)
    case None
    with run d have "for_each (\<lambda>i. delete_excess_endpoints k j i [numEndpoints j..9]) (replicas j) s1 = (r, s')"
      by (simp add: cleanupExcessRouterServices_def)
    from excess_endpoints_loop_removes [OF st this] show ?thesis by simp
  next
    case (Some err)
    with run d show ?thesis by (simp add: cleanupExcessRouterServices_def removes_refl)
  qed
  have pos: "0 \<le> numEndpoints j" by (simp add: numEndpoints_def Let_def)
  show "sv s' (rkey j i e x) = sv s (rkey j i e x)" if kept: "kept j i e" and x: "x \<in> set suffixes"
  proof -
    have "rkey j i e x \<notin> (\<Union>i\<in>set (excess j). rkeys j i {0..9}) \<union> (\<Union>i\<in>set (replicas j). rkeys j i {numEndpoints j..9})"
    proof
      assume "rkey j i e x \<in> (\<Union>i\<in>set (excess j). rkeys j i {0..9}) \<union> (\<Union>i\<in>set (replicas j). rkeys j i {numEndpoints j..9})"
      then obtain i' e' x' where w: "rkey j i e x = rkey j i' e' x'" "x' \<in> set suffixes"
        "i' \<in> set (excess j) \<and> e' \<in> {0..9} \<or> i' \<in> set (replicas j) \<and> e' \<in> {numEndpoints j..9}" by blast
      have "i = i' \<and> e = e' \<and> x = x'"
        by (rule rkey_inject [OF _ _ _ _ x w(2,1)]) (use kept w(3) n pos in \<open>auto simp: kept_def replicas_def excess_def\<close>)
      with kept w(3) show False by (auto simp: kept_def replicas_def excess_def)
    qed
    with removes_trans [OF conjunct1 [OF del] rest] show ?thesis unfolding removes_def by metis
  qed
  show "sv s' (rkey j ?R e x) = None" if "r = None" "e \<in> {0..9}" "x \<in> set suffixes" "?R < 100"
  proof (rule removes_None [OF rest])
    from that(1) run d have "d = None" by (cases d) (simp_all add: cleanupExcessRouterServices_def)
    moreover have "excess j = ?R # [?R + 1..99]" unfolding excess_def using that(4) by (simp add: upto_rec1)
    ultimately show "sv s1 (rkey j ?R e x) = None" using del that(2,3) by blast
  qed
qed

section \<open>The pass\<close>

lemma replica_endpoints_index:
  assumes "(e, ep) \<in> set (replica_endpoints j i)"
  shows "0 \<le> e" "e < numEndpoints j" "(e, ep') \<in> set (replica_endpoints j i) \<Longrightarrow> ep' = ep"
  using assms by (auto simp: replica_endpoints_def numEndpoints_def Let_def in_set_enumerate_eq split: if_splits)

lemma wanted_suffix: "wanted_service ep x = Some t \<Longrightarrow> x \<in> set suffixes"
  by (auto simp: wanted_service_def suffixes_def split: if_splits)

lemma wanted_some: "service_type_enabled ep \<Longrightarrow> \<exists>x t. wanted_service ep x = Some t"
  unfolding service_type_enabled_def by (elim disjE) (auto simp: wanted_service_def)

lemma replica_endpoints_enabled:
  assumes "gc_Endpoints (ro_GRPC (js_Routers (j_Spec j))) \<noteq> []"
    "\<forall>ep\<in>set (gc_Endpoints (ro_GRPC (js_Routers (j_Spec j)))). service_type_enabled ep" "(e, ep) \<in> set (replica_endpoints j i)"
  shows "service_type_enabled ep"
proof -
  have "service_type_enabled (buildEndpointForReplica j i e base) = service_type_enabled base" for e base
    by (simp add: buildEndpointForReplica_def service_type_enabled_def)
  with assms show ?thesis
    by (auto simp: replica_endpoints_def Let_def in_set_enumerate_eq split: if_splits)
qed

abbreviation replica_selector :: "Jumpstarter \<Rightarrow> int \<Rightarrow> strmap" where
  "replica_selector j i \<equiv> [(''app'', om_Name (j_Meta j) @ ''-router-'' @ itoa i)]"

definition served :: "('s \<Rightarrow> NamespacedName \<Rightarrow> Service option) \<Rightarrow> Jumpstarter \<Rightarrow> int \<Rightarrow> int \<Rightarrow> Endpoint \<Rightarrow> 's \<Rightarrow> bool" where
  "served sv j i e ep s \<longleftrightarrow>
     (\<forall>x t. wanted_service ep x = Some t \<longrightarrow> serves (sv s (rkey j i e x)) t (replica_selector j i) 8083)"

abbreviation router_step :: "'s okube \<Rightarrow> op_env \<Rightarrow> Jumpstarter \<Rightarrow> int \<Rightarrow> int \<Rightarrow> Endpoint \<Rightarrow> 's \<Rightarrow> goerror option \<times> 's" where
  "router_step k oe j i e ep \<equiv> ReconcileRouterReplicaEndpoint k oe (j_Meta j) i e ep
     (router_svcPort (buildServiceNameForReplicaEndpoint j i e) i ep)"

lemma router_step_services:
  assumes st: "op_store k sv iv" and run: "router_step k oe j i e ep s = (None, s')"
  shows "served sv j i e ep s'" "(\<And>x t. wanted_service ep x = Some t \<Longrightarrow> n \<noteq> rkey j i e x) \<Longrightarrow> sv s' n = sv s n"
proof -
  let ?p = "router_svcPort (buildServiceNameForReplicaEndpoint j i e) i ep"
  have key: "svc_key (j_Meta j) ?p x = rkey j i e x" and port: "svp_Port ?p = 8083" for x
    by (simp_all add: svc_key_def router_svcPort_def rkey_def)
  note ok = reconcile_endpoint_services [OF st run [unfolded ReconcileRouterReplicaEndpoint_def], unfolded key port]
  show "served sv j i e ep s'" unfolding served_def using ok(1) by blast
  show "sv s' n = sv s n" if "\<And>x t. wanted_service ep x = Some t \<Longrightarrow> n \<noteq> rkey j i e x"
    using that by (intro ok(2)) blast
qed

lemma router_step_other:
  assumes "op_store k sv iv" "router_step k oe j i e ep s = (None, s')" "served sv j i' e' ep' s"
    "0 \<le> i" "0 \<le> e" "0 \<le> i'" "0 \<le> e'" "(i, e) \<noteq> (i', e')"
  shows "served sv j i' e' ep' s'"
  unfolding served_def
proof (intro allI impI)
  fix x t assume w: "wanted_service ep' x = Some t"
  have "sv s' (rkey j i' e' x) = sv s (rkey j i' e' x)"
  proof (rule router_step_services(2) [OF assms(1,2)])
    fix y u assume "wanted_service ep y = Some u"
    with w show "rkey j i' e' x \<noteq> rkey j i e y"
      using rkey_inject [OF assms(6,4,7,5), of x y j] assms(8) wanted_suffix by metis
  qed
  with w assms(3) show "serves (sv s' (rkey j i' e' x)) t (replica_selector j i') 8083" unfolding served_def by metis
qed

text \<open>A loop whose steps each establish their own part and keep the others' establishes all.\<close>

lemma for_each_ok:
  assumes est: "\<And>a s s'. a \<in> set as \<Longrightarrow> f a s = (None, s') \<Longrightarrow> Q a s'"
    and keep: "\<And>a b s s'. a \<in> set as \<Longrightarrow> b \<in> set as \<Longrightarrow> f b s = (None, s') \<Longrightarrow> Q a s \<Longrightarrow> Q a s'"
    and run: "for_each f as s = (None, s')" and a: "a \<in> set as"
  shows "Q a s'"
  using assms
proof (induction as arbitrary: s)
  case (Cons b as)
  from Cons.prems(3) obtain s1 where s1: "f b s = (None, s1)" and rest: "for_each f as s1 = (None, s')"
    by (auto simp: and_then_ok)
  show ?case
  proof (cases "a \<in> set as")
    case True
    show ?thesis by (rule Cons.IH [OF _ _ rest True]) (auto intro: Cons.prems(1,2))
  next
    case False
    with Cons.prems(4) have "a = b" by simp
    with Cons.prems(1) s1 have "Q a s1" by simp
    moreover have "Q a s \<Longrightarrow> f c s = (r, s') \<Longrightarrow> r = None \<Longrightarrow> c \<in> set as \<Longrightarrow> Q a s'" for c s r s'
      using Cons.prems(2) [of a c s s'] \<open>a = b\<close> by simp
    ultimately show ?thesis using rest
    proof (induction as arbitrary: s1)
      case (Cons c as)
      from Cons.prems(3) obtain s2 where s2: "f c s1 = (None, s2)" and rest: "for_each f as s2 = (None, s')"
        by (auto simp: and_then_ok)
      from Cons.prems(2) [OF Cons.prems(1) s2] have "Q a s2" by simp
      with rest Cons.prems(2) show ?case by (intro Cons.IH [of s2]) auto
    qed simp
  qed
qed simp

lemma router_loop_serves:
  assumes st: "op_store k sv iv"
    and run: "for_each (\<lambda>i. for_each (\<lambda>(e, ep). router_step k oe j i e ep) (replica_endpoints j i)) (replicas j) s = (None, s')"
    and i: "i \<in> set (replicas j)" and ep: "(e, ep) \<in> set (replica_endpoints j i)"
  shows "served sv j i e ep s'"
proof -
  have step: "served sv j i e ep s'"
    if "router_step k oe j i' e' ep' s = (None, s')" "served sv j i e ep s" "(e', ep') \<in> set (replica_endpoints j i')"
      "(e, ep) \<in> set (replica_endpoints j i)" "i \<in> set (replicas j)" "i' \<in> set (replicas j)" for i e ep i' e' ep' s s'
  proof (cases "(i', e') = (i, e)")
    case True
    with that(3,4) have "ep' = ep" using replica_endpoints_index(3) by auto
    with True that(1) show ?thesis using router_step_services(1) [OF st] by simp
  next
    case False
    then show ?thesis using router_step_other [OF st that(1,2)] replica_endpoints_index(1) [OF that(3)]
      replica_endpoints_index(1) [OF that(4)] that(5,6) by (simp add: replicas_def)
  qed
  have inner: "served sv j i e ep s'"
    if "for_each (\<lambda>(e, ep). router_step k oe j i' e ep) (replica_endpoints j i') s = (None, s')" "served sv j i e ep s"
      "(e, ep) \<in> set (replica_endpoints j i)" "i \<in> set (replicas j)" "i' \<in> set (replicas j)" for i e ep i' s s'
    using that(1,2)
  proof -
    have "for_each (\<lambda>(e, ep). router_step k oe j i' e ep) xs s = (None, s') \<Longrightarrow> set xs \<subseteq> set (replica_endpoints j i') \<Longrightarrow>
      served sv j i e ep s \<Longrightarrow> served sv j i e ep s'" for xs s
    proof (induction xs arbitrary: s)
      case (Cons x xs)
      then show ?case using step that(3-5) by (cases x) (fastforce simp: and_then_ok)
    qed simp
    with that show ?thesis by blast
  qed
  show ?thesis
  proof (rule for_each_ok [where Q = "\<lambda>i s. \<forall>(e, ep)\<in>set (replica_endpoints j i). served sv j i e ep s", OF _ _ run i,
        THEN bspec [OF _ ep], unfolded prod.case])
    fix a s s'
    assume a: "a \<in> set (replicas j)"
      and r: "for_each (\<lambda>(e, ep). router_step k oe j a e ep) (replica_endpoints j a) s = (None, s')"
    show "\<forall>(e, ep)\<in>set (replica_endpoints j a). served sv j a e ep s'"
    proof (intro ballI)
      fix y assume y: "y \<in> set (replica_endpoints j a)"
      show "case y of (e, ep) \<Rightarrow> served sv j a e ep s'"
        by (rule for_each_ok [OF _ _ r y]) (auto intro: step [OF _ _ _ _ a a] router_step_services(1) [OF st])
    qed
  next
    fix a b s s'
    assume "a \<in> set (replicas j)" "b \<in> set (replicas j)"
      "for_each (\<lambda>(e, ep). router_step k oe j b e ep) (replica_endpoints j b) s = (None, s')"
      "\<forall>(e, ep)\<in>set (replica_endpoints j a). served sv j a e ep s"
    then show "\<forall>(e, ep)\<in>set (replica_endpoints j a). served sv j a e ep s'" using inner by fastforce
  qed
qed

lemma reconcileServices_ok:
  assumes st: "op_service_store k sv iv" and n: "0 \<le> ro_Replicas (js_Routers (j_Spec j))"
    and run: "reconcileServices k oe j s = (None, s')"
  shows "i \<in> set (replicas j) \<Longrightarrow> (e, ep) \<in> set (replica_endpoints j i) \<Longrightarrow> served sv j i e ep s'"
    "e \<in> {0..9} \<Longrightarrow> x \<in> set suffixes \<Longrightarrow> ro_Replicas (js_Routers (j_Spec j)) < 100 \<Longrightarrow>
     sv s' (rkey j (ro_Replicas (js_Routers (j_Spec j))) e x) = None"
proof -
  from run obtain s1 s2 where
    loop: "for_each (\<lambda>i. for_each (\<lambda>(e, ep). router_step k oe j i e ep) (replica_endpoints j i)) (replicas j) s1 = (None, s2)"
    and clean: "cleanupExcessRouterServices k j s2 = (None, s')"
    by (auto simp: reconcileServices_def and_then_ok)
  from st have os: "op_store k sv iv" by (simp add: op_service_store_def)
  show "served sv j i e ep s'" if i: "i \<in> set (replicas j)" and ep: "(e, ep) \<in> set (replica_endpoints j i)"
    unfolding served_def
  proof (intro allI impI)
    fix x t assume w: "wanted_service ep x = Some t"
    from i replica_endpoints_index(1,2) [OF ep] have "kept j i e" by (simp add: kept_def)
    from cleanup_removes(1) [OF st n clean this wanted_suffix [OF w]]
    have "sv s' (rkey j i e x) = sv s2 (rkey j i e x)" .
    with router_loop_serves [OF os loop i ep] w show "serves (sv s' (rkey j i e x)) t (replica_selector j i) 8083"
      unfolding served_def by metis
  qed
  show "sv s' (rkey j (ro_Replicas (js_Routers (j_Spec j))) e x) = None"
    if "e \<in> {0..9}" "x \<in> set suffixes" "ro_Replicas (js_Routers (j_Spec j)) < 100"
    using that by (rule cleanup_removes(2) [OF st n clean refl])
qed

lemma configmap_frame:
  "op_service_store k sv iv \<Longrightarrow> reconcileConfigMaps k oe ym j s = (r, s') \<Longrightarrow> sv s' = sv s"
  by (auto simp: reconcileConfigMaps_def op_service_store_def split: sum.splits dest: apply_frame_eq)

lemma ensureSecret_frame:
  assumes "op_service_store k sv iv" "ensureSecretExists k rand j name s = (r, s')"
  shows "sv s' = sv s"
proof -
  from assms(1) have fr: "sv (snd (ok_createSecret k s x)) = sv s" for s x unfolding op_service_store_def by blast
  show ?thesis using assms(2) fr [of s]
    by (auto simp: ensureSecretExists_def split: sum.splits if_splits prod.splits) (metis snd_conv)+
qed

lemma secrets_frame:
  assumes "op_service_store k sv iv" "reconcileSecrets k rand j s = (r, s')"
  shows "sv s' = sv s"
proof -
  obtain r1 s1 where e1: "ensureSecretExists k rand j ''jumpstarter-controller-secret'' s = (r1, s1)" by fastforce
  show ?thesis
  proof (cases r1)
    case None
    with e1 assms(2) have "ensureSecretExists k rand j ''jumpstarter-router-secret'' s1 = (r, s')" by (simp add: reconcileSecrets_def)
    from ensureSecret_frame [OF assms(1) e1] ensureSecret_frame [OF assms(1) this] show ?thesis by simp
  next
    case (Some err)
    with e1 assms(2) have "s' = s1" by (simp add: reconcileSecrets_def)
    with ensureSecret_frame [OF assms(1) e1] show ?thesis by simp
  qed
qed

lemma pass_services:
  assumes st: "op_service_store k sv iv" and get: "ok_getJumpstarter k s req = Inr j0" and del: "j_DeletionTimestamp j0 = None"
    and run: "Jumpstarter_Reconcile k oe ym rand req s = ((res, None), s')"
    and j: "j = j0\<lparr>j_Spec := ApplyDefaults oe (j_Spec j0)\<rparr>"
  obtains s1 s2 where "reconcileServices k oe j s1 = (None, s2)" "sv s' = sv s2" "res = zero_Result\<lparr>r_RequeueAfter := 30 * Minute\<rparr>"
proof -
  obtain r where all: "and_then (reconcileRBAC k oe j s)
               (\<lambda>s. and_then (reconcileControllerDeployment k oe j s)
               (\<lambda>s. and_then (reconcileRouterDeployment k oe j s)
               (\<lambda>s. and_then (reconcileServices k oe j s)
               (\<lambda>s. and_then (reconcileConfigMaps k oe ym j s) (reconcileSecrets k rand j))))) = (r, s')"
    and rr: "r = None" and res: "res = zero_Result\<lparr>r_RequeueAfter := 30 * Minute\<rparr>"
    using run by (auto simp: Jumpstarter_Reconcile_def get del Let_def j [symmetric] split: prod.splits option.splits)
  from all rr obtain s1 s2 s3 where sv: "reconcileServices k oe j s1 = (None, s2)"
    and cm: "reconcileConfigMaps k oe ym j s2 = (None, s3)" and se: "reconcileSecrets k rand j s3 = (None, s')"
    by (auto simp: and_then_ok)
  from configmap_frame [OF st cm] secrets_frame [OF st se] have "sv s' = sv s2" by simp
  then show ?thesis by (rule that [OF sv _ res])
qed

text \<open>A label selector of a service, on the labels of a pod.\<close>

definition selects :: "strmap \<Rightarrow> strmap \<Rightarrow> bool" where
  "selects sel labels \<longleftrightarrow> (\<forall>(key, v)\<in>set sel. mget labels key = Some v)"

lemma replica_selector_selects:
  assumes "0 \<le> i" "0 \<le> i'"
  shows "selects (replica_selector j i) (pt_Labels (dsp_Template (dp_Spec (createRouterDeployment j i')))) \<longleftrightarrow> i' = i"
  using itoa_inj_nonneg [OF assms(2,1)] by (simp add: selects_def createRouterDeployment_def Let_def)

text \<open>
  C13: After a pass without error over a resource with a base domain, every endpoint of every
  router replica has some service type enabled, each service it asks for is stored with the
  type asked for and the port 8083, and the selector of that service matches the pods of this
  replica's deployment and of no other replica's. The next pass is due in 30 minutes.
\<close>

theorem pass_serves_every_replica:
  assumes st: "op_service_store k sv iv" and get: "ok_getJumpstarter k s req = Inr j0" and del: "j_DeletionTimestamp j0 = None"
    and run: "Jumpstarter_Reconcile k oe ym rand req s = ((res, None), s')"
    and j: "j = j0\<lparr>j_Spec := ApplyDefaults oe (j_Spec j0)\<rparr>"
    and dom: "js_BaseDomain (j_Spec j0) \<noteq> []" and n: "0 \<le> ro_Replicas (js_Routers (j_Spec j0))"
    and i: "i \<in> set (replicas j)" and ep: "(e, ep) \<in> set (replica_endpoints j i)"
  shows "(\<exists>x t. wanted_service ep x = Some t) \<and> r_RequeueAfter res = 30 * Minute \<and>
    (\<forall>x t. wanted_service ep x = Some t \<longrightarrow>
      (\<exists>svc. sv s' (rkey j i e x) = Some svc \<and> svc_Type svc = t \<and> map svp_Port (svc_Ports svc) = [8083] \<and>
        (\<forall>i'\<ge>0. selects (svc_Selector svc) (pt_Labels (dsp_Template (dp_Spec (createRouterDeployment j i')))) \<longleftrightarrow> i' = i)))"
proof -
  obtain s1 s2 where ok: "reconcileServices k oe j s1 = (None, s2)" and v: "sv s' = sv s2"
    and res: "res = zero_Result\<lparr>r_RequeueAfter := 30 * Minute\<rparr>"
    by (rule pass_services [OF st get del run j])
  have n': "0 \<le> ro_Replicas (js_Routers (j_Spec j))"
    using n by (simp add: j ApplyDefaults_def ApplyEndpointDefaults_def Let_def)
  have eps: "gc_Endpoints (ro_GRPC (js_Routers (j_Spec j))) = default_endpoints (oe_RouteAvailable oe) (oe_IngressAvailable oe)
      (''router-$(replica).'' @ js_BaseDomain (j_Spec j0)) (gc_Endpoints (ro_GRPC (js_Routers (j_Spec j0))))"
    using dom by (simp add: j ApplyDefaults_def ApplyEndpointDefaults_def Let_def)
  have "service_type_enabled ep"
    by (rule replica_endpoints_enabled [OF _ _ ep]) (simp_all add: eps default_endpoints_enabled)
  then have "\<exists>x t. wanted_service ep x = Some t" by (rule wanted_some)
  moreover have sv: "served sv j i e ep s2" by (rule reconcileServices_ok(1) [OF st n' ok i ep])
  have "0 \<le> i" using i by (simp add: replicas_def)
  then have "\<exists>svc. sv s' (rkey j i e x) = Some svc \<and> svc_Type svc = t \<and> map svp_Port (svc_Ports svc) = [8083] \<and>
        (\<forall>i'\<ge>0. selects (svc_Selector svc) (pt_Labels (dsp_Template (dp_Spec (createRouterDeployment j i')))) \<longleftrightarrow> i' = i)"
    if "wanted_service ep x = Some t" for x t
    using sv that replica_selector_selects [of i _ j] unfolding served_def serves_def v by fastforce
  ultimately show ?thesis using res by simp
qed

text \<open>
  After a pass without error, no service of the first replica index beyond the count is
  left, for the ten endpoint indices the code looks at.
\<close>

theorem scaled_down_replica_removed:
  assumes st: "op_service_store k sv iv" and get: "ok_getJumpstarter k s req = Inr j0" and del: "j_DeletionTimestamp j0 = None"
    and run: "Jumpstarter_Reconcile k oe ym rand req s = ((res, None), s')"
    and n: "0 \<le> ro_Replicas (js_Routers (j_Spec j0))" "ro_Replicas (js_Routers (j_Spec j0)) < 100"
    and e: "e \<in> {0..9}" "x \<in> set suffixes"
  shows "sv s' (rkey j0 (ro_Replicas (js_Routers (j_Spec j0))) e x) = None"
proof -
  define j where "j = j0\<lparr>j_Spec := ApplyDefaults oe (j_Spec j0)\<rparr>"
  obtain s1 s2 where ok: "reconcileServices k oe j s1 = (None, s2)" and v: "sv s' = sv s2"
    by (rule pass_services [OF st get del run j_def])
  have R: "ro_Replicas (js_Routers (j_Spec j)) = ro_Replicas (js_Routers (j_Spec j0))"
    by (simp add: j_def ApplyDefaults_def ApplyEndpointDefaults_def Let_def)
  have key: "rkey j i e x = rkey j0 i e x" for i
    by (simp add: j_def rkey_def buildServiceNameForReplicaEndpoint_def)
  show ?thesis using reconcileServices_ok(2) [OF st _ ok e] n by (simp add: R v key)
qed

section \<open>The ingress of the controller\<close>

lemma for_each_last: "for_each f (xs @ [x]) s = (None, s') \<Longrightarrow> \<exists>s1. f x s1 = (None, s')"
  by (auto simp: for_each_append and_then_ok)

lemma createIngress_host:
  assumes "op_store k sv iv" "createIngressForEndpoint k oe own sn sp ep ic bl s = (None, s')"
    "oe_IngressAvailable oe" "extractHostname (ept_Address ep) \<noteq> []" "oe_IsDNS1123Subdomain oe (extractHostname (ept_Address ep)) = []"
  shows "\<exists>ing. iv s' \<lparr>nn_Namespace = om_Namespace own, nn_Name = sn @ ''-ing''\<rparr> = Some ing \<and>
    map ir_Host (ing_Rules ing) = [extractHostname (ept_Address ep)]"
proof -
  let ?ing = "desired_ingress own sn sp (extractHostname (ept_Address ep)) ic bl"
  have key: "key_of (ing_Meta ?ing) = \<lparr>nn_Namespace = om_Namespace own, nn_Name = sn @ ''-ing''\<rparr>"
    by (simp add: desired_ingress_def key_of_def zero_ObjectMeta_def)
  from assms(2-5) have ap: "ok_applyIngress k s \<lparr>nn_Namespace = om_Namespace own, nn_Name = sn @ ''-ing''\<rparr>
      (mutate_ingress oe ?ing own) = (None, s')"
    by (simp add: createIngressForEndpoint_def Let_def key)
  from assms(1) have law: "apply_law (ok_applyIngress k) iv" by (simp add: op_store_def)
  obtain ing where m: "mutate_ingress oe ?ing own (iv s \<lparr>nn_Namespace = om_Namespace own, nn_Name = sn @ ''-ing''\<rparr>) = Inr ing"
    and v: "iv s' = (iv s)(\<lparr>nn_Namespace = om_Namespace own, nn_Name = sn @ ''-ing''\<rparr> \<mapsto> ing)"
    by (rule apply_law_None [OF law ap])
  from m have "ing_Rules ing = ing_Rules ?ing"
    by (auto simp: mutate_ingress_def Let_def map_sum_def split: sum.splits)
  with v show ?thesis by (simp add: desired_ingress_def)
qed

lemma endpoint_ingress_host:
  assumes st: "op_store k sv iv" and run: "ReconcileControllerEndpoint k oe own ep (controller_svcPort ep) s = (None, s')"
    and en: "enabled_by ic_Enabled (ept_Ingress ep)" "oe_IngressAvailable oe" "extractHostname (ept_Address ep) \<noteq> []"
      "oe_IsDNS1123Subdomain oe (extractHostname (ept_Address ep)) = []"
  shows "\<exists>ing. iv s' \<lparr>nn_Namespace = om_Namespace own, nn_Name = ''controller-grpc-ing''\<rparr> = Some ing \<and>
    map ir_Host (ing_Rules ing) = [extractHostname (ept_Address ep)]"
proof -
  from en(1) obtain ic where ic: "ept_Ingress ep = Some ic" "ic_Enabled ic" by (auto simp: enabled_by_def split: option.splits)
  let ?p = "controller_svcPort ep"
  obtain s1 s2 s3 s4 sel bl where
    st1: "createIngressForEndpoint k oe own (svp_Name ?p) (svp_Port ?p) ep ic bl s = (None, s1)"
    and st2: "case ept_Route ep of Some rc \<Rightarrow> (if rc_Enabled rc
       then createRouteForEndpoint k oe own (svp_Name ?p) (svp_Port ?p) ep rc bl s1 = (None, s2) else s2 = s1) | None \<Rightarrow> s2 = s1"
    and st3: "case ept_LoadBalancer ep of Some lb \<Rightarrow> (if lb_Enabled lb
       then createService k oe own ?p ''-lb'' ServiceTypeLoadBalancer sel bl (lb_Annotations lb) (lb_Labels lb) s2 = (None, s3)
       else s3 = s2) | None \<Rightarrow> s3 = s2"
    and st4: "case ept_NodePort ep of Some np \<Rightarrow> (if np_Enabled np
       then createService k oe own ?p ''-np'' ServiceTypeNodePort sel bl (np_Annotations np) (np_Labels np) s3 = (None, s4)
       else s4 = s3) | None \<Rightarrow> s4 = s3"
    and st5: "\<exists>an el. createService k oe own ?p [] ServiceTypeClusterIP sel bl an el s4 = (None, s')"
    by (rule reconcile_endpoint_stages [OF run [unfolded ReconcileControllerEndpoint_def]]) (use ic en(1) in simp)
  have "iv s2 = iv s1" using st2 by (auto split: option.splits if_splits dest: createRoute_frame [OF st])
  moreover note optional_service_step(3) [OF st st3] optional_service_step(3) [OF st st4]
  moreover have "iv s' = iv s4" using st5 createService_view(3) [OF st] by blast
  ultimately have "iv s' = iv s1" by simp
  with createIngress_host [OF st st1 en(2-4)] show ?thesis by (simp add: controller_svcPort_def)
qed

text \<open>
  The endpoints of the controller share one ingress: after the loop over them, it has a
  single rule, for the host of the last. With another endpoint before it, the controller is told
  to advertise the first one's address, whose host no rule of that ingress has.
\<close>

theorem controller_ingress_last_wins:
  assumes st: "op_store k sv iv" and eps: "gc_Endpoints (cc_GRPC (js_Controller (j_Spec j))) = ep1 # eps @ [ep]"
    and run: "for_each (\<lambda>endpoint. ReconcileControllerEndpoint k oe (j_Meta j) endpoint (controller_svcPort endpoint))
      (gc_Endpoints (cc_GRPC (js_Controller (j_Spec j)))) s = (None, s')"
    and en: "enabled_by ic_Enabled (ept_Ingress ep)" "oe_IngressAvailable oe" "extractHostname (ept_Address ep) \<noteq> []"
      "oe_IsDNS1123Subdomain oe (extractHostname (ept_Address ep)) = []"
    and ep1: "ept_Address ep1 \<noteq> []" "extractHostname (ept_Address ep1) \<noteq> extractHostname (ept_Address ep)"
  shows "\<exists>ing. iv s' \<lparr>nn_Namespace = om_Namespace (j_Meta j), nn_Name = ''controller-grpc-ing''\<rparr> = Some ing \<and>
    map ir_Host (ing_Rules ing) = [extractHostname (ept_Address ep)] \<and>
    grpcEndpoint j = ensurePort (ept_Address ep1) ''443'' \<and>
    extractHostname (ept_Address ep1) \<notin> set (map ir_Host (ing_Rules ing))"
proof -
  from run [unfolded eps, folded append_Cons]
  obtain s1 where "ReconcileControllerEndpoint k oe (j_Meta j) ep (controller_svcPort ep) s1 = (None, s')"
    by (rule for_each_last [THEN exE])
  from endpoint_ingress_host [OF st this en] obtain ing where
    "iv s' \<lparr>nn_Namespace = om_Namespace (j_Meta j), nn_Name = ''controller-grpc-ing''\<rparr> = Some ing"
    "map ir_Host (ing_Rules ing) = [extractHostname (ept_Address ep)]" by (elim exE conjE)
  moreover from ep1 eps have "grpcEndpoint j = ensurePort (ept_Address ep1) ''443''" by (simp add: grpcEndpoint_def)
  ultimately show ?thesis using ep1(2) by (intro exI [of _ ing]) simp
qed

section \<open>Witnesses\<close>

lemma mem_op_service_store: "op_service_store mem_okube (\<lambda>s. mget (mo_services s)) (\<lambda>s. mget (mo_ingresses s))"
proof -
  have "apply_law (ok_applyService mem_okube) (\<lambda>s. mget (mo_services s))"
    "apply_law (ok_applyIngress mem_okube) (\<lambda>s. mget (mo_ingresses s))"
    unfolding mem_okube_def okube.simps by (rule mem_apply_law; simp)+
  then show ?thesis
    by (auto simp: op_service_store_def op_store_def apply_frame_def mem_okube_def mem_apply_def mem_void_def delete_conv'
        restrict_map_def split: sum.splits)
qed


definition sample_op_pass :: "(Result \<times> goerror option) \<times> op_mem" where
  "sample_op_pass = Jumpstarter_Reconcile mem_okube sample_oe sample_yaml sample_rand (key_of (j_Meta sample_jumpstarter)) sample_op"

lemma sample_op_pass_ok: "snd (fst sample_op_pass) = None"
  by code_simp


lemma sample_get: "ok_getJumpstarter mem_okube sample_op (key_of (j_Meta sample_jumpstarter)) = Inr sample_jumpstarter"
  by (simp add: mem_okube_def sample_op_def)

lemma sample_op_pass_run:
  "Jumpstarter_Reconcile mem_okube sample_oe sample_yaml sample_rand (key_of (j_Meta sample_jumpstarter)) sample_op =
     ((fst (fst sample_op_pass), None), snd sample_op_pass)"
  using sample_op_pass_ok by (simp add: sample_op_pass_def prod_eq_iff)

definition sample_applied :: Jumpstarter where
  "sample_applied = sample_jumpstarter\<lparr>j_Spec := ApplyDefaults sample_oe (j_Spec sample_jumpstarter)\<rparr>"

lemma sample_applied_endpoints:
  "map fst (replica_endpoints sample_applied 1) = [0]" "1 \<in> set (replicas sample_applied)"
  "wanted_service (snd (hd (replica_endpoints sample_applied 1))) [] = Some ServiceTypeClusterIP"
  by code_simp+

theorem pass_serves_every_replica_witness:
  "\<exists>svc. mget (mo_services (snd sample_op_pass)) (rkey sample_applied 1 0 []) = Some svc \<and>
     selects (svc_Selector svc) (pt_Labels (dsp_Template (dp_Spec (createRouterDeployment sample_applied 1)))) \<and>
     \<not> selects (svc_Selector svc) (pt_Labels (dsp_Template (dp_Spec (createRouterDeployment sample_applied 0))))"
proof -
  let ?ep = "snd (hd (replica_endpoints sample_applied 1))"
  have "(0, ?ep) \<in> set (replica_endpoints sample_applied 1)"
    using sample_applied_endpoints(1) by (cases "replica_endpoints sample_applied 1") auto
  from pass_serves_every_replica [OF mem_op_service_store sample_get _ sample_op_pass_run sample_applied_def _ _ sample_applied_endpoints(2) this]
  have "\<forall>x t. wanted_service ?ep x = Some t \<longrightarrow>
      (\<exists>svc. mget (mo_services (snd sample_op_pass)) (rkey sample_applied 1 0 x) = Some svc \<and> svc_Type svc = t \<and>
        map svp_Port (svc_Ports svc) = [8083] \<and> (\<forall>i'\<ge>0. selects (svc_Selector svc)
          (pt_Labels (dsp_Template (dp_Spec (createRouterDeployment sample_applied i')))) \<longleftrightarrow> i' = 1))"
    by (simp add: sample_jumpstarter_def)
  from this [rule_format, OF sample_applied_endpoints(3)] obtain svc where
    svc: "mget (mo_services (snd sample_op_pass)) (rkey sample_applied 1 0 []) = Some svc"
    and sel: "\<forall>i'\<ge>0. selects (svc_Selector svc)
          (pt_Labels (dsp_Template (dp_Spec (createRouterDeployment sample_applied i')))) \<longleftrightarrow> i' = 1" by (elim exE conjE)
  from sel [rule_format, of 1] sel [rule_format, of 0] svc show ?thesis by (intro exI [of _ svc]) simp
qed

theorem scaled_down_replica_removed_witness:
  "mget (mo_services (snd sample_op_pass)) (rkey sample_jumpstarter 2 0 ''-lb'') = None"
proof -
  have R: "ro_Replicas (js_Routers (j_Spec sample_jumpstarter)) = 2" "j_DeletionTimestamp sample_jumpstarter = None"
    by (simp_all add: sample_jumpstarter_def)
  show ?thesis
    using scaled_down_replica_removed [OF mem_op_service_store sample_get R(2) sample_op_pass_run, unfolded R(1), of 0 "''-lb''"]
    by (simp add: suffixes_def)
qed

definition sample_ingress :: "string \<Rightarrow> Endpoint" where
  "sample_ingress address =
     (sample_endpoint address)\<lparr>ept_Ingress := Some \<lparr>ic_Enabled = True, ic_Class = [], ic_Annotations = [], ic_Labels = []\<rparr>\<rparr>"

definition sample_two_endpoints :: Jumpstarter where
  "sample_two_endpoints = sample_jumpstarter\<lparr>j_Spec := (j_Spec sample_jumpstarter)\<lparr>js_Controller :=
     (js_Controller (j_Spec sample_jumpstarter))\<lparr>cc_GRPC := sample_grpc [sample_ingress ''a.example.com'', sample_ingress ''b.example.com'']\<rparr>\<rparr>\<rparr>"

theorem controller_ingress_last_wins_witness:
  "\<exists>(s' :: op_mem) ing. mget (mo_ingresses s') \<lparr>nn_Namespace = om_Namespace (j_Meta sample_two_endpoints), nn_Name = ''controller-grpc-ing''\<rparr> = Some ing \<and>
     map ir_Host (ing_Rules ing) = [''b.example.com''] \<and> grpcEndpoint sample_two_endpoints = ensurePort ''a.example.com'' ''443''"
proof -
  let ?r = "for_each (\<lambda>endpoint. ReconcileControllerEndpoint mem_okube sample_oe (j_Meta sample_two_endpoints) endpoint
    (controller_svcPort endpoint)) (gc_Endpoints (cc_GRPC (js_Controller (j_Spec sample_two_endpoints)))) sample_op"
  have "fst ?r = None" by code_simp
  then have run: "?r = (None, snd ?r)" by (simp add: prod_eq_iff)
  have eps: "gc_Endpoints (cc_GRPC (js_Controller (j_Spec sample_two_endpoints))) =
      sample_ingress ''a.example.com'' # [] @ [sample_ingress ''b.example.com'']"
    by (simp add: sample_two_endpoints_def sample_grpc_def)
  have host: "extractHostname (ept_Address (sample_ingress ''b.example.com'')) = ''b.example.com''"
    "extractHostname (ept_Address (sample_ingress ''a.example.com'')) = ''a.example.com''" by code_simp+
  have st: "op_store mem_okube (\<lambda>s. mget (mo_services s)) (\<lambda>s. mget (mo_ingresses s))"
    using mem_op_service_store by (simp add: op_service_store_def)
  have "\<exists>ing. mget (mo_ingresses (snd ?r)) \<lparr>nn_Namespace = om_Namespace (j_Meta sample_two_endpoints), nn_Name = ''controller-grpc-ing''\<rparr> = Some ing \<and>
    map ir_Host (ing_Rules ing) = [extractHostname (ept_Address (sample_ingress ''b.example.com''))] \<and>
    grpcEndpoint sample_two_endpoints = ensurePort (ept_Address (sample_ingress ''a.example.com'')) ''443'' \<and>
    extractHostname (ept_Address (sample_ingress ''a.example.com'')) \<notin> set (map ir_Host (ing_Rules ing))"
    by (rule controller_ingress_last_wins [OF st eps run])
      (unfold host, simp_all add: sample_ingress_def sample_endpoint_def enabled_by_def sample_oe_def)
  then obtain ing where "mget (mo_ingresses (snd ?r))
      \<lparr>nn_Namespace = om_Namespace (j_Meta sample_two_endpoints), nn_Name = ''controller-grpc-ing''\<rparr> = Some ing"
    "map ir_Host (ing_Rules ing) = [''b.example.com'']" "grpcEndpoint sample_two_endpoints = ensurePort ''a.example.com'' ''443''"
    unfolding host by (auto simp: sample_ingress_def sample_endpoint_def)
  then show ?thesis by (intro exI [of _ "snd ?r"] exI [of _ ing] conjI)
qed

end
