(* ===== verification/Servers.thy ===== *)
theory Servers
  imports Config RouterService HostPort "HOL-Library.Word"
begin

unbundle bit_operations_syntax

text \<open>
  The servers of the controller and the router: certificates
  (\<open>src/internal/service/endpoints.go\<close>, \<open>selfsigned.go\<close>), \<open>Start\<close> of the controller and router
  services (\<open>controller_service.go\<close>, \<open>router_service.go\<close>), the internal OIDC provider
  (\<open>oidc_service.go\<close>, \<open>src/internal/oidc/op.go\<close>) and the dashboard (\<open>dashboard_service.go\<close>).

  Keys, certificates and listeners are made by the standard library; \<open>tls_env\<close> holds these
  calls. \<open>Start\<close> blocks while it serves: it is a function that returns the error it stops with
  before that, or the server that then runs.
\<close>

section \<open>Certificates\<close>

record rsa_PrivateKey =
  rk_PublicKey :: string
  rk_D :: string

record x509_Certificate =
  xc_SerialNumber :: int
  xc_Subject :: string
  xc_Issuer :: string
  xc_NotBefore :: time
  xc_NotAfter :: time
  xc_BasicConstraintsValid :: bool
  xc_DNSNames :: "string list"
  xc_IPAddresses :: "string list"

record tls_Certificate =
  tl_Certificate :: "string list"
  tl_PrivateKey :: rsa_PrivateKey

text \<open>
  The environment: variables, files, and the calls of \<open>net\<close>, \<open>crypto/rsa\<close>, \<open>crypto/x509\<close> and
  \<open>crypto/tls\<close>; an IP address is the text of its bytes. The clock is read twice.
\<close>

record tls_env =
  te_Getenv :: "string \<Rightarrow> string"
  te_ReadFile :: "string \<Rightarrow> goerror + string"
  te_ParseIP :: "string \<Rightarrow> string option"
  te_GenerateKey :: "nat \<Rightarrow> goerror + rsa_PrivateKey"
  te_CreateCertificate ::
    "x509_Certificate \<Rightarrow> x509_Certificate \<Rightarrow> string \<Rightarrow> rsa_PrivateKey \<Rightarrow> goerror + string"
  te_X509KeyPair :: "string \<Rightarrow> string \<Rightarrow> goerror + tls_Certificate"
  te_Listen :: "string \<Rightarrow> goerror option"
  te_now1 :: time
  te_now2 :: time

definition endpointToSAN :: "tls_env \<Rightarrow> string \<Rightarrow> goerror + string list \<times> string list" where
  "endpointToSAN te endpoint =
     (case SplitHostPort endpoint of
        Inl err \<Rightarrow> Inl err
      | Inr (host, _) \<Rightarrow>
          (case te_ParseIP te host of
             Some ip \<Rightarrow> Inr ([], [ip])
           | None \<Rightarrow> Inr ([host], [])))"

definition certificate_template :: "tls_env \<Rightarrow> string \<Rightarrow> string list \<Rightarrow> string list \<Rightarrow> x509_Certificate" where
  "certificate_template te commonName dnsnames ipaddresses =
     \<lparr>xc_SerialNumber = 1, xc_Subject = commonName, xc_Issuer = commonName, xc_NotBefore = te_now1 te,
      xc_NotAfter = time_Add (te_now2 te) (365 * 24 * 3600 * Second), xc_BasicConstraintsValid = True,
      xc_DNSNames = dnsnames, xc_IPAddresses = ipaddresses\<rparr>"

definition NewSelfSignedCertificate ::
  "tls_env \<Rightarrow> string \<Rightarrow> string list \<Rightarrow> string list \<Rightarrow> goerror + tls_Certificate" where
  "NewSelfSignedCertificate te commonName dnsnames ipaddresses =
     (let template = certificate_template te commonName dnsnames ipaddresses in
      case te_GenerateKey te 2048 of
        Inl err \<Rightarrow> Inl err
      | Inr priv \<Rightarrow>
          (case te_CreateCertificate te template template (rk_PublicKey priv) priv of
             Inl err \<Rightarrow> Inl err
           | Inr certificate \<Rightarrow> Inr \<lparr>tl_Certificate = [certificate], tl_PrivateKey = priv\<rparr>))"

text \<open>The certificate of a service: the same code in both \<open>Start\<close> functions, but for the name.\<close>

definition serviceCertificate ::
  "tls_env \<Rightarrow> string \<Rightarrow> string list \<Rightarrow> string list \<Rightarrow> goerror + tls_Certificate" where
  "serviceCertificate te commonName dnsnames ipaddresses =
     (let certPEMPath = te_Getenv te ''EXTERNAL_CERT_PEM''; keyPEMPath = te_Getenv te ''EXTERNAL_KEY_PEM'' in
      if certPEMPath \<noteq> [] \<and> keyPEMPath \<noteq> [] then
        (case te_ReadFile te certPEMPath of
           Inl err \<Rightarrow> Inl (WrapError ''failed to read external certificate file: '' err)
         | Inr certPEMBytes \<Rightarrow>
             (case te_ReadFile te keyPEMPath of
                Inl err \<Rightarrow> Inl (WrapError ''failed to read external key file: '' err)
              | Inr keyPEMBytes \<Rightarrow>
                  (case te_X509KeyPair te certPEMBytes keyPEMBytes of
                     Inl err \<Rightarrow> Inl (WrapError ''failed to parse external certificate: '' err)
                   | Inr parsedCert \<Rightarrow> Inr parsedCert)))
      else NewSelfSignedCertificate te commonName dnsnames ipaddresses)"

section \<open>Start of the services\<close>

text \<open>
  A gRPC server that runs: where it listens, its certificate and the protocols offered, the keepalive
  policy, the services registered.
\<close>

record grpc_server =
  gs_Address :: string
  gs_Certificate :: tls_Certificate
  gs_NextProtos :: "string list"
  gs_ServerOption :: EnforcementPolicy
  gs_Services :: "string list"
  gs_GatewayRoutes :: "string list"

text \<open>\<open>credentials.NewServerTLSFromCert\<close> offers \<open>h2\<close> only; the controller offers both itself.\<close>

definition ControllerService_Start :: "tls_env \<Rightarrow> EnforcementPolicy \<Rightarrow> goerror + grpc_server" where
  "ControllerService_Start te serverOption =
     (case endpointToSAN te (controllerEndpoint (te_Getenv te)) of
        Inl err \<Rightarrow> Inl err
      | Inr (dnsnames, ipaddresses) \<Rightarrow>
          (case serviceCertificate te ''jumpstarter controller'' dnsnames ipaddresses of
             Inl err \<Rightarrow> Inl err
           | Inr cert \<Rightarrow>
               (case te_Listen te '':8082'' of
                  Some err \<Rightarrow> Inl err
                | None \<Rightarrow>
                    Inr \<lparr>gs_Address = '':8082'', gs_Certificate = cert, gs_NextProtos = [''http/1.1'', ''h2''],
                         gs_ServerOption = serverOption,
                         gs_Services = [''ControllerService'', ''ClientService'', ''ServerReflection''],
                         gs_GatewayRoutes = []\<rparr>)))"

definition RouterService_Start :: "tls_env \<Rightarrow> EnforcementPolicy \<Rightarrow> goerror + grpc_server" where
  "RouterService_Start te serverOption =
     (case endpointToSAN te (routerEndpoint (te_Getenv te)) of
        Inl err \<Rightarrow> Inl err
      | Inr (dnsnames, ipaddresses) \<Rightarrow>
          (case serviceCertificate te ''jumpstarter router'' dnsnames ipaddresses of
             Inl err \<Rightarrow> Inl err
           | Inr cert \<Rightarrow>
               (case te_Listen te '':8083'' of
                  Some err \<Rightarrow> Inl err
                | None \<Rightarrow>
                    Inr \<lparr>gs_Address = '':8083'', gs_Certificate = cert, gs_NextProtos = [''h2''],
                         gs_ServerOption = serverOption, gs_Services = [''RouterService'', ''ServerReflection''],
                         gs_GatewayRoutes = []\<rparr>)))"

text \<open>The handler of the controller's port: gRPC or the gateway.\<close>

record http_Request =
  hr_ProtoMajor :: int
  hr_ContentType :: string

definition serve_http :: "(http_Request \<Rightarrow> 'r) \<Rightarrow> (http_Request \<Rightarrow> 'r) \<Rightarrow> http_Request \<Rightarrow> 'r" where
  "serve_http server gwmux r =
     (if hr_ProtoMajor r = 2 \<and> strings_HasPrefix (hr_ContentType r) ''application/grpc''
      then server r else gwmux r)"

text \<open>
  The interceptors of the controller's server. A context carries, beside the metadata, the
  address of the peer and the values of its logger. \<open>recoverFrom\<close> is the error that the recovery
  interceptor makes of a panic.
\<close>

record server_context = Context +
  sx_Peer :: "string option"
  sx_LogValues :: "(string \<times> string) list"

definition logContext :: "server_context \<Rightarrow> server_context" where
  "logContext ctx =
     (case sx_Peer ctx of
        Some addr \<Rightarrow> ctx\<lparr>sx_LogValues := sx_LogValues ctx @ [(''peer'', addr)]\<rparr>
      | None \<Rightarrow> ctx)"

definition recovery :: "(string \<Rightarrow> goerror) \<Rightarrow> goerror + 'a \<Rightarrow> goerror + 'a" where
  "recovery recoverFrom result =
     (case result of Inl (Panic p) \<Rightarrow> Inl (recoverFrom p) | _ \<Rightarrow> result)"

definition unaryInterceptor ::
  "(string \<Rightarrow> goerror) \<Rightarrow> (server_context \<Rightarrow> (goerror + 'a) \<times> 's) \<Rightarrow> server_context \<Rightarrow> (goerror + 'a) \<times> 's" where
  "unaryInterceptor recoverFrom handler ctx = apfst (recovery recoverFrom) (handler (logContext ctx))"

section \<open>The internal OIDC provider\<close>

definition NewSigner :: "'key \<Rightarrow> string \<Rightarrow> string \<Rightarrow> 'key Signer" where
  "NewSigner privateKey issuer audience =
     \<lparr>sg_privatekey = privateKey, sg_issuer = issuer, sg_audience = audience\<rparr>"

text \<open>
  \<open>binary.BigEndian.Uint64\<close> of the first eight bytes. SHA-256, the random source and the key
  generation on it are library calls: \<open>ECDSALegacy\<close> is applied to the seed of the source.
\<close>

definition BigEndian_Uint64 :: "8 word list \<Rightarrow> 64 word" where
  "BigEndian_Uint64 b =
     ucast (b ! 7) OR push_bit 8 (ucast (b ! 6)) OR push_bit 16 (ucast (b ! 5)) OR push_bit 24 (ucast (b ! 4)) OR
     push_bit 32 (ucast (b ! 3)) OR push_bit 40 (ucast (b ! 2)) OR push_bit 48 (ucast (b ! 1)) OR push_bit 56 (ucast (b ! 0))"

record 'key keygen_env =
  kg_Sum256 :: "string \<Rightarrow> 8 word list"
  kg_ECDSALegacy :: "int \<Rightarrow> goerror + 'key"

definition signer_source :: "'key keygen_env \<Rightarrow> string \<Rightarrow> int" where
  "signer_source kg seed = sint (BigEndian_Uint64 (take 8 (kg_Sum256 kg seed)))"

definition NewSignerFromSeed ::
  "'key keygen_env \<Rightarrow> string \<Rightarrow> string \<Rightarrow> string \<Rightarrow> goerror + 'key Signer" where
  "NewSignerFromSeed kg seed issuer audience =
     (case kg_ECDSALegacy kg (signer_source kg seed) of
        Inl err \<Rightarrow> Inl err
      | Inr key \<Rightarrow> Inr (NewSigner key issuer audience))"

text \<open>The signer is the one key of the key set it publishes; \<open>pub\<close> gives the public key.\<close>

record 'pub op_Key =
  ok_ID :: string
  ok_Algorithm :: string
  ok_Use :: string
  ok_Key :: 'pub

definition Signer_Key :: "('key \<Rightarrow> 'pub) \<Rightarrow> 'key Signer \<Rightarrow> 'pub op_Key" where
  "Signer_Key pub k = \<lparr>ok_ID = ''default'', ok_Algorithm = ES256, ok_Use = ''sig'', ok_Key = pub (sg_privatekey k)\<rparr>"

definition Signer_KeySet :: "('key \<Rightarrow> 'pub) \<Rightarrow> 'key Signer \<Rightarrow> 'pub op_Key list" where
  "Signer_KeySet pub k = [Signer_Key pub k]"

datatype 'pub oidc_response = Discovery (dc_Issuer: string) (dc_JwksURI: string) | Keys "'pub op_Key list"

text \<open>The answer to a GET request for a path, where one is registered.\<close>

definition Signer_Register :: "('key \<Rightarrow> 'pub) \<Rightarrow> 'key Signer \<Rightarrow> string \<Rightarrow> 'pub oidc_response option" where
  "Signer_Register pub k path =
     (if path = ''/.well-known/openid-configuration'' then Some (Discovery (sg_issuer k) (sg_issuer k @ ''/jwks''))
      else if path = ''/jwks'' then Some (Keys (Signer_KeySet pub k))
      else None)"

record 'pub oidc_server =
  oi_Address :: string
  oi_Certificate :: tls_Certificate
  oi_Handler :: "string \<Rightarrow> 'pub oidc_response option"

definition OIDCService_Start ::
  "tls_env \<Rightarrow> ('key \<Rightarrow> 'pub) \<Rightarrow> 'key Signer \<Rightarrow> tls_Certificate \<Rightarrow> goerror + 'pub oidc_server" where
  "OIDCService_Start te pub signer cert =
     (case te_Listen te ''127.0.0.1:8085'' of
        Some err \<Rightarrow> Inl err
      | None \<Rightarrow> Inr \<lparr>oi_Address = ''127.0.0.1:8085'', oi_Certificate = cert, oi_Handler = Signer_Register pub signer\<rparr>)"

section \<open>The dashboard\<close>

text \<open>The page is rendered from the three lists; \<open>listClients\<close> is the call of the client that no other service makes.\<close>

datatype dashboard_page =
    ErrorText int goerror
  | IndexPage int "Exporter list" "Client list" "Lease list"

definition dashboard_index :: "'s kube \<Rightarrow> ('s \<Rightarrow> goerror + Client list) \<Rightarrow> 's \<Rightarrow> dashboard_page" where
  "dashboard_index k listClients s =
     (case k_listExporters k s [] of
        Inl err \<Rightarrow> ErrorText 500 err
      | Inr (exporters, _) \<Rightarrow>
          (case listClients s of
             Inl err \<Rightarrow> ErrorText 500 err
           | Inr clients \<Rightarrow>
               (case k_listLeases k s [] of
                  Inl err \<Rightarrow> ErrorText 500 err
                | Inr (leases, _) \<Rightarrow> IndexPage 200 exporters clients leases)))"

definition DashboardService_Start ::
  "tls_env \<Rightarrow> 's kube \<Rightarrow> ('s \<Rightarrow> goerror + Client list) \<Rightarrow> goerror + ('s \<Rightarrow> string \<Rightarrow> dashboard_page option)" where
  "DashboardService_Start te k listClients =
     (case te_Listen te '':8084'' of
        Some err \<Rightarrow> Inl err
      | None \<Rightarrow> Inr (\<lambda>s path. if path = ''/'' then Some (dashboard_index k listClients s) else None))"

lemma DashboardService_Start_Inl: "DashboardService_Start te k listClients = Inl err \<longleftrightarrow> te_Listen te '':8084'' = Some err"
  by (simp add: DashboardService_Start_def split: option.split)

lemma bit8_beyond: "8 \<le> m \<Longrightarrow> \<not> bit (w :: 8 word) m"
  by (auto dest: bit_imp_le_length)

lemma BigEndian_byte:
  assumes "i < 8"
  shows "(ucast (drop_bit (56 - 8 * i) (BigEndian_Uint64 b)) :: 8 word) = b ! i"
proof (rule bit_word_eqI)
  fix n assume "n < LENGTH(8)"
  then have n: "n < 8" by simp
  have "i = 0 \<or> i = 1 \<or> i = 2 \<or> i = 3 \<or> i = 4 \<or> i = 5 \<or> i = 6 \<or> i = 7" using assms by arith
  then show "bit (ucast (drop_bit (56 - 8 * i) (BigEndian_Uint64 b)) :: 8 word) n = bit (b ! i) n"
    using n by (elim disjE; simp add: BigEndian_Uint64_def bit_simps bit8_beyond; linarith?)
qed

lemma BigEndian_eq_iff:
  assumes "8 \<le> length a" "8 \<le> length b"
  shows "BigEndian_Uint64 (take 8 a) = BigEndian_Uint64 (take 8 b) \<longleftrightarrow> take 8 a = take 8 b"
proof
  assume eq: "BigEndian_Uint64 (take 8 a) = BigEndian_Uint64 (take 8 b)"
  show "take 8 a = take 8 b"
  proof (rule nth_equalityI)
    show "length (take 8 a) = length (take 8 b)" using assms by simp
    fix i assume "i < length (take 8 a)"
    then have "i < 8" by simp
    from BigEndian_byte [OF this, of "take 8 a"] BigEndian_byte [OF this, of "take 8 b"] eq
    show "take 8 a ! i = take 8 b ! i" by simp
  qed
qed simp

section \<open>Certificates and endpoints\<close>

text \<open>A certificate is for one host and no other: the only address, or the only name, it lists.\<close>

definition names_only :: "tls_env \<Rightarrow> x509_Certificate \<Rightarrow> string \<Rightarrow> bool" where
  "names_only te c host \<longleftrightarrow>
     (case te_ParseIP te host of
        Some ip \<Rightarrow> xc_IPAddresses c = [ip] \<and> xc_DNSNames c = []
      | None \<Rightarrow> xc_IPAddresses c = [] \<and> xc_DNSNames c = [host])"

text \<open>The certificate was made by signing this template with the key it is for.\<close>

definition self_signed :: "tls_env \<Rightarrow> x509_Certificate \<Rightarrow> tls_Certificate \<Rightarrow> bool" where
  "self_signed te t c \<longleftrightarrow>
     (\<exists>der. tl_Certificate c = [der] \<and> te_GenerateKey te 2048 = Inr (tl_PrivateKey c) \<and>
        te_CreateCertificate te t t (rk_PublicKey (tl_PrivateKey c)) (tl_PrivateKey c) = Inr der)"

abbreviation external :: "tls_env \<Rightarrow> bool" where
  "external te \<equiv> te_Getenv te ''EXTERNAL_CERT_PEM'' \<noteq> [] \<and> te_Getenv te ''EXTERNAL_KEY_PEM'' \<noteq> []"

lemma NewSelfSignedCertificate_Inr:
  "NewSelfSignedCertificate te cn dns ips = Inr c \<Longrightarrow> self_signed te (certificate_template te cn dns ips) c"
  by (auto simp: NewSelfSignedCertificate_def self_signed_def Let_def split: sum.splits)

lemma serviceCertificate_self_signed:
  "\<not> external te \<Longrightarrow> serviceCertificate te cn dns ips = NewSelfSignedCertificate te cn dns ips"
  by (auto simp: serviceCertificate_def Let_def)

lemma serviceCertificate_external:
  "external te \<Longrightarrow> serviceCertificate te cn dns ips = Inr c \<longleftrightarrow>
     (\<exists>cert key. te_ReadFile te (te_Getenv te ''EXTERNAL_CERT_PEM'') = Inr cert \<and>
        te_ReadFile te (te_Getenv te ''EXTERNAL_KEY_PEM'') = Inr key \<and> te_X509KeyPair te cert key = Inr c)"
  by (auto simp: serviceCertificate_def Let_def split: sum.splits)

lemma endpointToSAN_names:
  assumes "endpointToSAN te endpoint = Inr (dns, ips)"
  obtains host port where "SplitHostPort endpoint = Inr (host, port)" "names_only te (certificate_template te cn dns ips) host"
  using assms by (auto simp: endpointToSAN_def names_only_def certificate_template_def split: sum.splits option.splits)

text \<open>
  What a started service presents, for either service: the external certificate where one is
  given, otherwise its own, which names the host of the endpoint only.
\<close>

definition presents :: "tls_env \<Rightarrow> string \<Rightarrow> string \<Rightarrow> tls_Certificate \<Rightarrow> bool" where
  "presents te cn endpoint c \<longleftrightarrow>
     (\<exists>host port. SplitHostPort endpoint = Inr (host, port) \<and>
        (if external te
         then \<exists>cert key. te_ReadFile te (te_Getenv te ''EXTERNAL_CERT_PEM'') = Inr cert \<and>
           te_ReadFile te (te_Getenv te ''EXTERNAL_KEY_PEM'') = Inr key \<and> te_X509KeyPair te cert key = Inr c
         else \<exists>t. self_signed te t c \<and> names_only te t host \<and> xc_Subject t = cn \<and> xc_NotBefore t = te_now1 te \<and>
           xc_NotAfter t = te_now2 te + 365 * 24 * 3600 * Second))"

lemma service_presents:
  assumes "endpointToSAN te endpoint = Inr (dns, ips)" "serviceCertificate te cn dns ips = Inr c"
  shows "presents te cn endpoint c"
proof (cases "external te")
  case True
  from assms(1) obtain host port where "SplitHostPort endpoint = Inr (host, port)"
    by (rule endpointToSAN_names)
  with True assms(2) serviceCertificate_external [OF True] show ?thesis by (simp add: presents_def)
next
  case False
  let ?t = "certificate_template te cn dns ips"
  from assms(1) obtain host port where h: "SplitHostPort endpoint = Inr (host, port)" "names_only te ?t host"
    by (rule endpointToSAN_names)
  from assms(2) serviceCertificate_self_signed [OF False] have "self_signed te ?t c"
    by (intro NewSelfSignedCertificate_Inr) simp
  with h False show ?thesis
    unfolding presents_def by (auto simp: certificate_template_def time_Add_def intro!: exI [of _ ?t])
qed

lemma ControllerService_Start_presents:
  "ControllerService_Start te so = Inr srv \<Longrightarrow>
   presents te ''jumpstarter controller'' (controllerEndpoint (te_Getenv te)) (gs_Certificate srv)"
  by (auto simp: ControllerService_Start_def intro: service_presents split: sum.splits prod.splits option.splits)

lemma RouterService_Start_presents:
  "RouterService_Start te so = Inr srv \<Longrightarrow>
   presents te ''jumpstarter router'' (routerEndpoint (te_Getenv te)) (gs_Certificate srv)"
  by (auto simp: RouterService_Start_def intro: service_presents split: sum.splits prod.splits option.splits)

lemma Start_bad_endpoint:
  "SplitHostPort (controllerEndpoint (te_Getenv te)) = Inl err \<Longrightarrow> ControllerService_Start te so = Inl err"
  "SplitHostPort (routerEndpoint (te_Getenv te)) = Inl err \<Longrightarrow> RouterService_Start te so = Inl err"
  by (simp_all add: ControllerService_Start_def RouterService_Start_def endpointToSAN_def)

lemma endpointToSAN_Inr: "SplitHostPort endpoint = Inr (host, port) \<Longrightarrow> \<exists>dns ips. endpointToSAN te endpoint = Inr (dns, ips)"
  by (auto simp: endpointToSAN_def split: option.splits)

text \<open>
  The calls a start needs: the listener and, for its certificate, the files or the keys.
\<close>

definition certificates_work :: "tls_env \<Rightarrow> bool" where
  "certificates_work te \<longleftrightarrow>
     (if external te
      then \<exists>cert key c. te_ReadFile te (te_Getenv te ''EXTERNAL_CERT_PEM'') = Inr cert \<and>
        te_ReadFile te (te_Getenv te ''EXTERNAL_KEY_PEM'') = Inr key \<and> te_X509KeyPair te cert key = Inr c
      else \<exists>priv. te_GenerateKey te 2048 = Inr priv \<and>
        (\<forall>t. \<exists>der. te_CreateCertificate te t t (rk_PublicKey priv) priv = Inr der))"

lemma serviceCertificate_works: "certificates_work te \<Longrightarrow> \<exists>c. serviceCertificate te cn dns ips = Inr c"
proof (cases "external te")
  case True
  assume "certificates_work te"
  with True show ?thesis unfolding serviceCertificate_external [OF True] by (auto simp: certificates_work_def)
next
  case False
  assume "certificates_work te"
  with False obtain priv where "te_GenerateKey te 2048 = Inr priv"
    "\<forall>t. \<exists>der. te_CreateCertificate te t t (rk_PublicKey priv) priv = Inr der"
    by (auto simp: certificates_work_def)
  then show ?thesis unfolding serviceCertificate_self_signed [OF False]
    by (auto simp: NewSelfSignedCertificate_def Let_def split: sum.splits) (metis Inl_Inr_False)
qed

lemma Start_works:
  assumes "certificates_work te"
  shows "SplitHostPort (controllerEndpoint (te_Getenv te)) = Inr hp \<Longrightarrow> te_Listen te '':8082'' = None \<Longrightarrow>
      \<exists>srv. ControllerService_Start te so = Inr srv"
    and "SplitHostPort (routerEndpoint (te_Getenv te)) = Inr hp \<Longrightarrow> te_Listen te '':8083'' = None \<Longrightarrow>
      \<exists>srv. RouterService_Start te so = Inr srv"
proof -
  obtain host port where hp: "hp = (host, port)" by (cases hp)
  assume a: "SplitHostPort (controllerEndpoint (te_Getenv te)) = Inr hp" "te_Listen te '':8082'' = None"
  obtain dns ips where d: "endpointToSAN te (controllerEndpoint (te_Getenv te)) = Inr (dns, ips)"
    using endpointToSAN_Inr [OF a(1) [unfolded hp]] by blast
  obtain c where "serviceCertificate te ''jumpstarter controller'' dns ips = Inr c" using serviceCertificate_works [OF assms] by blast
  with a d show "\<exists>srv. ControllerService_Start te so = Inr srv" by (simp add: ControllerService_Start_def)
next
  obtain host port where hp: "hp = (host, port)" by (cases hp)
  assume a: "SplitHostPort (routerEndpoint (te_Getenv te)) = Inr hp" "te_Listen te '':8083'' = None"
  obtain dns ips where d: "endpointToSAN te (routerEndpoint (te_Getenv te)) = Inr (dns, ips)"
    using endpointToSAN_Inr [OF a(1) [unfolded hp]] by blast
  obtain c where "serviceCertificate te ''jumpstarter router'' dns ips = Inr c" using serviceCertificate_works [OF assms] by blast
  with a d show "\<exists>srv. RouterService_Start te so = Inr srv" by (simp add: RouterService_Start_def)
qed

section \<open>Keys\<close>

text \<open>
  The key of the signer depends on the seed through the first eight bytes of its hash: two
  seeds give the same random source exactly when these agree.
\<close>

theorem signer_source_exact:
  assumes "8 \<le> length (kg_Sum256 kg a)" "8 \<le> length (kg_Sum256 kg b)"
  shows "signer_source kg a = signer_source kg b \<longleftrightarrow> take 8 (kg_Sum256 kg a) = take 8 (kg_Sum256 kg b)"
  by (simp add: signer_source_def word_eq_iff_signed [symmetric] BigEndian_eq_iff [OF assms])

section \<open>Requests\<close>

text \<open>
  The interceptors are transparent to a handler: it sees the metadata the request came with, and its
  result is returned, with a panic turned into an error.
\<close>

theorem interceptors_transparent:
  "unaryInterceptor rf (\<lambda>ctx. handler (Context.truncate ctx)) ctx =
     apfst (recovery rf) (handler (Context.truncate ctx))"
  by (simp add: unaryInterceptor_def logContext_def Context.truncate_def split: option.splits)

text \<open>
  The discovery document of the internal provider names the issuer of its tokens and the
  path under which the provider serves the public half of the key that signs them.
\<close>

theorem discovery_leads_to_key:
  assumes "OIDCService_Start te pub signer cert = Inr srv"
  shows "\<exists>path. oi_Handler srv ''/.well-known/openid-configuration'' = Some (Discovery (sg_issuer signer) (sg_issuer signer @ path)) \<and>
    oi_Handler srv path = Some (Keys [\<lparr>ok_ID = ''default'', ok_Algorithm = ES256, ok_Use = ''sig'',
      ok_Key = pub (sg_privatekey signer)\<rparr>])"
  using assms
  by (auto simp: OIDCService_Start_def Signer_Register_def Signer_KeySet_def Signer_Key_def split: option.splits
      intro!: exI [of _ "''/jwks''"])

text \<open>
  The dashboard shows the whole cluster or the first error, and nothing in between; it asks
  for no credential.
\<close>

theorem dashboard_all_or_error:
  "dashboard_index k listClients s = IndexPage code es cs ls \<longleftrightarrow>
     code = 200 \<and> (\<exists>ec lc. k_listExporters k s [] = Inr (es, ec) \<and> listClients s = Inr cs \<and> k_listLeases k s [] = Inr (ls, lc))"
  by (auto simp: dashboard_index_def split: sum.splits prod.splits)

end
