(* ===== verification/Programs.thy ===== *)
theory Programs
  imports Servers OperatorServices Reconcilers
begin

text \<open>
  The three programs: the controller (\<open>src/cmd/main.go\<close>), the router (\<open>src/cmd/router/main.go\<close>) and
  the operator (\<open>src/deploy/operator/cmd/main.go\<close>), as functions of their flags and environment to
  the exit they stop with or to what then runs; the registration of the controllers
  (\<open>SetupWithManager\<close>) and the discovery of API kinds
  (\<open>src/deploy/operator/internal/controller/jumpstarter/endpoints\<close>).

  The manager is controller-runtime's: whether one of its calls fails is an argument, and what has been
  given to it is recorded.
\<close>

section \<open>The manager\<close>

text \<open>Options that change the TLS configuration of a server.\<close>

record tls_Config =
  tg_NextProtos :: "string list"
  tg_GetCertificate :: "(string \<times> string) option"

datatype tls_opt = DisableHTTP2 | GetCertificate "string \<times> string"

fun apply_tls_opt :: "tls_opt \<Rightarrow> tls_Config \<Rightarrow> tls_Config" where
  "apply_tls_opt DisableHTTP2 c = c\<lparr>tg_NextProtos := [''http/1.1'']\<rparr>"
| "apply_tls_opt (GetCertificate watcher) c = c\<lparr>tg_GetCertificate := Some watcher\<rparr>"

record mgr_Options =
  mo_MetricsBindAddress :: string
  mo_MetricsSecureServing :: bool
  mo_MetricsTLSOpts :: "tls_opt list"
  mo_MetricsFilter :: bool
  mo_WebhookTLSOpts :: "tls_opt list"
  mo_HealthProbeBindAddress :: string
  mo_LeaderElection :: bool
  mo_LeaderElectionID :: string
  mo_LeaderElectionNamespace :: string
  mo_CacheNamespaces :: "string list"

text \<open>A controller: the kind it is for and the kinds it owns.\<close>

record controller_reg =
  cg_For :: string
  cg_Owns :: "string list"

definition Exporter_SetupWithManager :: controller_reg where
  "Exporter_SetupWithManager = \<lparr>cg_For = ''Exporter'', cg_Owns = [''Lease'', ''Secret'']\<rparr>"

definition Client_SetupWithManager :: controller_reg where
  "Client_SetupWithManager = \<lparr>cg_For = ''Client'', cg_Owns = [''Secret'']\<rparr>"

definition Lease_SetupWithManager :: controller_reg where
  "Lease_SetupWithManager = \<lparr>cg_For = ''Lease'', cg_Owns = []\<rparr>"

definition Jumpstarter_SetupWithManager :: controller_reg where
  "Jumpstarter_SetupWithManager =
     \<lparr>cg_For = ''Jumpstarter'', cg_Owns = [''Deployment'', ''Service'', ''ConfigMap'', ''Role'', ''RoleBinding'']\<rparr>"

datatype 'key runnable =
    RunController controller_reg "'key Signer option"
  | RunControllerService auth_config Router EnforcementPolicy
  | RunOIDCService "'key Signer" tls_Certificate
  | RunDashboardService
  | RunCertWatcher "string \<times> string"

record 'key manager =
  mn_Options :: mgr_Options
  mn_Runnables :: "'key runnable list"
  mn_Checks :: "string list"

text \<open>
  The calls of controller-runtime that may fail; \<open>GetConfigOrDie\<close> exits the program itself.
\<close>

datatype call =
    CallGetConfig
  | CallNewManager
  | CallSetup string
  | CallNewClient
  | CallCertWatcher string
  | CallAdd string
  | CallCheck string
  | CallStart

text \<open>
  The error with which the \<open>Start\<close> of a runnable returns before it serves; controllers and
  certificate watchers are the library's.
\<close>

definition Start_error :: "tls_env \<Rightarrow> 'key runnable \<Rightarrow> goerror option" where
  "Start_error te r =
     (case r of
        RunControllerService au router serverOption \<Rightarrow>
          (case ControllerService_Start te serverOption of Inl err \<Rightarrow> Some err | Inr _ \<Rightarrow> None)
      | RunOIDCService signer cert \<Rightarrow> (case OIDCService_Start te id signer cert of Inl err \<Rightarrow> Some err | Inr _ \<Rightarrow> None)
      | RunDashboardService \<Rightarrow> te_Listen te '':8084''
      | _ \<Rightarrow> None)"

text \<open>
  \<open>mgr.Start\<close> starts all runnables and returns the error of the manager itself (caches, leader
  election) or of a runnable whose \<open>Start\<close> returns one. Of several that fail it returns the first in
  time; here it is the first in the order in which they were added.
\<close>

definition manager_Start :: "(call \<Rightarrow> goerror option) \<Rightarrow> tls_env \<Rightarrow> 'key runnable list \<Rightarrow> goerror option" where
  "manager_Start fails te runnables =
     (case fails CallStart of
        Some err \<Rightarrow> Some err
      | None \<Rightarrow> (case List.map_filter (Start_error te) runnables of [] \<Rightarrow> None | err # _ \<Rightarrow> Some err))"

text \<open>An exit with status 1: the message that is logged, and the error.\<close>

type_synonym exit = "string \<times> goerror option"

definition or_exit :: "goerror option \<Rightarrow> string \<Rightarrow> exit + 'a \<Rightarrow> exit + 'a" where
  "or_exit err message continue = (case err of Some e \<Rightarrow> Inl (message, Some e) | None \<Rightarrow> continue)"

definition get_or_exit :: "goerror + 'b \<Rightarrow> string \<Rightarrow> ('b \<Rightarrow> exit + 'a) \<Rightarrow> exit + 'a" where
  "get_or_exit result message continue = (case result of Inl e \<Rightarrow> Inl (message, Some e) | Inr x \<Rightarrow> continue x)"

section \<open>The controller\<close>

record main_flags =
  mf_metricsAddr :: string
  mf_probeAddr :: string
  mf_enableLeaderElection :: bool
  mf_secureMetrics :: bool
  mf_enableHTTP2 :: bool

text \<open>The values of the flags that are not given.\<close>

definition default_flags :: main_flags where
  "default_flags = \<lparr>mf_metricsAddr = ''0'', mf_probeAddr = '':8081'', mf_enableLeaderElection = False,
     mf_secureMetrics = False, mf_enableHTTP2 = False\<rparr>"

definition namespaceFile :: string where
  "namespaceFile = ''/var/run/secrets/kubernetes.io/serviceaccount/namespace''"

definition getWatchNamespace :: "tls_env \<Rightarrow> string" where
  "getWatchNamespace te =
     (let ns = te_Getenv te ''NAMESPACE'' in
      if ns \<noteq> [] then ns
      else (case te_ReadFile te namespaceFile of
              Inr namespace \<Rightarrow> if namespace \<noteq> [] then namespace else []
            | Inl _ \<Rightarrow> []))"

text \<open>
  What a program finds outside: \<open>me_getConfigMap\<close> reads the data of a config map,
  \<open>me_EncodeToMemory\<close> is the PEM encoding of a certificate.
\<close>

record ('key, 'ca, 'u) main_env =
  me_tls :: tls_env
  me_keygen :: "'key keygen_env"
  me_config :: "('ca, 'u, string \<Rightarrow> goerror + string option) config_env"
  me_getConfigMap :: "NamespacedName \<Rightarrow> goerror + strmap"
  me_EncodeToMemory :: "string \<Rightarrow> string"
  me_call :: "call \<Rightarrow> goerror option"

definition main_options :: "main_flags \<Rightarrow> string \<Rightarrow> mgr_Options" where
  "main_options fl watchNamespace =
     (let tlsOpts = (if \<not> mf_enableHTTP2 fl then [DisableHTTP2] else []) in
      \<lparr>mo_MetricsBindAddress = mf_metricsAddr fl, mo_MetricsSecureServing = mf_secureMetrics fl, mo_MetricsTLSOpts = tlsOpts,
       mo_MetricsFilter = False, mo_WebhookTLSOpts = tlsOpts, mo_HealthProbeBindAddress = mf_probeAddr fl,
       mo_LeaderElection = mf_enableLeaderElection fl, mo_LeaderElectionID = ''a38b78e7.jumpstarter.dev'',
       mo_LeaderElectionNamespace = watchNamespace, mo_CacheNamespaces = [watchNamespace]\<rparr>)"

text \<open>
  The authenticator, the authorizer and the attributes getter of the controller service.
\<close>

definition controller_auth :: "('key, 'ca, 'u) main_env \<Rightarrow> (string \<Rightarrow> goerror + string option) configuration \<Rightarrow> auth_config" where
  "controller_auth me co =
     \<lparr>au_AuthenticateToken = co_authenticator co,
      au_Sum256 = (\<lambda>s. map unat (kg_Sum256 (me_keygen me) s)),
      au_attr = \<lparr>mc_NamespaceKey = ''jumpstarter-namespace'', mc_ResourceKey = ''jumpstarter-kind'',
        mc_NameKey = ''jumpstarter-name''\<rparr>,
      au_prefix = co_prefix co,
      au_provisioning = pv_Enabled (co_provisioning co)\<rparr>"

definition oidc_issuer :: string where
  "oidc_issuer = ''https://localhost:8085''"

definition main_certificate :: "('key, 'ca, 'u) main_env \<Rightarrow> goerror + tls_Certificate" where
  "main_certificate me = NewSelfSignedCertificate (me_tls me) ''jumpstarter oidc'' [''localhost''] []"

definition main_signer :: "('key, 'ca, 'u) main_env \<Rightarrow> goerror + 'key Signer" where
  "main_signer me =
     NewSignerFromSeed (me_keygen me) (te_Getenv (me_tls me) ''CONTROLLER_KEY'') oidc_issuer ''jumpstarter''"

definition main_configuration ::
  "('key, 'ca, 'u) main_env \<Rightarrow> 'key Signer \<Rightarrow> tls_Certificate \<Rightarrow> goerror + (string \<Rightarrow> goerror + string option) configuration" where
  "main_configuration me oidcSigner oidcCert =
     LoadConfiguration (me_config me)
       (me_getConfigMap me \<lparr>nn_Namespace = te_Getenv (me_tls me) ''NAMESPACE'', nn_Name = ''jumpstarter-controller''\<rparr>)
       oidcSigner (me_EncodeToMemory me (tl_Certificate oidcCert ! 0))"

text \<open>What \<open>main\<close> gives to the manager, in order.\<close>

definition main_runnables ::
  "('key, 'ca, 'u) main_env \<Rightarrow> 'key Signer \<Rightarrow> tls_Certificate \<Rightarrow> (string \<Rightarrow> goerror + string option) configuration \<Rightarrow> 'key runnable list" where
  "main_runnables me oidcSigner oidcCert co =
     [RunController Exporter_SetupWithManager (Some oidcSigner), RunController Client_SetupWithManager (Some oidcSigner),
      RunController Lease_SetupWithManager None,
      RunControllerService (controller_auth me co) (co_router co) (co_keepalive co),
      RunOIDCService oidcSigner oidcCert, RunDashboardService]"

definition controller_main :: "('key, 'ca, 'u) main_env \<Rightarrow> main_flags \<Rightarrow> exit + 'key manager" where
  "controller_main me fl =
     (let watchNamespace = getWatchNamespace (me_tls me) in
      if watchNamespace = []
      then Inl (''Jumpstarter controller can only be configured to work on a single namespace since 0.8.0'', None)
      else
        or_exit (me_call me CallGetConfig) ''unable to get kubeconfig''
        (or_exit (me_call me CallNewManager) ''unable to start manager''
        (get_or_exit (main_certificate me) ''unable to generate certificate for internal oidc provider''
        (\<lambda>oidcCert. get_or_exit (main_signer me) ''unable to create internal oidc signer''
        (\<lambda>oidcSigner. get_or_exit (main_configuration me oidcSigner oidcCert) ''unable to load configuration''
        (\<lambda>co.
          or_exit (me_call me (CallSetup ''Exporter'')) ''unable to create controller''
          (or_exit (me_call me (CallSetup ''Client'')) ''unable to create controller''
          (or_exit (me_call me (CallSetup ''Lease'')) ''unable to create controller''
          (or_exit (me_call me CallNewClient) ''unable to create client with watch''
          (or_exit (me_call me (CallAdd ''Controller'')) ''unable to create service''
          (or_exit (me_call me (CallAdd ''OIDC'')) ''unable to create service''
          (or_exit (me_call me (CallAdd ''Dashboard'')) ''unable to create service''
          (or_exit (me_call me (CallCheck ''healthz'')) ''unable to set up health check''
          (or_exit (me_call me (CallCheck ''readyz'')) ''unable to set up ready check''
          (or_exit (manager_Start (me_call me) (me_tls me) (main_runnables me oidcSigner oidcCert co)) ''problem running manager''
          (Inr \<lparr>mn_Options = main_options fl watchNamespace,
                mn_Runnables = main_runnables me oidcSigner oidcCert co,
                mn_Checks = [''healthz'', ''readyz'']\<rparr>))))))))))))))))"

section \<open>The router\<close>

text \<open>\<open>Start\<close> is given a context that is never done.\<close>

definition router_main :: "('key, 'ca, 'u) main_env \<Rightarrow> exit + grpc_server" where
  "router_main me =
     or_exit (me_call me CallGetConfig) ''unable to get kubeconfig''
     (or_exit (me_call me CallNewClient) ''failed to create k8s client''
     (get_or_exit
       (LoadRouterConfiguration (me_config me)
         (me_getConfigMap me \<lparr>nn_Namespace = te_Getenv (me_tls me) ''NAMESPACE'', nn_Name = ''jumpstarter-controller''\<rparr>))
       ''failed to load router configuration''
     (\<lambda>serverOption. get_or_exit (RouterService_Start (me_tls me) serverOption) ''failed to start router service'' Inr)))"

section \<open>The operator\<close>

text \<open>
  Discovery: the client for it, and the kinds that the API server has in a group and
  version.
\<close>

record discovery =
  di_NewClient :: "goerror option"
  di_ServerResources :: "string \<Rightarrow> goerror + string list"

definition discoverAPIResource :: "discovery \<Rightarrow> string \<Rightarrow> string \<Rightarrow> bool" where
  "discoverAPIResource di groupVersion kind =
     (case di_NewClient di of
        Some err \<Rightarrow> False
      | None \<Rightarrow>
          (case di_ServerResources di groupVersion of
             Inl err \<Rightarrow> False
           | Inr resources \<Rightarrow> list_ex (\<lambda>r. r = kind) resources))"

definition NewReconciler :: "discovery \<Rightarrow> op_env \<Rightarrow> op_env" where
  "NewReconciler di oe =
     (let ingressAvailable = discoverAPIResource di ''networking.k8s.io/v1'' ''Ingress'';
          routeAvailable = discoverAPIResource di ''route.openshift.io/v1'' ''Route''
      in oe\<lparr>oe_IngressAvailable := ingressAvailable, oe_RouteAvailable := routeAvailable\<rparr>)"

record operator_flags =
  of_metricsAddr :: string
  of_probeAddr :: string
  of_enableLeaderElection :: bool
  of_secureMetrics :: bool
  of_webhookCertPath :: string
  of_webhookCertName :: string
  of_webhookCertKey :: string
  of_metricsCertPath :: string
  of_metricsCertName :: string
  of_metricsCertKey :: string
  of_enableHTTP2 :: bool

definition default_operator_flags :: operator_flags where
  "default_operator_flags = \<lparr>of_metricsAddr = ''0'', of_probeAddr = '':8081'', of_enableLeaderElection = False,
     of_secureMetrics = True, of_webhookCertPath = [], of_webhookCertName = ''tls.crt'', of_webhookCertKey = ''tls.key'',
     of_metricsCertPath = [], of_metricsCertName = ''tls.crt'', of_metricsCertKey = ''tls.key'', of_enableHTTP2 = False\<rparr>"

text \<open>\<open>join\<close> is \<open>filepath.Join\<close>; \<open>fails\<close> says which calls of controller-runtime fail.\<close>

definition cert_watcher ::
  "(call \<Rightarrow> goerror option) \<Rightarrow> (string \<Rightarrow> string \<Rightarrow> string) \<Rightarrow> string \<Rightarrow> string \<Rightarrow> string \<Rightarrow> string \<Rightarrow> goerror + (string \<times> string) option" where
  "cert_watcher fails join which path name key =
     (if length path > 0
      then (case fails (CallCertWatcher which) of
              Some err \<Rightarrow> Inl err
            | None \<Rightarrow> Inr (Some (join path name, join path key)))
      else Inr None)"

definition watcher_opts :: "(string \<times> string) option \<Rightarrow> tls_opt list" where
  "watcher_opts w = (case w of Some certs \<Rightarrow> [GetCertificate certs] | None \<Rightarrow> [])"

definition operator_options ::
  "operator_flags \<Rightarrow> (string \<times> string) option \<Rightarrow> (string \<times> string) option \<Rightarrow> mgr_Options" where
  "operator_options fl webhookCertWatcher metricsCertWatcher =
     (let tlsOpts = (if \<not> of_enableHTTP2 fl then [DisableHTTP2] else []) in
      \<lparr>mo_MetricsBindAddress = of_metricsAddr fl, mo_MetricsSecureServing = of_secureMetrics fl,
       mo_MetricsTLSOpts = tlsOpts @ watcher_opts metricsCertWatcher, mo_MetricsFilter = of_secureMetrics fl,
       mo_WebhookTLSOpts = tlsOpts @ watcher_opts webhookCertWatcher, mo_HealthProbeBindAddress = of_probeAddr fl,
       mo_LeaderElection = of_enableLeaderElection fl, mo_LeaderElectionID = ''88ed63ae.jumpstarter.dev'',
       mo_LeaderElectionNamespace = [], mo_CacheNamespaces = []\<rparr>)"

definition add_watcher ::
  "(call \<Rightarrow> goerror option) \<Rightarrow> string \<Rightarrow> string \<Rightarrow> (string \<times> string) option \<Rightarrow> exit + 'a \<Rightarrow> exit + 'a" where
  "add_watcher fails which message w continue =
     (case w of Some _ \<Rightarrow> or_exit (fails (CallAdd which)) message continue | None \<Rightarrow> continue)"

definition operator_main ::
  "(call \<Rightarrow> goerror option) \<Rightarrow> (string \<Rightarrow> string \<Rightarrow> string) \<Rightarrow> discovery \<Rightarrow> op_env \<Rightarrow> operator_flags \<Rightarrow> exit + unit manager \<times> op_env" where
  "operator_main fails join di oe fl =
     get_or_exit (cert_watcher fails join ''webhook'' (of_webhookCertPath fl) (of_webhookCertName fl) (of_webhookCertKey fl))
       ''Failed to initialize webhook certificate watcher''
     (\<lambda>webhookCertWatcher.
      get_or_exit (cert_watcher fails join ''metrics'' (of_metricsCertPath fl) (of_metricsCertName fl) (of_metricsCertKey fl))
       ''to initialize metrics certificate watcher''
     (\<lambda>metricsCertWatcher.
      or_exit (fails CallGetConfig) ''unable to get kubeconfig''
     (or_exit (fails CallNewManager) ''unable to start manager''
     (or_exit (fails (CallSetup ''Jumpstarter'')) ''unable to create controller''
     (add_watcher fails ''metrics'' ''unable to add metrics certificate watcher to manager'' metricsCertWatcher
     (add_watcher fails ''webhook'' ''unable to add webhook certificate watcher to manager'' webhookCertWatcher
     (or_exit (fails (CallCheck ''healthz'')) ''unable to set up health check''
     (or_exit (fails (CallCheck ''readyz'')) ''unable to set up ready check''
     (or_exit (fails CallStart) ''problem running manager''
     (Inr (\<lparr>mn_Options = operator_options fl webhookCertWatcher metricsCertWatcher,
            mn_Runnables = RunController Jumpstarter_SetupWithManager None #
              (case metricsCertWatcher of Some w \<Rightarrow> [RunCertWatcher w] | None \<Rightarrow> []) @
              (case webhookCertWatcher of Some w \<Rightarrow> [RunCertWatcher w] | None \<Rightarrow> []),
            mn_Checks = [''healthz'', ''readyz'']\<rparr>,
           NewReconciler di oe)))))))))))"

section \<open>What a program that runs has set up\<close>

lemma or_exit_Inr [simp]: "or_exit err m c = Inr x \<longleftrightarrow> err = None \<and> c = Inr x"
  by (auto simp: or_exit_def split: option.splits)

lemma get_or_exit_Inr [simp]: "get_or_exit r m c = Inr x \<longleftrightarrow> (\<exists>y. r = Inr y \<and> c y = Inr x)"
  by (auto simp: get_or_exit_def split: sum.splits)

lemma controller_main_Inr:
  assumes "controller_main me fl = Inr m"
  obtains cert signer co where "main_certificate me = Inr cert" "main_signer me = Inr signer"
    "main_configuration me signer cert = Inr co" "getWatchNamespace (me_tls me) \<noteq> []"
    "m = \<lparr>mn_Options = main_options fl (getWatchNamespace (me_tls me)),
          mn_Runnables =
           [RunController Exporter_SetupWithManager (Some signer), RunController Client_SetupWithManager (Some signer),
            RunController Lease_SetupWithManager None,
            RunControllerService (controller_auth me co) (co_router co) (co_keepalive co),
            RunOIDCService signer cert, RunDashboardService],
          mn_Checks = [''healthz'', ''readyz'']\<rparr>"
    "manager_Start (me_call me) (me_tls me) (mn_Runnables m) = None"
proof (cases "getWatchNamespace (me_tls me) = []")
  case True
  with assms show thesis by (simp add: controller_main_def)
next
  case False
  from assms show thesis
    unfolding controller_main_def Let_def if_not_P [OF False] or_exit_Inr get_or_exit_Inr
    by (elim exE conjE, intro that [OF _ _ _ False]) (assumption | simp add: main_runnables_def | (drule sym, simp))+
qed

text \<open>The calls that a controller makes before it serves, and that they succeed.\<close>

definition calls_work :: "(call \<Rightarrow> goerror option) \<Rightarrow> bool" where
  "calls_work fails \<longleftrightarrow> (\<forall>c. fails c = None)"

lemma manager_Start_main:
  "manager_Start fails te (main_runnables me signer cert co) = None \<longleftrightarrow>
     fails CallStart = None \<and> (\<exists>srv. ControllerService_Start te (co_keepalive co) = Inr srv) \<and>
     te_Listen te ''127.0.0.1:8085'' = None \<and> te_Listen te '':8084'' = None"
  by (auto simp: manager_Start_def main_runnables_def Start_error_def List.map_filter_simps OIDCService_Start_def
      split: option.splits sum.splits)

lemma controller_main_works:
  assumes "calls_work (me_call me)" "getWatchNamespace (me_tls me) \<noteq> []" "main_certificate me = Inr cert"
    "main_signer me = Inr signer" "main_configuration me signer cert = Inr co"
    and "ControllerService_Start (me_tls me) (co_keepalive co) = Inr srv"
      "te_Listen (me_tls me) ''127.0.0.1:8085'' = None" "te_Listen (me_tls me) '':8084'' = None"
  shows "\<exists>m. controller_main me fl = Inr m \<and> mn_Options m = main_options fl (getWatchNamespace (me_tls me)) \<and>
    RunControllerService (controller_auth me co) (co_router co) (co_keepalive co) \<in> set (mn_Runnables m)"
proof -
  from assms(1,6-8) have "manager_Start (me_call me) (me_tls me) (main_runnables me signer cert co) = None"
    unfolding manager_Start_main by (simp add: calls_work_def)
  moreover have "RunControllerService (controller_auth me co) (co_router co) (co_keepalive co) \<in> set (main_runnables me signer cert co)"
    by (simp add: main_runnables_def)
  ultimately show ?thesis using assms(1-5) by (simp add: controller_main_def calls_work_def or_exit_def get_or_exit_def)
qed

text \<open>A controller whose gRPC service cannot start exits, although everything else is in order.\<close>

lemma controller_main_start_fails:
  assumes "calls_work (me_call me)" "getWatchNamespace (me_tls me) \<noteq> []" "main_certificate me = Inr cert"
    "main_signer me = Inr signer" "main_configuration me signer cert = Inr co"
    and "ControllerService_Start (me_tls me) (co_keepalive co) = Inl err"
  shows "controller_main me fl = Inl (''problem running manager'', Some err)"
proof -
  have "manager_Start (me_call me) (me_tls me) (main_runnables me signer cert co) = Some err"
    using assms(1,6) by (simp add: manager_Start_def main_runnables_def Start_error_def List.map_filter_simps calls_work_def)
  then show ?thesis using assms(1-5) by (simp add: controller_main_def calls_work_def or_exit_def get_or_exit_def)
qed

lemma main_signer_Inr:
  assumes "main_signer me = Inr signer"
  shows "sg_issuer signer = oidc_issuer" "sg_audience signer = ''jumpstarter''"
    "kg_ECDSALegacy (me_keygen me) (signer_source (me_keygen me) (te_Getenv (me_tls me) ''CONTROLLER_KEY'')) =
       Inr (sg_privatekey signer)"
  using assms by (auto simp: main_signer_def NewSignerFromSeed_def NewSigner_def split: sum.splits)

text \<open>The signer is a function of the key, so that a restart does not change it.\<close>

lemma main_signer_cong:
  "te_Getenv (me_tls me) ''CONTROLLER_KEY'' = te_Getenv (me_tls me') ''CONTROLLER_KEY'' \<Longrightarrow> me_keygen me = me_keygen me' \<Longrightarrow>
   main_signer me = main_signer me'"
  by (simp add: main_signer_def)

section \<open>Namespaces\<close>

text \<open>
  The namespace that is found in the service account is watched, but the configuration is
  looked up in the namespace of the variable: without the variable the controller exits, unless
  there is a config map in the empty namespace.
\<close>

theorem detected_namespace_not_used_for_configuration:
  assumes "te_Getenv (me_tls me) ''NAMESPACE'' = []" "te_ReadFile (me_tls me) namespaceFile = Inr ns" "ns \<noteq> []"
    and "main_certificate me = Inr cert" "main_signer me = Inr signer" "calls_work (me_call me)"
    and "me_getConfigMap me \<lparr>nn_Namespace = [], nn_Name = ''jumpstarter-controller''\<rparr> = Inl err"
  shows "getWatchNamespace (me_tls me) = ns \<and> controller_main me fl = Inl (''unable to load configuration'', Some err)"
  using assms
  by (simp add: controller_main_def getWatchNamespace_def main_configuration_def LoadConfiguration_def calls_work_def
      or_exit_def get_or_exit_def)

text \<open>
  A controller that runs watches exactly one namespace, the same for its cache and for the
  leader election; without one it exits.
\<close>

theorem single_namespace:
  "(case controller_main me fl of
      Inr m \<Rightarrow> (\<exists>ns. ns \<noteq> [] \<and> mo_CacheNamespaces (mn_Options m) = [ns] \<and> mo_LeaderElectionNamespace (mn_Options m) = ns \<and>
        (te_Getenv (me_tls me) ''NAMESPACE'' = ns \<or>
         te_Getenv (me_tls me) ''NAMESPACE'' = [] \<and> te_ReadFile (me_tls me) namespaceFile = Inr ns))
    | Inl _ \<Rightarrow> True) \<and>
   (getWatchNamespace (me_tls me) = [] \<longrightarrow> (\<exists>message. controller_main me fl = Inl (message, None)))"
proof (intro conjI impI)
  assume "getWatchNamespace (me_tls me) = []"
  then show "\<exists>message. controller_main me fl = Inl (message, None)" by (simp add: controller_main_def)
next
  show "case controller_main me fl of
      Inr m \<Rightarrow> (\<exists>ns. ns \<noteq> [] \<and> mo_CacheNamespaces (mn_Options m) = [ns] \<and> mo_LeaderElectionNamespace (mn_Options m) = ns \<and>
        (te_Getenv (me_tls me) ''NAMESPACE'' = ns \<or>
         te_Getenv (me_tls me) ''NAMESPACE'' = [] \<and> te_ReadFile (me_tls me) namespaceFile = Inr ns))
    | Inl _ \<Rightarrow> True"
  proof (cases "controller_main me fl")
    case (Inr m)
    from Inr have ns: "getWatchNamespace (me_tls me) \<noteq> []" and opts: "mn_Options m = main_options fl (getWatchNamespace (me_tls me))"
      by (rule controller_main_Inr, simp)+
    from ns have "te_Getenv (me_tls me) ''NAMESPACE'' = getWatchNamespace (me_tls me) \<or>
        te_Getenv (me_tls me) ''NAMESPACE'' = [] \<and> te_ReadFile (me_tls me) namespaceFile = Inr (getWatchNamespace (me_tls me))"
      by (auto simp: getWatchNamespace_def Let_def split: sum.splits if_splits)
    with ns opts Inr show ?thesis
      by (auto simp: main_options_def Let_def)
  qed simp
qed

section \<open>Options of the servers\<close>

text \<open>
  Unless the flag is given, the metrics and webhook servers of both programs offer HTTP/1.1
  only, whatever the configuration was; the certificate options leave that alone, and give each server of the
  operator the certificate of its own path.
\<close>

abbreviation tls_config :: "tls_opt list \<Rightarrow> tls_Config \<Rightarrow> tls_Config" where
  "tls_config opts c \<equiv> fold apply_tls_opt opts c"

theorem http2_disabled_by_default:
  "(\<not> mf_enableHTTP2 fl \<longrightarrow>
      tg_NextProtos (tls_config (mo_MetricsTLSOpts (main_options fl ns)) c) = [''http/1.1''] \<and>
      tg_NextProtos (tls_config (mo_WebhookTLSOpts (main_options fl ns)) c) = [''http/1.1'']) \<and>
   (\<not> of_enableHTTP2 ofl \<longrightarrow>
      tg_NextProtos (tls_config (mo_MetricsTLSOpts (operator_options ofl w m)) c) = [''http/1.1''] \<and>
      tg_NextProtos (tls_config (mo_WebhookTLSOpts (operator_options ofl w m)) c) = [''http/1.1'']) \<and>
   tg_GetCertificate (tls_config (mo_MetricsTLSOpts (operator_options ofl w m)) (c\<lparr>tg_GetCertificate := None\<rparr>)) = m \<and>
   tg_GetCertificate (tls_config (mo_WebhookTLSOpts (operator_options ofl w m)) (c\<lparr>tg_GetCertificate := None\<rparr>)) = w"
  by (cases w; cases m) (simp_all add: main_options_def operator_options_def watcher_opts_def Let_def)

text \<open>
  An operator that runs has its controller, one certificate watcher for each path it was
  given, and the kinds of the API server as they were discovered at the start.
\<close>

lemma cert_watcher_Inr:
  "cert_watcher fails join which path name key = Inr w \<longleftrightarrow>
     (if path = [] then w = None else fails (CallCertWatcher which) = None \<and> w = Some (join path name, join path key))"
  by (auto simp: cert_watcher_def split: option.splits)

theorem operator_runs:
  assumes "operator_main fails join di oe fl = Inr (m, oe')"
  shows "set (mn_Runnables m) =
      {RunController Jumpstarter_SetupWithManager None} \<union>
      (if of_metricsCertPath fl = [] then {}
       else {RunCertWatcher (join (of_metricsCertPath fl) (of_metricsCertName fl), join (of_metricsCertPath fl) (of_metricsCertKey fl))}) \<union>
      (if of_webhookCertPath fl = [] then {}
       else {RunCertWatcher (join (of_webhookCertPath fl) (of_webhookCertName fl), join (of_webhookCertPath fl) (of_webhookCertKey fl))}) \<and>
    (oe_RouteAvailable oe' \<longleftrightarrow> di_NewClient di = None \<and> (\<exists>kinds. di_ServerResources di ''route.openshift.io/v1'' = Inr kinds \<and> ''Route'' \<in> set kinds)) \<and>
    (oe_IngressAvailable oe' \<longleftrightarrow> di_NewClient di = None \<and> (\<exists>kinds. di_ServerResources di ''networking.k8s.io/v1'' = Inr kinds \<and> ''Ingress'' \<in> set kinds))"
proof -
  have add: "add_watcher fails which msg w c = Inr z \<Longrightarrow> c = Inr z" for which msg w and c :: "exit + unit manager \<times> op_env" and z
    by (auto simp: add_watcher_def split: option.splits)
  have disc: "discoverAPIResource di gv kind \<longleftrightarrow> di_NewClient di = None \<and> (\<exists>kinds. di_ServerResources di gv = Inr kinds \<and> kind \<in> set kinds)" for gv kind
    by (auto simp: discoverAPIResource_def list_ex_iff split: option.splits sum.splits)
  from assms obtain w mw where w: "cert_watcher fails join ''webhook'' (of_webhookCertPath fl) (of_webhookCertName fl) (of_webhookCertKey fl) = Inr w"
    and mw: "cert_watcher fails join ''metrics'' (of_metricsCertPath fl) (of_metricsCertName fl) (of_metricsCertKey fl) = Inr mw"
    and m: "mn_Runnables m = RunController Jumpstarter_SetupWithManager None #
      (case mw of Some w \<Rightarrow> [RunCertWatcher w] | None \<Rightarrow> []) @ (case w of Some w \<Rightarrow> [RunCertWatcher w] | None \<Rightarrow> [])"
    and oe: "oe' = NewReconciler di oe"
    unfolding operator_main_def by (auto dest!: add)
  from w mw m have "set (mn_Runnables m) =
      {RunController Jumpstarter_SetupWithManager None} \<union>
      (if of_metricsCertPath fl = [] then {}
       else {RunCertWatcher (join (of_metricsCertPath fl) (of_metricsCertName fl), join (of_metricsCertPath fl) (of_metricsCertKey fl))}) \<union>
      (if of_webhookCertPath fl = [] then {}
       else {RunCertWatcher (join (of_webhookCertPath fl) (of_webhookCertName fl), join (of_webhookCertPath fl) (of_webhookCertKey fl))})"
    by (auto simp: cert_watcher_Inr split: if_splits)
  moreover have "oe_RouteAvailable oe' = discoverAPIResource di ''route.openshift.io/v1'' ''Route''"
    "oe_IngressAvailable oe' = discoverAPIResource di ''networking.k8s.io/v1'' ''Ingress''"
    by (simp_all add: oe NewReconciler_def Let_def)
  ultimately show ?thesis by (simp only: disc simp_thms)
qed

end
