(* ===== verification/Deployed.thy ===== *)
theory Deployed
  imports Programs
begin

text \<open>
  The programs put together: a credential that one controller writes lets its client in at
  another, and the programs come up in the pods that the operator deploys, with certificates
  for the hosts that are advertised.

  What is assumed of the OIDC authenticator of Kubernetes, of HTTPS and of the environment of
  a pod is stated in \<open>union_ok\<close>, \<open>jwt_authn_ok\<close>, \<open>https_ok\<close> and \<open>container_env\<close>.
\<close>

section \<open>What the libraries promise of token authenticators\<close>

text \<open>
  \<open>tokenunion.NewFailOnError\<close>: the authenticators are asked in order until one knows the
  token or fails.
\<close>

fun union_token :: "(string \<Rightarrow> goerror + string option) list \<Rightarrow> string \<Rightarrow> goerror + string option" where
  "union_token [] token = Inr None"
| "union_token (a # as) token =
     (case a token of Inl err \<Rightarrow> Inl err | Inr (Some user) \<Rightarrow> Inr (Some user) | Inr None \<Rightarrow> union_token as token)"

definition union_ok :: "('ca, 'u, string \<Rightarrow> goerror + string option) config_env \<Rightarrow> bool" where
  "union_ok ce \<longleftrightarrow> (\<forall>as. ce_NewFailOnError ce as = union_token as)"

text \<open>\<open>get\<close> is a GET request over HTTPS, with the certificates that are trusted for it.\<close>

type_synonym ('ca, 'pub) https_get = "'ca option \<Rightarrow> string \<Rightarrow> 'pub oidc_response option"

definition published :: "('ca, 'pub) https_get \<Rightarrow> 'ca option \<Rightarrow> string \<Rightarrow> 'pub \<Rightarrow> bool" where
  "published get ca issuer key \<longleftrightarrow>
     (\<exists>uri ks. get ca (issuer @ ''/.well-known/openid-configuration'') = Some (Discovery issuer uri) \<and>
        get ca uri = Some (Keys ks) \<and> (\<exists>k\<in>set ks. ok_Key k = key \<and> ok_Algorithm k = ES256 \<and> ok_Use k = ''sig''))"

text \<open>
  The authenticator for one issuer knows no token of another issuer. It fetches the keys of its
  issuer in the background and answers with an error until it has them; \<open>ready url\<close> says that the
  one for the issuer \<open>url\<close> has them by now. Then a token of its issuer that is for its audience,
  has not expired, and is signed with a key that the issuer publishes, is that of the user named
  in the claim, under the prefix.
\<close>

definition jwt_authn_ok ::
  "('ca, 'u, string \<Rightarrow> goerror + string option) config_env \<Rightarrow> 'key jwt \<Rightarrow> ('key \<Rightarrow> 'pub) \<Rightarrow> ('ca, 'pub) https_get \<Rightarrow>
    (string \<Rightarrow> bool) \<Rightarrow> time \<Rightarrow> bool" where
  "jwt_authn_ok ce j pub get ready now \<longleftrightarrow>
     (\<forall>ja u ca a key claims token. ce_Convert ce ja = Inr u \<longrightarrow> ce_New ce u ca = Inr a \<longrightarrow>
        j_SignedString j key ES256 claims = Inr token \<longrightarrow> jc_Issuer claims \<noteq> is_URL (ja_Issuer ja) \<longrightarrow> a token = Inr None) \<and>
     (\<forall>ja u ca a key claims token prefix aud. ce_Convert ce ja = Inr u \<longrightarrow> ce_New ce u ca = Inr a \<longrightarrow>
        j_SignedString j key ES256 claims = Inr token \<longrightarrow> jc_Issuer claims = is_URL (ja_Issuer ja) \<longrightarrow>
        ja_UsernameClaim ja = ''sub'' \<longrightarrow> ja_UsernamePrefix ja = Some prefix \<longrightarrow>
        aud \<in> set (jc_Audience claims) \<longrightarrow> aud \<in> set (is_Audiences (ja_Issuer ja)) \<longrightarrow> now < jc_ExpiresAt claims - Second \<longrightarrow>
        published get ca (is_URL (ja_Issuer ja)) (pub key) \<longrightarrow> ready (is_URL (ja_Issuer ja)) \<longrightarrow> a token = Inr (Some (prefix @ jc_Subject claims)))"

lemma jwt_authn_other:
  assumes "jwt_authn_ok ce j pub get ready now" "ce_Convert ce ja = Inr u" "ce_New ce u ca = Inr a"
    "j_SignedString j key ES256 claims = Inr token" "jc_Issuer claims \<noteq> is_URL (ja_Issuer ja)"
  shows "a token = Inr None"
  by (rule assms(1) [unfolded jwt_authn_ok_def, THEN conjunct1, rule_format, OF assms(2-5)])

lemma jwt_authn_own:
  assumes "jwt_authn_ok ce j pub get ready now" "ce_Convert ce ja = Inr u" "ce_New ce u ca = Inr a"
    "j_SignedString j key ES256 claims = Inr token" "jc_Issuer claims = is_URL (ja_Issuer ja)"
    "ja_UsernameClaim ja = ''sub''" "ja_UsernamePrefix ja = Some pfx"
    "aud \<in> set (jc_Audience claims)" "aud \<in> set (is_Audiences (ja_Issuer ja))" "now < jc_ExpiresAt claims - Second"
    "published get ca (is_URL (ja_Issuer ja)) (pub key)" "ready (is_URL (ja_Issuer ja))"
  shows "a token = Inr (Some (pfx @ jc_Subject claims))"
  by (rule assms(1) [unfolded jwt_authn_ok_def, THEN conjunct2, rule_format, OF assms(2-12)])

text \<open>
  A request to the address of a server reaches it when the server's own certificate, which is
  the one trusted, is for that host and valid.
\<close>

definition https_ok ::
  "tls_env \<Rightarrow> (string \<Rightarrow> string) \<Rightarrow> (string \<Rightarrow> goerror + 'ca) \<Rightarrow> ('ca, 'pub) https_get \<Rightarrow> time \<Rightarrow> 'pub oidc_server \<Rightarrow> bool" where
  "https_ok te pem staticCA get now srv \<longleftrightarrow>
     (\<forall>t ca path resp. oi_Address srv = ''127.0.0.1:8085'' \<longrightarrow> self_signed te t (oi_Certificate srv) \<longrightarrow>
        ''localhost'' \<in> set (xc_DNSNames t) \<longrightarrow> xc_NotBefore t \<le> now \<longrightarrow> now \<le> xc_NotAfter t \<longrightarrow>
        staticCA (pem (tl_Certificate (oi_Certificate srv) ! 0)) = Inr ca \<longrightarrow> oi_Handler srv path = Some resp \<longrightarrow>
        get (Some ca) (''https://localhost:8085'' @ path) = Some resp)"

lemma union_token_last:
  assumes "\<forall>a\<in>set as. a token = Inr None" "b token = Inr (Some user)"
  shows "union_token (as @ [b]) token = Inr (Some user)"
  using assms by (induction as) simp_all

text \<open>The issuers a config map names, in the older form or the present one.\<close>

definition configured_issuers :: "('ca, 'u, 'a) config_env \<Rightarrow> strmap \<Rightarrow> JWTAuthenticator list" where
  "configured_issuers ce data =
     (case mget data ''authentication'' of
        Some raw \<Rightarrow> (case ce_DecodeLegacy ce raw of Inr config \<Rightarrow> ac_JWT config | Inl _ \<Rightarrow> [])
      | None \<Rightarrow>
          (case mget data ''config'' of
             Some raw \<Rightarrow> (case ce_UnmarshalConfig ce raw of Inr config \<Rightarrow> aut_JWT (cf_Authentication config) | Inl _ \<Rightarrow> [])
           | None \<Rightarrow> []))"

lemma loaded_union:
  assumes "LoadConfiguration ce (Inr data) signer ca = Inr co"
  shows "union_of ce (configured_issuers ce data @ [internal_issuer signer ca (co_prefix co)]) (co_authenticator co)"
proof -
  note * = loaded_configuration_accepts_own_tokens [OF assms, THEN conjunct2, THEN conjunct2, THEN conjunct2]
  show ?thesis
  proof (cases "mget data ''authentication''")
    case None
    with * show ?thesis by (auto simp: configured_issuers_def)
  next
    case (Some raw)
    with * show ?thesis by (auto simp: configured_issuers_def)
  qed
qed

lemma map_sum_Inr: "map_sum f g r = Inr y \<longleftrightarrow> (\<exists>z. r = Inr z \<and> y = g z)"
  by (cases r) auto

lemma jwt_one_Inr:
  assumes "jwt_one ce ja = Inr a"
  obtains ja1 u ca where "ce_Convert ce ja1 = Inr u" "ce_New ce u ca = Inr a"
    "ja_UsernameClaim ja1 = ja_UsernameClaim ja" "ja_UsernamePrefix ja1 = ja_UsernamePrefix ja"
    "is_URL (ja_Issuer ja1) = is_URL (ja_Issuer ja)" "is_Audiences (ja_Issuer ja1) = is_Audiences (ja_Issuer ja)"
    "\<not> ce_Stat ce (is_CertificateAuthority (ja_Issuer ja)) \<longrightarrow> is_CertificateAuthority (ja_Issuer ja) \<noteq> [] \<longrightarrow>
     (\<exists>c. ca = Some c \<and> ce_StaticCA ce (is_CertificateAuthority (ja_Issuer ja)) = Inr c)"
  using assms
  by (auto simp: jwt_one_def Let_def map_sum_Inr split: sum.splits if_splits)


text \<open>
  A token of the signer is known to the loaded configuration as its subject, under the prefix:
  the authenticators of the other issuers pass it on.
\<close>

lemma own_token_known:
  assumes load: "LoadConfiguration ce (Inr data) signer pem = Inr co"
    and token: "Signer_Token j signer t1 t2 subject = Inr token" "now < t2 + token_lifetime - Second"
    and laws: "union_ok ce" "jwt_authn_ok ce j pub get ready now"
    and others: "\<forall>ja\<in>set (configured_issuers ce data). is_URL (ja_Issuer ja) \<noteq> sg_issuer signer"
    and ca: "\<not> ce_Stat ce pem" "pem \<noteq> []"
    and keys: "\<And>c. ce_StaticCA ce pem = Inr c \<Longrightarrow> published get (Some c) (sg_issuer signer) (pub (sg_privatekey signer))"
      "ready (sg_issuer signer)"
  shows "co_authenticator co token = Inr (Some (co_prefix co @ subject))"
proof -
  let ?claims = "\<lparr>jc_Issuer = sg_issuer signer, jc_Subject = subject, jc_Audience = [sg_audience signer],
    jc_IssuedAt = t1, jc_ExpiresAt = time_Add t2 token_lifetime\<rparr>"
  let ?own = "internal_issuer signer pem (co_prefix co)"
  from token(1) have sig: "j_SignedString j (sg_privatekey signer) ES256 ?claims = Inr token" by (simp add: Signer_Token_def)
  from loaded_union [OF load] obtain as b where all: "list_all2 (\<lambda>ja a. jwt_one ce ja = Inr a) (configured_issuers ce data) as"
    and b: "jwt_one ce ?own = Inr b" and co: "co_authenticator co = ce_NewFailOnError ce (as @ [b])"
    by (auto simp: union_of_def list_all2_append1 list_all2_Cons1)
  have "a token = Inr None" if "a \<in> set as" for a
  proof -
    from that obtain i where i: "i < length as" "a = as ! i" by (auto simp: in_set_conv_nth)
    let ?ja = "configured_issuers ce data ! i"
    from all i have ja: "?ja \<in> set (configured_issuers ce data)" "jwt_one ce ?ja = Inr a"
      by (auto simp: list_all2_conv_all_nth)
    from ja(2) obtain ja1 u ca where n: "ce_Convert ce ja1 = Inr u" "ce_New ce u ca = Inr a"
      "is_URL (ja_Issuer ja1) = is_URL (ja_Issuer ?ja)" by (rule jwt_one_Inr)
    show ?thesis by (rule jwt_authn_other [OF laws(2) n(1,2) sig]) (use others ja(1) n(3) in auto)
  qed
  moreover have "b token = Inr (Some (co_prefix co @ subject))"
  proof -
    from b obtain ja1 u ca where n: "ce_Convert ce ja1 = Inr u" "ce_New ce u ca = Inr b"
      "ja_UsernameClaim ja1 = ja_UsernameClaim ?own" "ja_UsernamePrefix ja1 = ja_UsernamePrefix ?own"
      "is_URL (ja_Issuer ja1) = is_URL (ja_Issuer ?own)" "is_Audiences (ja_Issuer ja1) = is_Audiences (ja_Issuer ?own)"
      and c: "\<not> ce_Stat ce (is_CertificateAuthority (ja_Issuer ?own)) \<longrightarrow> is_CertificateAuthority (ja_Issuer ?own) \<noteq> [] \<longrightarrow>
        (\<exists>c. ca = Some c \<and> ce_StaticCA ce (is_CertificateAuthority (ja_Issuer ?own)) = Inr c)" by (rule jwt_one_Inr)
    from c ca obtain cc where "ca = Some cc" "ce_StaticCA ce pem = Inr cc" by (auto simp: internal_issuer_def)
    with keys(1) have "published get ca (sg_issuer signer) (pub (sg_privatekey signer))" by simp
    then have "b token = Inr (Some (co_prefix co @ jc_Subject ?claims))"
      by (intro jwt_authn_own [OF laws(2) n(1,2) sig, where aud = "sg_audience signer"])
        (use n token(2) keys(2) in \<open>simp_all add: internal_issuer_def time_Add_def\<close>)
    then show ?thesis by simp
  qed
  ultimately show ?thesis using co laws(1) union_token_last [of as token b] by (simp add: union_ok_def)
qed

text \<open>The internal provider publishes the key of the signer to whoever trusts its certificate.\<close>

lemma provider_publishes:
  assumes main: "main_certificate me = Inr cert" "main_signer me = Inr signer"
    and start: "OIDCService_Start (me_tls me) pub signer cert = Inr srv"
    and https: "https_ok (me_tls me) pem staticCA get now srv" "te_now1 (me_tls me) \<le> now"
      "now \<le> te_now2 (me_tls me) + 365 * 24 * 3600 * Second"
    and ca: "staticCA (pem (tl_Certificate cert ! 0)) = Inr c"
  shows "published get (Some c) (sg_issuer signer) (pub (sg_privatekey signer))"
proof -
  let ?t = "certificate_template (me_tls me) ''jumpstarter oidc'' [''localhost''] []"
  from main(1) have t: "self_signed (me_tls me) ?t cert"
    unfolding main_certificate_def by (rule NewSelfSignedCertificate_Inr)
  from start have srv: "oi_Address srv = ''127.0.0.1:8085''" "oi_Certificate srv = cert" "oi_Handler srv = Signer_Register pub signer"
    by (auto simp: OIDCService_Start_def split: option.splits)
  have "get (Some c) (oidc_issuer @ path) = Some resp" if "Signer_Register pub signer path = Some resp" for path resp
    using https(1) [unfolded https_ok_def srv, rule_format, OF refl t _ _ _ ca that] https(2,3)
    by (simp add: certificate_template_def time_Add_def oidc_issuer_def)
  then show ?thesis
    unfolding published_def main_signer_Inr(1) [OF main(2)]
    by (intro exI [of _ "oidc_issuer @ ''/jwks''"] exI [of _ "Signer_KeySet pub signer"])
      (simp add: Signer_Register_def Signer_KeySet_def Signer_Key_def main_signer_Inr(1) [OF main(2)])
qed

text \<open>A request of a client with a token, in the metadata keys that the controller is given.\<close>

definition client_request :: "Client \<Rightarrow> string \<Rightarrow> Context \<Rightarrow> bool" where
  "client_request c token ctx \<longleftrightarrow>
     (case cx_Metadata ctx of
        None \<Rightarrow> False
      | Some md \<Rightarrow> md ''authorization'' = [''Bearer '' @ token] \<and> md ''jumpstarter-namespace'' = [om_Namespace (cl_Meta c)] \<and>
          md ''jumpstarter-kind'' = [''Client''] \<and> md ''jumpstarter-name'' = [om_Name (cl_Meta c)])"

lemma client_request_accepted:
  assumes "client_request c token ctx" "co_authenticator co token = Inr (Some (co_prefix co @ Client_InternalSubject c))"
    "om_Name (cl_Meta c) \<noteq> []" "k_getClient k s (key_of (cl_Meta c)) = Inr c"
  shows "AuthClient k (controller_auth me co) s ctx (om_Namespace (cl_Meta c)) = (Inr c, s)"
proof -
  from assms(1) obtain md where md: "cx_Metadata ctx = Some md" "md ''authorization'' = [''Bearer '' @ token]"
    "md ''jumpstarter-namespace'' = [om_Namespace (cl_Meta c)]" "md ''jumpstarter-kind'' = [''Client'']"
    "md ''jumpstarter-name'' = [om_Name (cl_Meta c)]"
    by (auto simp: client_request_def split: option.splits)
  show ?thesis
    by (rule own_token_accepted [OF md(1,2) _ _ _ _ assms(3,4)]) (use md assms(2) in \<open>simp_all add: controller_auth_def\<close>)
qed

text \<open>The key of the secret of a client.\<close>

abbreviation client_secret :: "Client \<Rightarrow> NamespacedName" where
  "client_secret c \<equiv> \<lparr>nn_Namespace = om_Namespace (cl_Meta c), nn_Name = om_Name (cl_Meta c) @ ''-client''\<rparr>"

text \<open>The token that a controller signs for a client that has no valid one.\<close>

lemma signed_credential:
  assumes "Client_reconcileStatusCredential k x j signer tc s c = (Inr c', s')"
    and "secret_store k view" "secret_read k view s (client_secret c)" "ctrlref_ok x"
    and "\<not> has_valid_token k j signer (tc_validate tc) s (client_secret c)"
  obtains secret token where "view s' (client_secret c) = Some secret" "mget (sec_Data secret) TokenKey = Some token"
    "Signer_Token j signer (tc_issued tc) (tc_expires tc) (Client_InternalSubject c) = Inr token"
proof -
  from assms(1) obtain secret where e: "ensureSecret k x j signer tc s (client_secret c)
      (Client_InternalSubject c) (cl_Meta c) = (Inr secret, s')"
    by (auto simp: Client_reconcileStatusCredential_def split: prod.splits sum.splits)
  from e assms(2,3,4) show thesis
  proof (cases rule: ensureSecret_cases)
    case (fresh token)
    then show thesis by (intro that [of secret token]) simp_all
  next
    case (kept old token)
    with assms(5) show thesis by simp
  qed
qed

text \<open>
  C12: The credential that a controller signs for a client lets that client in, whether it
  creates the secret or replaces a token in it that is missing or no longer validates (a token that
  still validates is left as it is). It does so at the same controller and at every one that runs
  with the same \<open>CONTROLLER_KEY\<close>, once that has started up (its authenticator for the internal issuer
  fetches the keys in the background) and until the token or the certificate of the internal
  provider expires: the token in the secret is accepted with a request in the client's name, and
  nothing is changed. This holds for every configuration that loads, as long as no other issuer in
  it has the URL of the internal one, and if the pass read the secret as it is stored.
\<close>

theorem credential_lets_client_in:
  fixes me me0 :: "('key, 'ca, 'u) main_env" and j :: "'key jwt" and pub :: "'key \<Rightarrow> 'pub"
  assumes writer: "controller_main me0 fl0 = Inr m0" "RunController Client_SetupWithManager (Some signer0) \<in> set (mn_Runnables m0)"
    and secret: "Client_reconcileStatusCredential k x j signer0 tc s0 c = (Inr c', s1)"
      "secret_store k view" "secret_read k view s0 (client_secret c)" "ctrlref_ok x"
      "\<not> has_valid_token k j signer0 (tc_validate tc) s0 (client_secret c)"
    and server: "controller_main me fl = Inr m" "RunControllerService au router so \<in> set (mn_Runnables m)"
      "RunOIDCService signer cert \<in> set (mn_Runnables m)" "OIDCService_Start (me_tls me) pub signer cert = Inr srv"
    and same: "te_Getenv (me_tls me0) ''CONTROLLER_KEY'' = te_Getenv (me_tls me) ''CONTROLLER_KEY''" "me_keygen me0 = me_keygen me"
    and laws: "union_ok (me_config me)" "jwt_authn_ok (me_config me) j pub get ready now" "ready ''https://localhost:8085''"
      "https_ok (me_tls me) (me_EncodeToMemory me) (ce_StaticCA (me_config me)) get now srv"
    and config: "me_getConfigMap me \<lparr>nn_Namespace = te_Getenv (me_tls me) ''NAMESPACE'', nn_Name = ''jumpstarter-controller''\<rparr> = Inr data"
      "\<forall>ja\<in>set (configured_issuers (me_config me) data). is_URL (ja_Issuer ja) \<noteq> ''https://localhost:8085''"
      "\<forall>der. me_EncodeToMemory me der \<noteq> [] \<and> \<not> ce_Stat (me_config me) (me_EncodeToMemory me der)"
    and times: "te_now1 (me_tls me) \<le> now" "now \<le> te_now2 (me_tls me) + 365 * 24 * 3600 * Second"
      "now < tc_expires tc + token_lifetime - Second"
    and named: "om_Name (cl_Meta c) \<noteq> []"
  shows "\<exists>secret token. view s1 (client_secret c) = Some secret \<and>
    mget (sec_Data secret) TokenKey = Some token \<and>
    (\<forall>s ctx. client_request c token ctx \<longrightarrow> k_getClient k s (key_of (cl_Meta c)) = Inr c \<longrightarrow>
       AuthClient k au s ctx (om_Namespace (cl_Meta c)) = (Inr c, s))"
proof -
  from server(1) obtain cert' signer' co where m: "main_certificate me = Inr cert'" "main_signer me = Inr signer'"
    "main_configuration me signer' cert' = Inr co"
    and r: "mn_Runnables m =
      [RunController Exporter_SetupWithManager (Some signer'), RunController Client_SetupWithManager (Some signer'),
       RunController Lease_SetupWithManager None, RunControllerService (controller_auth me co) (co_router co) (co_keepalive co),
       RunOIDCService signer' cert', RunDashboardService]"
    by (rule controller_main_Inr) simp
  from r server(2,3) have eq: "cert' = cert" "signer' = signer" "au = controller_auth me co" by auto
  from writer(1) obtain signer1 where "main_signer me0 = Inr signer1" "signer0 = signer1"
    by (rule controller_main_Inr) (use writer(2) in \<open>auto simp: Exporter_SetupWithManager_def Client_SetupWithManager_def\<close>)
  with main_signer_cong [OF same] m(2) eq have s0: "signer0 = signer" by simp
  obtain sec token where t: "view s1 (client_secret c) = Some sec"
    "mget (sec_Data sec) TokenKey = Some token"
    "Signer_Token j signer (tc_issued tc) (tc_expires tc) (Client_InternalSubject c) = Inr token"
    using secret unfolding s0 by (rule signed_credential)
  let ?pem = "me_EncodeToMemory me (tl_Certificate cert ! 0)"
  have "co_authenticator co token = Inr (Some (co_prefix co @ Client_InternalSubject c))"
  proof (rule own_token_known [OF _ t(3) times(3) laws(1,2)])
    show "LoadConfiguration (me_config me) (Inr data) signer ?pem = Inr co"
      using m(3) config(1) eq by (simp add: main_configuration_def)
    show "\<forall>ja\<in>set (configured_issuers (me_config me) data). is_URL (ja_Issuer ja) \<noteq> sg_issuer signer"
      using config(2) main_signer_Inr(1) [OF m(2)] eq by (simp add: oidc_issuer_def)
    show "\<not> ce_Stat (me_config me) ?pem" "?pem \<noteq> []" using config(3) by simp_all
    show "published get (Some ca) (sg_issuer signer) (pub (sg_privatekey signer))" if "ce_StaticCA (me_config me) ?pem = Inr ca" for ca
      by (rule provider_publishes [OF m(1,2) [unfolded eq] server(4) laws(4) times(1,2) that])
    show "ready (sg_issuer signer)" using laws(3) main_signer_Inr(1) [OF m(2)] eq by (simp add: oidc_issuer_def)
  qed
  then show ?thesis unfolding eq(3)
    by (intro exI [of _ sec] exI [of _ token] conjI allI impI t(1,2)) (rule client_request_accepted [OF _ _ named])
qed

section \<open>The programs in the pods that the operator deploys\<close>

text \<open>
  What Kubernetes promises of the environment of a container: values as they are, keys of
  secrets, and the namespace of the pod. \<open>secret\<close> reads a key of a secret of that namespace.
\<close>

definition container_env :: "(string \<Rightarrow> string) \<Rightarrow> (string \<Rightarrow> string \<Rightarrow> string) \<Rightarrow> string \<Rightarrow> Container \<Rightarrow> bool" where
  "container_env getenv secret namespace c \<longleftrightarrow>
     list_all (\<lambda>ev. case ev_Source ev of
        EnvValue v \<Rightarrow> getenv (ev_Name ev) = v
      | EnvSecret name key \<Rightarrow> getenv (ev_Name ev) = secret name key
      | EnvField path version \<Rightarrow> path = ''metadata.namespace'' \<longrightarrow> getenv (ev_Name ev) = namespace) (ct_Env c)"

definition controller_pod :: "(string \<Rightarrow> string) \<Rightarrow> (string \<Rightarrow> string \<Rightarrow> string) \<Rightarrow> Jumpstarter \<Rightarrow> bool" where
  "controller_pod getenv secret j \<longleftrightarrow>
     list_all (container_env getenv secret (om_Namespace (j_Meta j)))
       (pt_Containers (dsp_Template (dp_Spec (createControllerDeployment j))))"

definition router_pod :: "(string \<Rightarrow> string) \<Rightarrow> (string \<Rightarrow> string \<Rightarrow> string) \<Rightarrow> Jumpstarter \<Rightarrow> int \<Rightarrow> bool" where
  "router_pod getenv secret j i \<longleftrightarrow>
     list_all (container_env getenv secret (om_Namespace (j_Meta j)))
       (pt_Containers (dsp_Template (dp_Spec (createRouterDeployment j i))))"

lemma controller_pod_env:
  assumes "controller_pod getenv secret j"
  shows "getenv ''GRPC_ENDPOINT'' = grpcEndpoint j" "getenv ''NAMESPACE'' = om_Namespace (j_Meta j)"
    "getenv ''CONTROLLER_KEY'' = secret ''jumpstarter-controller-secret'' ''key''"
    "getenv ''ROUTER_KEY'' = secret ''jumpstarter-router-secret'' ''key''"
  using assms by (simp_all add: controller_pod_def container_env_def createControllerDeployment_def Let_def key_env_def)

lemma router_pod_env:
  assumes "router_pod getenv secret j i"
  shows "getenv ''GRPC_ROUTER_ENDPOINT'' = buildRouterEndpointForReplica j i" "getenv ''NAMESPACE'' = om_Namespace (j_Meta j)"
    "getenv ''ROUTER_KEY'' = secret ''jumpstarter-router-secret'' ''key''"
  using assms by (simp_all add: router_pod_def container_env_def createRouterDeployment_def Let_def key_env_def)

lemma createConfigMap_key:
  "createConfigMap ym j = Inr cm \<Longrightarrow> key_of (cm_Meta cm) = \<lparr>nn_Namespace = om_Namespace (j_Meta j), nn_Name = ''jumpstarter-controller''\<rparr>"
  by (auto simp: createConfigMap_def key_of_def split: sum.splits)


text \<open>
  The controller and the routers of a resource have the same \<open>ROUTER_KEY\<close>, so that routers
  accept the tokens that the controller signs for streams.
\<close>

theorem deployed_router_keys_agree:
  assumes "controller_pod getenv secret j" "router_pod getenv' secret j i"
  shows "getenv ''ROUTER_KEY'' = getenv' ''ROUTER_KEY''"
  using controller_pod_env(4) [OF assms(1)] router_pod_env(3) [OF assms(2)] by simp

lemma deployed_controller_presents:
  assumes pod: "controller_pod (te_Getenv te) secret j" and tls: "certificates_work te" "te_Listen te '':8082'' = None"
    and address: "gc_Endpoints (cc_GRPC (js_Controller (j_Spec j))) = ep # eps" "ept_Address ep \<noteq> []" "bracket_free (ept_Address ep)"
  obtains srv where "ControllerService_Start te so = Inr srv" "controllerEndpoint (te_Getenv te) = grpcEndpoint j"
    "presents te ''jumpstarter controller'' (grpcEndpoint j) (gs_Certificate srv)"
proof -
  have ep: "grpcEndpoint j = ensurePort (ept_Address ep) ''443''" using address(1,2) by (simp add: grpcEndpoint_def)
  have sp: "\<exists>hp. SplitHostPort (grpcEndpoint j) = Inr hp"
    using ensure_port_splits [OF address(3), of "''443''"] unfolding ep by (simp split: sum.splits)
  then have "grpcEndpoint j \<noteq> []" by (auto simp: SplitHostPort_def last_index_def)
  then have ce: "controllerEndpoint (te_Getenv te) = grpcEndpoint j"
    by (simp add: controllerEndpoint_def controller_pod_env(1) [OF pod])
  from sp obtain hp where hp: "SplitHostPort (controllerEndpoint (te_Getenv te)) = Inr hp" unfolding ce ..
  obtain srv where srv: "ControllerService_Start te so = Inr srv" using Start_works(1) [OF tls(1) hp tls(2)] ..
  show thesis using ControllerService_Start_presents [OF srv] unfolding ce by (rule that [OF srv ce])
qed

lemma deployed_router_presents:
  assumes pod: "router_pod (te_Getenv te) secret j i" and tls: "certificates_work te" "te_Listen te '':8083'' = None"
    and hp: "SplitHostPort (buildRouterEndpointForReplica j i) = Inr hp"
  obtains srv where "RouterService_Start te so = Inr srv"
    "presents te ''jumpstarter router'' (buildRouterEndpointForReplica j i) (gs_Certificate srv)"
proof -
  from hp have "buildRouterEndpointForReplica j i \<noteq> []" by (auto simp: SplitHostPort_def last_index_def)
  then have rr: "routerEndpoint (te_Getenv te) = buildRouterEndpointForReplica j i"
    by (simp add: routerEndpoint_def router_pod_env(1) [OF pod])
  obtain srv where srv: "RouterService_Start te so = Inr srv" using Start_works(2) [OF tls(1) hp [folded rr] tls(2)] ..
  show thesis using RouterService_Start_presents [OF srv] unfolding rr by (rule that [OF srv])
qed

lemma buildRouter_entry:
  assumes "i \<in> set (replicas j)"
  shows "\<exists>name re. (name, re) \<in> set (buildRouter j) \<and> re_Endpoint re = buildRouterEndpointForReplica j i"
proof -
  let ?f = "\<lambda>i. (if i > 0 then ''router-'' @ itoa i else ''default'',
    \<lparr>re_Endpoint = buildRouterEndpointForReplica j i, re_Labels = (if i > 0 then [(''router-index'', itoa i)] else [])\<rparr>)"
  have "?f i \<in> set (buildRouter j)" unfolding buildRouter_def set_map using assms by (rule imageI)
  then show ?thesis by (intro exI conjI) (assumption, simp)
qed


text \<open>
  A controller whose first endpoint is an IPv6 address in brackets without a port does not come up: the
  operator gives it an endpoint that does not split into host and port.
\<close>

theorem bracketed_endpoint_never_starts:
  assumes "controller_pod (te_Getenv te) secret j"
    and "gc_Endpoints (cc_GRPC (js_Controller (j_Spec j))) = ep # eps" "ept_Address ep = ''['' @ host @ '']''"
    and "bracket_free host" "CHR '':'' \<in> set host"
  shows "\<exists>err. ControllerService_Start te so = Inl err"
proof -
  have "grpcEndpoint j = ''[['' @ host @ '']]:443''" "\<exists>err. SplitHostPort (''[['' @ host @ '']]:443'') = Inl err"
    using bracketed_ipv6_malformed [OF assms(4,5), of "''443''"] assms(2,3) by (simp_all add: grpcEndpoint_def)
  moreover from this(1) have "controllerEndpoint (te_Getenv te) = grpcEndpoint j"
    by (simp add: controllerEndpoint_def controller_pod_env(1) [OF assms(1)])
  ultimately show ?thesis using Start_bad_endpoint(1) by fastforce
qed

theorem bracketed_endpoint_controller_exits:
  assumes "controller_pod (te_Getenv (me_tls me)) secret j"
    and "gc_Endpoints (cc_GRPC (js_Controller (j_Spec j))) = ep # eps" "ept_Address ep = ''['' @ host @ '']''"
    and "bracket_free host" "CHR '':'' \<in> set host"
    and "calls_work (me_call me)" "getWatchNamespace (me_tls me) \<noteq> []" "main_certificate me = Inr cert"
      "main_signer me = Inr signer" "main_configuration me signer cert = Inr co"
  shows "\<exists>err. controller_main me fl = Inl (''problem running manager'', Some err)"
  using bracketed_endpoint_never_starts [OF assms(1-5), of "co_keepalive co"] controller_main_start_fails [OF assms(6-10)] by blast

text \<open>
  A router that the operator deploys comes up in the same way: it reads the keepalive time from the
  config map of the controller.
\<close>

theorem deployed_router_runs:
  assumes pod: "router_pod (te_Getenv (me_tls me)) secret j i"
    and cm: "createConfigMap ym j = Inr cm" "cm_Data cm = Some data" "me_getConfigMap me (key_of (cm_Meta cm)) = Inr data"
    and env: "yaml_ok ym (me_config me)" "durations_print (me_config me) j" "calls_work (me_call me)"
    and tls: "certificates_work (me_tls me)" "te_Listen (me_tls me) '':8083'' = None"
    and hp: "SplitHostPort (buildRouterEndpointForReplica j i) = Inr hp"
  shows "\<exists>srv. router_main me = Inr srv \<and> kp_MinTime (gs_ServerOption srv) = minTime_of j"
proof -
  from cm(1,2) obtain ct rt where t: "ym_Config ym (buildConfig j) = Inr ct" and data: "data = [(''config'', ct), (''router'', rt)]"
    by (auto simp: createConfigMap_def split: sum.splits)
  from t env(1) have "ce_UnmarshalConfig (me_config me) ct = Inr (buildConfig j)" by (simp add: yaml_ok_def)
  with buildConfig_minTime [OF env(2)] data obtain so where
    so: "LoadRouterConfiguration (me_config me) (Inr data) = Inr so" "kp_MinTime so = minTime_of j"
    by (simp add: LoadRouterConfiguration_def)
  obtain srv where srv: "RouterService_Start (me_tls me) so = Inr srv"
    using deployed_router_presents [OF pod tls hp] by metis
  then have "gs_ServerOption srv = so"
    by (auto simp: RouterService_Start_def split: sum.splits prod.splits option.splits)
  with so srv cm(3) env(3) show ?thesis
    unfolding createConfigMap_key [OF cm(1)]
    by (simp add: router_main_def router_pod_env(2) [OF pod] calls_work_def or_exit_def get_or_exit_def)
qed

section \<open>Evaluated instances\<close>

text \<open>
  A resource with one controller endpoint, the environment of its pods, and libraries that
  work: the certificate of a template is its subject, the key of every seed is the same, and an authenticator reads
  the tokens of \<open>mem_jwt\<close>.
\<close>

definition sample_deployed :: Jumpstarter where
  "sample_deployed = sample_jumpstarter\<lparr>j_Spec := (j_Spec sample_jumpstarter)\<lparr>js_Controller :=
     (js_Controller (j_Spec sample_jumpstarter))\<lparr>cc_GRPC := sample_grpc [sample_endpoint ''grpc.example.com'']\<rparr>\<rparr>\<rparr>"

definition sample_secret :: "string \<Rightarrow> string \<Rightarrow> string" where
  "sample_secret name key = name @ key"

definition sample_getenv :: "string \<Rightarrow> string" where
  "sample_getenv name =
     (if name = ''GRPC_ENDPOINT'' then ''grpc.example.com:443''
      else if name = ''GRPC_ROUTER_ENDPOINT'' then ''r1.example.com:443''
      else if name = ''CONTROLLER_KEY'' then ''jumpstarter-controller-secretkey''
      else if name = ''ROUTER_KEY'' then ''jumpstarter-router-secretkey''
      else if name = ''NAMESPACE'' then ''lab''
      else if name = ''GIN_MODE'' then ''release'' else [])"

definition sample_tls :: tls_env where
  "sample_tls = \<lparr>te_Getenv = sample_getenv, te_ReadFile = (\<lambda>_. Inl (Errorf ''no such file'')), te_ParseIP = (\<lambda>_. None),
     te_GenerateKey = (\<lambda>_. Inr \<lparr>rk_PublicKey = ''P'', rk_D = ''D''\<rparr>), te_CreateCertificate = (\<lambda>t _ _ _. Inr (xc_Subject t)),
     te_X509KeyPair = (\<lambda>c k. Inl (Errorf ''not PEM'')), te_Listen = (\<lambda>_. None), te_now1 = 0, te_now2 = 0\<rparr>"

definition sample_issuer_authn :: "JWTAuthenticator \<Rightarrow> string \<Rightarrow> goerror + string option" where
  "sample_issuer_authn ja token =
     (case strings_Split token CHR ''|'' of
        [k, a, i, s, u, e] \<Rightarrow>
          if i \<noteq> is_URL (ja_Issuer ja) then Inr None
          else if k = ''key'' \<and> u \<in> set (is_Audiences (ja_Issuer ja)) \<and> Second < mem_number e
          then Inr (Some (the (ja_UsernamePrefix ja) @ s)) else Inl (Errorf ''token is not acceptable'')
      | _ \<Rightarrow> Inr None)"

definition sample_token_config :: "(string, JWTAuthenticator, string \<Rightarrow> goerror + string option) config_env" where
  "sample_token_config = \<lparr>ce_ParseDuration = (\<lambda>t. if t = ''1s'' then Inr Second else Inl (Errorf ''invalid duration'')),
     ce_UnmarshalRouter = (\<lambda>t. Inr (buildRouter sample_deployed)), ce_UnmarshalConfig = (\<lambda>t. Inr (buildConfig sample_deployed)),
     ce_DecodeLegacy = (\<lambda>t. Inl (Errorf ''no kind match'')), ce_Stat = (\<lambda>_. False), ce_DynamicCA = Inr,
     ce_StaticCA = Inr, ce_Convert = Inr, ce_New = (\<lambda>ja ca. Inr (sample_issuer_authn ja)), ce_NewFailOnError = union_token\<rparr>"

definition sample_yaml_deployed :: yaml_env where
  "sample_yaml_deployed =
     \<lparr>ym_Config = (\<lambda>c. if c = buildConfig sample_deployed then Inr ''C'' else Inl (Errorf ''other'')),
      ym_Router = (\<lambda>r. if r = buildRouter sample_deployed then Inr ''R'' else Inl (Errorf ''other''))\<rparr>"

definition sample_main :: "(string, string, JWTAuthenticator) main_env" where
  "sample_main = \<lparr>me_tls = sample_tls, me_keygen = \<lparr>kg_Sum256 = (\<lambda>_. replicate 32 7), kg_ECDSALegacy = (\<lambda>_. Inr ''key'')\<rparr>,
     me_config = sample_token_config,
     me_getConfigMap = (\<lambda>n. if n = \<lparr>nn_Namespace = ''lab'', nn_Name = ''jumpstarter-controller''\<rparr>
       then Inr [(''config'', ''C''), (''router'', ''R'')] else Inl (ApiError NotFound)),
     me_EncodeToMemory = (\<lambda>der. ''PEM '' @ der), me_call = (\<lambda>_. None)\<rparr>"

lemma sample_pods:
  "controller_pod (te_Getenv sample_tls) sample_secret sample_deployed"
  "router_pod (te_Getenv sample_tls) sample_secret sample_deployed 1"
  unfolding controller_pod_def router_pod_def by (code_simp, code_simp)

definition sample_oidc_cert :: tls_Certificate where
  "sample_oidc_cert = \<lparr>tl_Certificate = [''jumpstarter oidc''], tl_PrivateKey = \<lparr>rk_PublicKey = ''P'', rk_D = ''D''\<rparr>\<rparr>"

lemma sample_keys: "main_certificate sample_main = Inr sample_oidc_cert" "main_signer sample_main = Inr sample_signer"
  by (simp_all add: main_certificate_def sample_main_def sample_tls_def NewSelfSignedCertificate_def Let_def sample_oidc_cert_def
      certificate_template_def main_signer_def NewSignerFromSeed_def NewSigner_def sample_signer_def oidc_issuer_def)

lemma sample_calls: "calls_work (me_call sample_main)"
  by (simp add: calls_work_def sample_main_def)

definition sample_deployed_cm :: ConfigMap where
  "sample_deployed_cm = projr (createConfigMap sample_yaml_deployed sample_deployed)"

lemma sample_deployed_cm:
  "createConfigMap sample_yaml_deployed sample_deployed = Inr sample_deployed_cm"
  "cm_Data sample_deployed_cm = Some [(''config'', ''C''), (''router'', ''R'')]"
  by (simp_all add: sample_deployed_cm_def createConfigMap_def sample_yaml_deployed_def)

lemma sample_namespace: "om_Namespace (j_Meta sample_deployed) = ''lab''"
  by (simp add: sample_deployed_def sample_jumpstarter_def sample_meta_def)



definition sample_get :: "(string, string) https_get" where
  "sample_get ca url = (if take 22 url = oidc_issuer then Signer_Register id sample_signer (drop 22 url) else None)"

definition sample_provider :: "string oidc_server" where
  "sample_provider = projr (OIDCService_Start sample_tls id sample_signer sample_oidc_cert)"

lemma sample_authn_ok: "jwt_authn_ok sample_token_config mem_jwt id sample_get (\<lambda>_. True) Second"
  unfolding jwt_authn_ok_def
proof (intro conjI allI impI)
  fix ja u and ca :: "string option" and a key claims token
  assume n: "ce_Convert sample_token_config ja = Inr u" "ce_New sample_token_config u ca = Inr a"
    and sig: "j_SignedString mem_jwt key ES256 claims = Inr token" and "jc_Issuer claims \<noteq> is_URL (ja_Issuer ja)"
  moreover from sig obtain aud e where "strings_Split token CHR ''|'' = [key, ES256, jc_Issuer claims, jc_Subject claims, aud, e]"
    by (rule mem_signed_split)
  moreover from n have "a = sample_issuer_authn ja" by (simp add: sample_token_config_def)
  ultimately show "a token = Inr None" by (simp add: sample_issuer_authn_def)
next
  fix ja u and ca :: "string option" and a key claims token pfx aud
  assume n: "ce_Convert sample_token_config ja = Inr u" "ce_New sample_token_config u ca = Inr a"
    and sig: "j_SignedString mem_jwt key ES256 claims = Inr token" and c: "jc_Issuer claims = is_URL (ja_Issuer ja)"
      "ja_UsernamePrefix ja = Some pfx" "aud \<in> set (jc_Audience claims)" "aud \<in> set (is_Audiences (ja_Issuer ja))"
      "Second < jc_ExpiresAt claims - Second"
    and pub: "published sample_get ca (is_URL (ja_Issuer ja)) (id key)"
  from sig obtain aud' e where s: "jc_Audience claims = [aud']" "mem_number e = jc_ExpiresAt claims"
    "strings_Split token CHR ''|'' = [key, ES256, jc_Issuer claims, jc_Subject claims, aud', e]" by (rule mem_signed_split)
  from pub obtain uri ks k where "sample_get ca uri = Some (Keys ks)" "k \<in> set ks" "ok_Key k = key"
    by (auto simp: published_def)
  then have "key = ''key''"
    by (auto simp: sample_get_def Signer_Register_def Signer_KeySet_def Signer_Key_def sample_signer_def split: if_splits)
  moreover from n have "a = sample_issuer_authn ja" by (simp add: sample_token_config_def)
  ultimately show "a token = Inr (Some (pfx @ jc_Subject claims))"
    using c s by (simp add: sample_issuer_authn_def Second_def)
qed

lemma sample_https: "https_ok sample_tls em sc sample_get Second sample_provider"
proof -
  have "length oidc_issuer = 22" "''https://localhost:8085'' = oidc_issuer" by (simp_all add: oidc_issuer_def)
  moreover have "oi_Handler sample_provider = Signer_Register id sample_signer"
    by (simp add: sample_provider_def OIDCService_Start_def sample_tls_def)
  ultimately show ?thesis by (simp add: https_ok_def sample_get_def)
qed

definition sample_credential :: "(goerror + Client) \<times> cluster" where
  "sample_credential = Client_reconcileStatusCredential mem_kube mem_ext mem_jwt sample_signer sample_token_clock sample_cluster
     (sample_client ''alice'')"

definition alice_ctx :: "string \<Rightarrow> Context" where
  "alice_ctx token = \<lparr>cx_Metadata = Some (\<lambda>k.
     if k = ''authorization'' then [''Bearer '' @ token]
     else if k = ''jumpstarter-namespace'' then [''lab'']
     else if k = ''jumpstarter-kind'' then [''Client'']
     else if k = ''jumpstarter-name'' then [''alice''] else [])\<rparr>"

definition sample_co :: "(string \<Rightarrow> goerror + string option) configuration" where
  "sample_co = projr (main_configuration sample_main sample_signer sample_oidc_cert)"

abbreviation sample_auth :: auth_config where
  "sample_auth \<equiv> controller_auth sample_main sample_co"

lemma sample_controller:
  obtains m where "controller_main sample_main default_flags = Inr m"
    "RunControllerService sample_auth (co_router sample_co) (co_keepalive sample_co) \<in> set (mn_Runnables m)"
    "RunController Client_SetupWithManager (Some sample_signer) \<in> set (mn_Runnables m)"
    "RunOIDCService sample_signer sample_oidc_cert \<in> set (mn_Runnables m)"
proof -
  have "case main_configuration sample_main sample_signer sample_oidc_cert of Inl _ \<Rightarrow> False | Inr _ \<Rightarrow> True" by code_simp
  then have co: "main_configuration sample_main sample_signer sample_oidc_cert = Inr sample_co"
    unfolding sample_co_def by (cases "main_configuration sample_main sample_signer sample_oidc_cert") simp_all
  have w: "getWatchNamespace (me_tls sample_main) \<noteq> []" by code_simp
  have l: "te_Listen (me_tls sample_main) p = None" for p by (simp add: sample_main_def sample_tls_def)
  have "certificates_work (me_tls sample_main)" by (simp add: certificates_work_def sample_main_def sample_tls_def sample_getenv_def)
  moreover have "SplitHostPort (controllerEndpoint (te_Getenv (me_tls sample_main))) = Inr (''grpc.example.com'', ''443'')" by code_simp
  ultimately obtain srv where start: "ControllerService_Start (me_tls sample_main) (co_keepalive sample_co) = Inr srv"
    using Start_works(1) l by metis
  obtain m where m: "controller_main sample_main default_flags = Inr m"
    and run: "RunControllerService sample_auth (co_router sample_co) (co_keepalive sample_co) \<in> set (mn_Runnables m)"
    using controller_main_works [OF sample_calls w sample_keys co start l l] by blast
  from m have "RunController Client_SetupWithManager (Some sample_signer) \<in> set (mn_Runnables m)"
    "RunOIDCService sample_signer sample_oidc_cert \<in> set (mn_Runnables m)"
    by (rule controller_main_Inr, simp add: sample_keys)+
  with m run show thesis by (rule that)
qed

lemma sample_libraries:
  "OIDCService_Start (me_tls sample_main) id sample_signer sample_oidc_cert = Inr sample_provider"
  "union_ok (me_config sample_main)" "jwt_authn_ok (me_config sample_main) mem_jwt id sample_get (\<lambda>_. True) Second"
  "https_ok (me_tls sample_main) (me_EncodeToMemory sample_main) (ce_StaticCA (me_config sample_main)) sample_get Second sample_provider"
  "me_getConfigMap sample_main \<lparr>nn_Namespace = te_Getenv (me_tls sample_main) ''NAMESPACE'', nn_Name = ''jumpstarter-controller''\<rparr> =
     Inr [(''config'', ''C''), (''router'', ''R'')]"
  "\<forall>der. me_EncodeToMemory sample_main der \<noteq> [] \<and> \<not> ce_Stat (me_config sample_main) (me_EncodeToMemory sample_main der)"
  using sample_authn_ok sample_https
  by (simp_all add: sample_provider_def OIDCService_Start_def sample_main_def sample_tls_def sample_getenv_def union_ok_def
      sample_token_config_def)

lemma sample_times:
  "te_now1 (me_tls sample_main) \<le> Second" "Second \<le> te_now2 (me_tls sample_main) + 365 * 24 * 3600 * Second"
  "Second < tc_expires sample_token_clock + token_lifetime - Second"
  by (code_simp, code_simp, code_simp)

lemma sample_issuers:
  "\<forall>ja\<in>set (configured_issuers (me_config sample_main) [(''config'', ''C''), (''router'', ''R'')]).
     is_URL (ja_Issuer ja) \<noteq> ''https://localhost:8085''"
  by code_simp

lemma sample_alice:
  "om_Name (cl_Meta (sample_client ''alice'')) = ''alice''" "om_Namespace (cl_Meta (sample_client ''alice'')) = ''lab''"
  "k_getClient mem_kube sample_cluster (key_of (cl_Meta (sample_client ''alice''))) = Inr (sample_client ''alice'')"
  "\<not> has_valid_token mem_kube mem_jwt sample_signer (tc_validate sample_token_clock) sample_cluster (client_secret (sample_client ''alice''))"
  "client_request (sample_client ''alice'') token (alice_ctx token)"
  by (code_simp, code_simp, code_simp, code_simp) (simp add: client_request_def alice_ctx_def sample_client_def sample_meta_def)

theorem credential_lets_client_in_witness:
  "\<exists>secret token m router so. controller_main sample_main default_flags = Inr m \<and>
     RunControllerService sample_auth router so \<in> set (mn_Runnables m) \<and>
     mem_secrets (snd sample_credential) \<lparr>nn_Namespace = ''lab'', nn_Name = ''alice-client''\<rparr> = Some secret \<and>
     mget (sec_Data secret) TokenKey = Some token \<and>
     AuthClient mem_kube sample_auth sample_cluster (alice_ctx token) ''lab'' = (Inr (sample_client ''alice''), sample_cluster)"
proof -
  obtain m where m: "controller_main sample_main default_flags = Inr m"
    and run: "RunControllerService sample_auth (co_router sample_co) (co_keepalive sample_co) \<in> set (mn_Runnables m)"
    and r: "RunController Client_SetupWithManager (Some sample_signer) \<in> set (mn_Runnables m)"
      "RunOIDCService sample_signer sample_oidc_cert \<in> set (mn_Runnables m)"
    by (rule sample_controller)
  have "case fst sample_credential of Inl _ \<Rightarrow> False | Inr _ \<Rightarrow> True" by code_simp
  then obtain c' where c: "sample_credential = (Inr c', snd sample_credential)"
    by (cases "fst sample_credential") (simp_all add: prod_eq_iff)
  have "om_Name (cl_Meta (sample_client ''alice'')) \<noteq> []" by (simp add: sample_alice)
  from credential_lets_client_in [OF m r(1) c [unfolded sample_credential_def] mem_secret_store mem_secret_read mem_ext_ctrlref_ok
      sample_alice(4) m run r(2) sample_libraries(1) refl refl sample_libraries(2,3) _ sample_libraries(4,5) sample_issuers
      sample_libraries(6) sample_times this, folded sample_credential_def, unfolded sample_alice(1,2)]
  obtain secret token where s: "mem_secrets (snd sample_credential) \<lparr>nn_Namespace = ''lab'', nn_Name = ''alice-client''\<rparr> = Some secret"
    "mget (sec_Data secret) TokenKey = Some token"
    and acc: "\<forall>s ctx. client_request (sample_client ''alice'') token ctx \<longrightarrow>
       k_getClient mem_kube s (key_of (cl_Meta (sample_client ''alice''))) = Inr (sample_client ''alice'') \<longrightarrow>
       AuthClient mem_kube sample_auth s ctx ''lab'' = (Inr (sample_client ''alice''), s)"
    by auto
  from acc [rule_format, OF sample_alice(5,3)] m run s show ?thesis by blast
qed

end
