(* ===== verification/Memory.thy ===== *)
theory Memory
  imports Prelude
begin

text \<open>
  Memory with references, for the code whose point is that two objects share none of it. A heap
  is the list of its cells, of whatever type a program keeps there; an address is a position,
  allocation appends. A pointer, slice or map of Go is an address or nil. What a value with
  references stands for (\<open>val\<close>, \<open>None\<close> when a reference dangles) and the addresses it is made of
  (\<open>own\<close>) form a \<open>layout\<close>; a function that makes another copy of it in fresh cells is a \<open>copier\<close>.
\<close>

section \<open>Cells\<close>

type_synonym addr = nat
type_synonym 'c heap = "'c list"

definition read :: "'c heap \<Rightarrow> addr \<Rightarrow> 'c option" where
  "read h a = (if a < length h then Some (h ! a) else None)"

definition alloc :: "'c \<Rightarrow> 'c heap \<Rightarrow> addr \<times> 'c heap" where
  "alloc c h = (length h, h @ [c])"

lemma read_append: "a < length h \<Longrightarrow> read (h @ new) a = read h a"
  by (simp add: read_def nth_append)

lemma read_alloc [simp]: "read (h @ [c]) (length h) = Some c"
  by (simp add: read_def)

lemma read_Some: "read h a = Some c \<Longrightarrow> a < length h"
  by (simp add: read_def split: if_splits)

section \<open>Layouts and copiers\<close>

locale layout =
  fixes val :: "'c heap \<Rightarrow> 'a \<Rightarrow> 'v option" and own :: "'c heap \<Rightarrow> 'a \<Rightarrow> addr set"
  assumes allocated: "val h x = Some v \<Longrightarrow> own h x \<subseteq> {..<length h}"
    and frame: "val h x = Some v \<Longrightarrow> (\<And>a. a \<in> own h x \<Longrightarrow> read h' a = read h a) \<Longrightarrow>
      val h' x = Some v \<and> own h' x = own h x"
begin

lemma extend: "val h x = Some v \<Longrightarrow> val (h @ new) x = Some v \<and> own (h @ new) x = own h x"
  using frame [of h x v "h @ new"] allocated [of h x v] read_append by blast

end

text \<open>
  The copy stands for the same value and is made of new cells only. A copy can fail to be
  possible only when the original has no value.
\<close>

locale copier = layout +
  fixes copy :: "'a \<Rightarrow> 'c heap \<Rightarrow> 'a \<times> 'c heap"
  assumes copies: "val h x = Some v \<Longrightarrow> \<exists>y new. copy x h = (y, h @ new) \<and> val (h @ new) y = Some v \<and>
      own (h @ new) y \<subseteq> {length h..<length (h @ new)}"

text \<open>
  A copy is a snapshot: it keeps its value whatever happens to the memory of the original, as
  long as its own is left alone, and the original keeps its value whatever happens to cells
  that were allocated since.
\<close>

definition snapshots ::
  "('c heap \<Rightarrow> 'a \<Rightarrow> 'v option) \<Rightarrow> ('c heap \<Rightarrow> 'a \<Rightarrow> addr set) \<Rightarrow> ('a \<Rightarrow> 'c heap \<Rightarrow> 'a \<times> 'c heap) \<Rightarrow> bool" where
  "snapshots val own copy \<longleftrightarrow>
     (\<forall>h x v. val h x = Some v \<longrightarrow>
        (\<exists>y h1. copy x h = (y, h1) \<and>
           (\<forall>h2. (\<forall>a\<in>{..<length h1} - own h x. read h2 a = read h1 a) \<longrightarrow> val h2 y = Some v) \<and>
           (\<forall>h2. (\<forall>a<length h. read h2 a = read h a) \<longrightarrow> val h2 x = Some v)))"

context copier begin

lemma copy_snapshots: "snapshots val own copy"
  unfolding snapshots_def
proof (intro allI impI)
  fix h x v assume v: "val h x = Some v"
  from copies [OF v] obtain y new where c: "copy x h = (y, h @ new)" "val (h @ new) y = Some v"
    "own (h @ new) y \<subseteq> {length h..<length (h @ new)}" by blast
  have "val h2 y = Some v" if "\<forall>a\<in>{..<length (h @ new)} - own h x. read h2 a = read (h @ new) a" for h2
    using that c(3) allocated [OF v] by (intro frame [OF c(2), THEN conjunct1]) force
  moreover have "val h2 x = Some v" if "\<forall>a<length h. read h2 a = read h a" for h2
    using that allocated [OF v] by (intro frame [OF v, THEN conjunct1]) auto
  ultimately show "\<exists>y h1. copy x h = (y, h1) \<and>
      (\<forall>h2. (\<forall>a\<in>{..<length h1} - own h x. read h2 a = read h1 a) \<longrightarrow> val h2 y = Some v) \<and>
      (\<forall>h2. (\<forall>a<length h. read h2 a = read h a) \<longrightarrow> val h2 x = Some v)"
    using c(1) by blast
qed

end

section \<open>Values, pairs and structs\<close>

text \<open>A value without references is copied by assignment.\<close>

definition val_flat :: "'c heap \<Rightarrow> 'a \<Rightarrow> 'a option" where "val_flat h x = Some x"
definition own_flat :: "'c heap \<Rightarrow> 'a \<Rightarrow> addr set" where "own_flat h x = {}"
definition copy_flat :: "'a \<Rightarrow> 'c heap \<Rightarrow> 'a \<times> 'c heap" where "copy_flat x h = (x, h)"

lemma copier_flat: "copier val_flat own_flat copy_flat"
  by unfold_locales (auto simp: val_flat_def own_flat_def copy_flat_def)

definition val_pair ::
  "('c heap \<Rightarrow> 'a \<Rightarrow> 'v option) \<Rightarrow> ('c heap \<Rightarrow> 'b \<Rightarrow> 'w option) \<Rightarrow> 'c heap \<Rightarrow> 'a \<times> 'b \<Rightarrow> ('v \<times> 'w) option" where
  "val_pair v1 v2 h p = (case v1 h (fst p) of None \<Rightarrow> None | Some v \<Rightarrow> map_option (Pair v) (v2 h (snd p)))"

definition own_pair ::
  "('c heap \<Rightarrow> 'a \<Rightarrow> addr set) \<Rightarrow> ('c heap \<Rightarrow> 'b \<Rightarrow> addr set) \<Rightarrow> 'c heap \<Rightarrow> 'a \<times> 'b \<Rightarrow> addr set" where
  "own_pair o1 o2 h p = o1 h (fst p) \<union> o2 h (snd p)"

definition copy_pair ::
  "('a \<Rightarrow> 'c heap \<Rightarrow> 'a \<times> 'c heap) \<Rightarrow> ('b \<Rightarrow> 'c heap \<Rightarrow> 'b \<times> 'c heap) \<Rightarrow> 'a \<times> 'b \<Rightarrow> 'c heap \<Rightarrow> ('a \<times> 'b) \<times> 'c heap" where
  "copy_pair c1 c2 p h = (let (x, h1) = c1 (fst p) h; (y, h2) = c2 (snd p) h1 in ((x, y), h2))"

lemma val_pair_Some: "val_pair v1 v2 h p = Some w \<longleftrightarrow> v1 h (fst p) = Some (fst w) \<and> v2 h (snd p) = Some (snd w)"
  by (cases w) (auto simp: val_pair_def split: option.splits)

lemma copier_pair:
  assumes "copier v1 o1 c1" "copier v2 o2 c2"
  shows "copier (val_pair v1 v2) (own_pair o1 o2) (copy_pair c1 c2)"
proof unfold_locales
  fix h p w assume "val_pair v1 v2 h p = Some w"
  then have v: "v1 h (fst p) = Some (fst w)" "v2 h (snd p) = Some (snd w)" by (simp_all add: val_pair_Some)
  show "own_pair o1 o2 h p \<subseteq> {..<length h}"
    using assms v by (auto simp: own_pair_def dest!: copier.axioms(1) dest: layout.allocated)
  show "val_pair v1 v2 h' p = Some w \<and> own_pair o1 o2 h' p = own_pair o1 o2 h p"
    if "\<And>a. a \<in> own_pair o1 o2 h p \<Longrightarrow> read h' a = read h a" for h'
    using layout.frame [OF copier.axioms(1) [OF assms(1)] v(1), of h'] layout.frame [OF copier.axioms(1) [OF assms(2)] v(2), of h'] that
    by (simp add: own_pair_def val_pair_Some)
  from copier.copies [OF assms(1) v(1)] obtain x n1 where x: "c1 (fst p) h = (x, h @ n1)" "v1 (h @ n1) x = Some (fst w)"
    "o1 (h @ n1) x \<subseteq> {length h..<length (h @ n1)}" by blast
  have "v2 (h @ n1) (snd p) = Some (snd w)"
    using layout.extend [OF copier.axioms(1) [OF assms(2)] v(2)] by simp
  from copier.copies [OF assms(2) this] obtain y n2 where y: "c2 (snd p) (h @ n1) = (y, (h @ n1) @ n2)"
    "v2 ((h @ n1) @ n2) y = Some (snd w)" "o2 ((h @ n1) @ n2) y \<subseteq> {length (h @ n1)..<length ((h @ n1) @ n2)}" by blast
  have "v1 ((h @ n1) @ n2) x = Some (fst w) \<and> o1 ((h @ n1) @ n2) x = o1 (h @ n1) x"
    by (rule layout.extend [OF copier.axioms(1) [OF assms(1)] x(2)])
  with x y show "\<exists>y new. copy_pair c1 c2 p h = (y, h @ new) \<and> val_pair v1 v2 (h @ new) y = Some w \<and>
      own_pair o1 o2 (h @ new) y \<subseteq> {length h..<length (h @ new)}"
    by (intro exI [of _ "(x, y)"] exI [of _ "n1 @ n2"]) (auto simp: copy_pair_def val_pair_Some own_pair_def)
qed

text \<open>
  A struct is copied by \<open>*out = *in\<close> followed by copies of the fields that hold references: \<open>get\<close>
  selects these fields, \<open>put\<close> overwrites them.
\<close>

lemma copier_struct:
  assumes "copier v ow c"
    and "\<And>h b. val' h b = map_option (mkv b) (v h (get b))" "\<And>h b. own' h b = ow h (get b)"
    and "\<And>b h. copy' b h = (case c (get b) h of (a, h1) \<Rightarrow> (put b a, h1))"
    and "\<And>b a. get (put b a) = a" "\<And>b a. mkv (put b a) = mkv b"
  shows "copier val' own' copy'"
proof unfold_locales
  fix h b w assume "val' h b = Some w"
  then obtain u where u: "v h (get b) = Some u" "mkv b u = w" by (auto simp: assms(2))
  show "own' h b \<subseteq> {..<length h}"
    using layout.allocated [OF copier.axioms(1) [OF assms(1)] u(1)] by (simp add: assms(3))
  show "val' h' b = Some w \<and> own' h' b = own' h b" if "\<And>a. a \<in> own' h b \<Longrightarrow> read h' a = read h a" for h'
    using layout.frame [OF copier.axioms(1) [OF assms(1)] u(1), of h'] that u(2) by (simp add: assms(2,3))
  from copier.copies [OF assms(1) u(1)] show "\<exists>y new. copy' b h = (y, h @ new) \<and> val' (h @ new) y = Some w \<and>
      own' (h @ new) y \<subseteq> {length h..<length (h @ new)}"
    using u(2) by (force simp: assms(2-6))
qed

section \<open>References, slices and maps\<close>

text \<open>
  A reference to a cell that holds one kind of content: \<open>mk\<close> makes the cell, \<open>get\<close> reads it. The
  content is copied first and then stored in a new cell; the order of allocations cannot be
  observed.
\<close>

definition read_as :: "('c \<Rightarrow> 'a option) \<Rightarrow> 'c heap \<Rightarrow> addr \<Rightarrow> 'a option" where
  "read_as get h a = (case read h a of None \<Rightarrow> None | Some c \<Rightarrow> get c)"

definition val_ref ::
  "('c \<Rightarrow> 'a option) \<Rightarrow> ('c heap \<Rightarrow> 'a \<Rightarrow> 'v option) \<Rightarrow> 'c heap \<Rightarrow> addr option \<Rightarrow> 'v option option" where
  "val_ref get v h p =
     (case p of
        None \<Rightarrow> Some None
      | Some a \<Rightarrow> (case read_as get h a of None \<Rightarrow> None | Some x \<Rightarrow> map_option Some (v h x)))"

definition own_ref :: "('c \<Rightarrow> 'a option) \<Rightarrow> ('c heap \<Rightarrow> 'a \<Rightarrow> addr set) \<Rightarrow> 'c heap \<Rightarrow> addr option \<Rightarrow> addr set" where
  "own_ref get ow h p =
     (case p of
        None \<Rightarrow> {}
      | Some a \<Rightarrow> insert a (case read_as get h a of None \<Rightarrow> {} | Some x \<Rightarrow> ow h x))"

definition copy_ref ::
  "('a \<Rightarrow> 'c) \<Rightarrow> ('c \<Rightarrow> 'a option) \<Rightarrow> ('a \<Rightarrow> 'c heap \<Rightarrow> 'a \<times> 'c heap) \<Rightarrow> addr option \<Rightarrow> 'c heap \<Rightarrow> addr option \<times> 'c heap" where
  "copy_ref mk get c p h =
     (case p of
        None \<Rightarrow> (None, h)
      | Some a \<Rightarrow>
          (case read_as get h a of
             None \<Rightarrow> (None, h)
           | Some x \<Rightarrow> (let (y, h1) = c x h; (b, h2) = alloc (mk y) h1 in (Some b, h2))))"

lemma copier_ref:
  assumes "copier v ow c" "\<And>x. get (mk x) = Some x"
  shows "copier (val_ref get v) (own_ref get ow) (copy_ref mk get c)"
proof unfold_locales
  fix h p w assume w: "val_ref get v h p = Some w"
  then consider (nil) "p = None" "w = None"
    | (ref) a d x u where "p = Some a" "read h a = Some d" "get d = Some x" "v h x = Some u" "w = Some u"
    by (cases p) (auto simp: val_ref_def read_as_def split: option.splits, metis)
  note cases = this
  show "own_ref get ow h p \<subseteq> {..<length h}"
    by (cases rule: cases) (use assms(1) in \<open>auto simp: own_ref_def read_as_def dest!: copier.axioms(1)
        dest: layout.allocated read_Some\<close>)
  show "val_ref get v h' p = Some w \<and> own_ref get ow h' p = own_ref get ow h p"
    if eq: "\<And>a. a \<in> own_ref get ow h p \<Longrightarrow> read h' a = read h a" for h'
  proof (cases rule: cases)
    case ref
    then have "read h' a = Some d" "\<And>b. b \<in> ow h x \<Longrightarrow> read h' b = read h b"
      using eq by (simp_all add: own_ref_def read_as_def)
    with ref layout.frame [OF copier.axioms(1) [OF assms(1)] ref(4), of h'] show ?thesis
      by (simp add: val_ref_def own_ref_def read_as_def)
  qed (simp add: val_ref_def own_ref_def)
  show "\<exists>y new. copy_ref mk get c p h = (y, h @ new) \<and> val_ref get v (h @ new) y = Some w \<and>
      own_ref get ow (h @ new) y \<subseteq> {length h..<length (h @ new)}"
  proof (cases rule: cases)
    case nil
    then show ?thesis by (intro exI [of _ None] exI [of _ "[]"]) (simp add: copy_ref_def val_ref_def own_ref_def)
  next
    case ref
    from copier.copies [OF assms(1) ref(4)] obtain y new where y: "c x h = (y, h @ new)" "v (h @ new) y = Some u"
      "ow (h @ new) y \<subseteq> {length h..<length (h @ new)}" by blast
    from layout.extend [OF copier.axioms(1) [OF assms(1)] y(2), of "[mk y]"]
    have e: "v (h @ new @ [mk y]) y = Some u" "ow (h @ new @ [mk y]) y = ow (h @ new) y" by simp_all
    have r: "read (h @ new @ [mk y]) (length h + length new) = Some (mk y)"
      using read_alloc [of "h @ new" "mk y"] by simp
    show ?thesis
      by (intro exI [of _ "Some (length (h @ new))"] exI [of _ "new @ [mk y]"])
        (use ref y e r assms(2) in \<open>auto simp: copy_ref_def val_ref_def own_ref_def read_as_def alloc_def\<close>)
  qed
qed

text \<open>The elements of a slice, copied one by one.\<close>

fun val_list :: "('c heap \<Rightarrow> 'a \<Rightarrow> 'v option) \<Rightarrow> 'c heap \<Rightarrow> 'a list \<Rightarrow> 'v list option" where
  "val_list v h [] = Some []"
| "val_list v h (x # xs) =
     (case v h x of None \<Rightarrow> None | Some u \<Rightarrow> map_option (Cons u) (val_list v h xs))"

fun own_list :: "('c heap \<Rightarrow> 'a \<Rightarrow> addr set) \<Rightarrow> 'c heap \<Rightarrow> 'a list \<Rightarrow> addr set" where
  "own_list ow h [] = {}"
| "own_list ow h (x # xs) = ow h x \<union> own_list ow h xs"

fun copy_list :: "('a \<Rightarrow> 'c heap \<Rightarrow> 'a \<times> 'c heap) \<Rightarrow> 'a list \<Rightarrow> 'c heap \<Rightarrow> 'a list \<times> 'c heap" where
  "copy_list c [] h = ([], h)"
| "copy_list c (x # xs) h = (let (y, h1) = c x h; (ys, h2) = copy_list c xs h1 in (y # ys, h2))"

lemma layout_list:
  assumes "layout v ow"
  shows "layout (val_list v) (own_list ow)"
proof unfold_locales
  show "val_list v h xs = Some us \<Longrightarrow> own_list ow h xs \<subseteq> {..<length h}" for h xs us
    by (induction xs arbitrary: us) (use assms in \<open>auto dest: layout.allocated split: option.splits\<close>)
  show "val_list v h xs = Some us \<Longrightarrow> (\<And>a. a \<in> own_list ow h xs \<Longrightarrow> read h' a = read h a) \<Longrightarrow>
      val_list v h' xs = Some us \<and> own_list ow h' xs = own_list ow h xs" for h xs us h'
  proof (induction xs arbitrary: us)
    case (Cons x xs)
    from Cons.prems(1) obtain u ws where u: "v h x = Some u" "val_list v h xs = Some ws" "us = u # ws"
      by (auto split: option.splits)
    from layout.frame [OF assms u(1), of h'] Cons.IH [OF u(2)] Cons.prems(2) u show ?case by simp
  qed simp
qed

lemma copier_list:
  assumes "copier v ow c"
  shows "copier (val_list v) (own_list ow) (copy_list c)"
proof (rule copier.intro [OF layout_list [OF copier.axioms(1) [OF assms]]], unfold_locales)
  show "val_list v h xs = Some us \<Longrightarrow> \<exists>ys new. copy_list c xs h = (ys, h @ new) \<and> val_list v (h @ new) ys = Some us \<and>
      own_list ow (h @ new) ys \<subseteq> {length h..<length (h @ new)}" for h xs us
  proof (induction xs arbitrary: h us)
    case (Cons x xs)
    from Cons.prems obtain u ws where u: "v h x = Some u" "val_list v h xs = Some ws" "us = u # ws"
      by (auto split: option.splits)
    from copier.copies [OF assms u(1)] obtain y n1 where y: "c x h = (y, h @ n1)" "v (h @ n1) y = Some u"
      "ow (h @ n1) y \<subseteq> {length h..<length (h @ n1)}" by blast
    have "val_list v (h @ n1) xs = Some ws"
      using layout.extend [OF layout_list [OF copier.axioms(1) [OF assms]] u(2)] by simp
    from Cons.IH [OF this] obtain ys n2 where ys: "copy_list c xs (h @ n1) = (ys, (h @ n1) @ n2)"
      "val_list v ((h @ n1) @ n2) ys = Some ws"
      "own_list ow ((h @ n1) @ n2) ys \<subseteq> {length (h @ n1)..<length ((h @ n1) @ n2)}" by blast
    from layout.extend [OF copier.axioms(1) [OF assms] y(2), of n2] y ys u(3) show ?case
      by (intro exI [of _ "y # ys"] exI [of _ "n1 @ n2"]) auto
  qed simp
qed

text \<open>A map of texts is filled entry by entry.\<close>

definition val_strmap :: "'c heap \<Rightarrow> strmap \<Rightarrow> strmap option" where
  "val_strmap h m = (if go_map m then Some m else None)"

definition copy_strmap :: "strmap \<Rightarrow> 'c heap \<Rightarrow> strmap \<times> 'c heap" where
  "copy_strmap m h = (fold (\<lambda>(key, v) out. mset_key out key v) m [], h)"

lemma fold_mset_key: "go_map (out @ m) \<Longrightarrow> fold (\<lambda>(key, v) out. mset_key out key v) m out = out @ m"
proof (induction m arbitrary: out)
  case (Cons a m)
  have "k \<notin> fst ` set out \<Longrightarrow> AList.update k v out = out @ [(k, v)]" for k v
    by (induction out) auto
  with Cons.prems have "AList.update (fst a) (snd a) out = out @ [a]" by (force simp: go_map_def)
  with Cons.IH [of "out @ [a]"] Cons.prems show ?case by (simp add: split_beta)
qed simp

lemma copier_strmap: "copier val_strmap own_flat copy_strmap"
  by unfold_locales (auto simp: val_strmap_def own_flat_def copy_strmap_def fold_mset_key [of "[]", simplified] split: if_splits)

text \<open>
  \<open>DeepCopy\<close> of a pointer to a struct: nil for nil, otherwise a new struct that
  \<open>DeepCopyInto\<close> fills. The struct that a pointer of this kind points to is passed as a value.
\<close>

definition new_copy :: "('a \<Rightarrow> 'c heap \<Rightarrow> 'a \<times> 'c heap) \<Rightarrow> 'a option \<Rightarrow> 'c heap \<Rightarrow> 'a option \<times> 'c heap" where
  "new_copy into p h = (case p of None \<Rightarrow> (None, h) | Some x \<Rightarrow> (let (y, h1) = into x h in (Some y, h1)))"

definition val_opt :: "('c heap \<Rightarrow> 'a \<Rightarrow> 'v option) \<Rightarrow> 'c heap \<Rightarrow> 'a option \<Rightarrow> 'v option option" where
  "val_opt v h p = (case p of None \<Rightarrow> Some None | Some x \<Rightarrow> map_option Some (v h x))"

definition own_opt :: "('c heap \<Rightarrow> 'a \<Rightarrow> addr set) \<Rightarrow> 'c heap \<Rightarrow> 'a option \<Rightarrow> addr set" where
  "own_opt ow h p = (case p of None \<Rightarrow> {} | Some x \<Rightarrow> ow h x)"

lemma copier_new:
  assumes "copier v ow c"
  shows "copier (val_opt v) (own_opt ow) (new_copy c)"
proof unfold_locales
  fix h p w assume w: "val_opt v h p = Some w"
  note l = copier.axioms(1) [OF assms]
  show "own_opt ow h p \<subseteq> {..<length h}"
    using w layout.allocated [OF l] by (auto simp: val_opt_def own_opt_def split: option.splits)
  show "val_opt v h' p = Some w \<and> own_opt ow h' p = own_opt ow h p"
    if "\<And>a. a \<in> own_opt ow h p \<Longrightarrow> read h' a = read h a" for h'
    using w that layout.frame [OF l, of h _ _ h'] by (fastforce simp: val_opt_def own_opt_def split: option.splits)
  show "\<exists>y new. new_copy c p h = (y, h @ new) \<and> val_opt v (h @ new) y = Some w \<and>
      own_opt ow (h @ new) y \<subseteq> {length h..<length (h @ new)}"
  proof (cases p)
    case None
    with w show ?thesis by (simp add: new_copy_def val_opt_def own_opt_def)
  next
    case (Some x)
    with w obtain u where u: "v h x = Some u" "w = Some u" by (auto simp: val_opt_def)
    from copier.copies [OF assms u(1)] u(2) Some show ?thesis
      by (force simp: new_copy_def val_opt_def own_opt_def)
  qed
qed

lemmas struct_simps = copy_pair_def Let_def split_beta fun_eq_iff

lemmas copiers = copier_flat copier_pair copier_ref copier_list copier_strmap copier_new

section \<open>Values put into memory\<close>

text \<open>
  A function that lays a value out in new cells, for the values it is for: \<open>ok\<close> says which these
  are.
\<close>

definition builds ::
  "('c heap \<Rightarrow> 'a \<Rightarrow> 'v option) \<Rightarrow> ('v \<Rightarrow> 'c heap \<Rightarrow> 'a \<times> 'c heap) \<Rightarrow> ('v \<Rightarrow> bool) \<Rightarrow> bool" where
  "builds val build ok \<longleftrightarrow>
     (\<forall>w h. ok w \<longrightarrow> (\<exists>x new. build w h = (x, h @ new) \<and> val (h @ new) x = Some w))"

lemma buildsE:
  assumes "builds val build ok" "ok w"
  obtains x new where "build w h = (x, h @ new)" "val (h @ new) x = Some w"
  using assms unfolding builds_def by blast

definition build_flat :: "'v \<Rightarrow> 'c heap \<Rightarrow> 'v \<times> 'c heap" where
  "build_flat w h = (w, h)"

definition build_ref :: "('a \<Rightarrow> 'c) \<Rightarrow> ('v \<Rightarrow> 'c heap \<Rightarrow> 'a \<times> 'c heap) \<Rightarrow> 'v option \<Rightarrow> 'c heap \<Rightarrow> addr option \<times> 'c heap" where
  "build_ref mk build p h =
     (case p of None \<Rightarrow> (None, h) | Some w \<Rightarrow> (let (x, h1) = build w h; (a, h2) = alloc (mk x) h1 in (Some a, h2)))"

fun build_list :: "('v \<Rightarrow> 'c heap \<Rightarrow> 'a \<times> 'c heap) \<Rightarrow> 'v list \<Rightarrow> 'c heap \<Rightarrow> 'a list \<times> 'c heap" where
  "build_list build [] h = ([], h)"
| "build_list build (w # ws) h = (let (x, h1) = build w h; (xs, h2) = build_list build ws h1 in (x # xs, h2))"

lemma builds_flat: "builds val_flat build_flat (\<lambda>_. True)"
  by (simp add: builds_def val_flat_def build_flat_def)

lemma builds_strmap: "builds val_strmap build_flat go_map"
  by (simp add: builds_def val_strmap_def build_flat_def)

lemma builds_ref:
  assumes "layout v ow" "builds v b ok" "\<And>x. get (mk x) = Some x"
  shows "builds (val_ref get v) (build_ref mk b) (\<lambda>p. \<forall>w. p = Some w \<longrightarrow> ok w)"
  unfolding builds_def
proof (intro allI impI)
  fix p and h assume ok: "\<forall>w. p = Some w \<longrightarrow> ok w"
  show "\<exists>x new. build_ref mk b p h = (x, h @ new) \<and> val_ref get v (h @ new) x = Some p"
  proof (cases p)
    case (Some w)
    with ok buildsE [OF assms(2), of w h] obtain x new where x: "b w h = (x, h @ new)" "v (h @ new) x = Some w" by blast
    from layout.extend [OF assms(1) x(2), of "[mk x]"] read_alloc [of "h @ new" "mk x"] x Some assms(3)
    show ?thesis
      by (intro exI [of _ "Some (length (h @ new))"] exI [of _ "new @ [mk x]"])
        (simp add: build_ref_def alloc_def val_ref_def read_as_def)
  qed (simp add: build_ref_def val_ref_def)
qed

lemma builds_list:
  assumes "layout v ow" "builds v b ok"
  shows "builds (val_list v) (build_list b) (\<lambda>ws. \<forall>w\<in>set ws. ok w)"
  unfolding builds_def
proof (intro allI impI)
  show "\<exists>x new. build_list b ws h = (x, h @ new) \<and> val_list v (h @ new) x = Some ws" if "\<forall>w\<in>set ws. ok w" for ws h
    using that
  proof (induction ws arbitrary: h)
    case (Cons w ws)
    with buildsE [OF assms(2), of w h] obtain x n1 where x: "b w h = (x, h @ n1)" "v (h @ n1) x = Some w" by auto
    from Cons obtain xs n2 where xs: "build_list b ws (h @ n1) = (xs, (h @ n1) @ n2)" "val_list v ((h @ n1) @ n2) xs = Some ws"
      by fastforce
    from layout.extend [OF assms(1) x(2), of n2] x xs show ?case
      by (intro exI [of _ "x # xs"] exI [of _ "n1 @ n2"]) simp
  qed simp
qed

end
