(* ===== verification/DeepCopy.thy ===== *)
theory DeepCopy
  imports Memory Config
begin

text \<open>
  The deep copies of the API objects (\<open>src/api/v1alpha1/zz_generated.deepcopy.go\<close>). The rest of
  the development passes objects as values; the code passes pointers, and takes a deep copy of
  an object before it changes it, so that a patch can be computed from the difference
  (\<open>client.MergeFrom(lease.DeepCopy())\<close>). Here objects are laid out in memory: a field that is a
  pointer, slice or map in Go holds an address or nil. Each struct has a value, which is the
  record that the other theories use, and it is shown that the copies are snapshots.

  The deep copies of \<open>ObjectMeta\<close>, \<open>ListMeta\<close>, \<open>LabelSelector\<close> and \<open>JWTAuthenticator\<close> are library
  code: their structs are values of a type parameter, their functions fields of \<open>lib\<close>. The structs
  \<open>Time\<close>, \<open>Duration\<close>, \<open>Condition\<close> and \<open>LocalObjectReference\<close> have no references and are copied by assignment.
\<close>

section \<open>Structs and cells\<close>

record TypeMeta =
  tm_Kind :: string
  tm_APIVersion :: string

record mDevice =
  md_Uuid :: string
  md_ParentUuid :: "addr option"
  md_Labels :: "addr option"

record mClientSpec =
  mcs_Username :: "addr option"

record mClientStatus =
  mct_Credential :: "addr option"
  mct_Endpoint :: string

record 'l mClient =
  mc_TypeMeta :: TypeMeta
  mc_ObjectMeta :: 'l
  mc_Spec :: mClientSpec
  mc_Status :: mClientStatus

record mExporterSpec =
  mes_Username :: "addr option"

record mExporterStatus =
  met_Conditions :: "addr option"
  met_Credential :: "addr option"
  met_Devices :: "addr option"
  met_LeaseRef :: "addr option"
  met_LastSeen :: time
  met_Endpoint :: string

record 'l mExporter =
  me_TypeMeta :: TypeMeta
  me_ObjectMeta :: 'l
  me_Spec :: mExporterSpec
  me_Status :: mExporterStatus

record 'l mFrom =
  mf_ClientSelector :: 'l

record mPolicy =
  mp_Priority :: int
  mp_From :: "addr option"
  mp_MaximumDuration :: "addr option"
  mp_SpotAccess :: bool

record 'l mExporterAccessPolicySpec =
  mps_ExporterSelector :: 'l
  mps_Policies :: "addr option"

text \<open>The status of an access policy is the empty struct.\<close>

record 'l mExporterAccessPolicy =
  mep_TypeMeta :: TypeMeta
  mep_ObjectMeta :: 'l
  mep_Spec :: "'l mExporterAccessPolicySpec"
  mep_Status :: unit

record 'l mLeaseSpec =
  mls_ClientRef :: string
  mls_Duration :: "addr option"
  mls_Selector :: 'l
  mls_Release :: bool
  mls_BeginTime :: "addr option"
  mls_EndTime :: "addr option"

record mLeaseStatus =
  mlt_BeginTime :: "addr option"
  mlt_EndTime :: "addr option"
  mlt_ExporterRef :: "addr option"
  mlt_Ended :: bool
  mlt_Priority :: int
  mlt_SpotAccess :: bool
  mlt_Conditions :: "addr option"

record 'l mLease =
  ml_TypeMeta :: TypeMeta
  ml_ObjectMeta :: 'l
  ml_Spec :: "'l mLeaseSpec"
  ml_Status :: mLeaseStatus

text \<open>A list object; the four kinds differ in their items only.\<close>

record 'l mList =
  mli_TypeMeta :: TypeMeta
  mli_ListMeta :: 'l
  mli_Items :: "addr option"

record mAuthenticationConfiguration =
  mac_TypeMeta :: TypeMeta
  mac_Internal :: string
  mac_JWT :: "addr option"

text \<open>What a cell can hold: the target of a pointer, the entries of a map, the elements of a slice.\<close>

datatype 'l cell =
    CString string
  | CDuration duration
  | CTime time
  | CObjectReference string
  | CLabels strmap
  | CConditions "Condition list"
  | CDevices "mDevice list"
  | CFrom "'l mFrom list"
  | CPolicies "mPolicy list"
  | CJWT "'l list"
  | CClients "'l mClient list"
  | CExporters "'l mExporter list"
  | CExporterAccessPolicies "'l mExporterAccessPolicy list"
  | CLeases "'l mLease list"
  | CLibrary 'l

fun get_String :: "'l cell \<Rightarrow> string option" where
  "get_String (CString s) = Some s" | "get_String _ = None"
fun get_Duration :: "'l cell \<Rightarrow> duration option" where
  "get_Duration (CDuration d) = Some d" | "get_Duration _ = None"
fun get_Time :: "'l cell \<Rightarrow> time option" where
  "get_Time (CTime t) = Some t" | "get_Time _ = None"
fun get_ObjectReference :: "'l cell \<Rightarrow> string option" where
  "get_ObjectReference (CObjectReference r) = Some r" | "get_ObjectReference _ = None"
fun get_Labels :: "'l cell \<Rightarrow> strmap option" where
  "get_Labels (CLabels m) = Some m" | "get_Labels _ = None"
fun get_Conditions :: "'l cell \<Rightarrow> Condition list option" where
  "get_Conditions (CConditions cs) = Some cs" | "get_Conditions _ = None"
fun get_Devices :: "'l cell \<Rightarrow> mDevice list option" where
  "get_Devices (CDevices ds) = Some ds" | "get_Devices _ = None"
fun get_From :: "'l cell \<Rightarrow> 'l mFrom list option" where
  "get_From (CFrom fs) = Some fs" | "get_From _ = None"
fun get_Policies :: "'l cell \<Rightarrow> mPolicy list option" where
  "get_Policies (CPolicies ps) = Some ps" | "get_Policies _ = None"
fun get_JWT :: "'l cell \<Rightarrow> 'l list option" where
  "get_JWT (CJWT js) = Some js" | "get_JWT _ = None"
fun get_Clients :: "'l cell \<Rightarrow> 'l mClient list option" where
  "get_Clients (CClients xs) = Some xs" | "get_Clients _ = None"
fun get_Exporters :: "'l cell \<Rightarrow> 'l mExporter list option" where
  "get_Exporters (CExporters xs) = Some xs" | "get_Exporters _ = None"
fun get_ExporterAccessPolicies :: "'l cell \<Rightarrow> 'l mExporterAccessPolicy list option" where
  "get_ExporterAccessPolicies (CExporterAccessPolicies xs) = Some xs" | "get_ExporterAccessPolicies _ = None"
fun get_Leases :: "'l cell \<Rightarrow> 'l mLease list option" where
  "get_Leases (CLeases xs) = Some xs" | "get_Leases _ = None"

type_synonym ('l, 'a) copy = "'a \<Rightarrow> 'l cell heap \<Rightarrow> 'a \<times> 'l cell heap"

text \<open>The library's deep copies.\<close>

record 'l lib =
  lb_ObjectMeta :: "('l, 'l) copy"
  lb_ListMeta :: "('l, 'l) copy"
  lb_LabelSelector :: "('l, 'l) copy"
  lb_JWTAuthenticator :: "('l, 'l) copy"

section \<open>The copies\<close>

text \<open>Pointers to values without references, maps and slices of such values.\<close>

abbreviation copy_string :: "('l, addr option) copy" where "copy_string \<equiv> copy_ref CString get_String copy_flat"
abbreviation copy_duration :: "('l, addr option) copy" where "copy_duration \<equiv> copy_ref CDuration get_Duration copy_flat"
abbreviation copy_time :: "('l, addr option) copy" where "copy_time \<equiv> copy_ref CTime get_Time copy_flat"
abbreviation copy_objref :: "('l, addr option) copy" where
  "copy_objref \<equiv> copy_ref CObjectReference get_ObjectReference copy_flat"
abbreviation copy_labels :: "('l, addr option) copy" where "copy_labels \<equiv> copy_ref CLabels get_Labels copy_strmap"
abbreviation copy_conditions :: "('l, addr option) copy" where
  "copy_conditions \<equiv> copy_ref CConditions get_Conditions (copy_list copy_flat)"

definition AuthenticationConfiguration_DeepCopyInto :: "'l lib \<Rightarrow> ('l, mAuthenticationConfiguration) copy" where
  "AuthenticationConfiguration_DeepCopyInto lb src h =
     (let (jwt, h) = copy_ref CJWT get_JWT (copy_list (lb_JWTAuthenticator lb)) (mac_JWT src) h
      in (src\<lparr>mac_TypeMeta := mac_TypeMeta src, mac_Internal := mac_Internal src, mac_JWT := jwt\<rparr>, h))"

definition ClientSpec_DeepCopyInto :: "('l, mClientSpec) copy" where
  "ClientSpec_DeepCopyInto src h =
     (let (username, h) = copy_string (mcs_Username src) h in (src\<lparr>mcs_Username := username\<rparr>, h))"

definition ClientStatus_DeepCopyInto :: "('l, mClientStatus) copy" where
  "ClientStatus_DeepCopyInto src h =
     (let (credential, h) = copy_objref (mct_Credential src) h in (src\<lparr>mct_Credential := credential\<rparr>, h))"

definition Client_DeepCopyInto :: "'l lib \<Rightarrow> ('l, 'l mClient) copy" where
  "Client_DeepCopyInto lb src h =
     (let (meta, h) = lb_ObjectMeta lb (mc_ObjectMeta src) h;
          (spec, h) = ClientSpec_DeepCopyInto (mc_Spec src) h;
          (status, h) = ClientStatus_DeepCopyInto (mc_Status src) h
      in (src\<lparr>mc_TypeMeta := mc_TypeMeta src, mc_ObjectMeta := meta, mc_Spec := spec, mc_Status := status\<rparr>, h))"

definition Device_DeepCopyInto :: "('l, mDevice) copy" where
  "Device_DeepCopyInto src h =
     (let (parent, h) = copy_string (md_ParentUuid src) h;
          (labels, h) = copy_labels (md_Labels src) h
      in (src\<lparr>md_ParentUuid := parent, md_Labels := labels\<rparr>, h))"

definition ExporterSpec_DeepCopyInto :: "('l, mExporterSpec) copy" where
  "ExporterSpec_DeepCopyInto src h =
     (let (username, h) = copy_string (mes_Username src) h in (src\<lparr>mes_Username := username\<rparr>, h))"

definition ExporterStatus_DeepCopyInto :: "('l, mExporterStatus) copy" where
  "ExporterStatus_DeepCopyInto src h =
     (let (conditions, h) = copy_conditions (met_Conditions src) h;
          (credential, h) = copy_objref (met_Credential src) h;
          (devices, h) = copy_ref CDevices get_Devices (copy_list Device_DeepCopyInto) (met_Devices src) h;
          (leaseRef, h) = copy_objref (met_LeaseRef src) h
      in (src\<lparr>met_Conditions := conditions, met_Credential := credential, met_Devices := devices,
            met_LeaseRef := leaseRef, met_LastSeen := met_LastSeen src\<rparr>, h))"

definition Exporter_DeepCopyInto :: "'l lib \<Rightarrow> ('l, 'l mExporter) copy" where
  "Exporter_DeepCopyInto lb src h =
     (let (meta, h) = lb_ObjectMeta lb (me_ObjectMeta src) h;
          (spec, h) = ExporterSpec_DeepCopyInto (me_Spec src) h;
          (status, h) = ExporterStatus_DeepCopyInto (me_Status src) h
      in (src\<lparr>me_TypeMeta := me_TypeMeta src, me_ObjectMeta := meta, me_Spec := spec, me_Status := status\<rparr>, h))"

definition From_DeepCopyInto :: "'l lib \<Rightarrow> ('l, 'l mFrom) copy" where
  "From_DeepCopyInto lb src h =
     (let (sel, h) = lb_LabelSelector lb (mf_ClientSelector src) h in (src\<lparr>mf_ClientSelector := sel\<rparr>, h))"

definition Policy_DeepCopyInto :: "'l lib \<Rightarrow> ('l, mPolicy) copy" where
  "Policy_DeepCopyInto lb src h =
     (let (frm, h) = copy_ref CFrom get_From (copy_list (From_DeepCopyInto lb)) (mp_From src) h;
          (maximum, h) = copy_duration (mp_MaximumDuration src) h
      in (src\<lparr>mp_From := frm, mp_MaximumDuration := maximum\<rparr>, h))"

definition ExporterAccessPolicySpec_DeepCopyInto :: "'l lib \<Rightarrow> ('l, 'l mExporterAccessPolicySpec) copy" where
  "ExporterAccessPolicySpec_DeepCopyInto lb src h =
     (let (sel, h) = lb_LabelSelector lb (mps_ExporterSelector src) h;
          (policies, h) = copy_ref CPolicies get_Policies (copy_list (Policy_DeepCopyInto lb)) (mps_Policies src) h
      in (src\<lparr>mps_ExporterSelector := sel, mps_Policies := policies\<rparr>, h))"

definition ExporterAccessPolicyStatus_DeepCopyInto :: "('l, unit) copy" where
  "ExporterAccessPolicyStatus_DeepCopyInto src h = (src, h)"

definition ExporterAccessPolicy_DeepCopyInto :: "'l lib \<Rightarrow> ('l, 'l mExporterAccessPolicy) copy" where
  "ExporterAccessPolicy_DeepCopyInto lb src h =
     (let (meta, h) = lb_ObjectMeta lb (mep_ObjectMeta src) h;
          (spec, h) = ExporterAccessPolicySpec_DeepCopyInto lb (mep_Spec src) h
      in (src\<lparr>mep_TypeMeta := mep_TypeMeta src, mep_ObjectMeta := meta, mep_Spec := spec, mep_Status := mep_Status src\<rparr>, h))"

definition Internal_DeepCopyInto :: "('l, string) copy" where
  "Internal_DeepCopyInto src h = (src, h)"

definition LeaseSpec_DeepCopyInto :: "'l lib \<Rightarrow> ('l, 'l mLeaseSpec) copy" where
  "LeaseSpec_DeepCopyInto lb src h =
     (let (dur, h) = copy_duration (mls_Duration src) h;
          (sel, h) = lb_LabelSelector lb (mls_Selector src) h;
          (beginTime, h) = copy_time (mls_BeginTime src) h;
          (endTime, h) = copy_time (mls_EndTime src) h
      in (src\<lparr>mls_ClientRef := mls_ClientRef src, mls_Duration := dur, mls_Selector := sel,
            mls_BeginTime := beginTime, mls_EndTime := endTime\<rparr>, h))"

definition LeaseStatus_DeepCopyInto :: "('l, mLeaseStatus) copy" where
  "LeaseStatus_DeepCopyInto src h =
     (let (beginTime, h) = copy_time (mlt_BeginTime src) h;
          (endTime, h) = copy_time (mlt_EndTime src) h;
          (exporterRef, h) = copy_objref (mlt_ExporterRef src) h;
          (conditions, h) = copy_conditions (mlt_Conditions src) h
      in (src\<lparr>mlt_BeginTime := beginTime, mlt_EndTime := endTime, mlt_ExporterRef := exporterRef,
            mlt_Conditions := conditions\<rparr>, h))"

definition Lease_DeepCopyInto :: "'l lib \<Rightarrow> ('l, 'l mLease) copy" where
  "Lease_DeepCopyInto lb src h =
     (let (meta, h) = lb_ObjectMeta lb (ml_ObjectMeta src) h;
          (spec, h) = LeaseSpec_DeepCopyInto lb (ml_Spec src) h;
          (status, h) = LeaseStatus_DeepCopyInto (ml_Status src) h
      in (src\<lparr>ml_TypeMeta := ml_TypeMeta src, ml_ObjectMeta := meta, ml_Spec := spec, ml_Status := status\<rparr>, h))"

text \<open>The lists: type and list metadata, then the items one by one.\<close>

definition copy_items :: "'l lib \<Rightarrow> ('l, addr option) copy \<Rightarrow> ('l, 'l mList) copy" where
  "copy_items lb items src h =
     (let (meta, h) = lb_ListMeta lb (mli_ListMeta src) h;
          (xs, h) = items (mli_Items src) h
      in (src\<lparr>mli_TypeMeta := mli_TypeMeta src, mli_ListMeta := meta, mli_Items := xs\<rparr>, h))"

definition ClientList_DeepCopyInto :: "'l lib \<Rightarrow> ('l, 'l mList) copy" where
  "ClientList_DeepCopyInto lb = copy_items lb (copy_ref CClients get_Clients (copy_list (Client_DeepCopyInto lb)))"

definition ExporterList_DeepCopyInto :: "'l lib \<Rightarrow> ('l, 'l mList) copy" where
  "ExporterList_DeepCopyInto lb = copy_items lb (copy_ref CExporters get_Exporters (copy_list (Exporter_DeepCopyInto lb)))"

definition ExporterAccessPolicyList_DeepCopyInto :: "'l lib \<Rightarrow> ('l, 'l mList) copy" where
  "ExporterAccessPolicyList_DeepCopyInto lb =
     copy_items lb (copy_ref CExporterAccessPolicies get_ExporterAccessPolicies (copy_list (ExporterAccessPolicy_DeepCopyInto lb)))"

definition LeaseList_DeepCopyInto :: "'l lib \<Rightarrow> ('l, 'l mList) copy" where
  "LeaseList_DeepCopyInto lb = copy_items lb (copy_ref CLeases get_Leases (copy_list (Lease_DeepCopyInto lb)))"

text \<open>\<open>DeepCopy\<close> of each struct.\<close>

definition AuthenticationConfiguration_DeepCopy :: "'l lib \<Rightarrow> ('l, mAuthenticationConfiguration option) copy" where
  "AuthenticationConfiguration_DeepCopy lb = new_copy (AuthenticationConfiguration_DeepCopyInto lb)"

definition Client_DeepCopy :: "'l lib \<Rightarrow> ('l, 'l mClient option) copy" where
  "Client_DeepCopy lb = new_copy (Client_DeepCopyInto lb)"

definition ClientList_DeepCopy :: "'l lib \<Rightarrow> ('l, 'l mList option) copy" where
  "ClientList_DeepCopy lb = new_copy (ClientList_DeepCopyInto lb)"

definition ClientSpec_DeepCopy :: "('l, mClientSpec option) copy" where
  "ClientSpec_DeepCopy = new_copy ClientSpec_DeepCopyInto"

definition ClientStatus_DeepCopy :: "('l, mClientStatus option) copy" where
  "ClientStatus_DeepCopy = new_copy ClientStatus_DeepCopyInto"

definition Device_DeepCopy :: "('l, mDevice option) copy" where
  "Device_DeepCopy = new_copy Device_DeepCopyInto"

definition Exporter_DeepCopy :: "'l lib \<Rightarrow> ('l, 'l mExporter option) copy" where
  "Exporter_DeepCopy lb = new_copy (Exporter_DeepCopyInto lb)"

definition ExporterAccessPolicy_DeepCopy :: "'l lib \<Rightarrow> ('l, 'l mExporterAccessPolicy option) copy" where
  "ExporterAccessPolicy_DeepCopy lb = new_copy (ExporterAccessPolicy_DeepCopyInto lb)"

definition ExporterAccessPolicyList_DeepCopy :: "'l lib \<Rightarrow> ('l, 'l mList option) copy" where
  "ExporterAccessPolicyList_DeepCopy lb = new_copy (ExporterAccessPolicyList_DeepCopyInto lb)"

definition ExporterAccessPolicySpec_DeepCopy :: "'l lib \<Rightarrow> ('l, 'l mExporterAccessPolicySpec option) copy" where
  "ExporterAccessPolicySpec_DeepCopy lb = new_copy (ExporterAccessPolicySpec_DeepCopyInto lb)"

definition ExporterAccessPolicyStatus_DeepCopy :: "('l, unit option) copy" where
  "ExporterAccessPolicyStatus_DeepCopy = new_copy ExporterAccessPolicyStatus_DeepCopyInto"

definition ExporterList_DeepCopy :: "'l lib \<Rightarrow> ('l, 'l mList option) copy" where
  "ExporterList_DeepCopy lb = new_copy (ExporterList_DeepCopyInto lb)"

definition ExporterSpec_DeepCopy :: "('l, mExporterSpec option) copy" where
  "ExporterSpec_DeepCopy = new_copy ExporterSpec_DeepCopyInto"

definition ExporterStatus_DeepCopy :: "('l, mExporterStatus option) copy" where
  "ExporterStatus_DeepCopy = new_copy ExporterStatus_DeepCopyInto"

definition From_DeepCopy :: "'l lib \<Rightarrow> ('l, 'l mFrom option) copy" where
  "From_DeepCopy lb = new_copy (From_DeepCopyInto lb)"

definition Internal_DeepCopy :: "('l, string option) copy" where
  "Internal_DeepCopy = new_copy Internal_DeepCopyInto"

definition Lease_DeepCopy :: "'l lib \<Rightarrow> ('l, 'l mLease option) copy" where
  "Lease_DeepCopy lb = new_copy (Lease_DeepCopyInto lb)"

definition LeaseList_DeepCopy :: "'l lib \<Rightarrow> ('l, 'l mList option) copy" where
  "LeaseList_DeepCopy lb = new_copy (LeaseList_DeepCopyInto lb)"

definition LeaseSpec_DeepCopy :: "'l lib \<Rightarrow> ('l, 'l mLeaseSpec option) copy" where
  "LeaseSpec_DeepCopy lb = new_copy (LeaseSpec_DeepCopyInto lb)"

definition LeaseStatus_DeepCopy :: "('l, mLeaseStatus option) copy" where
  "LeaseStatus_DeepCopy = new_copy LeaseStatus_DeepCopyInto"

definition Policy_DeepCopy :: "'l lib \<Rightarrow> ('l, mPolicy option) copy" where
  "Policy_DeepCopy lb = new_copy (Policy_DeepCopyInto lb)"

text \<open>\<open>DeepCopyObject\<close>: the copy as a \<open>runtime.Object\<close>, nil when there is nothing to copy.\<close>

datatype 'l Object =
    OAuthenticationConfiguration mAuthenticationConfiguration
  | OClient "'l mClient"
  | OClientList "'l mList"
  | OExporter "'l mExporter"
  | OExporterAccessPolicy "'l mExporterAccessPolicy"
  | OExporterAccessPolicyList "'l mList"
  | OExporterList "'l mList"
  | OLease "'l mLease"
  | OLeaseList "'l mList"

definition as_Object :: "('a \<Rightarrow> 'l Object) \<Rightarrow> 'a option \<times> 'l cell heap \<Rightarrow> 'l Object option \<times> 'l cell heap" where
  "as_Object obj r = (case r of (Some c, h) \<Rightarrow> (Some (obj c), h) | (None, h) \<Rightarrow> (None, h))"

definition AuthenticationConfiguration_DeepCopyObject ::
  "'l lib \<Rightarrow> mAuthenticationConfiguration option \<Rightarrow> 'l cell heap \<Rightarrow> 'l Object option \<times> 'l cell heap" where
  "AuthenticationConfiguration_DeepCopyObject lb src h = as_Object OAuthenticationConfiguration (AuthenticationConfiguration_DeepCopy lb src h)"

definition Client_DeepCopyObject ::
  "'l lib \<Rightarrow> 'l mClient option \<Rightarrow> 'l cell heap \<Rightarrow> 'l Object option \<times> 'l cell heap" where
  "Client_DeepCopyObject lb src h = as_Object OClient (Client_DeepCopy lb src h)"

definition ClientList_DeepCopyObject ::
  "'l lib \<Rightarrow> 'l mList option \<Rightarrow> 'l cell heap \<Rightarrow> 'l Object option \<times> 'l cell heap" where
  "ClientList_DeepCopyObject lb src h = as_Object OClientList (ClientList_DeepCopy lb src h)"

definition Exporter_DeepCopyObject ::
  "'l lib \<Rightarrow> 'l mExporter option \<Rightarrow> 'l cell heap \<Rightarrow> 'l Object option \<times> 'l cell heap" where
  "Exporter_DeepCopyObject lb src h = as_Object OExporter (Exporter_DeepCopy lb src h)"

definition ExporterAccessPolicy_DeepCopyObject ::
  "'l lib \<Rightarrow> 'l mExporterAccessPolicy option \<Rightarrow> 'l cell heap \<Rightarrow> 'l Object option \<times> 'l cell heap" where
  "ExporterAccessPolicy_DeepCopyObject lb src h = as_Object OExporterAccessPolicy (ExporterAccessPolicy_DeepCopy lb src h)"

definition ExporterAccessPolicyList_DeepCopyObject ::
  "'l lib \<Rightarrow> 'l mList option \<Rightarrow> 'l cell heap \<Rightarrow> 'l Object option \<times> 'l cell heap" where
  "ExporterAccessPolicyList_DeepCopyObject lb src h = as_Object OExporterAccessPolicyList (ExporterAccessPolicyList_DeepCopy lb src h)"

definition ExporterList_DeepCopyObject ::
  "'l lib \<Rightarrow> 'l mList option \<Rightarrow> 'l cell heap \<Rightarrow> 'l Object option \<times> 'l cell heap" where
  "ExporterList_DeepCopyObject lb src h = as_Object OExporterList (ExporterList_DeepCopy lb src h)"

definition Lease_DeepCopyObject ::
  "'l lib \<Rightarrow> 'l mLease option \<Rightarrow> 'l cell heap \<Rightarrow> 'l Object option \<times> 'l cell heap" where
  "Lease_DeepCopyObject lb src h = as_Object OLease (Lease_DeepCopy lb src h)"

definition LeaseList_DeepCopyObject ::
  "'l lib \<Rightarrow> 'l mList option \<Rightarrow> 'l cell heap \<Rightarrow> 'l Object option \<times> 'l cell heap" where
  "LeaseList_DeepCopyObject lb src h = as_Object OLeaseList (LeaseList_DeepCopy lb src h)"

section \<open>Values\<close>

text \<open>What the library's structs stand for, and what they are made of.\<close>

record ('l, 'm) libview =
  lv_ObjectMeta :: "'l cell heap \<Rightarrow> 'l \<Rightarrow> ObjectMeta option"
  lo_ObjectMeta :: "'l cell heap \<Rightarrow> 'l \<Rightarrow> addr set"
  lv_ListMeta :: "'l cell heap \<Rightarrow> 'l \<Rightarrow> 'm option"
  lo_ListMeta :: "'l cell heap \<Rightarrow> 'l \<Rightarrow> addr set"
  lv_LabelSelector :: "'l cell heap \<Rightarrow> 'l \<Rightarrow> LabelSelector option"
  lo_LabelSelector :: "'l cell heap \<Rightarrow> 'l \<Rightarrow> addr set"
  lv_JWTAuthenticator :: "'l cell heap \<Rightarrow> 'l \<Rightarrow> JWTAuthenticator option"
  lo_JWTAuthenticator :: "'l cell heap \<Rightarrow> 'l \<Rightarrow> addr set"

text \<open>The library's functions make deep copies of the library's structs.\<close>

definition lib_ok :: "'l lib \<Rightarrow> ('l, 'm) libview \<Rightarrow> bool" where
  "lib_ok lb lv \<longleftrightarrow>
     copier (lv_ObjectMeta lv) (lo_ObjectMeta lv) (lb_ObjectMeta lb) \<and>
     copier (lv_ListMeta lv) (lo_ListMeta lv) (lb_ListMeta lb) \<and>
     copier (lv_LabelSelector lv) (lo_LabelSelector lv) (lb_LabelSelector lb) \<and>
     copier (lv_JWTAuthenticator lv) (lo_JWTAuthenticator lv) (lb_JWTAuthenticator lb)"

lemma lib_okD:
  assumes "lib_ok lb lv"
  shows "copier (lv_ObjectMeta lv) (lo_ObjectMeta lv) (lb_ObjectMeta lb)"
    "copier (lv_ListMeta lv) (lo_ListMeta lv) (lb_ListMeta lb)"
    "copier (lv_LabelSelector lv) (lo_LabelSelector lv) (lb_LabelSelector lb)"
    "copier (lv_JWTAuthenticator lv) (lo_JWTAuthenticator lv) (lb_JWTAuthenticator lb)"
  using assms by (simp_all add: lib_ok_def)

type_synonym ('l, 'a, 'v) val = "'l cell heap \<Rightarrow> 'a \<Rightarrow> 'v option"
type_synonym ('l, 'a) own = "'l cell heap \<Rightarrow> 'a \<Rightarrow> addr set"


abbreviation val_string :: "('l, addr option, string option) val" where "val_string \<equiv> val_ref get_String val_flat"
abbreviation own_string :: "('l, addr option) own" where "own_string \<equiv> own_ref get_String own_flat"

abbreviation val_duration :: "('l, addr option, duration option) val" where "val_duration \<equiv> val_ref get_Duration val_flat"
abbreviation own_duration :: "('l, addr option) own" where "own_duration \<equiv> own_ref get_Duration own_flat"

abbreviation val_time :: "('l, addr option, time option) val" where "val_time \<equiv> val_ref get_Time val_flat"
abbreviation own_time :: "('l, addr option) own" where "own_time \<equiv> own_ref get_Time own_flat"

abbreviation val_objref :: "('l, addr option, string option) val" where "val_objref \<equiv> val_ref get_ObjectReference val_flat"
abbreviation own_objref :: "('l, addr option) own" where "own_objref \<equiv> own_ref get_ObjectReference own_flat"

abbreviation val_labels :: "('l, addr option, strmap option) val" where "val_labels \<equiv> val_ref get_Labels val_strmap"
abbreviation own_labels :: "('l, addr option) own" where "own_labels \<equiv> own_ref get_Labels own_flat"

abbreviation val_conditions :: "('l, addr option, Condition list option) val" where
  "val_conditions \<equiv> val_ref get_Conditions (val_list val_flat)"
abbreviation own_conditions :: "('l, addr option) own" where "own_conditions \<equiv> own_ref get_Conditions (own_list own_flat)"

lemma field_copiers:
  "copier val_string own_string copy_string" "copier val_duration own_duration copy_duration"
  "copier val_time own_time copy_time" "copier val_objref own_objref copy_objref"
  "copier val_labels own_labels copy_labels" "copier val_conditions own_conditions copy_conditions"
  by (rule copier_ref; simp add: copiers)+

definition val_ClientSpec :: "('l, mClientSpec, ClientSpec) val" where
  "val_ClientSpec h x =
     map_option (\<lambda>u. \<lparr>csp_Username = u\<rparr>)
       (val_string h (mcs_Username x))"

definition own_ClientSpec :: "('l, mClientSpec) own" where
  "own_ClientSpec h x =
     own_string h (mcs_Username x)"

lemma ClientSpec_copier:
  "copier val_ClientSpec own_ClientSpec ClientSpec_DeepCopyInto"
  by (rule copier_struct [where get = "\<lambda>x. mcs_Username x"
        and put = "\<lambda>x u. x\<lparr>mcs_Username := u\<rparr>",
        OF field_copiers(1)])
    (auto simp: val_ClientSpec_def own_ClientSpec_def ClientSpec_DeepCopyInto_def struct_simps)

definition val_ClientStatus :: "('l, mClientStatus, ClientStatus) val" where
  "val_ClientStatus h x =
     map_option (\<lambda>c. \<lparr>cst_Credential = c, cst_Endpoint = mct_Endpoint x\<rparr>)
       (val_objref h (mct_Credential x))"

definition own_ClientStatus :: "('l, mClientStatus) own" where
  "own_ClientStatus h x =
     own_objref h (mct_Credential x)"

lemma ClientStatus_copier:
  "copier val_ClientStatus own_ClientStatus ClientStatus_DeepCopyInto"
  by (rule copier_struct [where get = "\<lambda>x. mct_Credential x"
        and put = "\<lambda>x c. x\<lparr>mct_Credential := c\<rparr>",
        OF field_copiers(4)])
    (auto simp: val_ClientStatus_def own_ClientStatus_def ClientStatus_DeepCopyInto_def struct_simps)

definition val_Client :: "('l, 'm) libview \<Rightarrow> ('l, 'l mClient, TypeMeta \<times> Client) val" where
  "val_Client lv h x =
     map_option (\<lambda>(m, s, t). (mc_TypeMeta x, \<lparr>cl_Meta = m, cl_Spec = s, cl_Status = t\<rparr>))
       (val_pair (lv_ObjectMeta lv) (val_pair val_ClientSpec val_ClientStatus)
         h (mc_ObjectMeta x, mc_Spec x, mc_Status x))"

definition own_Client :: "('l, 'm) libview \<Rightarrow> ('l, 'l mClient) own" where
  "own_Client lv h x =
     own_pair (lo_ObjectMeta lv) (own_pair own_ClientSpec own_ClientStatus) h (mc_ObjectMeta x, mc_Spec x, mc_Status x)"

lemma Client_copier:
  assumes "lib_ok lb lv"
  shows "copier (val_Client lv) (own_Client lv) (Client_DeepCopyInto lb)"
  by (rule copier_struct [where get = "\<lambda>x. (mc_ObjectMeta x, mc_Spec x, mc_Status x)"
        and put = "\<lambda>x (m, s, t). x\<lparr>mc_ObjectMeta := m, mc_Spec := s, mc_Status := t\<rparr>",
        OF copier_pair [OF lib_okD(1) [OF assms] copier_pair [OF ClientSpec_copier ClientStatus_copier]]])
    (auto simp: val_Client_def own_Client_def Client_DeepCopyInto_def struct_simps)

definition val_Device :: "('l, mDevice, Device) val" where
  "val_Device h x =
     map_option (\<lambda>(p, l). \<lparr>d_Uuid = md_Uuid x, d_ParentUuid = p, d_Labels = nil_list l\<rparr>)
       (val_pair val_string val_labels h (md_ParentUuid x, md_Labels x))"

definition own_Device :: "('l, mDevice) own" where
  "own_Device h x =
     own_pair own_string own_labels h (md_ParentUuid x, md_Labels x)"

lemma Device_copier:
  "copier val_Device own_Device Device_DeepCopyInto"
  by (rule copier_struct [where get = "\<lambda>x. (md_ParentUuid x, md_Labels x)"
        and put = "\<lambda>x (p, l). x\<lparr>md_ParentUuid := p, md_Labels := l\<rparr>",
        OF copier_pair [OF field_copiers(1) field_copiers(5)]])
    (auto simp: val_Device_def own_Device_def Device_DeepCopyInto_def struct_simps)

definition val_ExporterSpec :: "('l, mExporterSpec, ExporterSpec) val" where
  "val_ExporterSpec h x =
     map_option (\<lambda>u. \<lparr>esp_Username = u\<rparr>)
       (val_string h (mes_Username x))"

definition own_ExporterSpec :: "('l, mExporterSpec) own" where
  "own_ExporterSpec h x =
     own_string h (mes_Username x)"

lemma ExporterSpec_copier:
  "copier val_ExporterSpec own_ExporterSpec ExporterSpec_DeepCopyInto"
  by (rule copier_struct [where get = "\<lambda>x. mes_Username x"
        and put = "\<lambda>x u. x\<lparr>mes_Username := u\<rparr>",
        OF field_copiers(1)])
    (auto simp: val_ExporterSpec_def own_ExporterSpec_def ExporterSpec_DeepCopyInto_def struct_simps)

definition val_ExporterStatus :: "('l, mExporterStatus, ExporterStatus) val" where
  "val_ExporterStatus h x =
     map_option (\<lambda>(c, r, d, l). \<lparr>es_Conditions = nil_list c, es_Credential = r, es_Devices = d, es_LeaseRef = l,
         es_LastSeen = met_LastSeen x, es_Endpoint = met_Endpoint x\<rparr>)
       (val_pair val_conditions (val_pair val_objref (val_pair (val_ref get_Devices (val_list val_Device)) val_objref))
         h (met_Conditions x, met_Credential x, met_Devices x, met_LeaseRef x))"

definition own_ExporterStatus :: "('l, mExporterStatus) own" where
  "own_ExporterStatus h x =
     own_pair own_conditions (own_pair own_objref (own_pair (own_ref get_Devices (own_list own_Device)) own_objref))
       h (met_Conditions x, met_Credential x, met_Devices x, met_LeaseRef x)"

lemma ExporterStatus_copier:
  "copier val_ExporterStatus own_ExporterStatus ExporterStatus_DeepCopyInto"
  by (rule copier_struct [where get = "\<lambda>x. (met_Conditions x, met_Credential x, met_Devices x, met_LeaseRef x)"
        and put = "\<lambda>x (c, r, d, l). x\<lparr>met_Conditions := c, met_Credential := r, met_Devices := d, met_LeaseRef := l\<rparr>",
        OF
          copier_pair [OF field_copiers(6)
          copier_pair [OF field_copiers(4)
          copier_pair [OF copier_ref [OF copier_list [OF Device_copier] get_Devices.simps(1)] field_copiers(4)]]]])
    (auto simp: val_ExporterStatus_def own_ExporterStatus_def ExporterStatus_DeepCopyInto_def struct_simps)

definition val_Exporter :: "('l, 'm) libview \<Rightarrow> ('l, 'l mExporter, TypeMeta \<times> Exporter) val" where
  "val_Exporter lv h x =
     map_option (\<lambda>(m, s, t). (me_TypeMeta x, \<lparr>e_Meta = m, e_Spec = s, e_Status = t\<rparr>))
       (val_pair (lv_ObjectMeta lv) (val_pair val_ExporterSpec val_ExporterStatus)
         h (me_ObjectMeta x, me_Spec x, me_Status x))"

definition own_Exporter :: "('l, 'm) libview \<Rightarrow> ('l, 'l mExporter) own" where
  "own_Exporter lv h x =
     own_pair (lo_ObjectMeta lv) (own_pair own_ExporterSpec own_ExporterStatus)
       h (me_ObjectMeta x, me_Spec x, me_Status x)"

lemma Exporter_copier:
  assumes "lib_ok lb lv"
  shows "copier (val_Exporter lv) (own_Exporter lv) (Exporter_DeepCopyInto lb)"
  by (rule copier_struct [where get = "\<lambda>x. (me_ObjectMeta x, me_Spec x, me_Status x)"
        and put = "\<lambda>x (m, s, t). x\<lparr>me_ObjectMeta := m, me_Spec := s, me_Status := t\<rparr>",
        OF copier_pair [OF lib_okD(1) [OF assms] copier_pair [OF ExporterSpec_copier ExporterStatus_copier]]])
    (auto simp: val_Exporter_def own_Exporter_def Exporter_DeepCopyInto_def struct_simps)

definition val_From :: "('l, 'm) libview \<Rightarrow> ('l, 'l mFrom, From) val" where
  "val_From lv h x =
     map_option (\<lambda>s. \<lparr>from_ClientSelector = s\<rparr>)
       (lv_LabelSelector lv h (mf_ClientSelector x))"

definition own_From :: "('l, 'm) libview \<Rightarrow> ('l, 'l mFrom) own" where
  "own_From lv h x =
     lo_LabelSelector lv h (mf_ClientSelector x)"

lemma From_copier:
  assumes "lib_ok lb lv"
  shows "copier (val_From lv) (own_From lv) (From_DeepCopyInto lb)"
  by (rule copier_struct [where get = "\<lambda>x. mf_ClientSelector x"
        and put = "\<lambda>x s. x\<lparr>mf_ClientSelector := s\<rparr>",
        OF lib_okD(3) [OF assms]])
    (auto simp: val_From_def own_From_def From_DeepCopyInto_def struct_simps)

definition val_Policy :: "('l, 'm) libview \<Rightarrow> ('l, mPolicy, Policy) val" where
  "val_Policy lv h x =
     map_option (\<lambda>(f, d). \<lparr>p_Priority = mp_Priority x, p_From = nil_list f, p_MaximumDuration = d, p_SpotAccess = mp_SpotAccess x\<rparr>)
       (val_pair (val_ref get_From (val_list (val_From lv))) val_duration h (mp_From x, mp_MaximumDuration x))"

definition own_Policy :: "('l, 'm) libview \<Rightarrow> ('l, mPolicy) own" where
  "own_Policy lv h x =
     own_pair (own_ref get_From (own_list (own_From lv))) own_duration h (mp_From x, mp_MaximumDuration x)"

lemma Policy_copier:
  assumes "lib_ok lb lv"
  shows "copier (val_Policy lv) (own_Policy lv) (Policy_DeepCopyInto lb)"
  by (rule copier_struct [where get = "\<lambda>x. (mp_From x, mp_MaximumDuration x)"
        and put = "\<lambda>x (f, d). x\<lparr>mp_From := f, mp_MaximumDuration := d\<rparr>",
        OF copier_pair [OF copier_ref [OF copier_list [OF From_copier [OF assms]] get_From.simps(1)] field_copiers(2)]])
    (auto simp: val_Policy_def own_Policy_def Policy_DeepCopyInto_def struct_simps)

definition val_ExporterAccessPolicySpec :: "('l, 'm) libview \<Rightarrow> ('l, 'l mExporterAccessPolicySpec, ExporterAccessPolicySpec) val" where
  "val_ExporterAccessPolicySpec lv h x =
     map_option (\<lambda>(s, p). \<lparr>eps_ExporterSelector = s, eps_Policies = nil_list p\<rparr>)
       (val_pair (lv_LabelSelector lv) (val_ref get_Policies (val_list (val_Policy lv)))
         h (mps_ExporterSelector x, mps_Policies x))"

definition own_ExporterAccessPolicySpec :: "('l, 'm) libview \<Rightarrow> ('l, 'l mExporterAccessPolicySpec) own" where
  "own_ExporterAccessPolicySpec lv h x =
     own_pair (lo_LabelSelector lv) (own_ref get_Policies (own_list (own_Policy lv)))
       h (mps_ExporterSelector x, mps_Policies x)"

lemma ExporterAccessPolicySpec_copier:
  assumes "lib_ok lb lv"
  shows "copier (val_ExporterAccessPolicySpec lv) (own_ExporterAccessPolicySpec lv) (ExporterAccessPolicySpec_DeepCopyInto lb)"
  by (rule copier_struct [where get = "\<lambda>x. (mps_ExporterSelector x, mps_Policies x)"
        and put = "\<lambda>x (s, p). x\<lparr>mps_ExporterSelector := s, mps_Policies := p\<rparr>",
        OF
          copier_pair [OF lib_okD(3) [OF assms] copier_ref [OF copier_list [OF Policy_copier [OF assms]] get_Policies.simps(1)]]])
    (auto simp: val_ExporterAccessPolicySpec_def own_ExporterAccessPolicySpec_def ExporterAccessPolicySpec_DeepCopyInto_def struct_simps)

definition val_ExporterAccessPolicy :: "('l, 'm) libview \<Rightarrow> ('l, 'l mExporterAccessPolicy, TypeMeta \<times> ExporterAccessPolicy) val" where
  "val_ExporterAccessPolicy lv h x =
     map_option (\<lambda>(m, s). (mep_TypeMeta x, \<lparr>ep_Meta = m, ep_Spec = s\<rparr>))
       (val_pair (lv_ObjectMeta lv) (val_ExporterAccessPolicySpec lv) h (mep_ObjectMeta x, mep_Spec x))"

definition own_ExporterAccessPolicy :: "('l, 'm) libview \<Rightarrow> ('l, 'l mExporterAccessPolicy) own" where
  "own_ExporterAccessPolicy lv h x =
     own_pair (lo_ObjectMeta lv) (own_ExporterAccessPolicySpec lv) h (mep_ObjectMeta x, mep_Spec x)"

lemma ExporterAccessPolicy_copier:
  assumes "lib_ok lb lv"
  shows "copier (val_ExporterAccessPolicy lv) (own_ExporterAccessPolicy lv) (ExporterAccessPolicy_DeepCopyInto lb)"
  by (rule copier_struct [where get = "\<lambda>x. (mep_ObjectMeta x, mep_Spec x)"
        and put = "\<lambda>x (m, s). x\<lparr>mep_ObjectMeta := m, mep_Spec := s\<rparr>",
        OF copier_pair [OF lib_okD(1) [OF assms] ExporterAccessPolicySpec_copier [OF assms]]])
    (auto simp: val_ExporterAccessPolicy_def own_ExporterAccessPolicy_def ExporterAccessPolicy_DeepCopyInto_def struct_simps)

definition val_LeaseSpec :: "('l, 'm) libview \<Rightarrow> ('l, 'l mLeaseSpec, LeaseSpec) val" where
  "val_LeaseSpec lv h x =
     map_option (\<lambda>(d, s, b, e). \<lparr>sp_ClientRef = mls_ClientRef x, sp_Duration = d, sp_Selector = s, sp_Release = mls_Release x,
         sp_BeginTime = b, sp_EndTime = e\<rparr>)
       (val_pair val_duration (val_pair (lv_LabelSelector lv) (val_pair val_time val_time))
         h (mls_Duration x, mls_Selector x, mls_BeginTime x, mls_EndTime x))"

definition own_LeaseSpec :: "('l, 'm) libview \<Rightarrow> ('l, 'l mLeaseSpec) own" where
  "own_LeaseSpec lv h x =
     own_pair own_duration (own_pair (lo_LabelSelector lv) (own_pair own_time own_time))
       h (mls_Duration x, mls_Selector x, mls_BeginTime x, mls_EndTime x)"

lemma LeaseSpec_copier:
  assumes "lib_ok lb lv"
  shows "copier (val_LeaseSpec lv) (own_LeaseSpec lv) (LeaseSpec_DeepCopyInto lb)"
  by (rule copier_struct [where get = "\<lambda>x. (mls_Duration x, mls_Selector x, mls_BeginTime x, mls_EndTime x)"
        and put = "\<lambda>x (d, s, b, e). x\<lparr>mls_Duration := d, mls_Selector := s, mls_BeginTime := b, mls_EndTime := e\<rparr>",
        OF
          copier_pair [OF field_copiers(2)
          copier_pair [OF lib_okD(3) [OF assms]
          copier_pair [OF field_copiers(3) field_copiers(3)]]]])
    (auto simp: val_LeaseSpec_def own_LeaseSpec_def LeaseSpec_DeepCopyInto_def struct_simps)

definition val_LeaseStatus :: "('l, mLeaseStatus, LeaseStatus) val" where
  "val_LeaseStatus h x =
     map_option (\<lambda>(b, e, r, c). \<lparr>st_BeginTime = b, st_EndTime = e, st_ExporterRef = r, st_Ended = mlt_Ended x, st_Priority = mlt_Priority x,
         st_SpotAccess = mlt_SpotAccess x, st_Conditions = nil_list c\<rparr>)
       (val_pair val_time (val_pair val_time (val_pair val_objref val_conditions))
         h (mlt_BeginTime x, mlt_EndTime x, mlt_ExporterRef x, mlt_Conditions x))"

definition own_LeaseStatus :: "('l, mLeaseStatus) own" where
  "own_LeaseStatus h x =
     own_pair own_time (own_pair own_time (own_pair own_objref own_conditions))
       h (mlt_BeginTime x, mlt_EndTime x, mlt_ExporterRef x, mlt_Conditions x)"

lemma LeaseStatus_copier:
  "copier val_LeaseStatus own_LeaseStatus LeaseStatus_DeepCopyInto"
  by (rule copier_struct [where get = "\<lambda>x. (mlt_BeginTime x, mlt_EndTime x, mlt_ExporterRef x, mlt_Conditions x)"
        and put = "\<lambda>x (b, e, r, c). x\<lparr>mlt_BeginTime := b, mlt_EndTime := e, mlt_ExporterRef := r, mlt_Conditions := c\<rparr>",
        OF
          copier_pair [OF field_copiers(3)
          copier_pair [OF field_copiers(3)
          copier_pair [OF field_copiers(4) field_copiers(6)]]]])
    (auto simp: val_LeaseStatus_def own_LeaseStatus_def LeaseStatus_DeepCopyInto_def struct_simps)

definition val_Lease :: "('l, 'm) libview \<Rightarrow> ('l, 'l mLease, TypeMeta \<times> Lease) val" where
  "val_Lease lv h x =
     map_option (\<lambda>(m, s, t). (ml_TypeMeta x, \<lparr>l_Meta = m, l_Spec = s, l_Status = t\<rparr>))
       (val_pair (lv_ObjectMeta lv) (val_pair (val_LeaseSpec lv) val_LeaseStatus)
         h (ml_ObjectMeta x, ml_Spec x, ml_Status x))"

definition own_Lease :: "('l, 'm) libview \<Rightarrow> ('l, 'l mLease) own" where
  "own_Lease lv h x =
     own_pair (lo_ObjectMeta lv) (own_pair (own_LeaseSpec lv) own_LeaseStatus)
       h (ml_ObjectMeta x, ml_Spec x, ml_Status x)"

lemma Lease_copier:
  assumes "lib_ok lb lv"
  shows "copier (val_Lease lv) (own_Lease lv) (Lease_DeepCopyInto lb)"
  by (rule copier_struct [where get = "\<lambda>x. (ml_ObjectMeta x, ml_Spec x, ml_Status x)"
        and put = "\<lambda>x (m, s, t). x\<lparr>ml_ObjectMeta := m, ml_Spec := s, ml_Status := t\<rparr>",
        OF copier_pair [OF lib_okD(1) [OF assms] copier_pair [OF LeaseSpec_copier [OF assms] LeaseStatus_copier]]])
    (auto simp: val_Lease_def own_Lease_def Lease_DeepCopyInto_def struct_simps)

definition val_AuthenticationConfiguration :: "('l, 'm) libview \<Rightarrow> ('l, mAuthenticationConfiguration, TypeMeta \<times> AuthenticationConfiguration) val" where
  "val_AuthenticationConfiguration lv h x =
     map_option (\<lambda>j. (mac_TypeMeta x, \<lparr>ac_Prefix = mac_Internal x, ac_JWT = nil_list j\<rparr>))
       (val_ref get_JWT (val_list (lv_JWTAuthenticator lv)) h (mac_JWT x))"

definition own_AuthenticationConfiguration :: "('l, 'm) libview \<Rightarrow> ('l, mAuthenticationConfiguration) own" where
  "own_AuthenticationConfiguration lv h x =
     own_ref get_JWT (own_list (lo_JWTAuthenticator lv)) h (mac_JWT x)"

lemma AuthenticationConfiguration_copier:
  assumes "lib_ok lb lv"
  shows "copier (val_AuthenticationConfiguration lv) (own_AuthenticationConfiguration lv) (AuthenticationConfiguration_DeepCopyInto lb)"
  by (rule copier_struct [where get = "\<lambda>x. mac_JWT x"
        and put = "\<lambda>x j. x\<lparr>mac_JWT := j\<rparr>",
        OF copier_ref [OF copier_list [OF lib_okD(4) [OF assms]] get_JWT.simps(1)]])
    (auto simp: val_AuthenticationConfiguration_def own_AuthenticationConfiguration_def AuthenticationConfiguration_DeepCopyInto_def struct_simps)

text \<open>A list stands for its metadata and the values of its items.\<close>

definition val_items :: "('l, 'm) libview \<Rightarrow> ('l, addr option, 'v list option) val \<Rightarrow> ('l, 'l mList, TypeMeta \<times> 'm \<times> 'v list) val" where
  "val_items lv vi h x =
     map_option (\<lambda>(m, xs). (mli_TypeMeta x, m, nil_list xs)) (val_pair (lv_ListMeta lv) vi h (mli_ListMeta x, mli_Items x))"

definition own_items :: "('l, 'm) libview \<Rightarrow> ('l, addr option) own \<Rightarrow> ('l, 'l mList) own" where
  "own_items lv oi h x = own_pair (lo_ListMeta lv) oi h (mli_ListMeta x, mli_Items x)"

lemma items_copier:
  assumes "lib_ok lb lv" "copier v ow c" "\<And>xs. get (mk xs) = Some xs"
  shows "copier (val_items lv (val_ref get (val_list v))) (own_items lv (own_ref get (own_list ow)))
    (copy_items lb (copy_ref mk get (copy_list c)))"
  by (rule copier_struct [where get = "\<lambda>x. (mli_ListMeta x, mli_Items x)"
        and put = "\<lambda>x (m, xs). x\<lparr>mli_ListMeta := m, mli_Items := xs\<rparr>",
        OF copier_pair [OF lib_okD(2) [OF assms(1)] copier_ref [OF copier_list [OF assms(2)] assms(3)]]])
    (auto simp: val_items_def own_items_def copy_items_def struct_simps)

section \<open>Copies are snapshots\<close>

interpretation device_copy: copier val_Device own_Device Device_DeepCopyInto
  by (rule Device_copier)

interpretation exporter_spec_copy: copier val_ExporterSpec own_ExporterSpec ExporterSpec_DeepCopyInto
  by (rule ExporterSpec_copier)

interpretation exporter_status_copy: copier val_ExporterStatus own_ExporterStatus ExporterStatus_DeepCopyInto
  by (rule ExporterStatus_copier)

interpretation lease_status_copy: copier val_LeaseStatus own_LeaseStatus LeaseStatus_DeepCopyInto
  by (rule LeaseStatus_copier)

text \<open>
  C36: Deep copies of leases, exporters, clients and access policies are snapshots: \<open>DeepCopy\<close>
  returns an object of the same value, which keeps this value whatever is written to the
  memory of the original afterwards, and the original keeps its value whatever is written to
  memory allocated since. So \<open>MergeFrom(x.DeepCopy())\<close> holds the object as it was.
\<close>

theorem deep_copies_are_snapshots:
  assumes "lib_ok lb lv"
  shows "snapshots (val_opt (val_Lease lv)) (own_opt (own_Lease lv)) (Lease_DeepCopy lb) \<and>
    snapshots (val_opt (val_Exporter lv)) (own_opt (own_Exporter lv)) (Exporter_DeepCopy lb) \<and>
    snapshots (val_opt (val_Client lv)) (own_opt (own_Client lv)) (Client_DeepCopy lb) \<and>
    snapshots (val_opt (val_ExporterAccessPolicy lv)) (own_opt (own_ExporterAccessPolicy lv)) (ExporterAccessPolicy_DeepCopy lb)"
  unfolding Lease_DeepCopy_def Exporter_DeepCopy_def Client_DeepCopy_def ExporterAccessPolicy_DeepCopy_def
  by (intro conjI copier.copy_snapshots copier_new Lease_copier Exporter_copier Client_copier ExporterAccessPolicy_copier assms)

text \<open>The same holds of the lists and of the configuration of authentication.\<close>

theorem deep_copies_of_lists_are_snapshots:
  assumes "lib_ok lb lv"
  shows "snapshots (val_opt (val_items lv (val_ref get_Leases (val_list (val_Lease lv)))))
      (own_opt (own_items lv (own_ref get_Leases (own_list (own_Lease lv))))) (LeaseList_DeepCopy lb)"
    and "snapshots (val_opt (val_items lv (val_ref get_Exporters (val_list (val_Exporter lv)))))
      (own_opt (own_items lv (own_ref get_Exporters (own_list (own_Exporter lv))))) (ExporterList_DeepCopy lb)"
    and "snapshots (val_opt (val_items lv (val_ref get_Clients (val_list (val_Client lv)))))
      (own_opt (own_items lv (own_ref get_Clients (own_list (own_Client lv))))) (ClientList_DeepCopy lb)"
    and "snapshots (val_opt (val_items lv (val_ref get_ExporterAccessPolicies (val_list (val_ExporterAccessPolicy lv)))))
      (own_opt (own_items lv (own_ref get_ExporterAccessPolicies (own_list (own_ExporterAccessPolicy lv)))))
      (ExporterAccessPolicyList_DeepCopy lb)"
    and "snapshots (val_opt (val_AuthenticationConfiguration lv)) (own_opt (own_AuthenticationConfiguration lv))
      (AuthenticationConfiguration_DeepCopy lb)"
  unfolding LeaseList_DeepCopy_def LeaseList_DeepCopyInto_def ExporterList_DeepCopy_def ExporterList_DeepCopyInto_def
    ClientList_DeepCopy_def ClientList_DeepCopyInto_def ExporterAccessPolicyList_DeepCopy_def
    ExporterAccessPolicyList_DeepCopyInto_def AuthenticationConfiguration_DeepCopy_def
  by (intro copier.copy_snapshots copier_new items_copier Lease_copier Exporter_copier Client_copier
      ExporterAccessPolicy_copier AuthenticationConfiguration_copier assms; simp)+

section \<open>Evaluated instances\<close>

lemma read_update_other: "a \<noteq> b \<Longrightarrow> read (h[b := c]) a = read h a"
  by (simp add: read_def)

text \<open>A library with one kind of struct, whose label map is the only reference.\<close>

record slib =
  sl_Meta :: ObjectMeta
  sl_Labels :: "addr option"
  sl_Selector :: LabelSelector
  sl_Continue :: string
  sl_JWT :: JWTAuthenticator

definition copy_slib :: "(slib, slib) copy" where
  "copy_slib x h = (let (labels, h) = copy_labels (sl_Labels x) h in (x\<lparr>sl_Labels := labels\<rparr>, h))"

definition mem_lib :: "slib lib" where
  "mem_lib = \<lparr>lb_ObjectMeta = copy_slib, lb_ListMeta = copy_flat, lb_LabelSelector = copy_flat, lb_JWTAuthenticator = copy_flat\<rparr>"

definition mem_view :: "(slib, string) libview" where
  "mem_view = \<lparr>lv_ObjectMeta = (\<lambda>h x. map_option (\<lambda>l. (sl_Meta x)\<lparr>om_Labels := nil_list l\<rparr>) (val_labels h (sl_Labels x))),
     lo_ObjectMeta = (\<lambda>h x. own_labels h (sl_Labels x)),
     lv_ListMeta = (\<lambda>h x. Some (sl_Continue x)), lo_ListMeta = own_flat,
     lv_LabelSelector = (\<lambda>h x. Some (sl_Selector x)), lo_LabelSelector = own_flat,
     lv_JWTAuthenticator = (\<lambda>h x. Some (sl_JWT x)), lo_JWTAuthenticator = own_flat\<rparr>"

lemma copier_part: "copier (\<lambda>h x. Some (f x)) own_flat copy_flat"
  by unfold_locales (auto simp: own_flat_def copy_flat_def)

lemma mem_lib_ok: "lib_ok mem_lib mem_view"
proof -
  have "copier (lv_ObjectMeta mem_view) (lo_ObjectMeta mem_view) copy_slib"
    by (rule copier_struct [where get = sl_Labels and put = "\<lambda>x l. x\<lparr>sl_Labels := l\<rparr>"
          and mkv = "\<lambda>x l. (sl_Meta x)\<lparr>om_Labels := nil_list l\<rparr>", OF field_copiers(5)])
      (auto simp: mem_view_def copy_slib_def Let_def split_beta)
  then show ?thesis by (simp add: lib_ok_def mem_lib_def mem_view_def copier_part)
qed

definition sample_slib :: slib where
  "sample_slib = \<lparr>sl_Meta = zero_ObjectMeta\<lparr>om_Name := ''rpi''\<rparr>, sl_Labels = Some 0, sl_Selector = zero_LabelSelector,
     sl_Continue = [], sl_JWT = \<lparr>ja_Issuer = \<lparr>is_URL = [], is_CertificateAuthority = [], is_Audiences = []\<rparr>,
       ja_UsernameClaim = [], ja_UsernamePrefix = None\<rparr>\<rparr>"

definition sample_mexporter :: "slib mExporter" where
  "sample_mexporter = \<lparr>me_TypeMeta = \<lparr>tm_Kind = ''Exporter'', tm_APIVersion = ''jumpstarter.dev/v1alpha1''\<rparr>,
     me_ObjectMeta = sample_slib, me_Spec = \<lparr>mes_Username = None\<rparr>,
     me_Status = \<lparr>met_Conditions = None, met_Credential = None, met_Devices = Some 1, met_LeaseRef = Some 2,
       met_LastSeen = 0, met_Endpoint = []\<rparr>\<rparr>"

definition sample_heap :: "slib cell heap" where
  "sample_heap = [CLabels [(''board'', ''rpi'')], CDevices [\<lparr>md_Uuid = ''d'', md_ParentUuid = None, md_Labels = None\<rparr>],
     CObjectReference ''mine'']"

definition sample_e :: Exporter where
  "sample_e = \<lparr>e_Meta = zero_ObjectMeta\<lparr>om_Name := ''rpi'', om_Labels := [(''board'', ''rpi'')]\<rparr>, e_Spec = \<lparr>esp_Username = None\<rparr>,
     e_Status = \<lparr>es_Conditions = [], es_Credential = None, es_Devices = Some [\<lparr>d_Uuid = ''d'', d_ParentUuid = None, d_Labels = []\<rparr>],
       es_LeaseRef = Some ''mine'', es_LastSeen = 0, es_Endpoint = []\<rparr>\<rparr>"

lemma sample_e_value: "val_Exporter mem_view sample_heap sample_mexporter = Some (me_TypeMeta sample_mexporter, sample_e)"
  by code_simp

theorem deep_copies_are_snapshots_witness:
  "val_Exporter mem_view
     (let (_, h1) = Exporter_DeepCopy mem_lib (Some sample_mexporter) sample_heap in h1[2 := CObjectReference ''other''])
     (the (fst (Exporter_DeepCopy mem_lib (Some sample_mexporter) sample_heap))) =
   Some (me_TypeMeta sample_mexporter, sample_e)"
proof -
  from sample_e_value have "val_opt (val_Exporter mem_view) sample_heap (Some sample_mexporter) =
      Some (Some (me_TypeMeta sample_mexporter, sample_e))" by (simp add: val_opt_def)
  with deep_copies_are_snapshots [OF mem_lib_ok] obtain y h1 where
    c: "Exporter_DeepCopy mem_lib (Some sample_mexporter) sample_heap = (y, h1)"
    and k: "\<forall>h2. (\<forall>a\<in>{..<length h1} - own_opt (own_Exporter mem_view) sample_heap (Some sample_mexporter). read h2 a = read h1 a) \<longrightarrow>
      val_opt (val_Exporter mem_view) h2 y = Some (Some (me_TypeMeta sample_mexporter, sample_e))"
    unfolding snapshots_def by metis
  have "2 \<in> own_opt (own_Exporter mem_view) sample_heap (Some sample_mexporter)" by code_simp
  then have "val_opt (val_Exporter mem_view) (h1[2 := CObjectReference ''other'']) y =
      Some (Some (me_TypeMeta sample_mexporter, sample_e))"
    by (intro k [rule_format] read_update_other) auto
  with c show ?thesis by (auto simp: val_opt_def split: option.splits)
qed

text \<open>
  A struct that is copied by assignment alone is no snapshot: the copy shares the cells of the
  original.
\<close>

theorem assignment_is_no_snapshot:
  "\<not> snapshots (val_ExporterStatus :: (slib, mExporterStatus, ExporterStatus) val) own_ExporterStatus copy_flat"
proof
  let ?x = "me_Status sample_mexporter" and ?h = "sample_heap[2 := CObjectReference ''other'']"
  assume "snapshots (val_ExporterStatus :: (slib, mExporterStatus, ExporterStatus) val) own_ExporterStatus copy_flat"
  moreover have "val_ExporterStatus sample_heap ?x = Some (e_Status sample_e)" by code_simp
  ultimately have k: "\<forall>h2. (\<forall>a\<in>{..<length sample_heap} - own_ExporterStatus sample_heap ?x. read h2 a = read sample_heap a) \<longrightarrow>
      val_ExporterStatus h2 ?x = Some (e_Status sample_e)"
    unfolding snapshots_def copy_flat_def prod.inject by metis
  have "2 \<in> own_ExporterStatus sample_heap ?x" by code_simp
  then have "val_ExporterStatus ?h ?x = Some (e_Status sample_e)" by (intro k [rule_format] read_update_other) auto
  moreover have "val_ExporterStatus ?h ?x \<noteq> Some (e_Status sample_e)" by code_simp
  ultimately show False by contradiction
qed

end
