(* ===== verification/Registration.thy ===== *)
theory Registration
  imports DeepCopy
begin

text \<open>
  The registration of an exporter (\<open>Register\<close> of \<open>src/internal/service/controller_service.go\<close>) as it
  works on memory: the exporter is an object with references, \<open>MergeFrom\<close> takes a deep copy of
  it, the label loops change its map in place, and the patch is computed from the two objects as they
  then are. The handler of the theory \<open>ControllerService\<close> passes values instead; this theory shows that
  the two do the same.
\<close>

section \<open>The labels of an exporter in memory\<close>

text \<open>The labels of an object are a field of its \<open>ObjectMeta\<close>, which is a struct of the library.\<close>

record 'l labels_field =
  lf_Labels :: "'l \<Rightarrow> addr option"
  lf_setLabels :: "'l \<Rightarrow> addr \<Rightarrow> 'l"

definition labels_ok :: "'l labels_field \<Rightarrow> ('l, 'm) libview \<Rightarrow> bool" where
  "labels_ok lf lv \<longleftrightarrow>
     (\<forall>h x m. lv_ObjectMeta lv h x = Some m \<longrightarrow>
        (case lf_Labels lf x of
           None \<Rightarrow> om_Labels m = [] \<and>
             (\<forall>labels. go_map labels \<longrightarrow> lf_Labels lf (lf_setLabels lf x (length h)) = Some (length h) \<and>
                lv_ObjectMeta lv (h @ [CLabels labels]) (lf_setLabels lf x (length h)) = Some (m\<lparr>om_Labels := labels\<rparr>))
         | Some a \<Rightarrow> a \<in> lo_ObjectMeta lv h x \<and> read h a = Some (CLabels (om_Labels m)) \<and>
             (\<forall>labels. go_map labels \<longrightarrow>
                lv_ObjectMeta lv (h[a := CLabels labels]) x = Some (m\<lparr>om_Labels := labels\<rparr>))))"

text \<open>
  What \<open>range\<close>, \<open>delete\<close> and an assignment do to a map that is in a cell. Deleting the entry that is
  being visited does not change which entries are visited.
\<close>

definition map_keys :: "addr \<Rightarrow> 'l cell heap \<Rightarrow> string list" where
  "map_keys a h = (case read_as get_Labels h a of None \<Rightarrow> [] | Some m \<Rightarrow> map fst m)"

definition map_delete :: "addr \<Rightarrow> string \<Rightarrow> 'l cell heap \<Rightarrow> 'l cell heap" where
  "map_delete a key h = (case read_as get_Labels h a of None \<Rightarrow> h | Some m \<Rightarrow> h[a := CLabels (AList.delete key m)])"

definition map_set :: "addr \<Rightarrow> string \<Rightarrow> string \<Rightarrow> 'l cell heap \<Rightarrow> 'l cell heap" where
  "map_set a key v h = (case read_as get_Labels h a of None \<Rightarrow> h | Some m \<Rightarrow> h[a := CLabels (mset_key m key v)])"

text \<open>The map is made if there is none; the two loops change it in place, entry by entry.\<close>

definition Register_labels ::
  "'l labels_field \<Rightarrow> strmap \<Rightarrow> 'l mExporter \<Rightarrow> 'l cell heap \<Rightarrow> 'l mExporter \<times> 'l cell heap" where
  "Register_labels lf request exporter h =
     (let (exporter, a, h) = (case lf_Labels lf (me_ObjectMeta exporter) of
            None \<Rightarrow> (let (a, h) = alloc (CLabels []) h
                     in (exporter\<lparr>me_ObjectMeta := lf_setLabels lf (me_ObjectMeta exporter) a\<rparr>, a, h))
          | Some a \<Rightarrow> (exporter, a, h));
          h = fold (\<lambda>key h. if managedLabel key then map_delete a key h else h) (map_keys a h) h;
          h = fold (\<lambda>(key, v) h. if managedLabel key then map_set a key v h else h) request h
      in (exporter, h))"

lemma read_same: "read h a = Some c \<Longrightarrow> h[a := c] = h"
  using list_update_id [of h a] by (auto simp: read_def split: if_splits)

lemma delete_loop:
  assumes "read h a = Some (CLabels m)"
  shows "fold (\<lambda>key h. if managedLabel key then map_delete a key h else h) keys h =
    h[a := CLabels (fold (\<lambda>key m. if managedLabel key then AList.delete key m else m) keys m)]"
  using assms
proof (induction keys arbitrary: h m)
  case Nil
  then show ?case using read_same [OF Nil] by simp
next
  case (Cons key keys)
  let ?m = "if managedLabel key then AList.delete key m else m"
  have "(if managedLabel key then map_delete a key h else h) = h[a := CLabels ?m]" "read (h[a := CLabels ?m]) a = Some (CLabels ?m)"
    using Cons.prems read_same [OF Cons.prems] by (auto simp: map_delete_def read_as_def read_def split: if_splits)
  with Cons.IH [of "h[a := CLabels ?m]" ?m] show ?case by simp
qed

lemma set_loop:
  assumes "read h a = Some (CLabels m)"
  shows "fold (\<lambda>(key, v) h. if managedLabel key then map_set a key v h else h) request h =
    h[a := CLabels (fold (\<lambda>(key, v) m. if managedLabel key then mset_key m key v else m) request m)]"
  using assms
proof (induction request arbitrary: h m)
  case Nil
  then show ?case using read_same [OF Nil] by simp
next
  case (Cons e request)
  obtain key v where [simp]: "e = (key, v)" by (cases e)
  let ?m = "if managedLabel key then mset_key m key v else m"
  have "(if managedLabel key then map_set a key v h else h) = h[a := CLabels ?m]" "read (h[a := CLabels ?m]) a = Some (CLabels ?m)"
    using Cons.prems read_same [OF Cons.prems] by (auto simp: map_set_def read_as_def read_def split: if_splits)
  with Cons.IH [of "h[a := CLabels ?m]" ?m] show ?case by simp
qed

lemma fold_delete:
  "fold (\<lambda>key m. if managedLabel key then AList.delete key m else m) keys m =
     filter (\<lambda>(key, v). \<not> (managedLabel key \<and> key \<in> set keys)) m"
proof (induction keys arbitrary: m)
  case (Cons key keys)
  have d: "AList.delete key m = filter (\<lambda>(k, v). k \<noteq> key) m"
    by (auto simp: AList.delete_eq intro: filter_cong)
  show ?case
    unfolding fold_simps(2) Cons.IH by (cases "managedLabel key") (auto simp: d filter_filter intro!: filter_cong)
qed (simp add: split_beta)

text \<open>Both loops together, on the map that is in the cell.\<close>

lemma label_loops:
  assumes "read h a = Some (CLabels m)"
  shows "fold (\<lambda>(key, v) h. if managedLabel key then map_set a key v h else h) request
      (fold (\<lambda>key h. if managedLabel key then map_delete a key h else h) (map_keys a h) h) =
    h[a := CLabels (registerLabels m request)]"
proof -
  have d: "fold (\<lambda>key m. if managedLabel key then AList.delete key m else m) (map fst m) m = filter (\<lambda>(key, v). \<not> managedLabel key) m"
    unfolding fold_delete by (force intro!: filter_cong)
  have k: "map_keys a h = map fst m" using assms by (simp add: map_keys_def read_as_def)
  have r: "read (h[a := CLabels (filter (\<lambda>(key, v). \<not> managedLabel key) m)]) a = Some (CLabels (filter (\<lambda>(key, v). \<not> managedLabel key) m))"
    using assms by (simp add: read_def split: if_splits)
  show ?thesis unfolding k delete_loop [OF assms] d set_loop [OF r] by (simp add: registerLabels_def)
qed

text \<open>No other part of the exporter refers to its label map.\<close>

definition labels_unshared :: "'l labels_field \<Rightarrow> 'l cell heap \<Rightarrow> 'l mExporter \<Rightarrow> bool" where
  "labels_unshared lf h x \<longleftrightarrow>
     (\<forall>a. lf_Labels lf (me_ObjectMeta x) = Some a \<longrightarrow>
        a \<notin> own_ExporterSpec h (me_Spec x) \<union> own_ExporterStatus h (me_Status x))"

lemma val_Exporter_Some:
  "val_Exporter lv h x = Some (tm, e) \<longleftrightarrow> tm = me_TypeMeta x \<and> lv_ObjectMeta lv h (me_ObjectMeta x) = Some (e_Meta e) \<and>
     val_ExporterSpec h (me_Spec x) = Some (e_Spec e) \<and> val_ExporterStatus h (me_Status x) = Some (e_Status e)"
  by (cases e) (auto simp: val_Exporter_def val_pair_Some)

lemma go_map_registerLabels: "go_map labels \<Longrightarrow> go_map (registerLabels labels request)"
proof -
  have "go_map m \<Longrightarrow> go_map (fold (\<lambda>(key, v) m. if managedLabel key then mset_key m key v else m) request m)" for m
    by (induction request arbitrary: m) auto
  then show "go_map labels \<Longrightarrow> ?thesis" by (simp add: registerLabels_def go_map_filter)
qed

text \<open>What the label loops do to the exporter, in a heap in which it has a value.\<close>

lemma Register_labels_value:
  assumes "labels_ok lf lv" "val_Exporter lv h x = Some (tm, e)" "labels_unshared lf h x" "go_map (om_Labels (e_Meta e))"
  shows "\<exists>x2 h2. Register_labels lf request x h = (x2, h2) \<and>
    val_Exporter lv h2 x2 = Some (tm, e\<lparr>e_Meta := (e_Meta e)\<lparr>om_Labels := registerLabels (om_Labels (e_Meta e)) request\<rparr>\<rparr>) \<and>
    (\<forall>a<length h. lf_Labels lf (me_ObjectMeta x) \<noteq> Some a \<longrightarrow> read h2 a = read h a)"
proof -
  let ?new = "registerLabels (om_Labels (e_Meta e)) request"
  have v: "tm = me_TypeMeta x" "lv_ObjectMeta lv h (me_ObjectMeta x) = Some (e_Meta e)"
    "val_ExporterSpec h (me_Spec x) = Some (e_Spec e)" "val_ExporterStatus h (me_Status x) = Some (e_Status e)"
    using assms(2) by (simp_all add: val_Exporter_Some)
  note law = assms(1) [unfolded labels_ok_def, rule_format, OF v(2)]
  have g: "go_map ?new" by (rule go_map_registerLabels [OF assms(4)])
  show ?thesis
  proof (cases "lf_Labels lf (me_ObjectMeta x)")
    case None
    let ?m = "lf_setLabels lf (me_ObjectMeta x) (length h)"
    have l: "om_Labels (e_Meta e) = []" "lv_ObjectMeta lv (h @ [CLabels ?new]) ?m = Some ((e_Meta e)\<lparr>om_Labels := ?new\<rparr>)"
      using law None g by simp_all
    have "Register_labels lf request x h = (x\<lparr>me_ObjectMeta := ?m\<rparr>, h @ [CLabels ?new])"
      using None l(1) label_loops [of "h @ [CLabels []]" "length h" "[]" request] by (simp add: Register_labels_def alloc_def)
    moreover have "val_ExporterSpec (h @ [CLabels ?new]) (me_Spec x) = Some (e_Spec e)"
      "val_ExporterStatus (h @ [CLabels ?new]) (me_Status x) = Some (e_Status e)"
      by (rule exporter_spec_copy.extend [OF v(3), THEN conjunct1], rule exporter_status_copy.extend [OF v(4), THEN conjunct1])
    ultimately show ?thesis
      using v(1) l(2) by (simp add: val_Exporter_Some read_append)
  next
    case (Some a)
    then have l: "read h a = Some (CLabels (om_Labels (e_Meta e)))"
      "lv_ObjectMeta lv (h[a := CLabels ?new]) (me_ObjectMeta x) = Some ((e_Meta e)\<lparr>om_Labels := ?new\<rparr>)"
      using law g by simp_all
    then have r: "Register_labels lf request x h = (x, h[a := CLabels ?new])"
      using Some label_loops [OF l(1), of request] by (simp add: Register_labels_def)
    have "a \<notin> own_ExporterSpec h (me_Spec x)" "a \<notin> own_ExporterStatus h (me_Status x)"
      using assms(3) Some by (simp_all add: labels_unshared_def)
    then have "val_ExporterSpec (h[a := CLabels ?new]) (me_Spec x) = Some (e_Spec e)"
      "val_ExporterStatus (h[a := CLabels ?new]) (me_Status x) = Some (e_Status e)"
      by (intro exporter_spec_copy.frame [OF v(3), THEN conjunct1] read_update_other, blast,
          intro exporter_status_copy.frame [OF v(4), THEN conjunct1] read_update_other, blast)
    with r l(2) v(1) Some show ?thesis by (simp add: val_Exporter_Some read_update_other)
  qed
qed

text \<open>
  After a deep copy and the loops the exporter has the value that the patch is to have, and the
  copy still has the value the exporter had.
\<close>

lemma copy_then_labels:
  assumes "lib_ok lb lv" "labels_ok lf lv" "val_Exporter lv h x = Some (tm, e)"
    and "labels_unshared lf h x" "go_map (om_Labels (e_Meta e))"
  shows "\<exists>original h1 x2 h2. Exporter_DeepCopy lb (Some x) h = (Some original, h1) \<and>
    Register_labels lf request x h1 = (x2, h2) \<and>
    val_Exporter lv h2 x2 = Some (tm, e\<lparr>e_Meta := (e_Meta e)\<lparr>om_Labels := registerLabels (om_Labels (e_Meta e)) request\<rparr>\<rparr>) \<and>
    val_Exporter lv h2 original = Some (tm, e)"
proof -
  note ex = Exporter_copier [OF assms(1)]
  note lay = copier.axioms(1) [OF ex]
  obtain original new where c: "Exporter_DeepCopyInto lb x h = (original, h @ new)"
    "val_Exporter lv (h @ new) original = Some (tm, e)"
    "own_Exporter lv (h @ new) original \<subseteq> {length h..<length (h @ new)}"
    using copier.copies [OF ex assms(3)] by (elim exE conjE)
  have p: "lv_ObjectMeta lv h (me_ObjectMeta x) = Some (e_Meta e)" "val_ExporterSpec h (me_Spec x) = Some (e_Spec e)"
    "val_ExporterStatus h (me_Status x) = Some (e_Status e)" using assms(3) by (simp_all add: val_Exporter_Some)
  have v: "val_Exporter lv (h @ new) x = Some (tm, e)" by (rule layout.extend [OF lay assms(3), THEN conjunct1])
  have u: "labels_unshared lf (h @ new) x"
    using assms(4) exporter_spec_copy.extend [OF p(2), of new] exporter_status_copy.extend [OF p(3), of new]
    by (simp add: labels_unshared_def)
  obtain x2 h2 where r: "Register_labels lf request x (h @ new) = (x2, h2)"
    "val_Exporter lv h2 x2 = Some (tm, e\<lparr>e_Meta := (e_Meta e)\<lparr>om_Labels := registerLabels (om_Labels (e_Meta e)) request\<rparr>\<rparr>)"
    "\<forall>a<length (h @ new). lf_Labels lf (me_ObjectMeta x) \<noteq> Some a \<longrightarrow> read h2 a = read (h @ new) a"
    using Register_labels_value [OF assms(2) v u assms(5), of request] by (elim exE conjE)
  have old: "a < length h" if "lf_Labels lf (me_ObjectMeta x) = Some a" for a
    using assms(2) [unfolded labels_ok_def, rule_format, OF p(1)] that read_Some [of h a] by simp
  have "read h2 a = read (h @ new) a" if "a \<in> own_Exporter lv (h @ new) original" for a
  proof -
    have a: "length h \<le> a" "a < length (h @ new)" using subsetD [OF c(3) that] by simp_all
    then have "lf_Labels lf (me_ObjectMeta x) \<noteq> Some a" using old [of a] by auto
    with a(2) show ?thesis using r(3) by simp
  qed
  then have "val_Exporter lv h2 original = Some (tm, e)" by (intro layout.frame [OF lay c(2), THEN conjunct1])
  with c(1) r(1,2) show ?thesis by (simp add: Exporter_DeepCopy_def new_copy_def)
qed

section \<open>The handler on memory\<close>

text \<open>
  \<open>dec\<close> is the library's decoding of an answer of the server, into a new struct or over the one that is
  given; \<open>lv\<close> gives what is encoded of an object for a request.
\<close>

type_synonym 'l decoder = "'l mExporter option \<Rightarrow> Exporter \<Rightarrow> 'l cell heap \<Rightarrow> 'l mExporter \<times> 'l cell heap"

definition patch_memory ::
  "('l, 'm) libview \<Rightarrow> 'l decoder \<Rightarrow> ('s \<Rightarrow> Exporter \<Rightarrow> Exporter \<Rightarrow> (goerror + Exporter) \<times> 's) \<Rightarrow> 's \<Rightarrow>
   'l mExporter \<Rightarrow> 'l mExporter option \<Rightarrow> 'l cell heap \<Rightarrow> (goerror + 'l mExporter \<times> 'l cell heap) \<times> 's" where
  "patch_memory lv dec patch s exporter original h =
     (case (val_Exporter lv h exporter, val_opt (val_Exporter lv) h original) of
        (Some (_, e), Some (Some (_, e0))) \<Rightarrow>
          (case patch s e e0 of
             (Inl err, s1) \<Rightarrow> (Inl err, s1)
           | (Inr e1, s1) \<Rightarrow> (Inr (dec (Some exporter) e1 h), s1))
      | _ \<Rightarrow> (Inl (Panic ''invalid memory address or nil pointer dereference''), s))"

text \<open>
  The devices of the request, appended to a new slice one by one; what a device refers to of the
  request is laid out where it is reached.
\<close>

definition build_device :: "Device \<Rightarrow> 'l cell heap \<Rightarrow> mDevice \<times> 'l cell heap" where
  "build_device d h =
     (let (parent, h) = build_ref CString build_flat (d_ParentUuid d) h;
          (labels, h) = build_ref CLabels build_flat (Some (d_Labels d)) h
      in (\<lparr>md_Uuid = d_Uuid d, md_ParentUuid = parent, md_Labels = labels\<rparr>, h))"

definition device_of :: "DriverInstanceReport \<Rightarrow> Device" where
  "device_of r = \<lparr>d_Uuid = dr_Uuid r, d_ParentUuid = dr_ParentUuid r, d_Labels = dr_Labels r\<rparr>"

definition Register_devices :: "DriverInstanceReport list \<Rightarrow> 'l cell heap \<Rightarrow> addr option \<times> 'l cell heap" where
  "Register_devices reports h = build_ref CDevices (build_list build_device) (Some (map device_of reports)) h"

definition Register_memory ::
  "'l lib \<Rightarrow> 'l labels_field \<Rightarrow> ('l, 'm) libview \<Rightarrow> 'l decoder \<Rightarrow> 's kube \<Rightarrow> auth_config \<Rightarrow> 's \<Rightarrow> Context \<Rightarrow>
   RegisterRequest \<Rightarrow> 'l cell heap \<Rightarrow> (goerror + RegisterResponse) \<times> 's" where
  "Register_memory lb lf lv dec k au s ctx req h =
     (case authenticateExporter k au s ctx of
        (Inl err, s1) \<Rightarrow> (Inl err, s1)
      | (Inr e, s1) \<Rightarrow>
          (let (exporter, h) = dec None e h;
               (original, h) = Exporter_DeepCopy lb (Some exporter) h;
               (exporter, h) = Register_labels lf (rr_Labels req) exporter h
           in case patch_memory lv dec (k_patchExporter k) s1 exporter original h of
                (Inl err, s2) \<Rightarrow> (Inl (StatusErrorOf Internal ''unable to update exporter: '' err), s2)
              | (Inr (exporter, h), s2) \<Rightarrow>
                  (let (original, h) = Exporter_DeepCopy lb (Some exporter) h;
                       (devices, h) = Register_devices (rr_Reports req) h;
                       exporter = exporter\<lparr>me_Status := (me_Status exporter)\<lparr>met_Devices := devices\<rparr>\<rparr>
                   in case patch_memory lv dec (k_statusPatchExporter k) s2 exporter original h of
                        (Inl err, s3) \<Rightarrow> (Inl (StatusErrorOf Internal ''unable to update exporter status: '' err), s3)
                      | (Inr (exporter, h), s3) \<Rightarrow>
                          (case val_Exporter lv h exporter of
                             None \<Rightarrow> (Inl (Panic ''invalid memory address or nil pointer dereference''), s3)
                           | Some (_, e4) \<Rightarrow> (Inr \<lparr>rrs_Uuid = om_UID (e_Meta e4)\<rparr>, s3)))))"

section \<open>What the library promises\<close>

text \<open>Maps have every key once.\<close>

definition maps_ok :: "Exporter \<Rightarrow> bool" where
  "maps_ok e \<longleftrightarrow> go_map (om_Labels (e_Meta e)) \<and>
     (case es_Devices (e_Status e) of None \<Rightarrow> True | Some ds \<Rightarrow> list_all (\<lambda>d. go_map (d_Labels d)) ds)"

text \<open>A decoded object has the value of the answer, and its label map is not shared with the rest of it.\<close>

definition decoder_ok :: "('l, 'm) libview \<Rightarrow> 'l labels_field \<Rightarrow> 'l decoder \<Rightarrow> bool" where
  "decoder_ok lv lf dec \<longleftrightarrow>
     (\<forall>p e h. maps_ok e \<longrightarrow>
        (case dec p e h of (x, h1) \<Rightarrow> (\<exists>tm. val_Exporter lv h1 x = Some (tm, e)) \<and> labels_unshared lf h1 x))"

lemma decoder_okE:
  assumes "decoder_ok lv lf dec" "maps_ok e"
  obtains x h1 tm where "dec p e h = (x, h1)" "val_Exporter lv h1 x = Some (tm, e)" "labels_unshared lf h1 x"
proof -
  obtain x h1 where d: "dec p e h = (x, h1)" by (cases "dec p e h")
  from assms(1) [unfolded decoder_ok_def, rule_format, OF assms(2), of p h]
  have "(\<exists>tm. val_Exporter lv h1 x = Some (tm, e)) \<and> labels_unshared lf h1 x" unfolding d by simp
  then show thesis using that [OF d] by auto
qed

definition answers_ok :: "'s kube \<Rightarrow> bool" where
  "answers_ok k \<longleftrightarrow>
     (\<forall>s n e. k_getExporter k s n = Inr e \<longrightarrow> maps_ok e) \<and>
     (\<forall>s a b e s'. k_patchExporter k s a b = (Inr e, s') \<longrightarrow> maps_ok e) \<and>
     (\<forall>s a b e s'. k_statusPatchExporter k s a b = (Inr e, s') \<longrightarrow> maps_ok e)"

section \<open>The handler with values\<close>

lemma device_layout: "layout val_Device own_Device"
  by (rule copier.axioms(1) [OF Device_copier])

lemma field_builders:
  "builds val_string (build_ref CString build_flat) (\<lambda>_. True)"
  "builds val_objref (build_ref CObjectReference build_flat) (\<lambda>_. True)"
  "builds val_labels (build_ref CLabels build_flat) (\<lambda>p. \<forall>m. p = Some m \<longrightarrow> go_map m)"
  "builds val_conditions (build_ref CConditions (build_list build_flat)) (\<lambda>_. True)"
proof -
  have flat: "layout val_flat own_flat" by (rule copier.axioms(1) [OF copier_flat])
  have "layout val_strmap own_flat" by (rule copier.axioms(1) [OF copier_strmap])
  from builds_ref [where get = get_Labels and mk = CLabels, OF this builds_strmap]
  show "builds val_labels (build_ref CLabels build_flat) (\<lambda>p. \<forall>m. p = Some m \<longrightarrow> go_map m)" by simp
  from builds_ref [where get = get_String and mk = CString, OF flat builds_flat]
  show "builds val_string (build_ref CString build_flat) (\<lambda>_. True)" by simp
  from builds_ref [where get = get_ObjectReference and mk = CObjectReference, OF flat builds_flat]
  show "builds val_objref (build_ref CObjectReference build_flat) (\<lambda>_. True)" by simp
  from builds_ref [where get = get_Conditions and mk = CConditions, OF layout_list [OF flat] builds_list [OF flat builds_flat]]
  show "builds val_conditions (build_ref CConditions (build_list build_flat)) (\<lambda>_. True)" by simp
qed

lemma someI_labels: "go_map m \<Longrightarrow> \<forall>m'. Some m = Some m' \<longrightarrow> go_map m'"
  by simp

lemma build_device_builds: "builds val_Device build_device (\<lambda>d. go_map (d_Labels d))"
  unfolding builds_def
proof (intro allI impI)
  fix d :: Device and h :: "'l cell heap" assume g: "go_map (d_Labels d)"
  obtain a n1 where a: "build_ref CString build_flat (d_ParentUuid d) h = (a, h @ n1)" "val_string (h @ n1) a = Some (d_ParentUuid d)"
    by (rule buildsE [OF field_builders(1) TrueI])
  obtain b n2 where b: "build_ref CLabels build_flat (Some (d_Labels d)) (h @ n1) = (b, (h @ n1) @ n2)"
    "val_labels ((h @ n1) @ n2) b = Some (Some (d_Labels d))"
    using g by (rule buildsE [OF field_builders(3) someI_labels])
  from layout.extend [OF copier.axioms(1) [OF field_copiers(1)] a(2), of n2] a b
  show "\<exists>x new. build_device d h = (x, h @ new) \<and> val_Device (h @ new) x = Some d"
    by (intro exI [of _ "\<lparr>md_Uuid = d_Uuid d, md_ParentUuid = a, md_Labels = b\<rparr>"] exI [of _ "n1 @ n2"])
      (simp add: build_device_def val_Device_def val_pair_def nil_list_def)
qed

lemma devices_builder:
  "builds (val_ref get_Devices (val_list val_Device)) (build_ref CDevices (build_list build_device))
     (\<lambda>p. \<forall>ds. p = Some ds \<longrightarrow> (\<forall>d\<in>set ds. go_map (d_Labels d)))"
  by (rule builds_ref [OF layout_list [OF device_layout] builds_list [OF device_layout build_device_builds]]) simp

lemma Register_devices_value:
  assumes "\<forall>r\<in>set reports. go_map (dr_Labels r)"
  shows "\<exists>a new. Register_devices reports h = (a, h @ new) \<and>
    val_ref get_Devices (val_list val_Device) (h @ new) a = Some (Some (map device_of reports))"
proof -
  have ok: "\<forall>ds. Some (map device_of reports) = Some ds \<longrightarrow> (\<forall>d\<in>set ds. go_map (d_Labels d))"
    using assms by (auto simp: device_of_def)
  obtain a new where "build_ref CDevices (build_list build_device) (Some (map device_of reports)) h = (a, h @ new)"
    "val_ref get_Devices (val_list val_Device) (h @ new) a = Some (Some (map device_of reports))"
    by (rule buildsE [OF devices_builder ok])
  then show ?thesis unfolding Register_devices_def by (intro exI conjI)
qed

text \<open>The first patch: the copy is taken before the labels change, so the patch is the one of the values.\<close>

lemma first_patch:
  assumes lib: "lib_ok lb lv" "labels_ok lf lv" and x: "val_Exporter lv h x = Some (tm, e)" "labels_unshared lf h x"
    and g: "go_map (om_Labels (e_Meta e))"
  obtains original x2 h1 h2 where "Exporter_DeepCopy lb (Some x) h = (original, h1)" "Register_labels lf request x h1 = (x2, h2)"
    "patch_memory lv dec patch s x2 original h2 =
      (case patch s (e\<lparr>e_Meta := (e_Meta e)\<lparr>om_Labels := registerLabels (om_Labels (e_Meta e)) request\<rparr>\<rparr>) e of
         (Inl err, s1) \<Rightarrow> (Inl err, s1)
       | (Inr e1, s1) \<Rightarrow> (Inr (dec (Some x2) e1 h2), s1))"
proof -
  from copy_then_labels [OF lib x g, of request] obtain original h1 x2 h2 where
    c: "Exporter_DeepCopy lb (Some x) h = (Some original, h1)" "Register_labels lf request x h1 = (x2, h2)"
      "val_Exporter lv h2 x2 = Some (tm, e\<lparr>e_Meta := (e_Meta e)\<lparr>om_Labels := registerLabels (om_Labels (e_Meta e)) request\<rparr>\<rparr>)"
      "val_Exporter lv h2 original = Some (tm, e)"
    by (elim exE conjE) (rule that)
  show thesis by (rule that [OF c(1,2)]) (simp add: patch_memory_def val_opt_def c(3,4))
qed

text \<open>The second patch: the devices are new memory.\<close>

lemma second_patch:
  assumes lib: "lib_ok lb lv" and x: "val_Exporter lv h x = Some (tm, e)" and g: "\<forall>r\<in>set reports. go_map (dr_Labels r)"
  obtains original devices h1 h2 where "Exporter_DeepCopy lb (Some x) h = (original, h1)" "Register_devices reports h1 = (devices, h2)"
    "patch_memory lv dec patch s (x\<lparr>me_Status := (me_Status x)\<lparr>met_Devices := devices\<rparr>\<rparr>) original h2 =
      (case patch s (e\<lparr>e_Status := (e_Status e)\<lparr>es_Devices := Some (map device_of reports)\<rparr>\<rparr>) e of
         (Inl err, s1) \<Rightarrow> (Inl err, s1)
       | (Inr e1, s1) \<Rightarrow> (Inr (dec (Some (x\<lparr>me_Status := (me_Status x)\<lparr>met_Devices := devices\<rparr>\<rparr>)) e1 h2), s1))"
proof -
  note ex = Exporter_copier [OF lib]
  note lay = copier.axioms(1) [OF ex]
  obtain original new where c: "Exporter_DeepCopyInto lb x h = (original, h @ new)" "val_Exporter lv (h @ new) original = Some (tm, e)"
    using copier.copies [OF ex x] by (elim exE conjE)
  obtain devices n2 where d: "Register_devices reports (h @ new) = (devices, (h @ new) @ n2)"
    "val_ref get_Devices (val_list val_Device) ((h @ new) @ n2) devices = Some (Some (map device_of reports))"
    using Register_devices_value [OF g, of "h @ new"] by (elim exE conjE)
  have x2: "val_Exporter lv ((h @ new) @ n2) x = Some (tm, e)"
    using layout.extend [OF lay x, of "new @ n2"] by simp
  then have st: "val_ExporterStatus ((h @ new) @ n2) (me_Status x) = Some (e_Status e)" by (simp add: val_Exporter_Some)
  then have "val_ExporterStatus ((h @ new) @ n2) ((me_Status x)\<lparr>met_Devices := devices\<rparr>) =
      Some ((e_Status e)\<lparr>es_Devices := Some (map device_of reports)\<rparr>)"
    using d(2) by (auto simp: val_ExporterStatus_def val_pair_def split: option.splits) (drule sym, simp)
  with x2 have v: "val_Exporter lv ((h @ new) @ n2) (x\<lparr>me_Status := (me_Status x)\<lparr>met_Devices := devices\<rparr>\<rparr>) =
      Some (tm, e\<lparr>e_Status := (e_Status e)\<lparr>es_Devices := Some (map device_of reports)\<rparr>\<rparr>)"
    by (simp add: val_Exporter_Some)
  have o2: "val_Exporter lv ((h @ new) @ n2) original = Some (tm, e)" by (rule layout.extend [OF lay c(2), THEN conjunct1])
  show thesis
    by (rule that [of "Some original" "h @ new" devices "(h @ new) @ n2"])
      (use c(1) d(1) v o2 in \<open>simp_all add: Exporter_DeepCopy_def new_copy_def patch_memory_def val_opt_def del: append_assoc\<close>)
qed

lemma authenticated_maps_ok:
  assumes "authenticateExporter k au s ctx = (Inr e, s1)" "answers_ok k"
  shows "maps_ok e"
  using assms(1) unfolding authenticateExporter_def VerifyExporterObjectToken_def
  by (rule VerifyObjectToken_Inr) (use assms(2) in \<open>simp add: answers_ok_def\<close>)

text \<open>
  C31: \<open>Register\<close> sends the patches it means to. The handler as it works on memory (a deep copy
  of the exporter for \<open>MergeFrom\<close>, then the two loops that delete and set labels in place, entry by entry, then the
  patch computed from the two objects; again a deep copy, the new devices, and the patch of the
  status) gives the same answer and the same state of the server as the handler of
  \<open>ControllerService\<close>, which passes values. Assumed are that the library's deep copies are deep,
  that a decoded exporter has the value of the answer and a label map of its own, and that maps have
  every key once.
\<close>

theorem register_patches_difference:
  assumes "lib_ok lb lv" "labels_ok lf lv" "decoder_ok lv lf dec" "answers_ok k"
    and "\<forall>r\<in>set (rr_Reports req). go_map (dr_Labels r)"
  shows "Register_memory lb lf lv dec k au s ctx req h = Register k au s ctx req"
proof (cases "authenticateExporter k au s ctx")
  case (Pair r s1)
  note auth = this
  show ?thesis
  proof (cases r)
    case (Inl err)
    with auth show ?thesis by (simp add: Register_memory_def Register_def)
  next
    case (Inr e)
    with auth authenticated_maps_ok [OF _ assms(4)] have a: "authenticateExporter k au s ctx = (Inr e, s1)" and m: "maps_ok e" by auto
    obtain x h0 tm where x: "dec None e h = (x, h0)" "val_Exporter lv h0 x = Some (tm, e)" "labels_unshared lf h0 x"
      by (rule decoder_okE [OF assms(3) m])
    from m have g: "go_map (om_Labels (e_Meta e))" by (simp add: maps_ok_def)
    let ?e1 = "e\<lparr>e_Meta := (e_Meta e)\<lparr>om_Labels := registerLabels (om_Labels (e_Meta e)) (rr_Labels req)\<rparr>\<rparr>"
    obtain original x1 h1 h2 where one: "Exporter_DeepCopy lb (Some x) h0 = (original, h1)"
      "Register_labels lf (rr_Labels req) x h1 = (x1, h2)"
      "patch_memory lv dec (k_patchExporter k) s1 x1 original h2 =
        (case k_patchExporter k s1 ?e1 e of (Inl err, s1) \<Rightarrow> (Inl err, s1) | (Inr e2, s1) \<Rightarrow> (Inr (dec (Some x1) e2 h2), s1))"
      by (rule first_patch [OF assms(1,2) x(2,3) g])
    obtain r2 s2 where p1: "k_patchExporter k s1 ?e1 e = (r2, s2)" by (cases "k_patchExporter k s1 ?e1 e")
    show ?thesis
    proof (cases r2)
      case (Inl err)
      with a x(1) one p1 show ?thesis by (simp add: Register_memory_def Register_def)
    next
      case (Inr e2)
      with p1 assms(4) have "maps_ok e2" unfolding answers_ok_def by blast
      then obtain x2 h3 tm2 where x2: "dec (Some x1) e2 h2 = (x2, h3)" "val_Exporter lv h3 x2 = Some (tm2, e2)"
        by (rule decoder_okE [OF assms(3)])
      let ?e3 = "e2\<lparr>e_Status := (e_Status e2)\<lparr>es_Devices := Some (map device_of (rr_Reports req))\<rparr>\<rparr>"
      obtain original2 devices h4 h5 where two: "Exporter_DeepCopy lb (Some x2) h3 = (original2, h4)"
        "Register_devices (rr_Reports req) h4 = (devices, h5)"
        "patch_memory lv dec (k_statusPatchExporter k) s2 (x2\<lparr>me_Status := (me_Status x2)\<lparr>met_Devices := devices\<rparr>\<rparr>) original2 h5 =
          (case k_statusPatchExporter k s2 ?e3 e2 of
             (Inl err, s1) \<Rightarrow> (Inl err, s1)
           | (Inr e4, s1) \<Rightarrow> (Inr (dec (Some (x2\<lparr>me_Status := (me_Status x2)\<lparr>met_Devices := devices\<rparr>\<rparr>)) e4 h5), s1))"
        by (rule second_patch [OF assms(1) x2(2) assms(5)])
      obtain r3 s3 where p2: "k_statusPatchExporter k s2 ?e3 e2 = (r3, s3)" by (cases "k_statusPatchExporter k s2 ?e3 e2")
      note steps = a x(1) one p1 Inr x2(1) two p2
      have reports: "map (\<lambda>r. \<lparr>d_Uuid = dr_Uuid r, d_ParentUuid = dr_ParentUuid r, d_Labels = dr_Labels r\<rparr>) (rr_Reports req) =
          map device_of (rr_Reports req)" by (simp add: device_of_def)
      show ?thesis
      proof (cases r3)
        case (Inl err)
        with steps show ?thesis by (simp add: Register_memory_def Register_def reports)
      next
        case (Inr e4)
        with p2 assms(4) have "maps_ok e4" unfolding answers_ok_def by blast
        then obtain x4 h6 tm4 where "dec (Some (x2\<lparr>me_Status := (me_Status x2)\<lparr>met_Devices := devices\<rparr>\<rparr>)) e4 h5 = (x4, h6)"
          "val_Exporter lv h6 x4 = Some (tm4, e4)" by (rule decoder_okE [OF assms(3)])
        with steps Inr show ?thesis by (simp add: Register_memory_def Register_def reports)
      qed
    qed
  qed
qed

section \<open>Evaluated instances\<close>

definition mem_labels :: "slib labels_field" where
  "mem_labels = \<lparr>lf_Labels = sl_Labels, lf_setLabels = (\<lambda>x a. x\<lparr>sl_Labels := Some a\<rparr>)\<rparr>"

lemma mem_labels_ok: "labels_ok mem_labels mem_view"
  by (auto simp: labels_ok_def mem_labels_def mem_view_def val_ref_def own_ref_def read_as_def val_strmap_def read_def nil_list_def
      nth_append split: option.splits if_splits elim!: get_Labels.elims)

text \<open>A decoder that lays every answer out in new memory, the labels last.\<close>

definition build_status :: "ExporterStatus \<Rightarrow> 'l cell heap \<Rightarrow> mExporterStatus \<times> 'l cell heap" where
  "build_status st h =
     (let (cs, h) = build_ref CConditions (build_list build_flat) (Some (es_Conditions st)) h;
          (cr, h) = build_ref CObjectReference build_flat (es_Credential st) h;
          (ds, h) = build_ref CDevices (build_list build_device) (es_Devices st) h;
          (lr, h) = build_ref CObjectReference build_flat (es_LeaseRef st) h
      in (\<lparr>met_Conditions = cs, met_Credential = cr, met_Devices = ds, met_LeaseRef = lr,
           met_LastSeen = es_LastSeen st, met_Endpoint = es_Endpoint st\<rparr>, h))"

definition mem_decode :: "slib decoder" where
  "mem_decode p e h =
     (let (u, h) = build_ref CString build_flat (esp_Username (e_Spec e)) h;
          (st, h) = build_status (e_Status e) h;
          (l, h) = alloc (CLabels (om_Labels (e_Meta e))) h
      in (\<lparr>me_TypeMeta = \<lparr>tm_Kind = ''Exporter'', tm_APIVersion = ''jumpstarter.dev/v1alpha1''\<rparr>,
           me_ObjectMeta = sample_slib\<lparr>sl_Meta := e_Meta e, sl_Labels := Some l\<rparr>, me_Spec = \<lparr>mes_Username = u\<rparr>,
           me_Status = st\<rparr>, h))"

lemma build_status_value:
  assumes "case es_Devices st of None \<Rightarrow> True | Some ds \<Rightarrow> list_all (\<lambda>d. go_map (d_Labels d)) ds"
  shows "\<exists>x new. build_status st h = (x, h @ new) \<and> val_ExporterStatus (h @ new) x = Some st"
proof -
  obtain c n1 where c: "build_ref CConditions (build_list build_flat) (Some (es_Conditions st)) h = (c, h @ n1)"
    "val_conditions (h @ n1) c = Some (Some (es_Conditions st))" by (rule buildsE [OF field_builders(4) TrueI])
  obtain r n2 where r: "build_ref CObjectReference build_flat (es_Credential st) (h @ n1) = (r, (h @ n1) @ n2)"
    "val_objref ((h @ n1) @ n2) r = Some (es_Credential st)" by (rule buildsE [OF field_builders(2) TrueI])
  have ok: "\<forall>ds. es_Devices st = Some ds \<longrightarrow> (\<forall>d\<in>set ds. go_map (d_Labels d))" using assms by (auto simp: list_all_iff)
  obtain d n3 where d: "build_ref CDevices (build_list build_device) (es_Devices st) ((h @ n1) @ n2) = (d, ((h @ n1) @ n2) @ n3)"
    "val_ref get_Devices (val_list val_Device) (((h @ n1) @ n2) @ n3) d = Some (es_Devices st)"
    by (rule buildsE [OF devices_builder ok])
  obtain l n4 where l: "build_ref CObjectReference build_flat (es_LeaseRef st) (((h @ n1) @ n2) @ n3) = (l, (((h @ n1) @ n2) @ n3) @ n4)"
    "val_objref ((((h @ n1) @ n2) @ n3) @ n4) l = Some (es_LeaseRef st)" by (rule buildsE [OF field_builders(2) TrueI])
  have "val_conditions ((h @ n1) @ (n2 @ n3 @ n4)) c = Some (Some (es_Conditions st))"
    "val_objref (((h @ n1) @ n2) @ (n3 @ n4)) r = Some (es_Credential st)"
    "val_ref get_Devices (val_list val_Device) ((((h @ n1) @ n2) @ n3) @ n4) d = Some (es_Devices st)"
    by (rule layout.extend [OF copier.axioms(1) [OF field_copiers(6)] c(2), THEN conjunct1],
        rule layout.extend [OF copier.axioms(1) [OF field_copiers(4)] r(2), THEN conjunct1],
        rule layout.extend [OF copier.axioms(1) [OF copier_ref [OF copier_list [OF Device_copier] get_Devices.simps(1)]] d(2), THEN conjunct1])
  with c(1) r(1) d(1) l show ?thesis
    by (intro exI [of _ "\<lparr>met_Conditions = c, met_Credential = r, met_Devices = d, met_LeaseRef = l,
           met_LastSeen = es_LastSeen st, met_Endpoint = es_Endpoint st\<rparr>"] exI [of _ "n1 @ n2 @ n3 @ n4"])
      (simp add: build_status_def val_ExporterStatus_def val_pair_def nil_list_def)
qed

lemma mem_decoder_ok: "decoder_ok mem_view mem_labels mem_decode"
  unfolding decoder_ok_def
proof (intro allI impI)
  fix p e and h :: "slib cell heap" assume m: "maps_ok e"
  obtain u n1 where u: "build_ref CString build_flat (esp_Username (e_Spec e)) h = (u, h @ n1)"
    "val_string (h @ n1) u = Some (esp_Username (e_Spec e))" by (rule buildsE [OF field_builders(1) TrueI])
  have "case es_Devices (e_Status e) of None \<Rightarrow> True | Some ds \<Rightarrow> list_all (\<lambda>d. go_map (d_Labels d)) ds" using m by (simp add: maps_ok_def)
  from build_status_value [OF this, of "h @ n1"] obtain st n2 where st: "build_status (e_Status e) (h @ n1) = (st, (h @ n1) @ n2)"
    "val_ExporterStatus ((h @ n1) @ n2) st = Some (e_Status e)" by blast
  let ?h = "(h @ n1) @ n2" and ?c = "CLabels (om_Labels (e_Meta e)) :: slib cell"
  let ?x = "\<lparr>me_TypeMeta = \<lparr>tm_Kind = ''Exporter'', tm_APIVersion = ''jumpstarter.dev/v1alpha1''\<rparr>,
     me_ObjectMeta = sample_slib\<lparr>sl_Meta := e_Meta e, sl_Labels := Some (length ?h)\<rparr>, me_Spec = \<lparr>mes_Username = u\<rparr>, me_Status = st\<rparr>"
  have spec: "val_ExporterSpec ?h \<lparr>mes_Username = u\<rparr> = Some (e_Spec e)"
    using layout.extend [OF copier.axioms(1) [OF field_copiers(1)] u(2), of n2] by (simp add: val_ExporterSpec_def)
  note s' = exporter_spec_copy.extend [OF spec, of "[?c]"] and t' = exporter_status_copy.extend [OF st(2), of "[?c]"]
  have dec: "mem_decode p e h = (?x, ?h @ [?c])" using u(1) st(1) by (simp add: mem_decode_def alloc_def)
  have "lv_ObjectMeta mem_view (?h @ [?c]) (me_ObjectMeta ?x) = Some (e_Meta e)"
    using m read_alloc [of ?h ?c] by (simp add: mem_view_def val_ref_def read_as_def val_strmap_def maps_ok_def nil_list_def)
  then have "val_Exporter mem_view (?h @ [?c]) ?x = Some (me_TypeMeta ?x, e)"
    unfolding val_Exporter_Some using s' t' by simp
  moreover have "labels_unshared mem_labels (?h @ [?c]) ?x"
    using s' t' exporter_spec_copy.allocated [OF spec] exporter_status_copy.allocated [OF st(2)]
    by (auto simp: labels_unshared_def mem_labels_def)
  ultimately show "case mem_decode p e h of (x, h1) \<Rightarrow> (\<exists>tm. val_Exporter mem_view h1 x = Some (tm, e)) \<and> labels_unshared mem_labels h1 x"
    unfolding dec by auto
qed

text \<open>A server that answers with proper maps only.\<close>

definition only_maps :: "(goerror + Exporter) \<times> 's \<Rightarrow> (goerror + Exporter) \<times> 's" where
  "only_maps r = (case r of (Inr e, s) \<Rightarrow> (if maps_ok e then r else (Inl (ApiError (OtherApiError ''cannot encode'')), s)) | _ \<Rightarrow> r)"

definition maps_kube :: "cluster kube" where
  "maps_kube = mem_kube\<lparr>k_getExporter := (\<lambda>c n. fst (only_maps (k_getExporter mem_kube c n, c))),
     k_patchExporter := (\<lambda>c e e0. only_maps (k_patchExporter mem_kube c e e0)),
     k_statusPatchExporter := (\<lambda>c e e0. only_maps (k_statusPatchExporter mem_kube c e e0))\<rparr>"

lemma maps_kube_ok: "answers_ok maps_kube"
  by (auto simp: answers_ok_def maps_kube_def only_maps_def split: sum.splits prod.splits if_splits)

definition rpi_request :: RegisterRequest where
  "rpi_request = \<lparr>rr_Labels = [(''jumpstarter.dev/board'', ''rpi'')],
     rr_Reports = [\<lparr>dr_Uuid = ''d'', dr_ParentUuid = None, dr_Labels = [(''kind'', ''power'')]\<rparr>]\<rparr>"

abbreviation rpi_caller :: Context where
  "rpi_caller \<equiv> plain_ctx ''lab'' ''Exporter'' ''rpi-a'' ''internal:exporter:lab:rpi-a:uid-rpi-a''"

theorem register_patches_difference_witness:
  "fst (Register_memory mem_lib mem_labels mem_view mem_decode maps_kube plain_auth two_labs rpi_caller rpi_request []) =
     Inr \<lparr>rrs_Uuid = ''uid-rpi-a''\<rparr>"
proof -
  have "fst (Register maps_kube plain_auth two_labs rpi_caller rpi_request) = Inr \<lparr>rrs_Uuid = ''uid-rpi-a''\<rparr>" by code_simp
  moreover have "\<forall>r\<in>set (rr_Reports rpi_request). go_map (dr_Labels r)" by (simp add: rpi_request_def go_map_def)
  ultimately show ?thesis
    using register_patches_difference [OF mem_lib_ok mem_labels_ok mem_decoder_ok maps_kube_ok] by metis
qed

end
