(* ===== verification/OperatorDeepCopy.thy ===== *)
theory OperatorDeepCopy
  imports DeepCopy OperatorTypes
begin

text \<open>
  The deep copies of the \<open>Jumpstarter\<close> resource
  (\<open>src/deploy/operator/api/v1alpha1/zz_generated.deepcopy.go\<close>), laid out in memory as in the theory
  of the API objects. The client of the operator hands out deep copies of the objects in its
  cache (\<open>DeepCopyObject\<close>), and the reconciler then changes the endpoints of the resource in place.

  The deep copies of \<open>ObjectMeta\<close>, \<open>ListMeta\<close>, \<open>ResourceRequirements\<close>, \<open>TopologySpreadConstraint\<close> and
  \<open>JWTAuthenticator\<close> are library code.
\<close>

section \<open>Structs and cells\<close>

record mRouteConfig =
  mrc_Enabled :: bool
  mrc_Annotations :: "addr option"
  mrc_Labels :: "addr option"

record mIngressConfig =
  mic_Enabled :: bool
  mic_Class :: string
  mic_Annotations :: "addr option"
  mic_Labels :: "addr option"

record mNodePortConfig =
  mnp_Enabled :: bool
  mnp_Port :: int
  mnp_Annotations :: "addr option"
  mnp_Labels :: "addr option"

record mLoadBalancerConfig =
  mlb_Enabled :: bool
  mlb_Port :: int
  mlb_Annotations :: "addr option"
  mlb_Labels :: "addr option"

record mClusterIPConfig =
  mci_Enabled :: bool
  mci_Annotations :: "addr option"
  mci_Labels :: "addr option"

record mEndpoint =
  mept_Address :: string
  mept_Route :: "addr option"
  mept_Ingress :: "addr option"
  mept_NodePort :: "addr option"
  mept_LoadBalancer :: "addr option"
  mept_ClusterIP :: "addr option"

record mGRPCKeepaliveConfig =
  mgk_MinTime :: "addr option"
  mgk_PermitWithoutStream :: bool
  mgk_Timeout :: "addr option"
  mgk_MaxConnectionIdle :: "addr option"
  mgk_MaxConnectionAge :: "addr option"
  mgk_MaxConnectionAgeGrace :: "addr option"
  mgk_IntervalTime :: "addr option"

record mGRPCConfig =
  mgc_TLS :: TLSConfig
  mgc_Endpoints :: "addr option"
  mgc_Keepalive :: "addr option"

record mInternalAuthConfig =
  mia_Prefix :: string
  mia_Enabled :: bool
  mia_TokenLifetime :: "addr option"

record mAuthenticationConfig =
  macf_Internal :: mInternalAuthConfig
  macf_K8s :: K8sAuthConfig
  macf_JWT :: "addr option"

record mExporterOptions =
  meo_OfflineTimeout :: "addr option"

record mRestAPIConfig =
  mra_TLS :: TLSConfig
  mra_Endpoints :: "addr option"

record 'l mControllerConfig =
  mcc_Image :: string
  mcc_ImagePullPolicy :: string
  mcc_Resources :: 'l
  mcc_Replicas :: int
  mcc_ExporterOptions :: mExporterOptions
  mcc_RestAPI :: mRestAPIConfig
  mcc_GRPC :: mGRPCConfig
  mcc_Authentication :: mAuthenticationConfig

record 'l mRoutersConfig =
  mro_Image :: string
  mro_ImagePullPolicy :: string
  mro_Resources :: 'l
  mro_Replicas :: int
  mro_TopologySpreadConstraints :: "addr option"
  mro_GRPC :: mGRPCConfig

record 'l mJumpstarterSpec =
  mjs_BaseDomain :: string
  mjs_UseCertManager :: bool
  mjs_Controller :: "'l mControllerConfig"
  mjs_Routers :: "'l mRoutersConfig"
  mjs_Authentication :: mAuthenticationConfig

text \<open>The status of the resource is the empty struct.\<close>

record 'l mJumpstarter =
  mj_TypeMeta :: TypeMeta
  mj_ObjectMeta :: 'l
  mj_Spec :: "'l mJumpstarterSpec"
  mj_Status :: unit

datatype 'l ocell =
    ODuration duration
  | OMap strmap
  | ORoute mRouteConfig
  | OIngress mIngressConfig
  | ONodePort mNodePortConfig
  | OLoadBalancer mLoadBalancerConfig
  | OClusterIP mClusterIPConfig
  | OEndpoints "mEndpoint list"
  | OKeepalive mGRPCKeepaliveConfig
  | OJWTs "'l list"
  | OConstraints "'l list"
  | OJumpstarters "'l mJumpstarter list"
  | OLibrary 'l

fun got_Duration :: "'l ocell \<Rightarrow> duration option" where
  "got_Duration (ODuration x) = Some x" | "got_Duration _ = None"
fun got_Map :: "'l ocell \<Rightarrow> strmap option" where
  "got_Map (OMap x) = Some x" | "got_Map _ = None"
fun got_Route :: "'l ocell \<Rightarrow> mRouteConfig option" where
  "got_Route (ORoute x) = Some x" | "got_Route _ = None"
fun got_Ingress :: "'l ocell \<Rightarrow> mIngressConfig option" where
  "got_Ingress (OIngress x) = Some x" | "got_Ingress _ = None"
fun got_NodePort :: "'l ocell \<Rightarrow> mNodePortConfig option" where
  "got_NodePort (ONodePort x) = Some x" | "got_NodePort _ = None"
fun got_LoadBalancer :: "'l ocell \<Rightarrow> mLoadBalancerConfig option" where
  "got_LoadBalancer (OLoadBalancer x) = Some x" | "got_LoadBalancer _ = None"
fun got_ClusterIP :: "'l ocell \<Rightarrow> mClusterIPConfig option" where
  "got_ClusterIP (OClusterIP x) = Some x" | "got_ClusterIP _ = None"
fun got_Endpoints :: "'l ocell \<Rightarrow> mEndpoint list option" where
  "got_Endpoints (OEndpoints x) = Some x" | "got_Endpoints _ = None"
fun got_Keepalive :: "'l ocell \<Rightarrow> mGRPCKeepaliveConfig option" where
  "got_Keepalive (OKeepalive x) = Some x" | "got_Keepalive _ = None"
fun got_JWTs :: "'l ocell \<Rightarrow> 'l list option" where
  "got_JWTs (OJWTs x) = Some x" | "got_JWTs _ = None"
fun got_Constraints :: "'l ocell \<Rightarrow> 'l list option" where
  "got_Constraints (OConstraints x) = Some x" | "got_Constraints _ = None"
fun got_Jumpstarters :: "'l ocell \<Rightarrow> 'l mJumpstarter list option" where
  "got_Jumpstarters (OJumpstarters x) = Some x" | "got_Jumpstarters _ = None"

type_synonym ('l, 'a) ocopy = "'a \<Rightarrow> 'l ocell heap \<Rightarrow> 'a \<times> 'l ocell heap"

record 'l olib =
  ol_ObjectMeta :: "('l, 'l) ocopy"
  ol_ListMeta :: "('l, 'l) ocopy"
  ol_ResourceRequirements :: "('l, 'l) ocopy"
  ol_TopologySpreadConstraint :: "('l, 'l) ocopy"
  ol_JWTAuthenticator :: "('l, 'l) ocopy"

section \<open>The copies\<close>

abbreviation ocopy_duration :: "('l, addr option) ocopy" where "ocopy_duration \<equiv> copy_ref ODuration got_Duration copy_flat"
abbreviation ocopy_map :: "('l, addr option) ocopy" where "ocopy_map \<equiv> copy_ref OMap got_Map copy_strmap"

definition RouteConfig_DeepCopyInto :: "('l, mRouteConfig) ocopy" where
  "RouteConfig_DeepCopyInto src h =
     (let (a, h) = ocopy_map (mrc_Annotations src) h;
          (l, h) = ocopy_map (mrc_Labels src) h
      in (src\<lparr>mrc_Annotations := a, mrc_Labels := l\<rparr>, h))"

definition IngressConfig_DeepCopyInto :: "('l, mIngressConfig) ocopy" where
  "IngressConfig_DeepCopyInto src h =
     (let (a, h) = ocopy_map (mic_Annotations src) h;
          (l, h) = ocopy_map (mic_Labels src) h
      in (src\<lparr>mic_Annotations := a, mic_Labels := l\<rparr>, h))"

definition NodePortConfig_DeepCopyInto :: "('l, mNodePortConfig) ocopy" where
  "NodePortConfig_DeepCopyInto src h =
     (let (a, h) = ocopy_map (mnp_Annotations src) h;
          (l, h) = ocopy_map (mnp_Labels src) h
      in (src\<lparr>mnp_Annotations := a, mnp_Labels := l\<rparr>, h))"

definition LoadBalancerConfig_DeepCopyInto :: "('l, mLoadBalancerConfig) ocopy" where
  "LoadBalancerConfig_DeepCopyInto src h =
     (let (a, h) = ocopy_map (mlb_Annotations src) h;
          (l, h) = ocopy_map (mlb_Labels src) h
      in (src\<lparr>mlb_Annotations := a, mlb_Labels := l\<rparr>, h))"

definition ClusterIPConfig_DeepCopyInto :: "('l, mClusterIPConfig) ocopy" where
  "ClusterIPConfig_DeepCopyInto src h =
     (let (a, h) = ocopy_map (mci_Annotations src) h;
          (l, h) = ocopy_map (mci_Labels src) h
      in (src\<lparr>mci_Annotations := a, mci_Labels := l\<rparr>, h))"

definition Endpoint_DeepCopyInto :: "('l, mEndpoint) ocopy" where
  "Endpoint_DeepCopyInto src h =
     (let (r, h) = copy_ref ORoute got_Route RouteConfig_DeepCopyInto (mept_Route src) h;
          (i, h) = copy_ref OIngress got_Ingress IngressConfig_DeepCopyInto (mept_Ingress src) h;
          (n, h) = copy_ref ONodePort got_NodePort NodePortConfig_DeepCopyInto (mept_NodePort src) h;
          (l, h) = copy_ref OLoadBalancer got_LoadBalancer LoadBalancerConfig_DeepCopyInto (mept_LoadBalancer src) h;
          (c, h) = copy_ref OClusterIP got_ClusterIP ClusterIPConfig_DeepCopyInto (mept_ClusterIP src) h
      in (src\<lparr>mept_Route := r, mept_Ingress := i,
            mept_NodePort := n, mept_LoadBalancer := l, mept_ClusterIP := c\<rparr>, h))"

definition GRPCKeepaliveConfig_DeepCopyInto :: "('l, mGRPCKeepaliveConfig) ocopy" where
  "GRPCKeepaliveConfig_DeepCopyInto src h =
     (let (m, h) = ocopy_duration (mgk_MinTime src) h;
          (t, h) = ocopy_duration (mgk_Timeout src) h;
          (i, h) = ocopy_duration (mgk_MaxConnectionIdle src) h;
          (a, h) = ocopy_duration (mgk_MaxConnectionAge src) h;
          (g, h) = ocopy_duration (mgk_MaxConnectionAgeGrace src) h;
          (v, h) = ocopy_duration (mgk_IntervalTime src) h
      in (src\<lparr>mgk_MinTime := m, mgk_Timeout := t, mgk_MaxConnectionIdle := i,
            mgk_MaxConnectionAge := a, mgk_MaxConnectionAgeGrace := g, mgk_IntervalTime := v\<rparr>, h))"

definition TLSConfig_DeepCopyInto :: "('l, TLSConfig) ocopy" where
  "TLSConfig_DeepCopyInto src h = (src, h)"

definition GRPCConfig_DeepCopyInto :: "('l, mGRPCConfig) ocopy" where
  "GRPCConfig_DeepCopyInto src h =
     (let (e, h) = copy_ref OEndpoints got_Endpoints (copy_list Endpoint_DeepCopyInto) (mgc_Endpoints src) h;
          (k, h) = copy_ref OKeepalive got_Keepalive GRPCKeepaliveConfig_DeepCopyInto (mgc_Keepalive src) h
      in (src\<lparr>mgc_TLS := mgc_TLS src, mgc_Endpoints := e, mgc_Keepalive := k\<rparr>, h))"

definition InternalAuthConfig_DeepCopyInto :: "('l, mInternalAuthConfig) ocopy" where
  "InternalAuthConfig_DeepCopyInto src h =
     (let (t, h) = ocopy_duration (mia_TokenLifetime src) h
      in (src\<lparr>mia_TokenLifetime := t\<rparr>, h))"

definition K8sAuthConfig_DeepCopyInto :: "('l, K8sAuthConfig) ocopy" where
  "K8sAuthConfig_DeepCopyInto src h = (src, h)"

definition AuthenticationConfig_DeepCopyInto :: "'l olib \<Rightarrow> ('l, mAuthenticationConfig) ocopy" where
  "AuthenticationConfig_DeepCopyInto lb src h =
     (let (i, h) = InternalAuthConfig_DeepCopyInto (macf_Internal src) h;
          (j, h) = copy_ref OJWTs got_JWTs (copy_list (ol_JWTAuthenticator lb)) (macf_JWT src) h
      in (src\<lparr>macf_K8s := macf_K8s src, macf_Internal := i, macf_JWT := j\<rparr>, h))"

definition ExporterOptions_DeepCopyInto :: "('l, mExporterOptions) ocopy" where
  "ExporterOptions_DeepCopyInto src h =
     (let (t, h) = ocopy_duration (meo_OfflineTimeout src) h
      in (src\<lparr>meo_OfflineTimeout := t\<rparr>, h))"

definition RestAPIConfig_DeepCopyInto :: "('l, mRestAPIConfig) ocopy" where
  "RestAPIConfig_DeepCopyInto src h =
     (let (e, h) = copy_ref OEndpoints got_Endpoints (copy_list Endpoint_DeepCopyInto) (mra_Endpoints src) h
      in (src\<lparr>mra_TLS := mra_TLS src, mra_Endpoints := e\<rparr>, h))"

definition ControllerConfig_DeepCopyInto :: "'l olib \<Rightarrow> ('l, 'l mControllerConfig) ocopy" where
  "ControllerConfig_DeepCopyInto lb src h =
     (let (r, h) = ol_ResourceRequirements lb (mcc_Resources src) h;
          (e, h) = ExporterOptions_DeepCopyInto (mcc_ExporterOptions src) h;
          (p, h) = RestAPIConfig_DeepCopyInto (mcc_RestAPI src) h;
          (g, h) = GRPCConfig_DeepCopyInto (mcc_GRPC src) h;
          (a, h) = AuthenticationConfig_DeepCopyInto lb (mcc_Authentication src) h
      in (src\<lparr>mcc_Resources := r, mcc_ExporterOptions := e,
            mcc_RestAPI := p, mcc_GRPC := g, mcc_Authentication := a\<rparr>, h))"

definition RoutersConfig_DeepCopyInto :: "'l olib \<Rightarrow> ('l, 'l mRoutersConfig) ocopy" where
  "RoutersConfig_DeepCopyInto lb src h =
     (let (r, h) = ol_ResourceRequirements lb (mro_Resources src) h;
          (t, h) = copy_ref OConstraints got_Constraints (copy_list (ol_TopologySpreadConstraint lb)) (mro_TopologySpreadConstraints src) h;
          (g, h) = GRPCConfig_DeepCopyInto (mro_GRPC src) h
      in (src\<lparr>mro_Resources := r, mro_TopologySpreadConstraints := t, mro_GRPC := g\<rparr>, h))"

definition JumpstarterSpec_DeepCopyInto :: "'l olib \<Rightarrow> ('l, 'l mJumpstarterSpec) ocopy" where
  "JumpstarterSpec_DeepCopyInto lb src h =
     (let (c, h) = ControllerConfig_DeepCopyInto lb (mjs_Controller src) h;
          (r, h) = RoutersConfig_DeepCopyInto lb (mjs_Routers src) h;
          (a, h) = AuthenticationConfig_DeepCopyInto lb (mjs_Authentication src) h
      in (src\<lparr>mjs_Controller := c, mjs_Routers := r, mjs_Authentication := a\<rparr>, h))"

definition JumpstarterStatus_DeepCopyInto :: "('l, unit) ocopy" where
  "JumpstarterStatus_DeepCopyInto src h = (src, h)"

definition Jumpstarter_DeepCopyInto :: "'l olib \<Rightarrow> ('l, 'l mJumpstarter) ocopy" where
  "Jumpstarter_DeepCopyInto lb src h =
     (let (m, h) = ol_ObjectMeta lb (mj_ObjectMeta src) h;
          (s, h) = JumpstarterSpec_DeepCopyInto lb (mj_Spec src) h
      in (src\<lparr>mj_TypeMeta := mj_TypeMeta src, mj_ObjectMeta := m, mj_Spec := s, mj_Status := mj_Status src\<rparr>, h))"

definition JumpstarterList_DeepCopyInto :: "'l olib \<Rightarrow> ('l, 'l mList) ocopy" where
  "JumpstarterList_DeepCopyInto lb src h =
     (let (m, h) = ol_ListMeta lb (mli_ListMeta src) h;
          (xs, h) = copy_ref OJumpstarters got_Jumpstarters (copy_list (Jumpstarter_DeepCopyInto lb)) (mli_Items src) h
      in (src\<lparr>mli_TypeMeta := mli_TypeMeta src, mli_ListMeta := m, mli_Items := xs\<rparr>, h))"

text \<open>\<open>DeepCopy\<close> of each struct.\<close>

definition AuthenticationConfig_DeepCopy :: "'l olib \<Rightarrow> ('l, mAuthenticationConfig option) ocopy" where
  "AuthenticationConfig_DeepCopy lb = new_copy (AuthenticationConfig_DeepCopyInto lb)"

definition ClusterIPConfig_DeepCopy :: "('l, mClusterIPConfig option) ocopy" where
  "ClusterIPConfig_DeepCopy = new_copy ClusterIPConfig_DeepCopyInto"

definition ControllerConfig_DeepCopy :: "'l olib \<Rightarrow> ('l, 'l mControllerConfig option) ocopy" where
  "ControllerConfig_DeepCopy lb = new_copy (ControllerConfig_DeepCopyInto lb)"

definition Endpoint_DeepCopy :: "('l, mEndpoint option) ocopy" where
  "Endpoint_DeepCopy = new_copy Endpoint_DeepCopyInto"

definition ExporterOptions_DeepCopy :: "('l, mExporterOptions option) ocopy" where
  "ExporterOptions_DeepCopy = new_copy ExporterOptions_DeepCopyInto"

definition GRPCConfig_DeepCopy :: "('l, mGRPCConfig option) ocopy" where
  "GRPCConfig_DeepCopy = new_copy GRPCConfig_DeepCopyInto"

definition GRPCKeepaliveConfig_DeepCopy :: "('l, mGRPCKeepaliveConfig option) ocopy" where
  "GRPCKeepaliveConfig_DeepCopy = new_copy GRPCKeepaliveConfig_DeepCopyInto"

definition IngressConfig_DeepCopy :: "('l, mIngressConfig option) ocopy" where
  "IngressConfig_DeepCopy = new_copy IngressConfig_DeepCopyInto"

definition InternalAuthConfig_DeepCopy :: "('l, mInternalAuthConfig option) ocopy" where
  "InternalAuthConfig_DeepCopy = new_copy InternalAuthConfig_DeepCopyInto"

definition Jumpstarter_DeepCopy :: "'l olib \<Rightarrow> ('l, 'l mJumpstarter option) ocopy" where
  "Jumpstarter_DeepCopy lb = new_copy (Jumpstarter_DeepCopyInto lb)"

definition JumpstarterList_DeepCopy :: "'l olib \<Rightarrow> ('l, 'l mList option) ocopy" where
  "JumpstarterList_DeepCopy lb = new_copy (JumpstarterList_DeepCopyInto lb)"

definition JumpstarterSpec_DeepCopy :: "'l olib \<Rightarrow> ('l, 'l mJumpstarterSpec option) ocopy" where
  "JumpstarterSpec_DeepCopy lb = new_copy (JumpstarterSpec_DeepCopyInto lb)"

definition JumpstarterStatus_DeepCopy :: "('l, unit option) ocopy" where
  "JumpstarterStatus_DeepCopy = new_copy JumpstarterStatus_DeepCopyInto"

definition K8sAuthConfig_DeepCopy :: "('l, K8sAuthConfig option) ocopy" where
  "K8sAuthConfig_DeepCopy = new_copy K8sAuthConfig_DeepCopyInto"

definition LoadBalancerConfig_DeepCopy :: "('l, mLoadBalancerConfig option) ocopy" where
  "LoadBalancerConfig_DeepCopy = new_copy LoadBalancerConfig_DeepCopyInto"

definition NodePortConfig_DeepCopy :: "('l, mNodePortConfig option) ocopy" where
  "NodePortConfig_DeepCopy = new_copy NodePortConfig_DeepCopyInto"

definition RestAPIConfig_DeepCopy :: "('l, mRestAPIConfig option) ocopy" where
  "RestAPIConfig_DeepCopy = new_copy RestAPIConfig_DeepCopyInto"

definition RouteConfig_DeepCopy :: "('l, mRouteConfig option) ocopy" where
  "RouteConfig_DeepCopy = new_copy RouteConfig_DeepCopyInto"

definition RoutersConfig_DeepCopy :: "'l olib \<Rightarrow> ('l, 'l mRoutersConfig option) ocopy" where
  "RoutersConfig_DeepCopy lb = new_copy (RoutersConfig_DeepCopyInto lb)"

definition TLSConfig_DeepCopy :: "('l, TLSConfig option) ocopy" where
  "TLSConfig_DeepCopy = new_copy TLSConfig_DeepCopyInto"

datatype 'l oObject = OJumpstarter "'l mJumpstarter" | OJumpstarterList "'l mList"

definition as_oObject :: "('a \<Rightarrow> 'l oObject) \<Rightarrow> 'a option \<times> 'l ocell heap \<Rightarrow> 'l oObject option \<times> 'l ocell heap" where
  "as_oObject obj r = (case r of (Some c, h) \<Rightarrow> (Some (obj c), h) | (None, h) \<Rightarrow> (None, h))"

definition Jumpstarter_DeepCopyObject ::
  "'l olib \<Rightarrow> 'l mJumpstarter option \<Rightarrow> 'l ocell heap \<Rightarrow> 'l oObject option \<times> 'l ocell heap" where
  "Jumpstarter_DeepCopyObject lb src h = as_oObject OJumpstarter (Jumpstarter_DeepCopy lb src h)"

definition JumpstarterList_DeepCopyObject ::
  "'l olib \<Rightarrow> 'l mList option \<Rightarrow> 'l ocell heap \<Rightarrow> 'l oObject option \<times> 'l ocell heap" where
  "JumpstarterList_DeepCopyObject lb src h = as_oObject OJumpstarterList (JumpstarterList_DeepCopy lb src h)"

section \<open>Values\<close>

record ('l, 'm) oview =
  ov_ObjectMeta :: "'l ocell heap \<Rightarrow> 'l \<Rightarrow> (ObjectMeta \<times> time option) option"
  oo_ObjectMeta :: "'l ocell heap \<Rightarrow> 'l \<Rightarrow> addr set"
  ov_ListMeta :: "'l ocell heap \<Rightarrow> 'l \<Rightarrow> 'm option"
  oo_ListMeta :: "'l ocell heap \<Rightarrow> 'l \<Rightarrow> addr set"
  ov_ResourceRequirements :: "'l ocell heap \<Rightarrow> 'l \<Rightarrow> string option"
  oo_ResourceRequirements :: "'l ocell heap \<Rightarrow> 'l \<Rightarrow> addr set"
  ov_TopologySpreadConstraint :: "'l ocell heap \<Rightarrow> 'l \<Rightarrow> string option"
  oo_TopologySpreadConstraint :: "'l ocell heap \<Rightarrow> 'l \<Rightarrow> addr set"
  ov_JWTAuthenticator :: "'l ocell heap \<Rightarrow> 'l \<Rightarrow> JWTAuthenticator option"
  oo_JWTAuthenticator :: "'l ocell heap \<Rightarrow> 'l \<Rightarrow> addr set"

definition olib_ok :: "'l olib \<Rightarrow> ('l, 'm) oview \<Rightarrow> bool" where
  "olib_ok lb lv \<longleftrightarrow>
     copier (ov_ObjectMeta lv) (oo_ObjectMeta lv) (ol_ObjectMeta lb) \<and>
     copier (ov_ListMeta lv) (oo_ListMeta lv) (ol_ListMeta lb) \<and>
     copier (ov_ResourceRequirements lv) (oo_ResourceRequirements lv) (ol_ResourceRequirements lb) \<and>
     copier (ov_TopologySpreadConstraint lv) (oo_TopologySpreadConstraint lv) (ol_TopologySpreadConstraint lb) \<and>
     copier (ov_JWTAuthenticator lv) (oo_JWTAuthenticator lv) (ol_JWTAuthenticator lb)"

lemma olib_okD:
  assumes "olib_ok lb lv"
  shows "copier (ov_ObjectMeta lv) (oo_ObjectMeta lv) (ol_ObjectMeta lb)"
    "copier (ov_ListMeta lv) (oo_ListMeta lv) (ol_ListMeta lb)"
    "copier (ov_ResourceRequirements lv) (oo_ResourceRequirements lv) (ol_ResourceRequirements lb)"
    "copier (ov_TopologySpreadConstraint lv) (oo_TopologySpreadConstraint lv) (ol_TopologySpreadConstraint lb)"
    "copier (ov_JWTAuthenticator lv) (oo_JWTAuthenticator lv) (ol_JWTAuthenticator lb)"
  using assms by (simp_all add: olib_ok_def)

type_synonym ('l, 'a, 'v) oval = "'l ocell heap \<Rightarrow> 'a \<Rightarrow> 'v option"
type_synonym ('l, 'a) oown = "'l ocell heap \<Rightarrow> 'a \<Rightarrow> addr set"

abbreviation oval_duration :: "('l, addr option, duration option) oval" where "oval_duration \<equiv> val_ref got_Duration val_flat"
abbreviation oown_duration :: "('l, addr option) oown" where "oown_duration \<equiv> own_ref got_Duration own_flat"
abbreviation oval_map :: "('l, addr option, strmap option) oval" where "oval_map \<equiv> val_ref got_Map val_strmap"
abbreviation oown_map :: "('l, addr option) oown" where "oown_map \<equiv> own_ref got_Map own_flat"

lemma ofield_copiers:
  "copier oval_duration oown_duration ocopy_duration" "copier oval_map oown_map ocopy_map"
  by (rule copier_ref; simp add: copiers)+

definition val_RouteConfig :: "('l, mRouteConfig, RouteConfig) oval" where
  "val_RouteConfig h x =
     map_option (\<lambda>(a, l). \<lparr>rc_Enabled = mrc_Enabled x, rc_Annotations = nil_list a, rc_Labels = nil_list l\<rparr>)
       (val_pair oval_map oval_map h (mrc_Annotations x, mrc_Labels x))"

definition own_RouteConfig :: "('l, mRouteConfig) oown" where
  "own_RouteConfig h x =
     own_pair oown_map oown_map h (mrc_Annotations x, mrc_Labels x)"

lemma RouteConfig_copier:
  "copier val_RouteConfig own_RouteConfig RouteConfig_DeepCopyInto"
  by (rule copier_struct [where get = "\<lambda>x. (mrc_Annotations x, mrc_Labels x)"
        and put = "\<lambda>x (a, l). x\<lparr>mrc_Annotations := a, mrc_Labels := l\<rparr>",
        OF copier_pair [OF ofield_copiers(2) ofield_copiers(2)]])
    (auto simp: val_RouteConfig_def own_RouteConfig_def RouteConfig_DeepCopyInto_def struct_simps)

definition val_IngressConfig :: "('l, mIngressConfig, IngressConfig) oval" where
  "val_IngressConfig h x =
     map_option (\<lambda>(a, l). \<lparr>ic_Enabled = mic_Enabled x, ic_Class = mic_Class x, ic_Annotations = nil_list a, ic_Labels = nil_list l\<rparr>)
       (val_pair oval_map oval_map h (mic_Annotations x, mic_Labels x))"

definition own_IngressConfig :: "('l, mIngressConfig) oown" where
  "own_IngressConfig h x =
     own_pair oown_map oown_map h (mic_Annotations x, mic_Labels x)"

lemma IngressConfig_copier:
  "copier val_IngressConfig own_IngressConfig IngressConfig_DeepCopyInto"
  by (rule copier_struct [where get = "\<lambda>x. (mic_Annotations x, mic_Labels x)"
        and put = "\<lambda>x (a, l). x\<lparr>mic_Annotations := a, mic_Labels := l\<rparr>",
        OF copier_pair [OF ofield_copiers(2) ofield_copiers(2)]])
    (auto simp: val_IngressConfig_def own_IngressConfig_def IngressConfig_DeepCopyInto_def struct_simps)

definition val_NodePortConfig :: "('l, mNodePortConfig, NodePortConfig) oval" where
  "val_NodePortConfig h x =
     map_option (\<lambda>(a, l). \<lparr>np_Enabled = mnp_Enabled x, np_Port = mnp_Port x, np_Annotations = nil_list a, np_Labels = nil_list l\<rparr>)
       (val_pair oval_map oval_map h (mnp_Annotations x, mnp_Labels x))"

definition own_NodePortConfig :: "('l, mNodePortConfig) oown" where
  "own_NodePortConfig h x =
     own_pair oown_map oown_map h (mnp_Annotations x, mnp_Labels x)"

lemma NodePortConfig_copier:
  "copier val_NodePortConfig own_NodePortConfig NodePortConfig_DeepCopyInto"
  by (rule copier_struct [where get = "\<lambda>x. (mnp_Annotations x, mnp_Labels x)"
        and put = "\<lambda>x (a, l). x\<lparr>mnp_Annotations := a, mnp_Labels := l\<rparr>",
        OF copier_pair [OF ofield_copiers(2) ofield_copiers(2)]])
    (auto simp: val_NodePortConfig_def own_NodePortConfig_def NodePortConfig_DeepCopyInto_def struct_simps)

definition val_LoadBalancerConfig :: "('l, mLoadBalancerConfig, LoadBalancerConfig) oval" where
  "val_LoadBalancerConfig h x =
     map_option (\<lambda>(a, l). \<lparr>lb_Enabled = mlb_Enabled x, lb_Port = mlb_Port x, lb_Annotations = nil_list a, lb_Labels = nil_list l\<rparr>)
       (val_pair oval_map oval_map h (mlb_Annotations x, mlb_Labels x))"

definition own_LoadBalancerConfig :: "('l, mLoadBalancerConfig) oown" where
  "own_LoadBalancerConfig h x =
     own_pair oown_map oown_map h (mlb_Annotations x, mlb_Labels x)"

lemma LoadBalancerConfig_copier:
  "copier val_LoadBalancerConfig own_LoadBalancerConfig LoadBalancerConfig_DeepCopyInto"
  by (rule copier_struct [where get = "\<lambda>x. (mlb_Annotations x, mlb_Labels x)"
        and put = "\<lambda>x (a, l). x\<lparr>mlb_Annotations := a, mlb_Labels := l\<rparr>",
        OF copier_pair [OF ofield_copiers(2) ofield_copiers(2)]])
    (auto simp: val_LoadBalancerConfig_def own_LoadBalancerConfig_def LoadBalancerConfig_DeepCopyInto_def struct_simps)

definition val_ClusterIPConfig :: "('l, mClusterIPConfig, ClusterIPConfig) oval" where
  "val_ClusterIPConfig h x =
     map_option (\<lambda>(a, l). \<lparr>ci_Enabled = mci_Enabled x, ci_Annotations = nil_list a, ci_Labels = nil_list l\<rparr>)
       (val_pair oval_map oval_map h (mci_Annotations x, mci_Labels x))"

definition own_ClusterIPConfig :: "('l, mClusterIPConfig) oown" where
  "own_ClusterIPConfig h x =
     own_pair oown_map oown_map h (mci_Annotations x, mci_Labels x)"

lemma ClusterIPConfig_copier:
  "copier val_ClusterIPConfig own_ClusterIPConfig ClusterIPConfig_DeepCopyInto"
  by (rule copier_struct [where get = "\<lambda>x. (mci_Annotations x, mci_Labels x)"
        and put = "\<lambda>x (a, l). x\<lparr>mci_Annotations := a, mci_Labels := l\<rparr>",
        OF copier_pair [OF ofield_copiers(2) ofield_copiers(2)]])
    (auto simp: val_ClusterIPConfig_def own_ClusterIPConfig_def ClusterIPConfig_DeepCopyInto_def struct_simps)

definition val_Endpoint :: "('l, mEndpoint, Endpoint) oval" where
  "val_Endpoint h x =
     map_option (\<lambda>(r, i, n, l, c). \<lparr>ept_Address = mept_Address x, ept_Route = r, ept_Ingress = i, ept_NodePort = n,
         ept_LoadBalancer = l, ept_ClusterIP = c\<rparr>)
       (val_pair (val_ref got_Route val_RouteConfig)
         (val_pair (val_ref got_Ingress val_IngressConfig)
         (val_pair (val_ref got_NodePort val_NodePortConfig)
         (val_pair (val_ref got_LoadBalancer val_LoadBalancerConfig) (val_ref got_ClusterIP val_ClusterIPConfig))))
         h (mept_Route x, mept_Ingress x, mept_NodePort x, mept_LoadBalancer x, mept_ClusterIP x))"

definition own_Endpoint :: "('l, mEndpoint) oown" where
  "own_Endpoint h x =
     own_pair (own_ref got_Route own_RouteConfig)
       (own_pair (own_ref got_Ingress own_IngressConfig)
       (own_pair (own_ref got_NodePort own_NodePortConfig)
       (own_pair (own_ref got_LoadBalancer own_LoadBalancerConfig) (own_ref got_ClusterIP own_ClusterIPConfig))))
       h (mept_Route x, mept_Ingress x, mept_NodePort x, mept_LoadBalancer x, mept_ClusterIP x)"

lemma Endpoint_copier:
  "copier val_Endpoint own_Endpoint Endpoint_DeepCopyInto"
  by (rule copier_struct [where get = "\<lambda>x. (mept_Route x, mept_Ingress x, mept_NodePort x, mept_LoadBalancer x, mept_ClusterIP x)"
        and put = "\<lambda>x (r, i, n, l, c). x\<lparr>mept_Route := r, mept_Ingress := i, mept_NodePort := n, mept_LoadBalancer := l, mept_ClusterIP := c\<rparr>",
        OF 
          copier_pair [OF copier_ref [OF RouteConfig_copier got_Route.simps(1)] 
          copier_pair [OF copier_ref [OF IngressConfig_copier got_Ingress.simps(1)] 
          copier_pair [OF copier_ref [OF NodePortConfig_copier got_NodePort.simps(1)] 
          copier_pair [OF copier_ref [OF LoadBalancerConfig_copier got_LoadBalancer.simps(1)] copier_ref [OF ClusterIPConfig_copier got_ClusterIP.simps(1)]]]]]])
    (auto simp: val_Endpoint_def own_Endpoint_def Endpoint_DeepCopyInto_def struct_simps)

definition val_GRPCKeepaliveConfig :: "('l, mGRPCKeepaliveConfig, GRPCKeepaliveConfig) oval" where
  "val_GRPCKeepaliveConfig h x =
     map_option (\<lambda>(m, t, i, a, g, v). \<lparr>gk_MinTime = m, gk_PermitWithoutStream = mgk_PermitWithoutStream x, gk_Timeout = t,
         gk_MaxConnectionIdle = i, gk_MaxConnectionAge = a, gk_MaxConnectionAgeGrace = g, gk_IntervalTime = v\<rparr>)
       (val_pair oval_duration
         (val_pair oval_duration
         (val_pair oval_duration
         (val_pair oval_duration
         (val_pair oval_duration oval_duration))))
         h (mgk_MinTime x, mgk_Timeout x, mgk_MaxConnectionIdle x, mgk_MaxConnectionAge x, mgk_MaxConnectionAgeGrace x, mgk_IntervalTime x))"

definition own_GRPCKeepaliveConfig :: "('l, mGRPCKeepaliveConfig) oown" where
  "own_GRPCKeepaliveConfig h x =
     own_pair oown_duration
       (own_pair oown_duration
       (own_pair oown_duration
       (own_pair oown_duration
       (own_pair oown_duration oown_duration))))
       h (mgk_MinTime x, mgk_Timeout x, mgk_MaxConnectionIdle x, mgk_MaxConnectionAge x, mgk_MaxConnectionAgeGrace x, mgk_IntervalTime x)"

lemma GRPCKeepaliveConfig_copier:
  "copier val_GRPCKeepaliveConfig own_GRPCKeepaliveConfig GRPCKeepaliveConfig_DeepCopyInto"
  by (rule copier_struct [where get = "\<lambda>x. (mgk_MinTime x, mgk_Timeout x, mgk_MaxConnectionIdle x, mgk_MaxConnectionAge x, mgk_MaxConnectionAgeGrace x, mgk_IntervalTime x)"
        and put = "\<lambda>x (m, t, i, a, g, v). x\<lparr>mgk_MinTime := m, mgk_Timeout := t, mgk_MaxConnectionIdle := i, mgk_MaxConnectionAge := a, mgk_MaxConnectionAgeGrace := g, mgk_IntervalTime := v\<rparr>",
        OF 
          copier_pair [OF ofield_copiers(1) 
          copier_pair [OF ofield_copiers(1) 
          copier_pair [OF ofield_copiers(1) 
          copier_pair [OF ofield_copiers(1) 
          copier_pair [OF ofield_copiers(1) ofield_copiers(1)]]]]]])
    (auto simp: val_GRPCKeepaliveConfig_def own_GRPCKeepaliveConfig_def GRPCKeepaliveConfig_DeepCopyInto_def struct_simps)

definition val_GRPCConfig :: "('l, mGRPCConfig, GRPCConfig) oval" where
  "val_GRPCConfig h x =
     map_option (\<lambda>(e, k). \<lparr>gc_TLS = mgc_TLS x, gc_Endpoints = nil_list e, gc_Keepalive = k\<rparr>)
       (val_pair (val_ref got_Endpoints (val_list val_Endpoint)) (val_ref got_Keepalive val_GRPCKeepaliveConfig)
         h (mgc_Endpoints x, mgc_Keepalive x))"

definition own_GRPCConfig :: "('l, mGRPCConfig) oown" where
  "own_GRPCConfig h x =
     own_pair (own_ref got_Endpoints (own_list own_Endpoint)) (own_ref got_Keepalive own_GRPCKeepaliveConfig)
       h (mgc_Endpoints x, mgc_Keepalive x)"

lemma GRPCConfig_copier:
  "copier val_GRPCConfig own_GRPCConfig GRPCConfig_DeepCopyInto"
  by (rule copier_struct [where get = "\<lambda>x. (mgc_Endpoints x, mgc_Keepalive x)"
        and put = "\<lambda>x (e, k). x\<lparr>mgc_Endpoints := e, mgc_Keepalive := k\<rparr>",
        OF 
          copier_pair [OF copier_ref [OF copier_list [OF Endpoint_copier] got_Endpoints.simps(1)] copier_ref [OF GRPCKeepaliveConfig_copier got_Keepalive.simps(1)]]])
    (auto simp: val_GRPCConfig_def own_GRPCConfig_def GRPCConfig_DeepCopyInto_def struct_simps)

definition val_InternalAuthConfig :: "('l, mInternalAuthConfig, InternalAuthConfig) oval" where
  "val_InternalAuthConfig h x =
     map_option (\<lambda>t. \<lparr>ia_Prefix = mia_Prefix x, ia_Enabled = mia_Enabled x, ia_TokenLifetime = t\<rparr>)
       (oval_duration h (mia_TokenLifetime x))"

definition own_InternalAuthConfig :: "('l, mInternalAuthConfig) oown" where
  "own_InternalAuthConfig h x =
     oown_duration h (mia_TokenLifetime x)"

lemma InternalAuthConfig_copier:
  "copier val_InternalAuthConfig own_InternalAuthConfig InternalAuthConfig_DeepCopyInto"
  by (rule copier_struct [where get = "\<lambda>x. mia_TokenLifetime x"
        and put = "\<lambda>x t. x\<lparr>mia_TokenLifetime := t\<rparr>",
        OF ofield_copiers(1)])
    (auto simp: val_InternalAuthConfig_def own_InternalAuthConfig_def InternalAuthConfig_DeepCopyInto_def struct_simps)

definition val_AuthenticationConfig :: "('l, 'm) oview \<Rightarrow> ('l, mAuthenticationConfig, AuthenticationConfig) oval" where
  "val_AuthenticationConfig lv h x =
     map_option (\<lambda>(i, j). \<lparr>acf_Internal = i, acf_K8s = macf_K8s x, acf_JWT = nil_list j\<rparr>)
       (val_pair val_InternalAuthConfig (val_ref got_JWTs (val_list (ov_JWTAuthenticator lv))) h (macf_Internal x, macf_JWT x))"

definition own_AuthenticationConfig :: "('l, 'm) oview \<Rightarrow> ('l, mAuthenticationConfig) oown" where
  "own_AuthenticationConfig lv h x =
     own_pair own_InternalAuthConfig (own_ref got_JWTs (own_list (oo_JWTAuthenticator lv))) h (macf_Internal x, macf_JWT x)"

lemma AuthenticationConfig_copier:
  assumes "olib_ok lb lv"
  shows "copier (val_AuthenticationConfig lv) (own_AuthenticationConfig lv) (AuthenticationConfig_DeepCopyInto lb)"
  by (rule copier_struct [where get = "\<lambda>x. (macf_Internal x, macf_JWT x)"
        and put = "\<lambda>x (i, j). x\<lparr>macf_Internal := i, macf_JWT := j\<rparr>",
        OF 
          copier_pair [OF InternalAuthConfig_copier copier_ref [OF copier_list [OF olib_okD(5) [OF assms]] got_JWTs.simps(1)]]])
    (auto simp: val_AuthenticationConfig_def own_AuthenticationConfig_def AuthenticationConfig_DeepCopyInto_def struct_simps)

definition val_ExporterOptions :: "('l, mExporterOptions, ExporterOptions) oval" where
  "val_ExporterOptions h x =
     map_option (\<lambda>t. \<lparr>eo_OfflineTimeout = t\<rparr>)
       (oval_duration h (meo_OfflineTimeout x))"

definition own_ExporterOptions :: "('l, mExporterOptions) oown" where
  "own_ExporterOptions h x =
     oown_duration h (meo_OfflineTimeout x)"

lemma ExporterOptions_copier:
  "copier val_ExporterOptions own_ExporterOptions ExporterOptions_DeepCopyInto"
  by (rule copier_struct [where get = "\<lambda>x. meo_OfflineTimeout x"
        and put = "\<lambda>x t. x\<lparr>meo_OfflineTimeout := t\<rparr>",
        OF ofield_copiers(1)])
    (auto simp: val_ExporterOptions_def own_ExporterOptions_def ExporterOptions_DeepCopyInto_def struct_simps)

definition val_RestAPIConfig :: "('l, mRestAPIConfig, RestAPIConfig) oval" where
  "val_RestAPIConfig h x =
     map_option (\<lambda>e. \<lparr>ra_TLS = mra_TLS x, ra_Endpoints = nil_list e\<rparr>)
       (val_ref got_Endpoints (val_list val_Endpoint) h (mra_Endpoints x))"

definition own_RestAPIConfig :: "('l, mRestAPIConfig) oown" where
  "own_RestAPIConfig h x =
     own_ref got_Endpoints (own_list own_Endpoint) h (mra_Endpoints x)"

lemma RestAPIConfig_copier:
  "copier val_RestAPIConfig own_RestAPIConfig RestAPIConfig_DeepCopyInto"
  by (rule copier_struct [where get = "\<lambda>x. mra_Endpoints x"
        and put = "\<lambda>x e. x\<lparr>mra_Endpoints := e\<rparr>",
        OF copier_ref [OF copier_list [OF Endpoint_copier] got_Endpoints.simps(1)]])
    (auto simp: val_RestAPIConfig_def own_RestAPIConfig_def RestAPIConfig_DeepCopyInto_def struct_simps)

definition val_ControllerConfig :: "('l, 'm) oview \<Rightarrow> ('l, 'l mControllerConfig, ControllerConfig) oval" where
  "val_ControllerConfig lv h x =
     map_option (\<lambda>(r, e, p, g, a). \<lparr>cc_Image = mcc_Image x, cc_ImagePullPolicy = mcc_ImagePullPolicy x, cc_Resources = r,
         cc_Replicas = mcc_Replicas x, cc_ExporterOptions = e, cc_RestAPI = p, cc_GRPC = g, cc_Authentication = a\<rparr>)
       (val_pair (ov_ResourceRequirements lv)
         (val_pair val_ExporterOptions
         (val_pair val_RestAPIConfig
         (val_pair val_GRPCConfig (val_AuthenticationConfig lv))))
         h (mcc_Resources x, mcc_ExporterOptions x, mcc_RestAPI x, mcc_GRPC x, mcc_Authentication x))"

definition own_ControllerConfig :: "('l, 'm) oview \<Rightarrow> ('l, 'l mControllerConfig) oown" where
  "own_ControllerConfig lv h x =
     own_pair (oo_ResourceRequirements lv)
       (own_pair own_ExporterOptions
       (own_pair own_RestAPIConfig
       (own_pair own_GRPCConfig (own_AuthenticationConfig lv))))
       h (mcc_Resources x, mcc_ExporterOptions x, mcc_RestAPI x, mcc_GRPC x, mcc_Authentication x)"

lemma ControllerConfig_copier:
  assumes "olib_ok lb lv"
  shows "copier (val_ControllerConfig lv) (own_ControllerConfig lv) (ControllerConfig_DeepCopyInto lb)"
  by (rule copier_struct [where get = "\<lambda>x. (mcc_Resources x, mcc_ExporterOptions x, mcc_RestAPI x, mcc_GRPC x, mcc_Authentication x)"
        and put = "\<lambda>x (r, e, p, g, a). x\<lparr>mcc_Resources := r, mcc_ExporterOptions := e, mcc_RestAPI := p, mcc_GRPC := g, mcc_Authentication := a\<rparr>",
        OF 
          copier_pair [OF olib_okD(3) [OF assms] 
          copier_pair [OF ExporterOptions_copier 
          copier_pair [OF RestAPIConfig_copier 
          copier_pair [OF GRPCConfig_copier AuthenticationConfig_copier [OF assms]]]]]])
    (auto simp: val_ControllerConfig_def own_ControllerConfig_def ControllerConfig_DeepCopyInto_def struct_simps)

definition val_RoutersConfig :: "('l, 'm) oview \<Rightarrow> ('l, 'l mRoutersConfig, RoutersConfig) oval" where
  "val_RoutersConfig lv h x =
     map_option (\<lambda>(r, t, g). \<lparr>ro_Image = mro_Image x, ro_ImagePullPolicy = mro_ImagePullPolicy x, ro_Resources = r,
         ro_Replicas = mro_Replicas x, ro_TopologySpreadConstraints = nil_list t, ro_GRPC = g\<rparr>)
       (val_pair (ov_ResourceRequirements lv)
         (val_pair (val_ref got_Constraints (val_list (ov_TopologySpreadConstraint lv))) val_GRPCConfig)
         h (mro_Resources x, mro_TopologySpreadConstraints x, mro_GRPC x))"

definition own_RoutersConfig :: "('l, 'm) oview \<Rightarrow> ('l, 'l mRoutersConfig) oown" where
  "own_RoutersConfig lv h x =
     own_pair (oo_ResourceRequirements lv)
       (own_pair (own_ref got_Constraints (own_list (oo_TopologySpreadConstraint lv))) own_GRPCConfig)
       h (mro_Resources x, mro_TopologySpreadConstraints x, mro_GRPC x)"

lemma RoutersConfig_copier:
  assumes "olib_ok lb lv"
  shows "copier (val_RoutersConfig lv) (own_RoutersConfig lv) (RoutersConfig_DeepCopyInto lb)"
  by (rule copier_struct [where get = "\<lambda>x. (mro_Resources x, mro_TopologySpreadConstraints x, mro_GRPC x)"
        and put = "\<lambda>x (r, t, g). x\<lparr>mro_Resources := r, mro_TopologySpreadConstraints := t, mro_GRPC := g\<rparr>",
        OF 
          copier_pair [OF olib_okD(3) [OF assms] 
          copier_pair [OF copier_ref [OF copier_list [OF olib_okD(4) [OF assms]] got_Constraints.simps(1)] GRPCConfig_copier]]])
    (auto simp: val_RoutersConfig_def own_RoutersConfig_def RoutersConfig_DeepCopyInto_def struct_simps)

definition val_JumpstarterSpec :: "('l, 'm) oview \<Rightarrow> ('l, 'l mJumpstarterSpec, JumpstarterSpec) oval" where
  "val_JumpstarterSpec lv h x =
     map_option (\<lambda>(c, r, a). \<lparr>js_BaseDomain = mjs_BaseDomain x, js_UseCertManager = mjs_UseCertManager x, js_Controller = c,
         js_Routers = r, js_Authentication = a\<rparr>)
       (val_pair (val_ControllerConfig lv) (val_pair (val_RoutersConfig lv) (val_AuthenticationConfig lv))
         h (mjs_Controller x, mjs_Routers x, mjs_Authentication x))"

definition own_JumpstarterSpec :: "('l, 'm) oview \<Rightarrow> ('l, 'l mJumpstarterSpec) oown" where
  "own_JumpstarterSpec lv h x =
     own_pair (own_ControllerConfig lv) (own_pair (own_RoutersConfig lv) (own_AuthenticationConfig lv))
       h (mjs_Controller x, mjs_Routers x, mjs_Authentication x)"

lemma JumpstarterSpec_copier:
  assumes "olib_ok lb lv"
  shows "copier (val_JumpstarterSpec lv) (own_JumpstarterSpec lv) (JumpstarterSpec_DeepCopyInto lb)"
  by (rule copier_struct [where get = "\<lambda>x. (mjs_Controller x, mjs_Routers x, mjs_Authentication x)"
        and put = "\<lambda>x (c, r, a). x\<lparr>mjs_Controller := c, mjs_Routers := r, mjs_Authentication := a\<rparr>",
        OF 
          copier_pair [OF ControllerConfig_copier [OF assms] 
          copier_pair [OF RoutersConfig_copier [OF assms] AuthenticationConfig_copier [OF assms]]]])
    (auto simp: val_JumpstarterSpec_def own_JumpstarterSpec_def JumpstarterSpec_DeepCopyInto_def struct_simps)

definition val_Jumpstarter :: "('l, 'm) oview \<Rightarrow> ('l, 'l mJumpstarter, TypeMeta \<times> Jumpstarter) oval" where
  "val_Jumpstarter lv h x =
     map_option (\<lambda>(m, s). (mj_TypeMeta x, \<lparr>j_Meta = fst m, j_DeletionTimestamp = snd m, j_Spec = s\<rparr>))
       (val_pair (ov_ObjectMeta lv) (val_JumpstarterSpec lv) h (mj_ObjectMeta x, mj_Spec x))"

definition own_Jumpstarter :: "('l, 'm) oview \<Rightarrow> ('l, 'l mJumpstarter) oown" where
  "own_Jumpstarter lv h x =
     own_pair (oo_ObjectMeta lv) (own_JumpstarterSpec lv) h (mj_ObjectMeta x, mj_Spec x)"

lemma Jumpstarter_copier:
  assumes "olib_ok lb lv"
  shows "copier (val_Jumpstarter lv) (own_Jumpstarter lv) (Jumpstarter_DeepCopyInto lb)"
  by (rule copier_struct [where get = "\<lambda>x. (mj_ObjectMeta x, mj_Spec x)"
        and put = "\<lambda>x (m, s). x\<lparr>mj_ObjectMeta := m, mj_Spec := s\<rparr>",
        OF copier_pair [OF olib_okD(1) [OF assms] JumpstarterSpec_copier [OF assms]]])
    (auto simp: val_Jumpstarter_def own_Jumpstarter_def Jumpstarter_DeepCopyInto_def struct_simps)

definition val_JumpstarterList :: "('l, 'm) oview \<Rightarrow> ('l, 'l mList, TypeMeta \<times> 'm \<times> (TypeMeta \<times> Jumpstarter) list) oval" where
  "val_JumpstarterList lv h x =
     map_option (\<lambda>(m, xs). (mli_TypeMeta x, m, nil_list xs))
       (val_pair (ov_ListMeta lv) (val_ref got_Jumpstarters (val_list (val_Jumpstarter lv))) h (mli_ListMeta x, mli_Items x))"

definition own_JumpstarterList :: "('l, 'm) oview \<Rightarrow> ('l, 'l mList) oown" where
  "own_JumpstarterList lv h x =
     own_pair (oo_ListMeta lv) (own_ref got_Jumpstarters (own_list (own_Jumpstarter lv))) h (mli_ListMeta x, mli_Items x)"

lemma JumpstarterList_copier:
  assumes "olib_ok lb lv"
  shows "copier (val_JumpstarterList lv) (own_JumpstarterList lv) (JumpstarterList_DeepCopyInto lb)"
  by (rule copier_struct [where get = "\<lambda>x. (mli_ListMeta x, mli_Items x)"
        and put = "\<lambda>x (m, xs). x\<lparr>mli_ListMeta := m, mli_Items := xs\<rparr>",
        OF 
          copier_pair [OF olib_okD(2) [OF assms] copier_ref [OF copier_list [OF Jumpstarter_copier [OF assms]] got_Jumpstarters.simps(1)]]])
    (auto simp: val_JumpstarterList_def own_JumpstarterList_def JumpstarterList_DeepCopyInto_def struct_simps)

section \<open>Copies are snapshots\<close>

interpretation endpoint_copy: copier val_Endpoint own_Endpoint Endpoint_DeepCopyInto
  by (rule Endpoint_copier)

text \<open>
  Deep copies of a \<open>Jumpstarter\<close> resource and of lists of them are snapshots. So what the
  reconciler does to the copy it is handed leaves the object in the cache as it was.
\<close>

theorem jumpstarter_copies_are_snapshots:
  assumes "olib_ok lb lv"
  shows "snapshots (val_opt (val_Jumpstarter lv)) (own_opt (own_Jumpstarter lv)) (Jumpstarter_DeepCopy lb)"
    and "snapshots (val_opt (val_JumpstarterList lv)) (own_opt (own_JumpstarterList lv)) (JumpstarterList_DeepCopy lb)"
  unfolding Jumpstarter_DeepCopy_def JumpstarterList_DeepCopy_def
  by (intro copier.copy_snapshots copier_new Jumpstarter_copier JumpstarterList_copier assms)+

section \<open>Evaluated instances\<close>

text \<open>The library of the API objects again, on the cells of the operator.\<close>

definition mem_olib :: "slib olib" where
  "mem_olib = \<lparr>ol_ObjectMeta = (\<lambda>x h. let (labels, h) = ocopy_map (sl_Labels x) h in (x\<lparr>sl_Labels := labels\<rparr>, h)),
     ol_ListMeta = copy_flat, ol_ResourceRequirements = copy_flat, ol_TopologySpreadConstraint = copy_flat,
     ol_JWTAuthenticator = copy_flat\<rparr>"

definition mem_oview :: "(slib, string) oview" where
  "mem_oview = \<lparr>ov_ObjectMeta = (\<lambda>h x. map_option (\<lambda>l. ((sl_Meta x)\<lparr>om_Labels := nil_list l\<rparr>, None)) (oval_map h (sl_Labels x))),
     oo_ObjectMeta = (\<lambda>h x. oown_map h (sl_Labels x)),
     ov_ListMeta = (\<lambda>h x. Some (sl_Continue x)), oo_ListMeta = own_flat,
     ov_ResourceRequirements = (\<lambda>h x. Some (sl_Continue x)), oo_ResourceRequirements = own_flat,
     ov_TopologySpreadConstraint = (\<lambda>h x. Some (sl_Continue x)), oo_TopologySpreadConstraint = own_flat,
     ov_JWTAuthenticator = (\<lambda>h x. Some (sl_JWT x)), oo_JWTAuthenticator = own_flat\<rparr>"

lemma mem_olib_ok: "olib_ok mem_olib mem_oview"
proof -
  have "copier (ov_ObjectMeta mem_oview) (oo_ObjectMeta mem_oview) (ol_ObjectMeta mem_olib)"
    by (rule copier_struct [where get = sl_Labels and put = "\<lambda>x l. x\<lparr>sl_Labels := l\<rparr>"
          and mkv = "\<lambda>x l. ((sl_Meta x)\<lparr>om_Labels := nil_list l\<rparr>, None)", OF ofield_copiers(2)])
      (auto simp: mem_oview_def mem_olib_def Let_def split_beta)
  then show ?thesis by (simp add: olib_ok_def copier_part) (simp add: mem_olib_def mem_oview_def copier_part)
qed

text \<open>An endpoint of which the copy has an ingress of its own: writing to that of the original is not seen.\<close>

definition sample_mendpoint :: mEndpoint where
  "sample_mendpoint = \<lparr>mept_Address = ''grpc.example.com'', mept_Route = None, mept_Ingress = Some 0, mept_NodePort = None,
     mept_LoadBalancer = None, mept_ClusterIP = None\<rparr>"

theorem endpoint_copy_keeps_ingress:
  "case Endpoint_DeepCopyInto sample_mendpoint
      [OIngress \<lparr>mic_Enabled = True, mic_Class = ''nginx'', mic_Annotations = Some 1, mic_Labels = None\<rparr>, OMap [(''a'', ''1'')] :: slib ocell] of
     (copy, h) \<Rightarrow> mept_Ingress copy = Some 3 \<and>
       val_Endpoint (h[0 := OIngress \<lparr>mic_Enabled = False, mic_Class = [], mic_Annotations = None, mic_Labels = None\<rparr>, 1 := OMap []]) copy =
       Some \<lparr>ept_Address = ''grpc.example.com'', ept_Route = None, ept_Ingress = Some \<lparr>ic_Enabled = True, ic_Class = ''nginx'',
         ic_Annotations = [(''a'', ''1'')], ic_Labels = []\<rparr>, ept_NodePort = None, ept_LoadBalancer = None, ept_ClusterIP = None\<rparr>"
  by code_simp

end
