(* ===== verification/Spec2Isabelle.thy ===== *)
theory Spec2Isabelle
  imports LeaseResource Reconcilers ClientService RouterService OperatorServices Deployed Registration OperatorDeepCopy
begin

text \<open>
  A verification library of the Jumpstarter controller: the controllers that lease exporters
  (machines with hardware attached) to clients, the gRPC services that clients and exporters
  call, the router that joins their streams, and the operator that deploys all of this.

  \<^bold>\<open>The program.\<close> The state of the system is in Kubernetes objects: leases, exporters, clients,
  access policies and secrets. The lease controller (\<open>internal/controller/lease_controller.go\<close>)
  gives a due lease an exporter that its client may use and that no active lease holds, and ends
  leases. The exporter and client controllers keep credentials, endpoints, conditions and the
  lease reference of an exporter up to date. The controller service
  (\<open>internal/service/controller_service.go\<close>) registers exporters, reports their status, and
  hands the token of a stream from a client's \<open>Dial\<close> to the \<open>Listen\<close> of the exporter; the client
  service (\<open>internal/service/client/v1\<close>) creates, lists, updates and deletes leases. Both
  authenticate every request (\<open>internal/authentication\<close>, \<open>internal/authorization\<close>,
  \<open>internal/oidc\<close>). The router (\<open>internal/service/router_service.go\<close>) joins two streams that
  present tokens of the same name. The operator (\<open>deploy/operator\<close>) turns a \<open>Jumpstarter\<close> resource
  into deployments, services, ingresses, routes, roles, a config map and secrets; the config map is what
  \<open>internal/config\<close> loads. The programs (\<open>cmd\<close>, \<open>deploy/operator/cmd\<close>) read flags, environment and
  configuration and put the parts together.

  \<^bold>\<open>The theories.\<close>
  \<^item> \<open>Prelude\<close>: errors, times and durations with their 64-bit wrap-around, the functions of
    the Go library the code uses, sorting with a comparison function (locale \<open>weak_cmp\<close>), maps.
  \<^item> \<open>ApiTypes\<close>, \<open>Kube\<close>: the API objects (\<open>api/v1alpha1\<close>) and the calls of the API server, as a
    record of functions on a state type; library functions are fields of \<open>ext\<close>. Locale
    \<open>subject_form\<close> is the form of token subjects.
  \<^item> \<open>Identifiers\<close> (\<open>service/utils/identifier.go\<close>, locale \<open>identifier_codec\<close>), \<open>LeaseHelpers\<close> and
    \<open>LeaseResource\<close> (\<open>api/v1alpha1/lease_helpers.go\<close>): time fields, label selectors, protobuf.
  \<^item> \<open>LeaseController\<close> (the pass and the choice of an exporter), \<open>LeaseLifecycle\<close> (refinement of a
    machine with the phases waiting, holding and over; expiry; the branches of the choice),
    \<open>LeaseExclusion\<close> (no exporter is held twice, in every reachable state of a cluster in which each
    list of active leases shows the leases that hold an exporter; with a list that lags behind, an
    exporter is given twice).
  \<^item> \<open>Credentials\<close> (\<open>oidc/op.go\<close>, \<open>controller/secret_helpers.go\<close>), \<open>Reconcilers\<close> (exporter and client
    controllers), \<open>Auth\<close> (authentication, authorization, provisioning).
  \<^item> \<open>ControllerService\<close>, \<open>ClientService\<close>, \<open>RouterService\<close>: the handlers. The queues between \<open>Dial\<close> and
    \<open>Listen\<close> are an instance of the locale \<open>bounded_queues\<close>; runs of a service are inductive.
  \<^item> \<open>Config\<close> (\<open>internal/config\<close>, \<open>oidc/config.go\<close>).
  \<^item> \<open>HostPort\<close> (addresses), \<open>Servers\<close> (certificates, \<open>Start\<close> of the services, the OIDC provider, the
    dashboard), \<open>Programs\<close> (the main functions), \<open>Deployed\<close> (the programs in the operator's pods).
  \<^item> \<open>OperatorTypes\<close>, \<open>OperatorConfig\<close>, \<open>OperatorEndpoints\<close>, \<open>OperatorReconciler\<close>, \<open>OperatorServices\<close>:
    the operator. Locale \<open>settling\<close> is the contract of a mutate function and its comparison.
  \<^item> \<open>Memory\<close>, \<open>DeepCopy\<close>, \<open>OperatorDeepCopy\<close> (\<open>zz_generated.deepcopy.go\<close> of both modules): objects with
    references on a heap, what they stand for and what they are made of (locale \<open>layout\<close>), and
    copies in fresh memory (locale \<open>copier\<close>).
  \<^item> \<open>Registration\<close>: \<open>Register\<close> on that memory, with its deep copies, its loops over the label map and
    its patches as they are in the code. The other theories pass objects as values; this one shows for a
    whole handler that passing values gives the same.
  \<^item> \<open>InMemory\<close>: an API server with lists for a store; the hypotheses on the API server are proved
    of it, and the witnesses run the handlers on it.

  Each operation is one definition with the name of the Go function, state and errors passed
  explicitly; the source of each group is named where it starts. A handler that fails returns
  \<open>Inl\<close> and the state it has reached. A channel operation that blocks is \<open>None\<close>; which case of a
  \<open>select\<close> is taken is an argument, so that theorems hold for every choice. No fuel is used: all
  recursion is over lists, and loops that wait for events are functions of the events received.

  \<^bold>\<open>What is shown.\<close> C1 to C6, C20 to C22 and C37: safety, completeness and optimality of the choice of an
  exporter, the life of a lease, expiry. C7, C23 to C26: the lease calls of the services keep
  exclusion and do what they are asked. C8, C9, C16 to C19: from a dial to a tunnel, through the
  queue, the token and the router. C10 to C12, C27, C38: who is let in, and with which
  credential, from the key of the controller to the request. C28 to C31: exporters, their labels and
  the patch of a registration. C32 to C35: round trips and equivalences of the data. C36: deep copies
  are snapshots. C13 to C15, C39, C40: the operator, and the programs in the pods it deploys. The
  theorems without a number show the other branches, among them behaviour that the code's comments do not lead one to expect.

  \<^bold>\<open>Hypotheses.\<close> What is assumed of code outside the repository is stated in named predicates:
  the API server stores what it is given, and an update only if it was made from the version that is
  stored (\<open>client_store\<close>, \<open>lease_store\<close>, \<open>service_store\<close>, \<open>secret_store\<close>, \<open>op_service_store\<close> and others), JWTs
  that were signed are accepted until they expire (\<open>jwt_ok\<close>, \<open>stream_jwt_ok\<close>, and \<open>jwt_authn_ok\<close> from the
  time on at which the authenticator has fetched its keys), conditions behave as
  documented (\<open>conditions_ok\<close>), the library's deep copies are deep (\<open>lib_ok\<close>, \<open>olib_ok\<close>).
  Witnesses discharge them for concrete stores. The reconcilers read through the cache of the manager, which
  may be behind the server. A lease that is read may be an old version; what a theorem needs of a
  list or a secret that was read through the cache is a hypothesis of that pass and named in its text (\<open>sees_holders\<close>,
  \<open>list_right_about\<close>, \<open>secret_read\<close>).

  \<^bold>\<open>Not modelled.\<close> Generated protobuf and gateway code (its messages are records here; no handler is
  registered with the gateway), logging, parsing of flags, the HTML of the dashboard.
  Cryptography, X.509, HTTP and YAML are library calls and stand as parameters. Strings are lists of bytes; lower-casing is of ASCII.
\<close>

section \<open>From a dial to a tunnel\<close>

text \<open>
  What the JWT library promises of the tokens of streams: a token that was signed with a key is
  accepted under that key, with its algorithm, issuer and audience, from the times it names on
  and until the second before it expires (times in a token are whole seconds), and yields its
  subject.
\<close>

definition stream_jwt_ok ::
  "(string \<Rightarrow> StreamClaims \<Rightarrow> goerror + string) \<Rightarrow>
   (time \<Rightarrow> string \<Rightarrow> string \<Rightarrow> string list \<Rightarrow> string \<Rightarrow> string \<Rightarrow> goerror + string) \<Rightarrow> bool" where
  "stream_jwt_ok sign parse \<longleftrightarrow>
     (\<forall>key c token now algs aud. sign key c = Inr token \<longrightarrow> ''HS256'' \<in> set algs \<longrightarrow> aud \<in> set (sc_Audience c) \<longrightarrow>
        sc_NotBefore c \<le> now \<longrightarrow> sc_IssuedAt c \<le> now \<longrightarrow> now < sc_ExpiresAt c - Second \<longrightarrow>
        parse now token key algs (sc_Issuer c) aud = Inr (sc_Subject c))"

text \<open>The times at which a router accepts the token of a dial.\<close>

definition token_current :: "dial_env \<Rightarrow> time \<Rightarrow> bool" where
  "token_current de now \<longleftrightarrow> de_now2 de \<le> now \<and> de_now3 de \<le> now \<and> now < de_now1 de + 30 * Minute - Second"

lemma dialed_token_accepted:
  assumes "stream_jwt_ok (de_SignHS256 de) (ro_ParseWithClaims ro)" "ro_ROUTER_KEY ro = de_routerKey de"
    and "de_SignHS256 de (de_routerKey de) (streamClaims de) = Inr token"
    and "token_current de (ro_now ro)" "BearerTokenFromContext ctx = Inr token"
  shows "router_authenticate ro ctx = Inr (de_stream de)"
proof -
  have "ro_ParseWithClaims ro (ro_now ro) token (de_routerKey de) [''HS256'', ''HS384'', ''HS512'']
      (sc_Issuer (streamClaims de)) ''https://jumpstarter.dev/router'' = Inr (sc_Subject (streamClaims de))"
    by (rule assms(1) [unfolded stream_jwt_ok_def, rule_format, OF assms(3)])
      (use assms(4) in \<open>simp_all add: token_current_def streamClaims_def time_Add_def\<close>)
  with assms(2,5) show ?thesis by (simp add: router_authenticate_def streamClaims_def)
qed

text \<open>
  Two streams are joined: the first to come, at \<open>t1\<close>, waits, and the second, at \<open>t2\<close>, is forwarded
  to it.
\<close>

definition tunnel_opens :: "router_env \<Rightarrow> (string \<times> nat) list \<Rightarrow> time \<Rightarrow> time \<Rightarrow> Context \<Rightarrow> Context \<Rightarrow> bool" where
  "tunnel_opens ro pend t1 t2 first second \<longleftrightarrow>
     (case Stream_open (ro\<lparr>ro_now := t1\<rparr>) pend first 1 of
        (Inr WaitForOther, pend1) \<Rightarrow> fst (Stream_open (ro\<lparr>ro_now := t2\<rparr>) pend1 second 2) = Inr (ForwardTo 1)
      | _ \<Rightarrow> False)"

text \<open>The messages that a listen receives in its next turns.\<close>

fun receive_turns :: "nat \<Rightarrow> queues \<Rightarrow> string \<Rightarrow> (ListenResponse list \<times> queues) option" where
  "receive_turns 0 qs n = Some ([], qs)"
| "receive_turns (Suc i) qs n =
     (case queue_recv qs n of
        None \<Rightarrow> None
      | Some (m, qs1) \<Rightarrow> (case receive_turns i qs1 n of None \<Rightarrow> None | Some (ms, qs2) \<Rightarrow> Some (m # ms, qs2)))"

lemma receive_turns_all:
  assumes "contents qs n = ms"
  shows "\<exists>qs'. receive_turns (length ms) qs n = Some (ms, qs') \<and> contents qs' n = []"
  using assms
proof (induction ms arbitrary: qs)
  case (Cons m ms)
  then obtain m' qs1 where r: "queue_recv qs n = Some (m', qs1)"
    using listen_queues.recv_ready [of qs n] by auto
  with listen_queues.recv_content [OF r, of n] Cons.prems have "m' = m" "contents qs1 n = ms" by auto
  with Cons.IH [of qs1] r show ?case by auto
qed simp

text \<open>
  From dial to tunnel. The listen on the lease that follows a successful dial receives the
  messages that were waiting before the dial, and then that of the dial. When the client and
  the exporter then open streams to a router that has the key the controller signed with,
  within 30 minutes less a second, and no stream of that name is pending, the one that comes
  first waits and the other is joined to it, in either order.
\<close>

theorem dial_to_tunnel:
  assumes dial: "Dial k au router de b s qs ctx n = Some (Inr resp, qs1, s1)"
    and listen: "Listen_open k au s2 qs1 ctx' n = (Inr qs2, s3)"
    and jwt: "stream_jwt_ok (de_SignHS256 de) (ro_ParseWithClaims ro)" "ro_ROUTER_KEY ro = de_routerKey de"
    and fresh: "mget pend (de_stream de) = None"
    and times: "token_current de t1" "token_current de t2"
  shows "(\<exists>qs3. receive_turns (Suc (length (contents qs n))) qs2 n = Some (contents qs n @ [dialed resp], qs3)) \<and>
    (\<forall>cctx ectx. BearerTokenFromContext cctx = Inr (drs_RouterToken resp) \<longrightarrow>
       BearerTokenFromContext ectx = Inr (drs_RouterToken resp) \<longrightarrow>
       tunnel_opens ro pend t1 t2 cctx ectx \<and> tunnel_opens ro pend t1 t2 ectx cctx)"
proof
  from listen_queues.send_content [OF Dial_Inr(2) [OF dial], of n] Listen_open_Inr [OF listen]
  have "contents qs2 n = contents qs n @ [dialed resp]" by simp
  from receive_turns_all [OF this]
  show "\<exists>qs3. receive_turns (Suc (length (contents qs n))) qs2 n = Some (contents qs n @ [dialed resp], qs3)" by auto
  from Dial_Inr(1) [OF dial] have sign: "de_SignHS256 de (de_routerKey de) (streamClaims de) = Inr (drs_RouterToken resp)"
    by (auto simp: Dial_prepare_def dialed_def Let_def split: prod.splits sum.splits if_splits option.splits)
  have auth: "router_authenticate (ro\<lparr>ro_now := t\<rparr>) c = Inr (de_stream de)"
    if "token_current de t" "BearerTokenFromContext c = Inr (drs_RouterToken resp)" for t c
    using that by (intro dialed_token_accepted [OF _ _ sign]) (simp_all add: jwt)
  have "tunnel_opens ro pend t1 t2 c d"
    if "BearerTokenFromContext c = Inr (drs_RouterToken resp)" "BearerTokenFromContext d = Inr (drs_RouterToken resp)" for c d
    using auth [OF times(1) that(1)] auth [OF times(2) that(2)] fresh
    by (simp add: tunnel_opens_def Stream_open_def LoadOrStore_def update_conv')
  then show "\<forall>cctx ectx. BearerTokenFromContext cctx = Inr (drs_RouterToken resp) \<longrightarrow>
      BearerTokenFromContext ectx = Inr (drs_RouterToken resp) \<longrightarrow>
      tunnel_opens ro pend t1 t2 cctx ectx \<and> tunnel_opens ro pend t1 t2 ectx cctx" by simp
qed

text \<open>
  C8: The holder of a lease gets a tunnel. A client and an exporter of one namespace are
  authenticated, the lease is the client's and on that exporter, the queue of the lease has
  room (fewer than eight tokens wait in it), a token can be signed, and the pods are those that
  the operator deploys, with at least one router. Then the client's dial succeeds, the exporter's
  listen succeeds, and it receives the messages that were waiting before and then the endpoint
  and the token that the client got; the endpoint is that of a replica of the router. At any
  replica with no stream of that name pending, at which both present the token within 30 minutes
  less a second, their streams are joined, whoever comes first.
\<close>

theorem lease_holder_connects:
  assumes pods: "controller_pod getenv secret j" "\<And>r. r \<in> set (replicas j) \<Longrightarrow> router_pod (getenv' r) secret j r" "replicas j \<noteq> []"
    and keys: "de_routerKey de = getenv ''ROUTER_KEY''" "\<And>r. r \<in> set (replicas j) \<Longrightarrow> ro_ROUTER_KEY (ro r) = getenv' r ''ROUTER_KEY''"
    and parties: "authenticateClient k au s cctx = (Inr client, s)" "authenticateExporter k au s ectx = (Inr exporter, s)"
      "om_Namespace (e_Meta exporter) = om_Namespace (cl_Meta client)"
      "k_getExporter k s (key_of (e_Meta exporter)) = Inr exporter"
    and lease: "k_getLease k s \<lparr>nn_Namespace = om_Namespace (cl_Meta client), nn_Name = n\<rparr> = Inr lease" "n \<noteq> []"
      "sp_ClientRef (l_Spec lease) = om_Name (cl_Meta client)" "st_ExporterRef (l_Status lease) = Some (om_Name (e_Meta exporter))"
    and jwt: "de_SignHS256 de (de_routerKey de) (streamClaims de) = Inr token"
      "\<And>r. r \<in> set (replicas j) \<Longrightarrow> stream_jwt_ok (de_SignHS256 de) (ro_ParseWithClaims (ro r))"
    and room: "length (contents qs n) < 8" and fresh: "\<And>r. r \<in> set (replicas j) \<Longrightarrow> mget (pend r) (de_stream de) = None"
    and times: "token_current de t1" "token_current de t2"
    and bearers: "BearerTokenFromContext cs = Inr token" "BearerTokenFromContext es = Inr token"
  shows "\<exists>resp qs1 qs2 qs3. Dial k au (buildRouter j) de SelectQueue s qs cctx n = Some (Inr resp, qs1, s) \<and>
    Listen_open k au s qs1 ectx n = (Inr qs2, s) \<and>
    receive_turns (Suc (length (contents qs n))) qs2 n = Some (contents qs n @ [dialed resp], qs3) \<and>
    drs_RouterToken resp = token \<and> drs_RouterEndpoint resp \<in> buildRouterEndpointForReplica j ` set (replicas j) \<and>
    (\<forall>r\<in>set (replicas j). tunnel_opens (ro r) (pend r) t1 t2 cs es \<and> tunnel_opens (ro r) (pend r) t1 t2 es cs)"
proof -
  have "k_getExporter k s \<lparr>nn_Namespace = om_Namespace (cl_Meta client), nn_Name = om_Name (e_Meta exporter)\<rparr> = Inr exporter"
    using parties(3,4) by (simp add: key_of_def)
  moreover have "buildRouter j \<noteq> []" using pods(3) by (simp add: buildRouter_def)
  ultimately obtain resp qs1 where d: "Dial k au (buildRouter j) de SelectQueue s qs cctx n = Some (Inr resp, qs1, s)"
      and tk: "drs_RouterToken resp = token"
    using dial_succeeds [OF parties(1) lease(2,1,3,4) _ _ jwt(1), of exporter "buildRouter j" qs] room by auto
  from parties lease obtain qs2 where l: "Listen_open k au s qs1 ectx n = (Inr qs2, s)" by (simp add: Listen_open_def)
  have ep: "drs_RouterEndpoint resp \<in> buildRouterEndpointForReplica j ` set (replicas j)"
    using Dial_endpoint [OF d] by (auto simp: buildRouter_def)
  have joins: "(\<exists>qs3. receive_turns (Suc (length (contents qs n))) qs2 n = Some (contents qs n @ [dialed resp], qs3)) \<and>
      tunnel_opens (ro r) (pend r) t1 t2 cs es \<and> tunnel_opens (ro r) (pend r) t1 t2 es cs" if r: "r \<in> set (replicas j)" for r
  proof -
    have "ro_ROUTER_KEY (ro r) = de_routerKey de"
      using deployed_router_keys_agree [OF pods(1) pods(2) [OF r]] keys(1) keys(2) [OF r] by simp
    from dial_to_tunnel [OF d l jwt(2) [OF r] this fresh [OF r] times] tk bearers show ?thesis by simp
  qed
  from joins [of "hd (replicas j)"] pods(3) obtain qs3 where
    "receive_turns (Suc (length (contents qs n))) qs2 n = Some (contents qs n @ [dialed resp], qs3)" by auto
  with d l tk ep joins show ?thesis by blast
qed

text \<open>A router whose parser takes the tokens of the sample dial: subject, dot, key.\<close>

definition tunnel_router :: router_env where
  "tunnel_router = mem_router\<lparr>ro_ParseWithClaims := (\<lambda>now token key algs iss aud.
     let n = length token - Suc (length key) in
     if drop n token = ''.'' @ key then Inr (take n token) else Inl (Errorf ''signature is invalid''))\<rparr>"

lemma tunnel_router_jwt: "stream_jwt_ok (de_SignHS256 sample_dial_env) (ro_ParseWithClaims tunnel_router)"
  by (auto simp: stream_jwt_ok_def sample_dial_env_def tunnel_router_def Let_def)

definition rpi_ctx :: Context where
  "rpi_ctx = plain_ctx ''lab'' ''Exporter'' ''rpi-a'' ''internal:exporter:lab:rpi-a:uid-rpi-a''"

theorem lease_holder_connects_witness:
  "tunnel_opens (tunnel_router\<lparr>ro_ROUTER_KEY := ''jumpstarter-router-secretkey''\<rparr>) [] 1 2
     (token_ctx ''stream-1.jumpstarter-router-secretkey'') (token_ctx ''stream-1.jumpstarter-router-secretkey'')"
proof -
  let ?de = "sample_dial_env\<lparr>de_routerKey := ''jumpstarter-router-secretkey''\<rparr>"
  let ?ro = "tunnel_router\<lparr>ro_ROUTER_KEY := ''jumpstarter-router-secretkey''\<rparr>"
  let ?token = "''stream-1.jumpstarter-router-secretkey''"
  let ?env = "\<lambda>r n. if n = ''GRPC_ROUTER_ENDPOINT'' then buildRouterEndpointForReplica sample_deployed r else sample_getenv n"
  have pod: "controller_pod sample_getenv sample_secret sample_deployed"
    using sample_pods(1) by (simp add: sample_tls_def)
  have two: "replicas sample_deployed = [0, 1]" by code_simp
  have pods: "router_pod (?env r) sample_secret sample_deployed r" if "r \<in> set (replicas sample_deployed)" for r
    using that unfolding two router_pod_def by (auto; code_simp)
  have "replicas sample_deployed \<noteq> []" by (simp add: two)
  have keys: "de_routerKey ?de = sample_getenv ''ROUTER_KEY''" "ro_ROUTER_KEY ?ro = ?env r ''ROUTER_KEY''" for r
    by (simp_all add: sample_getenv_def)
  have exporter: "authenticateExporter mem_kube plain_auth two_labs rpi_ctx = (Inr (sample_exporter ''rpi-a'' True), two_labs)"
    "om_Namespace (e_Meta (sample_exporter ''rpi-a'' True)) = om_Namespace (cl_Meta (sample_client ''alice''))"
    "k_getExporter mem_kube two_labs (key_of (e_Meta (sample_exporter ''rpi-a'' True))) = Inr (sample_exporter ''rpi-a'' True)"
    by (code_simp, code_simp, code_simp)
  have lease: "k_getLease mem_kube two_labs \<lparr>nn_Namespace = om_Namespace (cl_Meta (sample_client ''alice'')), nn_Name = ''mine''\<rparr>
      = Inr ended_mine" "''mine'' \<noteq> []" "sp_ClientRef (l_Spec ended_mine) = om_Name (cl_Meta (sample_client ''alice''))"
    "st_ExporterRef (l_Status ended_mine) = Some (om_Name (e_Meta (sample_exporter ''rpi-a'' True)))"
    by (code_simp, simp, code_simp, code_simp)
  have jwt: "de_SignHS256 ?de (de_routerKey ?de) (streamClaims ?de) = Inr ?token"
    "stream_jwt_ok (de_SignHS256 ?de) (ro_ParseWithClaims ?ro)"
    using tunnel_router_jwt by (simp_all add: sample_dial_env_def streamClaims_def)
  have fresh: "length (contents [] ''mine'') < 8" "mget [] (de_stream ?de) = None" by (simp_all add: contents_def)
  have times: "token_current ?de 1" "token_current ?de 2"
    by (simp_all add: sample_dial_env_def token_current_def Minute_def Second_def)
  from lease_holder_connects [OF pod pods _ keys alice_authenticated exporter lease jwt fresh times token_ctx_bearer token_ctx_bearer]
  show ?thesis unfolding two by auto
qed

end
